(* ===== verification/Prelude.thy ===== *)
theory Prelude
  imports Main "HOL-Library.AList" "HOL-Library.List_Lexorder" "HOL-Library.Char_ord"
begin

text \<open>
  Types, automation and generic lemmas shared by every component.

  Go strings and byte slices are both \<open>string\<close> (a list of 8-bit characters); an instant and a
  duration are integers counting nanoseconds, as in Go's \<open>time\<close> package.  A Go map is an
  association list with distinct keys: look-up is \<^const>\<open>map_of\<close>, assignment is
  \<^const>\<open>AList.update\<close>, the builtin \<open>delete\<close> is \<^const>\<open>AList.delete\<close>, and a \<open>range\<close> visits the
  entries in list order.  Go leaves the order of a \<open>range\<close> open; a theorem over an arbitrary
  state is a theorem over every order of its maps.

  The generic locale \<open>preserving\<close> lifts a one-step invariant to sequences of steps; the
  components interpret it on their own step functions.
\<close>

named_theorems map_ops \<open>look-up after an update of an association list\<close>
named_theorems go_str \<open>evaluation of the string functions\<close>

type_synonym bytes = string
type_synonym time = int
type_synonym ('k, 'v) gomap = "('k \<times> 'v) list"

abbreviation milliseconds :: "int \<Rightarrow> time" where
  "milliseconds n \<equiv> n * 1000000"

abbreviation seconds :: "int \<Rightarrow> time" where
  "seconds n \<equiv> n * 1000000000"

abbreviation newline :: char where
  "newline \<equiv> CHR 0x0A"

abbreviation carriage_return :: char where
  "carriage_return \<equiv> CHR 0x0D"

abbreviation pipe :: char where
  "pipe \<equiv> CHR 0x7C"


section \<open>Association lists as Go maps\<close>

abbreviation keys :: "('k, 'v) gomap \<Rightarrow> 'k list" where
  "keys m \<equiv> map fst m"

abbreviation mapped :: "('k, 'v) gomap \<Rightarrow> 'k \<Rightarrow> bool" where
  "mapped m k \<equiv> map_of m k \<noteq> None"

text \<open>The distinctness of the keys, which every operation of a Go map keeps.\<close>

definition gomap :: "('k, 'v) gomap \<Rightarrow> bool" where
  "gomap m \<longleftrightarrow> distinct (keys m)"

lemma gomap_Nil [simp, intro]: "gomap []"
  by (simp add: gomap_def)

lemma gomap_update [simp, intro]: "gomap m \<Longrightarrow> gomap (AList.update k v m)"
  by (simp add: gomap_def distinct_update)

lemma gomap_delete [simp, intro]: "gomap m \<Longrightarrow> gomap (AList.delete k m)"
  by (simp add: gomap_def distinct_delete)

lemma gomap_filter [simp, intro]: "gomap m \<Longrightarrow> gomap (filter P m)"
  by (auto simp: gomap_def intro: distinct_map_filter)

lemma map_of_update [simp, map_ops]:
  "map_of (AList.update k v m) k' = (if k' = k then Some v else map_of m k')"
  by (simp add: update_conv')

lemma map_of_delete [simp, map_ops]:
  "map_of (AList.delete k m) k' = (if k' = k then None else map_of m k')"
  by (simp add: delete_conv')

lemma mapped_keys: "mapped m k \<longleftrightarrow> k \<in> set (keys m)"
  by (metis map_of_eq_None_iff list.set_map)

lemma gomap_map_of_iff: "gomap m \<Longrightarrow> map_of m k = Some v \<longleftrightarrow> (k, v) \<in> set m"
  by (auto simp: gomap_def)

lemma set_update_new:
  "\<not> mapped m k \<Longrightarrow> AList.update k v m = m @ [(k, v)]"
  by (induction m) (auto split: if_splits)

lemma set_update_subset: "set (AList.update k v m) \<subseteq> insert (k, v) (set m)"
  by (induction m) auto

lemma in_update_self: "(k, v) \<in> set (AList.update k v m)"
  by (induction m) auto

lemma set_delete: "set (AList.delete k m) = {e \<in> set m. fst e \<noteq> k}"
  by (auto simp: AList.delete_eq)

lemma map_of_filter:
  "gomap m \<Longrightarrow> map_of (filter P m) k =
     (case map_of m k of None \<Rightarrow> None | Some v \<Rightarrow> if P (k, v) then Some v else None)"
proof (induction m)
  case Nil
  then show ?case by simp
next
  case (Cons e m)
  obtain k' v' where e: "e = (k', v')" by force
  from Cons.prems e have m: "gomap m" and k': "map_of m k' = None"
    by (auto simp: gomap_def map_of_eq_None_iff)
  then show ?case
    using Cons.IH [OF m] k' by (auto simp: e split: option.splits)
qed


section \<open>Finding the first entry of a list\<close>

text \<open>A loop \<open>for ... { if P { x = v; break } }\<close>: the first element that satisfies \<open>P\<close>.\<close>

lemma find_Some_in: "List.find P xs = Some x \<Longrightarrow> x \<in> set xs \<and> P x"
  by (induction xs) (auto split: if_splits)

lemma find_None_all: "List.find P xs = None \<longleftrightarrow> (\<forall>x \<in> set xs. \<not> P x)"
  by (induction xs) auto


section \<open>Loops that write through a list\<close>

lemma fold_preserves:
  assumes "I s" and "\<And>x s. x \<in> set xs \<Longrightarrow> I s \<Longrightarrow> I (f x s)"
  shows "I (fold f xs s)"
  using assms by (induction xs arbitrary: s) auto

lemma fold_field:
  assumes "\<And>x s. x \<in> set xs \<Longrightarrow> g (f x s) = g s"
  shows "g (fold f xs s) = g s"
  using assms by (induction xs arbitrary: s) auto


section \<open>Output that may fail\<close>

text \<open>Rows are written until a write fails; \<open>werr\<close> is the answer to write number \<open>k\<close>.\<close>

fun write_rows :: "(nat \<Rightarrow> string option) \<Rightarrow> nat \<Rightarrow> 'r list \<Rightarrow> string option \<times> 'r list" where
  "write_rows werr k [] = (None, [])"
| "write_rows werr k (r # rs) =
     (case werr k of
        Some e \<Rightarrow> (Some e, [])
      | None \<Rightarrow> (case write_rows werr (Suc k) rs of (e, out) \<Rightarrow> (e, r # out)))"

lemma write_rows_all: "(\<And>k. werr k = None) \<Longrightarrow> write_rows werr k rs = (None, rs)"
  by (induction rs arbitrary: k) simp_all


section \<open>Invariants along a sequence of steps\<close>

locale preserving =
  fixes inv :: "'s \<Rightarrow> bool"
    and step :: "'e \<Rightarrow> 's \<Rightarrow> 's"
  assumes step_inv: "inv s \<Longrightarrow> inv (step e s)"
begin

lemma run_inv: "inv s \<Longrightarrow> inv (fold step es s)"
  by (induction es arbitrary: s) (auto intro: step_inv)

lemma run_prefix_inv: "inv s \<Longrightarrow> inv (fold step (take n es) s)"
  by (rule run_inv)

end


section \<open>Refinement along a sequence of steps\<close>

text \<open>
  A step function implements another through an abstraction, under an invariant and for the steps
  a condition admits; every run of admitted steps then implements the run of the abstract ones.
\<close>

fun admitted_run :: "('e \<Rightarrow> 's \<Rightarrow> bool) \<Rightarrow> ('e \<Rightarrow> 's \<Rightarrow> 's) \<Rightarrow> 'e list \<Rightarrow> 's \<Rightarrow> bool" where
  "admitted_run may step [] s = True"
| "admitted_run may step (e # es) s = (may e s \<and> admitted_run may step es (step e s))"

locale refining =
  fixes inv :: "'s \<Rightarrow> bool"
    and may :: "'e \<Rightarrow> 's \<Rightarrow> bool"
    and step :: "'e \<Rightarrow> 's \<Rightarrow> 's"
    and abs :: "'s \<Rightarrow> 'a"
    and act :: "'e \<Rightarrow> 'f"
    and astep :: "'f \<Rightarrow> 'a \<Rightarrow> 'a"
  assumes admitted_inv: "inv s \<Longrightarrow> may e s \<Longrightarrow> inv (step e s)"
    and admitted_sim: "inv s \<Longrightarrow> may e s \<Longrightarrow> abs (step e s) = astep (act e) (abs s)"
begin

lemma run_refines:
  "inv s \<Longrightarrow> admitted_run may step es s \<Longrightarrow> abs (fold step es s) = fold astep (map act es) (abs s)"
  by (induction es arbitrary: s) (simp_all add: admitted_sim [symmetric] admitted_inv)

lemma run_keeps: "inv s \<Longrightarrow> admitted_run may step es s \<Longrightarrow> inv (fold step es s)"
  by (induction es arbitrary: s) (auto intro: admitted_inv)

end

end
