(* ===== verification/Go_Strings.thy ===== *)
theory Go_Strings
  imports Prelude
begin

text \<open>
  The functions of Go's \<open>strings\<close>, \<open>strconv\<close> and \<open>fmt\<close> packages the program uses, on byte
  strings.  \<open>TrimSpace\<close> removes every Unicode white-space rune, given by its UTF-8 bytes;
  \<open>ToLower\<close> and \<open>EqualFold\<close> fold the ASCII letters and compare all other bytes as they are.
\<close>

section \<open>Prefixes and containment\<close>

fun has_prefix :: "string \<Rightarrow> string \<Rightarrow> bool" where
  "has_prefix s [] = True"
| "has_prefix [] (p # ps) = False"
| "has_prefix (c # cs) (p # ps) = (c = p \<and> has_prefix cs ps)"

definition trim_prefix :: "string \<Rightarrow> string \<Rightarrow> string" where
  "trim_prefix s p = (if has_prefix s p then drop (length p) s else s)"

fun contains_str :: "string \<Rightarrow> string \<Rightarrow> bool" where
  "contains_str [] sub = (sub = [])"
| "contains_str (c # cs) sub = (has_prefix (c # cs) sub \<or> contains_str cs sub)"

lemma has_prefix_append [simp]: "has_prefix (p @ s) p"
  by (induction p) auto

lemma has_prefix_iff: "has_prefix s p \<longleftrightarrow> (\<exists>r. s = p @ r)"
  by (induction s p rule: has_prefix.induct) auto

lemma trim_prefix_append [simp]: "trim_prefix (p @ s) p = s"
  by (simp add: trim_prefix_def)

lemma trim_prefix_other [simp]: "\<not> has_prefix s p \<Longrightarrow> trim_prefix s p = s"
  by (simp add: trim_prefix_def)

lemma has_prefix_contains: "has_prefix s sub \<Longrightarrow> contains_str s sub"
  by (cases s; cases sub) auto

lemma contains_str_append: "contains_str (a @ sub @ b) sub"
proof (induction a)
  case Nil
  show ?case by (simp add: has_prefix_contains)
next
  case (Cons c a)
  then show ?case by simp
qed

lemma contains_str_iff: "contains_str s sub \<longleftrightarrow> (\<exists>a b. s = a @ sub @ b)"
proof
  assume "contains_str s sub"
  then show "\<exists>a b. s = a @ sub @ b"
  proof (induction s)
    case Nil
    then show ?case by simp
  next
    case (Cons c s)
    show ?case
    proof (cases "has_prefix (c # s) sub")
      case True
      then obtain r where "c # s = [] @ sub @ r" unfolding has_prefix_iff by auto
      then show ?thesis by blast
    next
      case False
      with Cons obtain a b where "s = a @ sub @ b" by auto
      then have "c # s = (c # a) @ sub @ b" by simp
      then show ?thesis by blast
    qed
  qed
next
  assume "\<exists>a b. s = a @ sub @ b"
  then show "contains_str s sub" using contains_str_append by blast
qed


section \<open>Splitting at a separator\<close>

fun break_on :: "char \<Rightarrow> string \<Rightarrow> string \<times> string option" where
  "break_on c [] = ([], None)"
| "break_on c (x # xs) =
     (if x = c then ([], Some xs)
      else (case break_on c xs of (a, r) \<Rightarrow> (x # a, r)))"

text \<open>\<open>strings.Split(s, sep)\<close> for a one-byte separator; the empty string gives one empty part.\<close>

fun split_on :: "char \<Rightarrow> string \<Rightarrow> string list" where
  "split_on c [] = [[]]"
| "split_on c (x # xs) =
     (if x = c then [] # split_on c xs
      else (case split_on c xs of [] \<Rightarrow> [[x]] | w # ws \<Rightarrow> (x # w) # ws))"

text \<open>\<open>strings.SplitN(s, sep, n)\<close>: at most \<open>n\<close> parts, the last one the rest of the string.\<close>

fun split_n :: "nat \<Rightarrow> char \<Rightarrow> string \<Rightarrow> string list" where
  "split_n 0 c s = []"
| "split_n (Suc 0) c s = [s]"
| "split_n (Suc (Suc n)) c s =
     (case break_on c s of
        (a, None) \<Rightarrow> [s]
      | (a, Some r) \<Rightarrow> a # split_n (Suc n) c r)"

lemma break_on_none [simp]: "c \<notin> set s \<Longrightarrow> break_on c s = (s, None)"
  by (induction s) auto

lemma break_on_sep [simp]: "c \<notin> set a \<Longrightarrow> break_on c (a @ c # r) = (a, Some r)"
  by (induction a) auto

lemma break_on_SomeD: "break_on c s = (a, Some r) \<Longrightarrow> s = a @ c # r \<and> c \<notin> set a"
  by (induction s arbitrary: a) (auto split: prod.splits if_splits)

lemma break_on_NoneD: "break_on c s = (a, None) \<Longrightarrow> a = s \<and> c \<notin> set s"
  by (induction s arbitrary: a) (auto split: prod.splits if_splits)

lemma split_on_not_Nil [simp]: "split_on c s \<noteq> []"
  by (induction s) (auto split: list.splits)

lemma split_on_none [simp]: "c \<notin> set s \<Longrightarrow> split_on c s = [s]"
  by (induction s) auto

lemma split_on_sep: "c \<notin> set a \<Longrightarrow> split_on c (a @ c # r) = a # split_on c r"
  by (induction a) (auto split: list.splits)

lemma split_on_parts: "w \<in> set (split_on c s) \<Longrightarrow> c \<notin> set w"
proof (induction s arbitrary: w)
  case Nil
  then show ?case by simp
next
  case (Cons x xs)
  obtain v vs where v: "split_on c xs = v # vs"
    by (cases "split_on c xs") auto
  with Cons show ?case by (auto split: if_splits)
qed

text \<open>Joining parts with the separator and splitting again gives the parts back.\<close>

fun join_with :: "char \<Rightarrow> string list \<Rightarrow> string" where
  "join_with c [] = []"
| "join_with c [w] = w"
| "join_with c (w # v # ws) = w @ c # join_with c (v # ws)"

lemma split_on_join:
  "ws \<noteq> [] \<Longrightarrow> \<forall>w \<in> set ws. c \<notin> set w \<Longrightarrow> split_on c (join_with c ws) = ws"
  by (induction c ws rule: join_with.induct) (auto simp: split_on_sep)

lemma join_with_snoc: "ws \<noteq> [] \<Longrightarrow> join_with c (ws @ [w]) = join_with c ws @ c # w"
  by (induction c ws rule: join_with.induct) auto

lemma join_split_on: "join_with c (split_on c s) = s"
proof (induction s)
  case Nil
  then show ?case by simp
next
  case (Cons x xs)
  obtain v vs where v: "split_on c xs = v # vs"
    by (cases "split_on c xs") auto
  with Cons show ?case by (cases vs) auto
qed

lemma split_n_2: "c \<notin> set a \<Longrightarrow> split_n 2 c (a @ c # r) = [a, r]"
  by (simp add: numeral_2_eq_2)

lemma split_n_3:
  "c \<notin> set a \<Longrightarrow> c \<notin> set b \<Longrightarrow> split_n 3 c (a @ c # b @ c # r) = [a, b, r]"
  by (simp add: numeral_3_eq_3)

lemma split_n_4:
  assumes "c \<notin> set a" and "c \<notin> set b" and "c \<notin> set d"
  shows "split_n 4 c (a @ c # b @ c # d @ c # r) = [a, b, d, r]"
  using assms by (simp add: eval_nat_numeral)

lemma length_split_n: "length (split_n n c s) \<le> n"
  by (induction n c s rule: split_n.induct) (auto split: prod.splits option.splits)

lemma split_n_2D: "split_n 2 c s = [a, r] \<Longrightarrow> s = a @ c # r \<and> c \<notin> set a"
  by (auto simp: numeral_2_eq_2 dest: break_on_SomeD split: prod.splits option.splits)

lemma split_n_3D:
  "split_n 3 c s = [a, b, r] \<Longrightarrow> s = a @ c # b @ c # r \<and> c \<notin> set a \<and> c \<notin> set b"
  by (auto simp: numeral_3_eq_3 dest!: break_on_SomeD split: prod.splits option.splits)

lemma split_n_4D:
  "split_n 4 c s = [a, b, d, r] \<Longrightarrow>
     s = a @ c # b @ c # d @ c # r \<and> c \<notin> set a \<and> c \<notin> set b \<and> c \<notin> set d"
  by (auto simp: eval_nat_numeral dest!: break_on_SomeD split: prod.splits option.splits)

lemma split_n_singleton: "c \<notin> set s \<Longrightarrow> 0 < n \<Longrightarrow> split_n n c s = [s]"
  by (cases "(n, c, s)" rule: split_n.cases) auto


section \<open>White space\<close>

text \<open>
  The length in bytes of the white-space rune at the front of a string, 0 if there is none:
  the ASCII ones, then U+0085, U+00A0, U+1680, U+2000 to U+200A, U+2028, U+2029, U+202F,
  U+205F and U+3000 in UTF-8.
\<close>

definition ascii_space :: "char \<Rightarrow> bool" where
  "ascii_space c \<longleftrightarrow> c \<in> {CHR 0x09, CHR 0x0A, CHR 0x0B, CHR 0x0C, CHR 0x0D, CHR 0x20}"

definition space3 :: "char \<Rightarrow> char \<Rightarrow> char \<Rightarrow> bool" where
  "space3 a b c \<longleftrightarrow>
     (a = CHR 0xE1 \<and> b = CHR 0x9A \<and> c = CHR 0x80) \<or>
     (a = CHR 0xE2 \<and> b = CHR 0x80 \<and>
        (128 \<le> (of_char c :: nat) \<and> (of_char c :: nat) \<le> 138 \<or> c \<in> {CHR 0xA8, CHR 0xA9, CHR 0xAF})) \<or>
     (a = CHR 0xE2 \<and> b = CHR 0x81 \<and> c = CHR 0x9F) \<or>
     (a = CHR 0xE3 \<and> b = CHR 0x80 \<and> c = CHR 0x80)"

definition space2 :: "char \<Rightarrow> char \<Rightarrow> bool" where
  "space2 a b \<longleftrightarrow> a = CHR 0xC2 \<and> b \<in> {CHR 0x85, CHR 0xA0}"

fun trim_left :: "string \<Rightarrow> string" where
  "trim_left [] = []"
| "trim_left [a] = (if ascii_space a then [] else [a])"
| "trim_left [a, b] =
     (if ascii_space a then trim_left [b] else if space2 a b then [] else [a, b])"
| "trim_left (a # b # c # s) =
     (if ascii_space a then trim_left (b # c # s)
      else if space2 a b then trim_left (c # s)
      else if space3 a b c then trim_left s
      else a # b # c # s)"

text \<open>The same from the end, on the reversed string.\<close>

fun trim_right_rev :: "string \<Rightarrow> string" where
  "trim_right_rev [] = []"
| "trim_right_rev [a] = (if ascii_space a then [] else [a])"
| "trim_right_rev [a, b] =
     (if ascii_space a then trim_right_rev [b] else if space2 b a then [] else [a, b])"
| "trim_right_rev (a # b # c # s) =
     (if ascii_space a then trim_right_rev (b # c # s)
      else if space2 b a then trim_right_rev (c # s)
      else if space3 c b a then trim_right_rev s
      else a # b # c # s)"

definition trim_space :: "string \<Rightarrow> string" where
  "trim_space s = rev (trim_right_rev (rev (trim_left s)))"

text \<open>A byte that neither is nor begins nor ends a white-space rune.\<close>

definition solid :: "char \<Rightarrow> bool" where
  "solid c \<longleftrightarrow> \<not> ascii_space c \<and> (of_char c :: nat) < 128"

lemma solid_not_space:
  assumes "solid c"
  shows "\<not> ascii_space c" "\<not> space2 c b" "\<not> space2 b c" "\<not> space3 c d e" "\<not> space3 d e c"
  using assms by (auto simp: solid_def space2_def space3_def)

lemma trim_left_solid: "solid c \<Longrightarrow> trim_left (c # s) = c # s"
  by (cases "c # s" rule: trim_left.cases) (auto simp: solid_not_space)

lemma trim_right_rev_solid: "solid c \<Longrightarrow> trim_right_rev (c # s) = c # s"
  by (cases "c # s" rule: trim_right_rev.cases) (auto simp: solid_not_space)

lemma trim_right_rev_space: "ascii_space c \<Longrightarrow> trim_right_rev (c # s) = trim_right_rev s"
  by (cases "c # s" rule: trim_right_rev.cases) auto

lemma trim_space_Nil [simp]: "trim_space [] = []"
  by (simp add: trim_space_def)

text \<open>A line whose first and last bytes are solid survives \<open>TrimSpace\<close>, its newline does not.\<close>

lemma trim_space_solid:
  assumes "s \<noteq> []" and "solid (hd s)" and "solid (last s)"
  shows "trim_space s = s"
proof -
  from assms(1,2) have l: "trim_left s = s"
    by (cases s) (auto simp: trim_left_solid)
  from assms(1,3) have r: "trim_right_rev (rev s) = rev s"
    by (cases s rule: rev_cases) (auto simp: trim_right_rev_solid)
  show ?thesis by (simp add: trim_space_def l r)
qed

lemma trim_space_line:
  assumes "s \<noteq> []" and "solid (hd s)" and "solid (last s)"
  shows "trim_space (s @ [newline]) = s"
proof -
  from assms(1,2) have l: "trim_left (s @ [newline]) = s @ [newline]"
    by (cases s) (auto simp: trim_left_solid)
  have "trim_right_rev (newline # rev s) = rev s"
    using assms(1,3)
    by (cases s rule: rev_cases) (auto simp: trim_right_rev_space ascii_space_def trim_right_rev_solid)
  then show ?thesis by (simp add: trim_space_def l)
qed

text \<open>\<open>strings.Fields\<close>: the maximal runs of non-white-space (ASCII white space).\<close>

fun fields_acc :: "string \<Rightarrow> string \<Rightarrow> string list" where
  "fields_acc acc [] = (if acc = [] then [] else [rev acc])"
| "fields_acc acc (c # cs) =
     (if ascii_space c then (if acc = [] then fields_acc [] cs else rev acc # fields_acc [] cs)
      else fields_acc (c # acc) cs)"

definition str_fields :: "string \<Rightarrow> string list" where
  "str_fields s = fields_acc [] s"

lemma fields_acc_run:
  "\<forall>c \<in> set w. \<not> ascii_space c \<Longrightarrow> fields_acc acc (w @ s) = fields_acc (rev w @ acc) s"
  by (induction w arbitrary: acc) auto

lemma str_fields_pair:
  assumes "a \<noteq> []" and "b \<noteq> []"
    and "\<forall>c \<in> set a. \<not> ascii_space c" and "\<forall>c \<in> set b. \<not> ascii_space c"
  shows "str_fields (a @ CHR 0x20 # b) = [a, b]"
proof -
  have sp: "ascii_space (CHR 0x20)" by (simp add: ascii_space_def)
  have b: "fields_acc [] b = [b]"
    using assms(2,4) fields_acc_run [of b "[]" "[]"] by simp
  show ?thesis
    using assms(1,3) sp b by (simp add: str_fields_def fields_acc_run)
qed


section \<open>Case folding\<close>

definition lower_char :: "char \<Rightarrow> char" where
  "lower_char c =
     (let n = (of_char c :: nat) in if 65 \<le> n \<and> n \<le> 90 then char_of (n + 32) else c)"

definition to_lower :: "string \<Rightarrow> string" where
  "to_lower s = map lower_char s"

definition equal_fold :: "string \<Rightarrow> string \<Rightarrow> bool" where
  "equal_fold a b \<longleftrightarrow> to_lower a = to_lower b"

lemma equal_fold_refl [simp]: "equal_fold a a"
  by (simp add: equal_fold_def)

lemma equal_fold_sym: "equal_fold a b \<Longrightarrow> equal_fold b a"
  by (simp add: equal_fold_def)

lemma equal_fold_trans: "equal_fold a b \<Longrightarrow> equal_fold b c \<Longrightarrow> equal_fold a c"
  by (simp add: equal_fold_def)

lemma lower_char_idem [simp]: "lower_char (lower_char c) = lower_char c"
  by (auto simp: lower_char_def Let_def)

lemma to_lower_append [simp]: "to_lower (a @ b) = to_lower a @ to_lower b"
  by (simp add: to_lower_def)


section \<open>Numbers\<close>

definition digit_char :: "nat \<Rightarrow> char" where
  "digit_char d = char_of (48 + d)"

definition is_digit :: "char \<Rightarrow> bool" where
  "is_digit c \<longleftrightarrow> 48 \<le> (of_char c :: nat) \<and> (of_char c :: nat) \<le> 57"

definition digit_val :: "char \<Rightarrow> nat" where
  "digit_val c = of_char c - 48"

fun nat_str :: "nat \<Rightarrow> string" where
  "nat_str n = (if n < 10 then [digit_char n] else nat_str (n div 10) @ [digit_char (n mod 10)])"

declare nat_str.simps [simp del]

text \<open>The verb \<open>%d\<close> of \<open>fmt.Sprintf\<close>.\<close>

definition int_str :: "int \<Rightarrow> string" where
  "int_str i = (if i < 0 then CHR ''-'' # nat_str (nat (- i)) else nat_str (nat i))"

definition digits_val :: "string \<Rightarrow> nat" where
  "digits_val s = foldl (\<lambda>n c. 10 * n + digit_val c) 0 s"

lemma is_digit_digit_char [simp]: "d < 10 \<Longrightarrow> is_digit (digit_char d)"
  by (simp add: is_digit_def digit_char_def of_char_of take_bit_eq_mod)

lemma digit_val_digit_char [simp]: "d < 10 \<Longrightarrow> digit_val (digit_char d) = d"
  by (simp add: digit_val_def digit_char_def of_char_of take_bit_eq_mod)

lemma nat_str_digits: "\<forall>c \<in> set (nat_str n). is_digit c"
proof (induction n rule: nat_str.induct)
  case (1 n)
  then show ?case by (subst nat_str.simps) auto
qed

lemma nat_str_not_Nil [simp]: "nat_str n \<noteq> []"
  by (subst nat_str.simps) simp

lemma digits_val_snoc: "digits_val (s @ [c]) = 10 * digits_val s + digit_val c"
  by (simp add: digits_val_def)

lemma digits_val_nat_str [simp]: "digits_val (nat_str n) = n"
proof (induction n rule: nat_str.induct)
  case (1 n)
  show ?case
  proof (cases "n < 10")
    case True
    then show ?thesis by (subst nat_str.simps) (simp add: digits_val_def)
  next
    case False
    with 1 have "digits_val (nat_str (n div 10)) = n div 10" by simp
    with False show ?thesis
      by (subst nat_str.simps) (simp add: digits_val_snoc)
  qed
qed

lemma is_digit_solid: "is_digit c \<Longrightarrow> solid c"
  by (auto simp: is_digit_def solid_def ascii_space_def)

lemma is_digit_not_sign [simp]: "is_digit c \<Longrightarrow> c \<noteq> CHR ''-'' \<and> c \<noteq> CHR ''+''"
  by (auto simp: is_digit_def)

text \<open>The last three digits, as after a decimal point.\<close>

definition three_digits :: "nat \<Rightarrow> string" where
  "three_digits n = [digit_char (n div 100 mod 10), digit_char (n div 10 mod 10), digit_char (n mod 10)]"

text \<open>\<open>strconv.Atoi\<close> on a 64-bit platform: an optional sign, at least one digit, in range.\<close>

definition atoi_unsigned :: "string \<Rightarrow> nat option" where
  "atoi_unsigned s = (if s \<noteq> [] \<and> list_all is_digit s then Some (digits_val s) else None)"

definition int64_range :: "int \<Rightarrow> bool" where
  "int64_range i \<longleftrightarrow> - (2 ^ 63) \<le> i \<and> i < 2 ^ 63"

fun sign_split :: "string \<Rightarrow> bool \<times> string" where
  "sign_split [] = (False, [])"
| "sign_split (c # cs) =
     (if c = CHR ''-'' then (True, cs) else if c = CHR ''+'' then (False, cs) else (False, c # cs))"

definition signed_val :: "bool \<Rightarrow> nat \<Rightarrow> int option" where
  "signed_val neg n =
     (let i = (if neg then - int n else int n) in if int64_range i then Some i else None)"

definition atoi :: "string \<Rightarrow> int option" where
  "atoi s =
     (case sign_split s of (neg, ds) \<Rightarrow>
        (case atoi_unsigned ds of None \<Rightarrow> None | Some n \<Rightarrow> signed_val neg n))"

lemma atoi_unsigned_nat_str [simp]: "atoi_unsigned (nat_str n) = Some n"
  using nat_str_digits [of n] by (simp add: atoi_unsigned_def list_all_iff)

lemma sign_split_nat_str [simp]: "sign_split (nat_str n) = (False, nat_str n)"
  using nat_str_digits [of n] by (cases "nat_str n") auto

lemma atoi_int_str: "int64_range i \<Longrightarrow> atoi (int_str i) = Some i"
  by (cases "i < 0") (auto simp: int_str_def atoi_def signed_val_def)

lemma atoi_range: "atoi s = Some i \<Longrightarrow> int64_range i"
  by (auto simp: atoi_def signed_val_def Let_def split: prod.splits option.splits if_splits)

text \<open>
  \<open>fmt.Sscanf(s, "%d", &i)\<close>: leading spaces (no newline), an optional sign, the longest run of
  digits; what follows is not read.
\<close>

fun skip_blank :: "string \<Rightarrow> string option" where
  "skip_blank [] = Some []"
| "skip_blank (c # cs) =
     (if c = newline then None else if ascii_space c then skip_blank cs else Some (c # cs))"

definition sscanf_d :: "string \<Rightarrow> int option" where
  "sscanf_d s =
     (case skip_blank s of
        None \<Rightarrow> None
      | Some t \<Rightarrow>
          (case sign_split t of (neg, ds) \<Rightarrow>
             (case atoi_unsigned (takeWhile is_digit ds) of
                None \<Rightarrow> None
              | Some n \<Rightarrow> signed_val neg n)))"

lemma takeWhile_nat_str [simp]: "takeWhile is_digit (nat_str n) = nat_str n"
  using nat_str_digits [of n] by (simp add: takeWhile_eq_all_conv)

lemma skip_blank_nat_str [simp]: "skip_blank (nat_str n) = Some (nat_str n)"
proof -
  obtain c cs where c: "nat_str n = c # cs" by (cases "nat_str n") auto
  then have "is_digit c" using nat_str_digits [of n] by simp
  then show ?thesis by (auto simp: c is_digit_def ascii_space_def)
qed

lemma sscanf_d_nat_str: "int64_range (int n) \<Longrightarrow> sscanf_d (nat_str n) = Some (int n)"
  by (simp add: sscanf_d_def signed_val_def)

end
