(* ===== verification/Terminal.thy ===== *)
theory Terminal
  imports Go_Strings "HOL-Library.Word"
begin

unbundle bit_operations_syntax

text \<open>
  Terminal output of \<open>main.go\<close> (colours, message formatting) and the name helpers of
  \<open>helpers.go\<close>.  The 32-bit FNV-1a hash that picks a user's colour is computed on machine
  words; the numbers the random source draws are arguments.
\<close>

section \<open>Colours\<close>

definition colorReset :: string where
  "colorReset = CHR 0x1B # ''[0m''"

definition colorRed :: string where
  "colorRed = CHR 0x1B # ''[1;31m''"

definition colorGreen :: string where
  "colorGreen = CHR 0x1B # ''[1;32m''"

definition colorYellow :: string where
  "colorYellow = CHR 0x1B # ''[1;33m''"

definition colorBlue :: string where
  "colorBlue = CHR 0x1B # ''[1;34m''"

definition colorMagenta :: string where
  "colorMagenta = CHR 0x1B # ''[1;35m''"

definition colorCyan :: string where
  "colorCyan = CHR 0x1B # ''[1;36m''"

definition usernameColors :: "string list" where
  "usernameColors = [colorRed, colorGreen, colorYellow, colorBlue, colorMagenta, colorCyan]"

text \<open>\<open>fnv.New32a\<close>: xor the byte in, then multiply, modulo \<open>2 ^ 32\<close>.\<close>

definition fnv32a :: "string \<Rightarrow> 32 word" where
  "fnv32a s = foldl (\<lambda>h c. (h XOR of_nat (of_char c)) * 16777619) 2166136261 s"

definition getUsernameColor :: "string \<Rightarrow> string" where
  "getUsernameColor username =
     usernameColors ! unat (fnv32a username mod of_nat (length usernameColors))"

definition formatMessage :: "string \<Rightarrow> string \<Rightarrow> string" where
  "formatMessage username message =
     getUsernameColor username @ ''<'' @ username @ ''>'' @ colorReset @ '' '' @ message"

definition formatSystemMessage :: "string \<Rightarrow> string" where
  "formatSystemMessage message = colorYellow @ ''[System]'' @ colorReset @ '' '' @ message"

definition colorPort :: "int \<Rightarrow> string" where
  "colorPort port = colorCyan @ int_str port @ colorReset"

text \<open>The colour index is always inside the table: the \<open>%\<close> of the code never runs past it.\<close>

lemma color_index: "unat (fnv32a u mod of_nat (length usernameColors)) < length usernameColors"
  by (simp add: usernameColors_def unat_mod)

lemma getUsernameColor_in: "getUsernameColor u \<in> set usernameColors"
  unfolding getUsernameColor_def by (rule nth_mem [OF color_index])


section \<open>Names\<close>

definition aliasAdjectives :: "string list" where
  "aliasAdjectives =
     [''Swift'', ''Bold'', ''Clever'', ''Bright'', ''Quick'', ''Sharp'', ''Wise'', ''Calm'',
      ''Brave'', ''Cool'']"

definition aliasNouns :: "string list" where
  "aliasNouns =
     [''Fox'', ''Eagle'', ''Wolf'', ''Hawk'', ''Lion'', ''Tiger'', ''Bear'', ''Deer'', ''Bird'',
      ''Fish'']"

text \<open>\<open>rand.Int\<close> returns a number below the bound, or an error (\<open>None\<close>).\<close>

definition randInt :: "nat \<Rightarrow> nat option \<Rightarrow> nat" where
  "randInt bound drawn = (case drawn of None \<Rightarrow> 0 | Some n \<Rightarrow> n mod bound)"

definition generateAlias :: "nat option \<Rightarrow> nat option \<Rightarrow> nat option \<Rightarrow> string" where
  "generateAlias d1 d2 d3 =
     aliasAdjectives ! randInt (length aliasAdjectives) d1 @
     aliasNouns ! randInt (length aliasNouns) d2 @
     nat_str (randInt 999 d3 + 1)"

definition sanitiseField :: "string \<Rightarrow> string" where
  "sanitiseField s =
     filter (\<lambda>c. c \<noteq> carriage_return) (filter (\<lambda>c. c \<noteq> newline) (filter (\<lambda>c. c \<noteq> pipe) s))"

lemma sanitiseField_no_pipe [simp]: "pipe \<notin> set (sanitiseField s)"
  by (simp add: sanitiseField_def)

lemma sanitiseField_no_newline [simp]: "newline \<notin> set (sanitiseField s)"
  by (simp add: sanitiseField_def)

lemma sanitiseField_no_cr [simp]: "carriage_return \<notin> set (sanitiseField s)"
  by (simp add: sanitiseField_def)

lemma sanitiseField_id:
  "pipe \<notin> set s \<Longrightarrow> newline \<notin> set s \<Longrightarrow> carriage_return \<notin> set s \<Longrightarrow> sanitiseField s = s"
  by (induction s) (auto simp: sanitiseField_def)

lemma sanitiseField_idem [simp]: "sanitiseField (sanitiseField s) = sanitiseField s"
  by (intro sanitiseField_id) auto

definition letter :: "char \<Rightarrow> bool" where
  "letter c \<longleftrightarrow>
     65 \<le> (of_char c :: nat) \<and> (of_char c :: nat) \<le> 90 \<or>
     97 \<le> (of_char c :: nat) \<and> (of_char c :: nat) \<le> 122"

lemma alias_words: "\<forall>w \<in> set (aliasAdjectives @ aliasNouns). w \<noteq> [] \<and> list_all letter w"
  by (simp add: aliasAdjectives_def aliasNouns_def letter_def)

lemma randInt_less: "0 < m \<Longrightarrow> randInt m d < m"
  by (auto simp: randInt_def split: option.splits)

lemma alias_tables [simp]: "length aliasAdjectives = 10" "length aliasNouns = 10"
  by (simp_all add: aliasAdjectives_def aliasNouns_def)

lemma generateAlias_parts:
  "\<exists>a n k. generateAlias d1 d2 d3 = a @ n @ nat_str k \<and> a \<in> set aliasAdjectives \<and>
     n \<in> set aliasNouns \<and> 1 \<le> k \<and> k \<le> 999"
proof -
  let ?a = "aliasAdjectives ! randInt (length aliasAdjectives) d1"
  let ?n = "aliasNouns ! randInt (length aliasNouns) d2"
  let ?k = "randInt 999 d3 + 1"
  have "?a \<in> set aliasAdjectives" and "?n \<in> set aliasNouns"
    by (simp_all add: nth_mem randInt_less)
  moreover have "1 \<le> ?k \<and> ?k \<le> 999" using randInt_less [of 999 d3] by simp
  ultimately show ?thesis unfolding generateAlias_def by blast
qed

lemma generateAlias_chars: "\<forall>c \<in> set (generateAlias d1 d2 d3). letter c \<or> is_digit c"
proof -
  obtain a n k where e: "generateAlias d1 d2 d3 = a @ n @ nat_str k"
    and "a \<in> set aliasAdjectives" and "n \<in> set aliasNouns"
    using generateAlias_parts by blast
  then show ?thesis
    using alias_words nat_str_digits [of k] by (auto simp: list_all_iff)
qed

lemma letter_solid: "letter c \<Longrightarrow> solid c \<and> c \<noteq> pipe"
  by (auto simp: letter_def solid_def ascii_space_def)

end
