(* ===== verification/Encoding.thy ===== *)
theory Encoding
  imports Go_Strings
begin

text \<open>
  \<open>encoding/hex\<close> and \<open>base64.RawStdEncoding\<close>, the two encodings the wire format uses for
  secrets, signatures, nonces and ciphertexts.

  The locale \<open>text_codec\<close> is the interface the message format relies on: decoding undoes
  encoding and the encoded text has no field separator, no line break and no white space, so it
  can be one field of a \<open>|\<close>-separated line.  Both encodings are interpretations of it.
\<close>

section \<open>The interface\<close>

definition wire_char :: "char \<Rightarrow> bool" where
  "wire_char c \<longleftrightarrow> solid c \<and> c \<noteq> pipe \<and> c \<noteq> CHR '':''"

locale text_codec =
  fixes enc :: "bytes \<Rightarrow> string"
    and dec :: "string \<Rightarrow> bytes option"
  assumes dec_enc: "dec (enc bs) = Some bs"
    and enc_wire: "c \<in> set (enc bs) \<Longrightarrow> wire_char c"
begin

lemma enc_inj: "enc a = enc b \<longleftrightarrow> a = b"
  by (metis dec_enc option.inject)

lemma enc_no_pipe: "pipe \<notin> set (enc bs)"
  using enc_wire by (auto simp: wire_char_def)

lemma enc_no_newline: "newline \<notin> set (enc bs)"
  using enc_wire by (auto simp: wire_char_def solid_def ascii_space_def)

lemma enc_no_carriage_return: "carriage_return \<notin> set (enc bs)"
  using enc_wire by (auto simp: wire_char_def solid_def ascii_space_def)

lemma enc_solid: "c \<in> set (enc bs) \<Longrightarrow> solid c"
  using enc_wire by (auto simp: wire_char_def)

lemma trim_space_enc: "trim_space (enc bs) = enc bs"
proof (cases "enc bs = []")
  case True
  then show ?thesis by simp
next
  case False
  then show ?thesis
    by (intro trim_space_solid enc_solid [of _ bs] hd_in_set last_in_set)
qed

lemma enc_one_field: "split_on pipe (enc bs) = [enc bs]"
  using enc_no_pipe by simp

end


section \<open>Hexadecimal\<close>

definition hex_digit :: "nat \<Rightarrow> char" where
  "hex_digit d = (if d < 10 then char_of (48 + d) else char_of (87 + d))"

definition hex_value :: "char \<Rightarrow> nat option" where
  "hex_value c =
     (let n = (of_char c :: nat)
      in if 48 \<le> n \<and> n \<le> 57 then Some (n - 48)
         else if 97 \<le> n \<and> n \<le> 102 then Some (n - 87)
         else if 65 \<le> n \<and> n \<le> 70 then Some (n - 55)
         else None)"

definition hex_encode :: "bytes \<Rightarrow> string" where
  "hex_encode bs =
     concat (map (\<lambda>b. [hex_digit (of_char b div 16), hex_digit (of_char b mod 16)]) bs)"

text \<open>\<open>hex.DecodeString\<close>: an odd length or a byte that is no digit is an error.\<close>

fun hex_decode :: "string \<Rightarrow> bytes option" where
  "hex_decode [] = Some []"
| "hex_decode [a] = None"
| "hex_decode (a # b # s) =
     (case (hex_value a, hex_value b) of
        (Some x, Some y) \<Rightarrow> map_option (Cons (char_of (16 * x + y))) (hex_decode s)
      | _ \<Rightarrow> None)"

lemma hex_encode_Nil [simp]: "hex_encode [] = []"
  by (simp add: hex_encode_def)

lemma hex_encode_Cons [simp]:
  "hex_encode (b # bs) = hex_digit (of_char b div 16) # hex_digit (of_char b mod 16) # hex_encode bs"
  by (simp add: hex_encode_def)

lemma length_hex_encode: "length (hex_encode bs) = 2 * length bs"
  by (induction bs) auto

lemma hex_digit_code: "d < 16 \<Longrightarrow> (of_char (hex_digit d) :: nat) = (if d < 10 then 48 + d else 87 + d)"
  by (simp add: hex_digit_def)

lemma hex_value_digit [simp]: "d < 16 \<Longrightarrow> hex_value (hex_digit d) = Some d"
  by (simp add: hex_value_def hex_digit_code Let_def)

text \<open>The printable ASCII characters other than the two separators are wire characters.\<close>

lemma wire_charI:
  assumes "33 \<le> (of_char c :: nat)" and "(of_char c :: nat) < 124" and "of_char c \<noteq> (58 :: nat)"
  shows "wire_char c"
proof -
  have "c \<noteq> CHR 0x09" "c \<noteq> CHR 0x0A" "c \<noteq> CHR 0x0B" "c \<noteq> CHR 0x0C" "c \<noteq> CHR 0x0D"
    "c \<noteq> CHR 0x20" "c \<noteq> pipe" "c \<noteq> CHR '':''"
    using assms by auto
  with assms(2) show ?thesis by (simp add: wire_char_def solid_def ascii_space_def)
qed

lemma hex_digit_wire: "d < 16 \<Longrightarrow> wire_char (hex_digit d)"
  by (rule wire_charI) (simp_all add: hex_digit_code)

lemma hex_decode_encode [simp]: "hex_decode (hex_encode bs) = Some bs"
proof (induction bs)
  case Nil
  then show ?case by simp
next
  case (Cons b bs)
  have "(of_char b :: nat) div 16 < 16"
    by (simp add: div_less_iff_less_mult)
  with Cons show ?case by simp
qed

lemma hex_encode_wire: "c \<in> set (hex_encode bs) \<Longrightarrow> wire_char c"
proof (induction bs)
  case Nil
  then show ?case by simp
next
  case (Cons b bs)
  have "(of_char b :: nat) div 16 < 16"
    by (simp add: div_less_iff_less_mult)
  with Cons show ?case by (auto intro: hex_digit_wire)
qed

interpretation hex: text_codec hex_encode hex_decode
  by unfold_locales (auto intro: hex_encode_wire)


section \<open>Base 64 without padding\<close>

definition b64_digit :: "nat \<Rightarrow> char" where
  "b64_digit d =
     (if d < 26 then char_of (65 + d) else if d < 52 then char_of (71 + d)
      else if d < 62 then char_of (d - 4) else if d = 62 then CHR ''+'' else CHR ''/'')"

definition b64_value :: "char \<Rightarrow> nat option" where
  "b64_value c =
     (let n = (of_char c :: nat)
      in if 65 \<le> n \<and> n \<le> 90 then Some (n - 65)
         else if 97 \<le> n \<and> n \<le> 122 then Some (n - 71)
         else if 48 \<le> n \<and> n \<le> 57 then Some (n + 4)
         else if n = 43 then Some 62
         else if n = 47 then Some 63
         else None)"

fun b64_encode :: "bytes \<Rightarrow> string" where
  "b64_encode [] = []"
| "b64_encode [a] =
     (let x = of_char a in [b64_digit (x div 4), b64_digit (x mod 4 * 16)])"
| "b64_encode [a, b] =
     (let x = of_char a; y = of_char b
      in [b64_digit (x div 4), b64_digit (x mod 4 * 16 + y div 16), b64_digit (y mod 16 * 4)])"
| "b64_encode (a # b # c # bs) =
     (let x = of_char a; y = of_char b; z = of_char c
      in b64_digit (x div 4) # b64_digit (x mod 4 * 16 + y div 16) #
         b64_digit (y mod 16 * 4 + z div 64) # b64_digit (z mod 64) # b64_encode bs)"

text \<open>The quanta of \<open>DecodeString\<close>: one left-over digit is an error, spare bits are dropped.\<close>

fun b64_quanta :: "nat list \<Rightarrow> bytes option" where
  "b64_quanta [] = Some []"
| "b64_quanta [v] = None"
| "b64_quanta [v, w] = Some [char_of (v * 4 + w div 16)]"
| "b64_quanta [v, w, x] = Some [char_of (v * 4 + w div 16), char_of (w mod 16 * 16 + x div 4)]"
| "b64_quanta (v # w # x # y # vs) =
     map_option (\<lambda>bs. char_of (v * 4 + w div 16) # char_of (w mod 16 * 16 + x div 4) #
                       char_of (x mod 4 * 64 + y) # bs)
       (b64_quanta vs)"

text \<open>\<open>RawStdEncoding.DecodeString\<close> skips carriage returns and newlines.\<close>

definition b64_decode :: "string \<Rightarrow> bytes option" where
  "b64_decode s =
     (let ds = map b64_value (filter (\<lambda>c. c \<noteq> newline \<and> c \<noteq> carriage_return) s)
      in if None \<in> set ds then None else b64_quanta (map the ds))"

fun b64_indices :: "bytes \<Rightarrow> nat list" where
  "b64_indices [] = []"
| "b64_indices [a] = (let x = of_char a in [x div 4, x mod 4 * 16])"
| "b64_indices [a, b] =
     (let x = of_char a; y = of_char b in [x div 4, x mod 4 * 16 + y div 16, y mod 16 * 4])"
| "b64_indices (a # b # c # bs) =
     (let x = of_char a; y = of_char b; z = of_char c
      in (x div 4) # (x mod 4 * 16 + y div 16) # (y mod 16 * 4 + z div 64) # (z mod 64) # b64_indices bs)"

lemma b64_encode_indices: "b64_encode bs = map b64_digit (b64_indices bs)"
  by (induction bs rule: b64_encode.induct) (auto simp: Let_def)

lemma byte_parts:
  "(of_char a :: nat) div 4 < 64" "(of_char a :: nat) div 16 < 16" "(of_char a :: nat) div 64 < 4"
  by (simp_all add: div_less_iff_less_mult)

lemma b64_index_bounds:
  "(of_char a :: nat) mod 4 * 16 < 64"
  "(of_char a :: nat) mod 4 * 16 + of_char b div 16 < 64"
  "(of_char a :: nat) mod 16 * 4 < 64"
  "(of_char a :: nat) mod 16 * 4 + of_char b div 64 < 64"
  using mod_less_divisor [of 4 "of_char a :: nat"] mod_less_divisor [of 16 "of_char a :: nat"]
    byte_parts [of b] by linarith+

lemma b64_indices_less: "d \<in> set (b64_indices bs) \<Longrightarrow> d < 64"
  by (induction bs rule: b64_indices.induct) (auto simp: Let_def byte_parts b64_index_bounds)

lemma b64_digit_code:
  "d < 64 \<Longrightarrow> (of_char (b64_digit d) :: nat) =
     (if d < 26 then 65 + d else if d < 52 then 71 + d else if d < 62 then d - 4
      else if d = 62 then 43 else 47)"
  by (simp add: b64_digit_def)

lemma b64_value_digit [simp]: "d < 64 \<Longrightarrow> b64_value (b64_digit d) = Some d"
  unfolding b64_value_def by (simp add: b64_digit_code Let_def) linarith

lemma b64_digit_wire: "d < 64 \<Longrightarrow> wire_char (b64_digit d)"
  by (rule wire_charI) (auto simp: b64_digit_code)

lemma b64_overlap:
  "(of_char a :: nat) div 16 div 16 = 0" "(of_char a :: nat) div 16 mod 16 = of_char a div 16"
  "(of_char a :: nat) div 64 div 4 = 0" "(of_char a :: nat) div 64 mod 4 = of_char a div 64"
  using byte_parts [of a] by simp_all

lemma b64_quanta_indices: "b64_quanta (b64_indices bs) = Some bs"
  by (induction bs rule: b64_indices.induct) (simp_all add: Let_def b64_overlap)

lemma b64_encode_wire: "c \<in> set (b64_encode bs) \<Longrightarrow> wire_char c"
  by (auto simp: b64_encode_indices intro: b64_digit_wire b64_indices_less)

lemma b64_decode_encode [simp]: "b64_decode (b64_encode bs) = Some bs"
proof -
  let ?is = "b64_indices bs"
  have plain: "filter (\<lambda>c. c \<noteq> newline \<and> c \<noteq> carriage_return) (b64_encode bs) = b64_encode bs"
    using b64_encode_wire [of _ bs]
    by (intro filter_True) (auto simp: wire_char_def solid_def ascii_space_def)
  have vals: "map b64_value (b64_encode bs) = map Some ?is"
    using b64_indices_less [of _ bs] by (simp add: b64_encode_indices)
  have "None \<notin> set (map Some ?is)" by auto
  with plain vals show ?thesis
    by (simp add: b64_decode_def Let_def comp_def b64_quanta_indices del: set_map list.set_map)
qed

interpretation b64: text_codec b64_encode b64_decode
  by unfold_locales (auto intro: b64_encode_wire)

end
