(* ===== verification/Crypto.thy ===== *)
theory Crypto
  imports Encoding
begin

text \<open>
  Room keys: \<open>crypto.go\<close> and the key derivation of \<open>security.go\<close>.

  The primitives are a record of functions the definitions take as an argument: Argon2id and
  HKDF (packages outside the repository) and the standard library's SHA-256, HMAC-SHA-256 and
  AES-GCM, whose outputs the program only stores, compares and hands back.  \<open>argon2_idkey\<close> is
  \<open>argon2.IDKey\<close> at the fixed parameters of the source (1 pass, 64 MiB, 4 lanes, 32 bytes) and
  \<open>hkdf_read\<close> the first 32 bytes of \<open>hkdf.New(sha256.New, secret, salt, info)\<close>.  Base 64 and
  hexadecimal are the real ones.

  What the random source returns (room secrets, nonces) is an argument of the operation that
  draws it.
\<close>

record crypto =
  argon2_idkey :: "bytes \<Rightarrow> bytes \<Rightarrow> bytes"
  hkdf_read :: "bytes \<Rightarrow> bytes \<Rightarrow> bytes \<Rightarrow> bytes"
  sha256_sum :: "bytes \<Rightarrow> bytes"
  hmac_sum :: "bytes \<Rightarrow> bytes \<Rightarrow> bytes"
  gcm_seal :: "bytes \<Rightarrow> bytes \<Rightarrow> bytes \<Rightarrow> bytes"
  gcm_open :: "bytes \<Rightarrow> bytes \<Rightarrow> bytes \<Rightarrow> bytes option"

text \<open>
  Documented behaviour of the primitives: opening a sealed text under the same key and nonce
  returns it, the derivations return 32 bytes, and (used only where a theorem says so) an
  authentic ciphertext of another key does not open.
\<close>

definition gcm_correct :: "crypto \<Rightarrow> bool" where
  "gcm_correct C \<longleftrightarrow> (\<forall>k n p. gcm_open C k n (gcm_seal C k n p) = Some p)"

definition kdf_length :: "crypto \<Rightarrow> bool" where
  "kdf_length C \<longleftrightarrow>
     (\<forall>s i j. length (hkdf_read C s i j) = 32) \<and> (\<forall>p s. length (argon2_idkey C p s) = 32)"

datatype crypto_error =
    BadBase64
  | BadKeySize nat
  | CiphertextTooShort nat
  | OpenFailed

record room_keys =
  AuthKey :: bytes
  EncKey :: bytes
  HMACKey :: bytes

definition nonce_size :: nat where
  "nonce_size = 12"

text \<open>\<open>aes.NewCipher\<close> accepts keys of 16, 24 and 32 bytes.\<close>

definition aes_key_ok :: "bytes \<Rightarrow> bool" where
  "aes_key_ok k \<longleftrightarrow> length k \<in> {16, 24, 32}"


section \<open>Encryption and signatures\<close>

text \<open>\<open>nonce\<close> is what \<open>io.ReadFull(rand.Reader, ...)\<close> filled in.\<close>

definition Encrypt :: "crypto \<Rightarrow> room_keys \<Rightarrow> bytes \<Rightarrow> bytes \<Rightarrow> crypto_error + string" where
  "Encrypt C rk nonce plaintext =
     (if \<not> aes_key_ok (EncKey rk) then Inl (BadKeySize (length (EncKey rk)))
      else Inr (b64_encode (nonce @ gcm_seal C (EncKey rk) nonce plaintext)))"

definition Decrypt :: "crypto \<Rightarrow> room_keys \<Rightarrow> string \<Rightarrow> crypto_error + bytes" where
  "Decrypt C rk payload =
     (case b64_decode payload of
        None \<Rightarrow> Inl BadBase64
      | Some raw \<Rightarrow>
          if \<not> aes_key_ok (EncKey rk) then Inl (BadKeySize (length (EncKey rk)))
          else if length raw < nonce_size then Inl (CiphertextTooShort (length raw))
          else (case gcm_open C (EncKey rk) (take nonce_size raw) (drop nonce_size raw) of
                  None \<Rightarrow> Inl OpenFailed
                | Some pt \<Rightarrow> Inr pt))"

definition Sign :: "crypto \<Rightarrow> room_keys \<Rightarrow> string \<Rightarrow> string" where
  "Sign C rk message = hex_encode (hmac_sum C (HMACKey rk) message)"

definition Verify :: "crypto \<Rightarrow> room_keys \<Rightarrow> string \<Rightarrow> string \<Rightarrow> bool" where
  "Verify C rk message hmacHex =
     (case hex_decode hmacHex of
        None \<Rightarrow> False
      | Some expected \<Rightarrow> expected = hmac_sum C (HMACKey rk) message)"


section \<open>Key derivation\<close>

definition enc_info :: string where
  "enc_info = ''p2p-messenger-enc''"

definition hmac_info :: string where
  "hmac_info = ''p2p-messenger-hmac''"

text \<open>
  The block \<open>hkdf.New ... io.ReadFull\<close> that \<open>UpdateRoomKeys\<close>, \<open>CreateRoom\<close>, \<open>joinRoom\<close> and
  \<open>rotateRoomSecret\<close> repeat: the room keys of an authentication key and a room secret.
\<close>

definition room_keys_from :: "crypto \<Rightarrow> bytes \<Rightarrow> bytes \<Rightarrow> room_keys" where
  "room_keys_from C authKey secret =
     \<lparr>AuthKey = authKey,
      EncKey = hkdf_read C authKey secret enc_info,
      HMACKey = hkdf_read C authKey secret hmac_info\<rparr>"

definition room_auth_key :: "crypto \<Rightarrow> string \<Rightarrow> string \<Rightarrow> bytes" where
  "room_auth_key C roomName password =
     argon2_idkey C (if password = [] then roomName else password) roomName"

definition DeriveRoomKeys :: "crypto \<Rightarrow> string \<Rightarrow> string \<Rightarrow> bytes \<Rightarrow> room_keys" where
  "DeriveRoomKeys C roomName password roomSecret =
     (let authKey = room_auth_key C roomName password
      in if roomSecret \<noteq> [] then room_keys_from C authKey roomSecret
         else \<lparr>AuthKey = authKey, EncKey = [], HMACKey = []\<rparr>)"

text \<open>\<open>DeriveRoomKey\<close>: no key at all for the empty password (\<open>nil\<close> is \<open>None\<close>).\<close>

definition DeriveRoomKey :: "crypto \<Rightarrow> string \<Rightarrow> string \<Rightarrow> bytes option" where
  "DeriveRoomKey C roomName password =
     (if password = [] then None else Some (argon2_idkey C password roomName))"

definition GenerateRoomSecret :: "bytes \<Rightarrow> bytes" where
  "GenerateRoomSecret rnd = take 32 rnd"


section \<open>Facts\<close>

lemma room_keys_from_sel [simp]:
  "AuthKey (room_keys_from C a s) = a"
  "EncKey (room_keys_from C a s) = hkdf_read C a s enc_info"
  "HMACKey (room_keys_from C a s) = hkdf_read C a s hmac_info"
  by (simp_all add: room_keys_from_def)

lemma DeriveRoomKeys_AuthKey [simp]:
  "AuthKey (DeriveRoomKeys C room pw sec) = room_auth_key C room pw"
  by (simp add: DeriveRoomKeys_def Let_def)

lemma DeriveRoomKeys_secret:
  "sec \<noteq> [] \<Longrightarrow> DeriveRoomKeys C room pw sec = room_keys_from C (room_auth_key C room pw) sec"
  by (simp add: DeriveRoomKeys_def Let_def)

lemma Verify_Sign [simp]: "Verify C rk m (Sign C rk m)"
  by (simp add: Verify_def Sign_def)

lemma Verify_same_mac:
  "Verify C rk m h \<Longrightarrow> hex_decode h = hex_decode (Sign C rk m)"
  by (auto simp: Verify_def Sign_def split: option.splits)

lemma Encrypt_ok:
  "aes_key_ok (EncKey rk) \<Longrightarrow>
     Encrypt C rk n p = Inr (b64_encode (n @ gcm_seal C (EncKey rk) n p))"
  by (simp add: Encrypt_def)

lemma Decrypt_Encrypt:
  assumes "gcm_correct C" and "length n = nonce_size" and "Encrypt C rk n p = Inr payload"
  shows "Decrypt C rk payload = Inr p"
  using assms by (auto simp: Decrypt_def Encrypt_def gcm_correct_def split: if_splits)

lemma Encrypt_no_pipe: "Encrypt C rk n p = Inr payload \<Longrightarrow> pipe \<notin> set payload"
  by (auto simp: Encrypt_def b64.enc_no_pipe split: if_splits)

lemma Encrypt_no_newline: "Encrypt C rk n p = Inr payload \<Longrightarrow> newline \<notin> set payload"
  by (auto simp: Encrypt_def b64.enc_no_newline split: if_splits)

lemma Sign_no_pipe: "pipe \<notin> set (Sign C rk m)"
  by (simp add: Sign_def hex.enc_no_pipe)

lemma Sign_no_newline: "newline \<notin> set (Sign C rk m)"
  by (simp add: Sign_def hex.enc_no_newline)

lemma Sign_solid: "c \<in> set (Sign C rk m) \<Longrightarrow> solid c"
  by (simp add: Sign_def hex.enc_solid)

text \<open>Keys without a room secret cannot encrypt.\<close>

lemma Encrypt_without_secret:
  "Encrypt C (DeriveRoomKeys C room pw []) n p = Inl (BadKeySize 0)"
  by (simp add: Encrypt_def DeriveRoomKeys_def Let_def aes_key_ok_def)

lemma kdf_aes_key_ok: "kdf_length C \<Longrightarrow> aes_key_ok (EncKey (room_keys_from C a s))"
  by (simp add: kdf_length_def aes_key_ok_def)


section \<open>A concrete instance of the primitives\<close>

text \<open>
  Toy primitives that satisfy the documented laws.  Witnesses evaluate the definitions on them;
  no theorem about the program is about them.
\<close>

definition pad32 :: "bytes \<Rightarrow> bytes" where
  "pad32 s = take 32 (s @ replicate 32 (CHR ''0''))"

definition toy :: crypto where
  "toy =
     \<lparr>argon2_idkey = (\<lambda>p s. pad32 (p @ CHR ''/'' # s)),
      hkdf_read = (\<lambda>k salt info. pad32 (drop 14 info @ salt @ k)),
      sha256_sum = pad32,
      hmac_sum = (\<lambda>k m. k @ m),
      gcm_seal = (\<lambda>k n p. k @ p),
      gcm_open = (\<lambda>k n c. if take (length k) c = k then Some (drop (length k) c) else None)\<rparr>"

lemma length_pad32 [simp]: "length (pad32 s) = 32"
  by (simp add: pad32_def)

lemma toy_gcm_correct: "gcm_correct toy"
  by (simp add: gcm_correct_def toy_def)

lemma toy_kdf_length: "kdf_length toy"
  by (simp add: kdf_length_def toy_def)

end
