(* ===== verification/Seen_Cache.thy ===== *)
theory Seen_Cache
  imports Prelude
begin

text \<open>
  Sets of recently seen keys.  Two parts of the program keep one: \<open>replay.go\<close> (the nonces of a
  connection) and the message de-duplication of \<open>connection_manager.go\<close> (hashes of displayed
  messages).  Both record a key with the time of its first sight, answer whether it was there,
  and have a background sweep that drops entries older than a window.

  The locale \<open>seen_cache\<close> is their common contract; its lemmas are the guarantees the receive
  path relies on.  \<open>replay_protector\<close> interprets it here, the message cache in
  \<open>Conn_Manager\<close>.
\<close>

section \<open>The contract\<close>

locale seen_cache =
  fixes record_key :: "'k \<Rightarrow> time \<Rightarrow> 's \<Rightarrow> bool \<times> 's"
    and sweep :: "time \<Rightarrow> 's \<Rightarrow> 's"
    and first_seen :: "'s \<Rightarrow> 'k \<Rightarrow> time option"
    and window :: "'s \<Rightarrow> time"
    and ok :: "'s \<Rightarrow> bool"
  assumes record_known:
      "first_seen s k = Some t \<Longrightarrow> record_key k now s = (False, s)"
    and record_new:
      "ok s \<Longrightarrow> first_seen s k = None \<Longrightarrow>
       \<exists>s'. record_key k now s = (True, s') \<and> first_seen s' = (first_seen s)(k \<mapsto> now)
         \<and> window s' = window s"
    and sweep_seen:
      "ok s \<Longrightarrow> first_seen (sweep now s) k =
         (case first_seen s k of
            None \<Rightarrow> None
          | Some t \<Rightarrow> if t < now - window s then None else Some t)"
    and sweep_window: "window (sweep now s) = window s"
    and ok_record: "ok s \<Longrightarrow> ok (snd (record_key k now s))"
    and ok_sweep: "ok s \<Longrightarrow> ok (sweep now s)"
begin

lemma record_fresh_iff: "ok s \<Longrightarrow> fst (record_key k now s) \<longleftrightarrow> first_seen s k = None"
  by (cases "first_seen s k") (auto simp: record_known dest: record_new [of s k now])

lemma record_seen:
  "ok s \<Longrightarrow> first_seen (snd (record_key k now s)) k' =
     (if k' = k \<and> first_seen s k = None then Some now else first_seen s k')"
  by (cases "first_seen s k") (auto simp: record_known dest!: record_new [of s k now])

lemma record_window: "ok s \<Longrightarrow> window (snd (record_key k now s)) = window s"
  by (cases "first_seen s k") (auto simp: record_known dest!: record_new [of s k now])

lemma record_twice:
  assumes "ok s"
  shows "\<not> fst (record_key k later (snd (record_key k now s)))"
proof -
  have "first_seen (snd (record_key k now s)) k \<noteq> None"
    using assms by (simp add: record_seen)
  then show ?thesis using record_known by fastforce
qed

text \<open>The time line: recordings and sweeps, each at its own instant.\<close>

fun apply_event :: "('k option \<times> time) \<Rightarrow> 's \<Rightarrow> 's" where
  "apply_event (Some k, now) s = snd (record_key k now s)"
| "apply_event (None, now) s = sweep now s"

lemma apply_event_ok: "ok s \<Longrightarrow> ok (apply_event e s)"
  by (cases "(e, s)" rule: apply_event.cases) (auto intro: ok_record ok_sweep)

lemma apply_event_window: "ok s \<Longrightarrow> window (apply_event e s) = window s"
  by (cases "(e, s)" rule: apply_event.cases) (auto simp: record_window sweep_window)

lemma apply_event_keeps:
  assumes "ok s" and "first_seen s k = Some t" and "snd e \<le> t + window s"
  shows "first_seen (apply_event e s) k = Some t"
  using assms by (cases "(e, s)" rule: apply_event.cases) (auto simp: record_seen sweep_seen)

text \<open>A key stays known for the whole window, whatever is recorded or swept meanwhile.\<close>

lemma seen_within_window:
  assumes "ok s" and "first_seen s k = Some t" and "\<forall>e \<in> set es. snd e \<le> t + window s"
  shows "first_seen (fold apply_event es s) k = Some t"
  using assms
proof (induction es arbitrary: s)
  case Nil
  then show ?case by simp
next
  case (Cons e es)
  have "first_seen (apply_event e s) k = Some t"
    using Cons.prems by (intro apply_event_keeps) auto
  with Cons.prems show ?case
    by (auto intro!: Cons.IH simp: apply_event_ok apply_event_window)
qed

lemma rejected_within_window:
  assumes "ok s" and "first_seen s k = None"
    and "\<forall>e \<in> set es. snd e \<le> now + window s"
  shows "\<not> fst (record_key k later (fold apply_event es (snd (record_key k now s))))"
proof -
  let ?s = "snd (record_key k now s)"
  have "first_seen ?s k = Some now" using assms by (simp add: record_seen)
  then have "first_seen (fold apply_event es ?s) k = Some now"
    using assms by (intro seen_within_window) (auto simp: record_window ok_record)
  then show ?thesis by (simp add: record_known)
qed

text \<open>After a sweep later than the window the key is fresh again.\<close>

lemma fresh_after_sweep:
  assumes "ok s" and "first_seen s k = Some t" and "t + window s < now"
  shows "fst (record_key k later (sweep now s))"
  using assms by (simp add: record_fresh_iff ok_sweep sweep_seen)

text \<open>A sweep leaves nothing older than the window: the memory is bounded by the recent keys.\<close>

lemma sweep_recent:
  "ok s \<Longrightarrow> first_seen (sweep now s) k = Some t \<Longrightarrow> now - window s \<le> t"
  by (auto simp: sweep_seen split: option.splits if_splits)

end


section \<open>The replay protector\<close>

text \<open>\<open>rp_done\<close> says that \<open>Close\<close> has closed the channel of the clean-up goroutine.\<close>

record replay_protector =
  rp_seen :: "(string, time) gomap"
  rp_maxAge :: time
  rp_done :: bool

definition NewReplayProtector :: "time \<Rightarrow> replay_protector" where
  "NewReplayProtector maxAge = \<lparr>rp_seen = [], rp_maxAge = maxAge, rp_done = False\<rparr>"

definition replay_Check :: "string \<Rightarrow> time \<Rightarrow> replay_protector \<Rightarrow> bool \<times> replay_protector" where
  "replay_Check nonce now rp =
     (if mapped (rp_seen rp) nonce then (False, rp)
      else (True, rp\<lparr>rp_seen := AList.update nonce now (rp_seen rp)\<rparr>))"

text \<open>One tick of the clean-up goroutine.\<close>

definition replay_cleanup_tick :: "time \<Rightarrow> replay_protector \<Rightarrow> replay_protector" where
  "replay_cleanup_tick now rp =
     (let cutoff = now - rp_maxAge rp
      in rp\<lparr>rp_seen := filter (\<lambda>(nonce, ts). \<not> ts < cutoff) (rp_seen rp)\<rparr>)"

text \<open>One turn of its \<open>select\<close>: \<open>None\<close> when the goroutine returns.\<close>

definition replay_cleanup_step :: "time \<Rightarrow> replay_protector \<Rightarrow> replay_protector option" where
  "replay_cleanup_step now rp = (if rp_done rp then None else Some (replay_cleanup_tick now rp))"

text \<open>\<open>Close\<close> closes the channel; closing it twice panics (\<open>None\<close>).\<close>

definition replay_Close :: "replay_protector \<Rightarrow> replay_protector option" where
  "replay_Close rp = (if rp_done rp then None else Some (rp\<lparr>rp_done := True\<rparr>))"

definition replay_ok :: "replay_protector \<Rightarrow> bool" where
  "replay_ok rp \<longleftrightarrow> gomap (rp_seen rp)"

lemma replay_ok_new [simp]: "replay_ok (NewReplayProtector d)"
  by (simp add: replay_ok_def NewReplayProtector_def)

interpretation replay: seen_cache replay_Check replay_cleanup_tick
    "\<lambda>rp. map_of (rp_seen rp)" rp_maxAge replay_ok
  by unfold_locales
    (auto simp: replay_Check_def replay_cleanup_tick_def replay_ok_def Let_def map_of_filter
       fun_eq_iff split: option.splits)

lemma replay_Check_maxAge [simp]: "rp_maxAge (snd (replay_Check n t rp)) = rp_maxAge rp"
  by (simp add: replay_Check_def)

lemma replay_Check_True_iff: "fst (replay_Check n t rp) \<longleftrightarrow> \<not> mapped (rp_seen rp) n"
  by (simp add: replay_Check_def)

end
