(* ===== verification/Net_State.thy ===== *)
theory Net_State
  imports Terminal Crypto Seen_Cache
begin

text \<open>
  The state a process of the messenger works on: its open transports (\<open>transport.go\<close>) and its
  connection manager (the \<open>ConnectionManager\<close> and \<open>ManagedConnection\<close> structs of
  \<open>connection_manager.go\<close>), with the bounded outbound queue of a connection.

  Pointers are natural numbers.  \<open>conns\<close> and \<open>mcs\<close> are the heaps of transports and of managed
  connections; a \<open>*ManagedConnection\<close> in the connection map is an index of \<open>mcs\<close>, shared with
  the goroutines of that connection.  A transport is what the code sees of it: the writes that
  succeeded, in order, whether \<open>Close\<close> was called, and whether the network has failed
  (\<open>c_broken\<close>, set by the environment).  QUIC and TCP transports behave alike at this interface
  (\<open>PeerConnection\<close>).  A panic of the process is the flag \<open>crashed\<close>.

  The handlers of the program hold a lock while they touch this state; each is one atomic
  operation here.  Where the code releases its locks in the middle (a sleep, a wait), the
  operation is split there and the parts are operations of their own.
\<close>

section \<open>Transports\<close>

datatype ui_event =
    Printed string
  | OnMessage string string string
  | OnSystemMessage string

record transport =
  c_sent :: "string list"
  c_closed :: bool
  c_broken :: bool

record net =
  conns :: "nat \<Rightarrow> transport"
  screen :: "ui_event list"
  crashed :: bool

definition crash :: "'a net_scheme \<Rightarrow> 'a net_scheme" where
  "crash s = s\<lparr>crashed := True\<rparr>"

definition show_ui :: "ui_event \<Rightarrow> 'a net_scheme \<Rightarrow> 'a net_scheme" where
  "show_ui e s = s\<lparr>screen := screen s @ [e]\<rparr>"

text \<open>\<open>fmt.Printf("\n%s\n> ", text)\<close>, the form of every asynchronous output line.\<close>

definition print_line :: "string \<Rightarrow> 'a net_scheme \<Rightarrow> 'a net_scheme" where
  "print_line text s = show_ui (Printed ([newline] @ text @ [newline] @ ''> '')) s"

definition writable :: "nat \<Rightarrow> 'a net_scheme \<Rightarrow> bool" where
  "writable i s \<longleftrightarrow> \<not> c_closed (conns s i) \<and> \<not> c_broken (conns s i)"

text \<open>\<open>PeerConnection.Write\<close>: the flag is \<open>err == nil\<close>.\<close>

definition conn_write :: "nat \<Rightarrow> string \<Rightarrow> 'a net_scheme \<Rightarrow> bool \<times> 'a net_scheme" where
  "conn_write i msg s =
     (if writable i s
      then (True, s\<lparr>conns := (conns s)(i := (conns s i)\<lparr>c_sent := c_sent (conns s i) @ [msg]\<rparr>)\<rparr>)
      else (False, s))"

abbreviation conn_put :: "nat \<Rightarrow> string \<Rightarrow> 'a net_scheme \<Rightarrow> 'a net_scheme" where
  "conn_put i msg s \<equiv> snd (conn_write i msg s)"

text \<open>\<open>PeerConnection.Close\<close>; closing twice is harmless.\<close>

definition conn_close :: "nat \<Rightarrow> 'a net_scheme \<Rightarrow> 'a net_scheme" where
  "conn_close i s = s\<lparr>conns := (conns s)(i := (conns s i)\<lparr>c_closed := True\<rparr>)\<rparr>"

lemma conn_write_ok [simp]: "fst (conn_write i m s) = writable i s"
  by (simp add: conn_write_def)

lemma conn_put_sent:
  "c_sent (conns (conn_put i m s) j) =
     (if j = i \<and> writable i s then c_sent (conns s j) @ [m] else c_sent (conns s j))"
  by (simp add: conn_write_def)

lemma conn_put_closed [simp]: "c_closed (conns (conn_put i m s) j) = c_closed (conns s j)"
  by (simp add: conn_write_def)

lemma conn_put_broken [simp]: "c_broken (conns (conn_put i m s) j) = c_broken (conns s j)"
  by (simp add: conn_write_def)

lemma writable_conn_put [simp]: "writable j (conn_put i m s) = writable j s"
  by (simp add: writable_def)

lemma conn_put_frame [simp]:
  "screen (conn_put i m s) = screen s" "crashed (conn_put i m s) = crashed s"
  "net.more (conn_put i m s) = net.more s"
  by (simp_all add: conn_write_def)

lemma conn_close_sent [simp]: "c_sent (conns (conn_close i s) j) = c_sent (conns s j)"
  by (simp add: conn_close_def)

lemma conn_close_closed [simp]:
  "c_closed (conns (conn_close i s) j) = (j = i \<or> c_closed (conns s j))"
  by (simp add: conn_close_def)

lemma conn_close_frame [simp]:
  "screen (conn_close i s) = screen s" "crashed (conn_close i s) = crashed s"
  "net.more (conn_close i s) = net.more s"
  by (simp_all add: conn_close_def)

lemma writable_conn_close [simp]: "writable j (conn_close i s) \<longleftrightarrow> j \<noteq> i \<and> writable j s"
  by (auto simp: writable_def conn_close_def)

lemma show_ui_frame [simp]:
  "conns (show_ui e s) = conns s" "crashed (show_ui e s) = crashed s"
  "net.more (show_ui e s) = net.more s" "screen (show_ui e s) = screen s @ [e]"
  by (simp_all add: show_ui_def)

lemma print_line_frame [simp]:
  "conns (print_line t s) = conns s" "crashed (print_line t s) = crashed s"
  "net.more (print_line t s) = net.more s"
  by (simp_all add: print_line_def)


section \<open>Managed connections\<close>

datatype auth_kind = ErrBanned | ErrWrongPassword | ErrTimeout

datatype auth_error = AuthError (auth_err_kind: auth_kind) (auth_err_reason: string)

text \<open>
  \<open>mc_out\<close> is the buffered channel \<open>out\<close>, oldest element first; \<open>mc_done\<close> and \<open>mc_secretDone\<close>
  say that the channel \<open>done\<close> is closed and the wait group \<open>secretReady\<close> released.
\<close>

record managed_connection =
  mc_conn :: nat
  mc_peerAddr :: string
  mc_createdAt :: time
  mc_lastUsed :: time
  mc_out :: "string list"
  mc_done :: bool
  mc_replay :: "replay_protector option"
  mc_secretDone :: bool
  mc_lastAuthErr :: "auth_error option"

definition OutboundQueueSize :: nat where
  "OutboundQueueSize = 1024"

definition newManagedConnection :: "nat \<Rightarrow> string \<Rightarrow> time \<Rightarrow> managed_connection" where
  "newManagedConnection conn peerAddr now =
     \<lparr>mc_conn = conn, mc_peerAddr = peerAddr, mc_createdAt = now, mc_lastUsed = now,
      mc_out = [], mc_done = False, mc_replay = None, mc_secretDone = False,
      mc_lastAuthErr = None\<rparr>"

definition mc_enqueue :: "string \<Rightarrow> managed_connection \<Rightarrow> bool \<times> managed_connection" where
  "mc_enqueue msg mc =
     (if mc_done mc then (False, mc)
      else if length (mc_out mc) < OutboundQueueSize
        then (True, mc\<lparr>mc_out := mc_out mc @ [msg]\<rparr>)
        else (False, mc))"

definition signalClosed :: "managed_connection \<Rightarrow> managed_connection" where
  "signalClosed mc = mc\<lparr>mc_done := True\<rparr>"

text \<open>The \<open>coalesce\<close> loop of the writer: everything queued becomes one batch.\<close>

definition mc_drain :: "managed_connection \<Rightarrow> string list \<times> managed_connection" where
  "mc_drain mc = (mc_out mc, mc\<lparr>mc_out := []\<rparr>)"


section \<open>The outbound queue as an interface\<close>

text \<open>
  What a broadcaster may rely on: a queue with a capacity that accepts at the end or refuses
  without blocking, and a writer that takes everything out in order.
\<close>

locale outbound_queue =
  fixes enq :: "'m \<Rightarrow> 'q \<Rightarrow> bool \<times> 'q"
    and drain :: "'q \<Rightarrow> 'm list \<times> 'q"
    and queued :: "'q \<Rightarrow> 'm list"
    and is_open :: "'q \<Rightarrow> bool"
    and capacity :: nat
  assumes enq_queued:
      "queued (snd (enq m q)) = (if fst (enq m q) then queued q @ [m] else queued q)"
    and enq_accepts: "fst (enq m q) \<longleftrightarrow> is_open q \<and> length (queued q) < capacity"
    and enq_open: "is_open (snd (enq m q)) = is_open q"
    and drain_all: "fst (drain q) = queued q"
    and drain_empty: "queued (snd (drain q)) = []"
    and drain_open: "is_open (snd (drain q)) = is_open q"
begin

text \<open>A producer that offers messages one after the other; the accepted ones are counted.\<close>

fun offer :: "'m list \<Rightarrow> 'q \<Rightarrow> 'm list \<times> 'q" where
  "offer [] q = ([], q)"
| "offer (m # ms) q =
     (let r = offer ms (snd (enq m q)) in ((if fst (enq m q) then [m] else []) @ fst r, snd r))"

lemma offer_queued: "queued (snd (offer ms q)) = queued q @ fst (offer ms q)"
  by (induction ms arbitrary: q) (auto simp: Let_def enq_queued)

lemma offer_bounded: "length (queued q) \<le> capacity \<Longrightarrow> length (queued (snd (offer ms q))) \<le> capacity"
  by (induction ms arbitrary: q) (auto simp: Let_def enq_queued enq_accepts)

lemma offer_accepts_all:
  "is_open q \<Longrightarrow> length (queued q) + length ms \<le> capacity \<Longrightarrow> fst (offer ms q) = ms"
  by (induction ms arbitrary: q) (auto simp: Let_def enq_queued enq_accepts enq_open)

lemma offer_closed: "\<not> is_open q \<Longrightarrow> fst (offer ms q) = []"
  by (induction ms arbitrary: q) (auto simp: Let_def enq_accepts enq_open)

text \<open>First in, first out: a drain returns the old contents and then the accepted messages.\<close>

lemma offer_drain_fifo: "fst (drain (snd (offer ms q))) = queued q @ fst (offer ms q)"
  by (simp add: drain_all offer_queued)

end

interpretation mcq: outbound_queue mc_enqueue mc_drain mc_out "\<lambda>mc. \<not> mc_done mc" OutboundQueueSize
  by unfold_locales (auto simp: mc_enqueue_def mc_drain_def)

lemma mc_enqueue_frame [simp]:
  "mc_conn (snd (mc_enqueue m mc)) = mc_conn mc"
  "mc_peerAddr (snd (mc_enqueue m mc)) = mc_peerAddr mc"
  "mc_replay (snd (mc_enqueue m mc)) = mc_replay mc"
  "mc_done (snd (mc_enqueue m mc)) = mc_done mc"
  "mc_lastAuthErr (snd (mc_enqueue m mc)) = mc_lastAuthErr mc"
  "mc_secretDone (snd (mc_enqueue m mc)) = mc_secretDone mc"
  by (simp_all add: mc_enqueue_def)


section \<open>The connection manager\<close>

text \<open>
  \<open>roomSecret\<close> is \<open>None\<close> for the nil slice; \<open>tofuPath\<close> is empty when no store is configured and
  \<open>tofuFile\<close> is the content of the store.  \<open>kicked\<close> and \<open>disconnected\<close> say that the channel of
  that name is closed.
\<close>

record cm_state = net +
  mcs :: "nat \<Rightarrow> managed_connection"
  nextMC :: nat
  connections :: "(string, nat) gomap"
  localPort :: int
  roomName :: string
  localAlias :: string
  deviceID :: string
  useTCP :: bool
  roomPassword :: string
  raceTransports :: bool
  roomKeys :: room_keys
  roomSecret :: "bytes option"
  seenMsgs :: "(string, time) gomap"
  tofuFingerprints :: "(string, string) gomap"
  tofuPath :: string
  tofuFile :: string
  pendingPings :: "(string, time) gomap"
  relayAddrs :: "(string, bool) gomap"
  kicked :: bool
  disconnected :: bool

text \<open>The managed connection registered for an address.\<close>

definition registered :: "'a cm_state_scheme \<Rightarrow> string \<Rightarrow> managed_connection option" where
  "registered s addr = map_option (mcs s) (map_of (connections s) addr)"

text \<open>
  The registry invariant: one entry per address, entries are allocated, each managed connection
  carries the address it is registered under, is not shut down, and its replay protector is
  running.
\<close>

definition registry_ok :: "'a cm_state_scheme \<Rightarrow> bool" where
  "registry_ok s \<longleftrightarrow>
     gomap (connections s) \<and>
     (\<forall>(addr, i) \<in> set (connections s).
        i < nextMC s \<and> mc_peerAddr (mcs s i) = addr \<and> \<not> mc_done (mcs s i) \<and>
        (\<forall>rp. mc_replay (mcs s i) = Some rp \<longrightarrow> \<not> rp_done rp))"

lemma registry_okD:
  assumes "registry_ok s" and "map_of (connections s) addr = Some i"
  shows "i < nextMC s" "mc_peerAddr (mcs s i) = addr" "\<not> mc_done (mcs s i)"
    "mc_replay (mcs s i) = Some rp \<Longrightarrow> \<not> rp_done rp"
  using assms by (auto simp: registry_ok_def dest!: map_of_SomeD)

lemma registry_inj:
  assumes "registry_ok s" and "map_of (connections s) a = Some i"
    and "map_of (connections s) b = Some i"
  shows "a = b"
  using registry_okD(2) [OF assms(1,2)] registry_okD(2) [OF assms(1,3)] by simp

definition set_mc :: "nat \<Rightarrow> managed_connection \<Rightarrow> 'a cm_state_scheme \<Rightarrow> 'a cm_state_scheme" where
  "set_mc i mc s = s\<lparr>mcs := (mcs s)(i := mc)\<rparr>"

end
