(* ===== verification/Conn_Manager.thy ===== *)
theory Conn_Manager
  imports Net_State
begin

text \<open>
  The operations of \<open>connection_manager.go\<close> on the connection registry: registration, removal
  and shut-down, the writer goroutine, message de-duplication, the health check, the local
  alias and relay marks, and the room keys.  Trust on first use and dialling are in \<open>Dialing\<close>,
  the reader goroutine in \<open>Client_Session\<close>.
\<close>

section \<open>Frame facts for the transport operations\<close>

lemma conn_put_cm [simp]:
  "mcs (conn_put i m s) = mcs s" "nextMC (conn_put i m s) = nextMC s"
  "connections (conn_put i m s) = connections s" "localAlias (conn_put i m s) = localAlias s"
  "roomName (conn_put i m s) = roomName s" "roomPassword (conn_put i m s) = roomPassword s"
  "roomKeys (conn_put i m s) = roomKeys s" "roomSecret (conn_put i m s) = roomSecret s"
  "seenMsgs (conn_put i m s) = seenMsgs s" "tofuFingerprints (conn_put i m s) = tofuFingerprints s"
  "pendingPings (conn_put i m s) = pendingPings s" "relayAddrs (conn_put i m s) = relayAddrs s"
  "kicked (conn_put i m s) = kicked s" "disconnected (conn_put i m s) = disconnected s"
  by (simp_all add: conn_write_def)

lemma conn_close_cm [simp]:
  "mcs (conn_close i s) = mcs s" "nextMC (conn_close i s) = nextMC s"
  "connections (conn_close i s) = connections s" "localAlias (conn_close i s) = localAlias s"
  "roomName (conn_close i s) = roomName s" "roomPassword (conn_close i s) = roomPassword s"
  "roomKeys (conn_close i s) = roomKeys s" "roomSecret (conn_close i s) = roomSecret s"
  "seenMsgs (conn_close i s) = seenMsgs s" "tofuFingerprints (conn_close i s) = tofuFingerprints s"
  "pendingPings (conn_close i s) = pendingPings s" "relayAddrs (conn_close i s) = relayAddrs s"
  "kicked (conn_close i s) = kicked s" "disconnected (conn_close i s) = disconnected s"
  by (simp_all add: conn_close_def)

lemma print_line_cm [simp]:
  "mcs (print_line t s) = mcs s" "nextMC (print_line t s) = nextMC s"
  "connections (print_line t s) = connections s" "localAlias (print_line t s) = localAlias s"
  "roomName (print_line t s) = roomName s" "roomPassword (print_line t s) = roomPassword s"
  "roomKeys (print_line t s) = roomKeys s" "roomSecret (print_line t s) = roomSecret s"
  "seenMsgs (print_line t s) = seenMsgs s" "tofuFingerprints (print_line t s) = tofuFingerprints s"
  "pendingPings (print_line t s) = pendingPings s" "relayAddrs (print_line t s) = relayAddrs s"
  "kicked (print_line t s) = kicked s" "disconnected (print_line t s) = disconnected s"
  by (simp_all add: print_line_def show_ui_def)

lemma set_mc_frame [simp]:
  "conns (set_mc i mc s) = conns s" "screen (set_mc i mc s) = screen s"
  "crashed (set_mc i mc s) = crashed s" "nextMC (set_mc i mc s) = nextMC s"
  "connections (set_mc i mc s) = connections s" "roomKeys (set_mc i mc s) = roomKeys s"
  "roomName (set_mc i mc s) = roomName s" "roomPassword (set_mc i mc s) = roomPassword s"
  "roomSecret (set_mc i mc s) = roomSecret s" "pendingPings (set_mc i mc s) = pendingPings s"
  "seenMsgs (set_mc i mc s) = seenMsgs s" "kicked (set_mc i mc s) = kicked s"
  "disconnected (set_mc i mc s) = disconnected s" "localAlias (set_mc i mc s) = localAlias s"
  "tofuFingerprints (set_mc i mc s) = tofuFingerprints s" "relayAddrs (set_mc i mc s) = relayAddrs s"
  "mcs (set_mc i mc s) = (mcs s)(i := mc)"
  by (simp_all add: set_mc_def)

lemma writable_set_mc [simp]: "writable c (set_mc i mc s) = writable c s"
  by (simp add: writable_def)

lemma writable_print_line [simp]: "writable c (print_line t s) = writable c s"
  by (simp add: writable_def)


section \<open>Construction\<close>

text \<open>
  \<open>NewConnectionManager\<close>: \<open>devID\<close>, \<open>saved\<close> and \<open>generated\<close> are the results of \<open>GetDeviceID\<close>,
  \<open>LoadAlias\<close> and \<open>generateAlias\<close>.
\<close>

definition NewConnectionManager ::
    "crypto \<Rightarrow> net \<Rightarrow> int \<Rightarrow> string \<Rightarrow> bool \<Rightarrow> string \<Rightarrow> string \<Rightarrow> string \<Rightarrow> string \<Rightarrow> string
     \<Rightarrow> cm_state" where
  "NewConnectionManager C n port room tcp password explicitAlias devID saved generated =
     \<lparr>conns = conns n, screen = screen n, crashed = crashed n,
      mcs = (\<lambda>_. newManagedConnection 0 [] 0), nextMC = 0, connections = [],
      localPort = port, roomName = room,
      localAlias = (if explicitAlias \<noteq> [] then explicitAlias
                    else if saved \<noteq> [] then saved else generated),
      deviceID = devID, useTCP = tcp, roomPassword = password, raceTransports = False,
      roomKeys = DeriveRoomKeys C room password [], roomSecret = None,
      seenMsgs = [], tofuFingerprints = [], tofuPath = [], tofuFile = [],
      pendingPings = [], relayAddrs = [], kicked = False, disconnected = False\<rparr>"


section \<open>Room keys\<close>

text \<open>The flag is \<open>err == nil\<close>: only an invalid hexadecimal secret is an error.\<close>

definition UpdateRoomKeys ::
    "crypto \<Rightarrow> string \<Rightarrow> string \<Rightarrow> string \<Rightarrow> 'a cm_state_scheme \<Rightarrow> bool \<times> 'a cm_state_scheme" where
  "UpdateRoomKeys C room password secretHex s =
     (case hex_decode secretHex of
        None \<Rightarrow> (False, s)
      | Some secret \<Rightarrow>
          (let authKey = (if password \<noteq> [] then argon2_idkey C password room
                          else AuthKey (roomKeys s))
           in (True, s\<lparr>roomSecret := Some secret, roomKeys := room_keys_from C authKey secret\<rparr>)))"

text \<open>The polling loop, over the values of \<open>roomSecret\<close> it reads before the deadline.\<close>

definition WaitForRoomKeysUpdate :: "bytes option \<Rightarrow> bytes option list \<Rightarrow> bool" where
  "WaitForRoomKeysUpdate previous polled =
     list_ex (\<lambda>secret. secret \<noteq> None \<and> (previous = None \<or> secret \<noteq> previous)) polled"

lemma UpdateRoomKeys_ok [simp]:
  "fst (UpdateRoomKeys C room pw (hex_encode sec) s)"
  "roomSecret (snd (UpdateRoomKeys C room pw (hex_encode sec) s)) = Some sec"
  by (simp_all add: UpdateRoomKeys_def Let_def)

lemma UpdateRoomKeys_keys:
  "roomKeys (snd (UpdateRoomKeys C room pw (hex_encode sec) s)) =
     room_keys_from C (if pw \<noteq> [] then argon2_idkey C pw room else AuthKey (roomKeys s)) sec"
  by (simp add: UpdateRoomKeys_def Let_def)

lemma UpdateRoomKeys_frame [simp]:
  "mcs (snd (UpdateRoomKeys C r p h s)) = mcs s"
  "nextMC (snd (UpdateRoomKeys C r p h s)) = nextMC s"
  "connections (snd (UpdateRoomKeys C r p h s)) = connections s"
  "conns (snd (UpdateRoomKeys C r p h s)) = conns s"
  "crashed (snd (UpdateRoomKeys C r p h s)) = crashed s"
  "screen (snd (UpdateRoomKeys C r p h s)) = screen s"
  "kicked (snd (UpdateRoomKeys C r p h s)) = kicked s"
  "seenMsgs (snd (UpdateRoomKeys C r p h s)) = seenMsgs s"
  by (simp_all add: UpdateRoomKeys_def Let_def split: option.split)


section \<open>Registration and removal\<close>

text \<open>Five minutes of replay protection per connection.\<close>

definition replay_window :: time where
  "replay_window = seconds 300"

definition register_mc :: "nat \<Rightarrow> string \<Rightarrow> time \<Rightarrow> 'a cm_state_scheme \<Rightarrow> 'a cm_state_scheme" where
  "register_mc conn peerAddr now s =
     (let i = nextMC s;
          mc = (newManagedConnection conn peerAddr now)
                 \<lparr>mc_replay := Some (NewReplayProtector replay_window)\<rparr>
      in s\<lparr>mcs := (mcs s)(i := mc), nextMC := Suc i,
           connections := AList.update peerAddr i (connections s)\<rparr>)"

text \<open>
  \<open>RegisterIncoming\<close>.  The code stores a first replay protector and, since \<open>roomKeys\<close> is never
  nil, at once replaces it by a second one; the state keeps the second.
\<close>

definition RegisterIncoming :: "string \<Rightarrow> nat \<Rightarrow> time \<Rightarrow> 'a cm_state_scheme \<Rightarrow> 'a cm_state_scheme" where
  "RegisterIncoming peerAddr pc now s =
     (if mapped (connections s) peerAddr then s else register_mc pc peerAddr now s)"

text \<open>Shutting one managed connection down; closing a closed replay protector panics.\<close>

definition shut_mc :: "nat \<Rightarrow> 'a cm_state_scheme \<Rightarrow> 'a cm_state_scheme" where
  "shut_mc i s =
     (let mc = mcs s i;
          s1 = set_mc i (signalClosed mc) s;
          s2 = (case mc_replay mc of
                  None \<Rightarrow> s1
                | Some rp \<Rightarrow>
                    (case replay_Close rp of
                       None \<Rightarrow> crash s1
                     | Some rp' \<Rightarrow> set_mc i ((signalClosed mc)\<lparr>mc_replay := Some rp'\<rparr>) s1))
      in conn_close (mc_conn mc) s2)"

definition removeConnection :: "string \<Rightarrow> 'a cm_state_scheme \<Rightarrow> bool \<times> 'a cm_state_scheme" where
  "removeConnection peerAddr s =
     (case map_of (connections s) peerAddr of
        None \<Rightarrow> (False, s\<lparr>pendingPings := AList.delete peerAddr (pendingPings s)\<rparr>)
      | Some i \<Rightarrow>
          (let s1 = shut_mc i s
           in (True, s1\<lparr>connections := AList.delete peerAddr (connections s1),
                        pendingPings := AList.delete peerAddr (pendingPings s1)\<rparr>)))"

text \<open>\<open>Close\<close>: every registered connection is signalled, closed and removed.\<close>

definition close_entry :: "string \<times> nat \<Rightarrow> 'a cm_state_scheme \<Rightarrow> 'a cm_state_scheme" where
  "close_entry e s =
     (let s1 = conn_close (mc_conn (mcs s (snd e))) (set_mc (snd e) (signalClosed (mcs s (snd e))) s)
      in s1\<lparr>connections := AList.delete (fst e) (connections s1)\<rparr>)"

definition cm_Close :: "'a cm_state_scheme \<Rightarrow> 'a cm_state_scheme" where
  "cm_Close s = fold close_entry (connections s) s"

definition ListConnected :: "'a cm_state_scheme \<Rightarrow> string list" where
  "ListConnected s = keys (connections s)"


section \<open>Sending through the registry\<close>

definition enqueue_at :: "nat \<Rightarrow> string \<Rightarrow> 'a cm_state_scheme \<Rightarrow> bool \<times> 'a cm_state_scheme" where
  "enqueue_at i msg s =
     (let r = mc_enqueue msg (mcs s i) in (fst r, set_mc i (snd r) s))"

definition cm_Enqueue :: "string \<Rightarrow> string \<Rightarrow> 'a cm_state_scheme \<Rightarrow> bool \<times> 'a cm_state_scheme" where
  "cm_Enqueue peerAddr msg s =
     (case map_of (connections s) peerAddr of
        None \<Rightarrow> (False, s)
      | Some i \<Rightarrow> enqueue_at i msg s)"

text \<open>\<open>SendRaw\<close>: the flag is \<open>err == nil\<close>.\<close>

definition SendRaw :: "string \<Rightarrow> string \<Rightarrow> 'a cm_state_scheme \<Rightarrow> bool \<times> 'a cm_state_scheme" where
  "SendRaw peerAddr line s =
     (case map_of (connections s) peerAddr of
        None \<Rightarrow> (False, s)
      | Some i \<Rightarrow> conn_write (mc_conn (mcs s i)) line s)"

text \<open>
  The writer goroutine.  Its \<open>select\<close> takes the closed \<open>done\<close> channel or a queued message,
  whichever is ready, and either when both are: the step relation says whether it goes on.
\<close>

definition write_batch :: "nat \<Rightarrow> 'a cm_state_scheme \<Rightarrow> bool \<times> 'a cm_state_scheme" where
  "write_batch i s =
     (let d = mc_drain (mcs s i);
          s1 = set_mc i (snd d) s;
          w = conn_write (mc_conn (mcs s i)) (concat (fst d)) s1
      in if fst w then (True, snd w)
         else (False, snd (removeConnection (mc_peerAddr (mcs s i)) (snd w))))"

inductive writeLoop :: "nat \<Rightarrow> 'a cm_state_scheme \<Rightarrow> bool \<Rightarrow> 'a cm_state_scheme \<Rightarrow> bool" where
  stop: "mc_done (mcs s i) \<Longrightarrow> writeLoop i s False s"
| batch: "mc_out (mcs s i) \<noteq> [] \<Longrightarrow> write_batch i s = (go_on, s') \<Longrightarrow> writeLoop i s go_on s'"

inductive_cases writeLoopE: "writeLoop i s go_on s'"


section \<open>Message de-duplication\<close>

definition msg_hash :: "crypto \<Rightarrow> string \<Rightarrow> string \<Rightarrow> string" where
  "msg_hash C sender message = hex_encode (take 8 (sha256_sum C (sender @ [pipe] @ message)))"

definition IsDuplicate ::
    "crypto \<Rightarrow> string \<Rightarrow> string \<Rightarrow> time \<Rightarrow> 'a cm_state_scheme \<Rightarrow> bool \<times> 'a cm_state_scheme" where
  "IsDuplicate C sender message now s =
     (let h = msg_hash C sender message
      in if mapped (seenMsgs s) h then (True, s)
         else (False, s\<lparr>seenMsgs := AList.update h now (seenMsgs s)\<rparr>))"

text \<open>One tick of \<open>cleanupSeenMsgs\<close>.\<close>

definition cleanupSeenMsgs :: "time \<Rightarrow> 'a cm_state_scheme \<Rightarrow> 'a cm_state_scheme" where
  "cleanupSeenMsgs now s =
     (let cutoff = now - seconds 60
      in s\<lparr>seenMsgs := filter (\<lambda>(h, ts). \<not> ts < cutoff) (seenMsgs s)\<rparr>)"

text \<open>The message cache satisfies the contract of \<open>Seen_Cache\<close>, with keys hashed first.\<close>

definition note_hash :: "string \<Rightarrow> time \<Rightarrow> 'a cm_state_scheme \<Rightarrow> bool \<times> 'a cm_state_scheme" where
  "note_hash h now s =
     (if mapped (seenMsgs s) h then (False, s)
      else (True, s\<lparr>seenMsgs := AList.update h now (seenMsgs s)\<rparr>))"

lemma IsDuplicate_note:
  "IsDuplicate C a m now s =
     (\<not> fst (note_hash (msg_hash C a m) now s), snd (note_hash (msg_hash C a m) now s))"
  by (simp add: IsDuplicate_def note_hash_def Let_def)

interpretation dedup: seen_cache note_hash cleanupSeenMsgs "\<lambda>s. map_of (seenMsgs s)"
    "\<lambda>_. seconds 60" "\<lambda>s. gomap (seenMsgs s)"
  by unfold_locales
    (auto simp: note_hash_def cleanupSeenMsgs_def Let_def map_of_filter fun_eq_iff
       split: option.splits)

lemma IsDuplicate_frame [simp]:
  "conns (snd (IsDuplicate C a m t s)) = conns s" "screen (snd (IsDuplicate C a m t s)) = screen s"
  "crashed (snd (IsDuplicate C a m t s)) = crashed s" "mcs (snd (IsDuplicate C a m t s)) = mcs s"
  "connections (snd (IsDuplicate C a m t s)) = connections s"
  "nextMC (snd (IsDuplicate C a m t s)) = nextMC s"
  "roomKeys (snd (IsDuplicate C a m t s)) = roomKeys s"
  "kicked (snd (IsDuplicate C a m t s)) = kicked s"
  by (simp_all add: IsDuplicate_def Let_def)


section \<open>Alias and relay marks\<close>

definition ClearPing :: "string \<Rightarrow> 'a cm_state_scheme \<Rightarrow> 'a cm_state_scheme" where
  "ClearPing addr s = s\<lparr>pendingPings := AList.delete addr (pendingPings s)\<rparr>"

definition GetLocalAlias :: "'a cm_state_scheme \<Rightarrow> string" where
  "GetLocalAlias s = localAlias s"

definition SetLocalAlias :: "string \<Rightarrow> 'a cm_state_scheme \<Rightarrow> 'a cm_state_scheme" where
  "SetLocalAlias alias s = s\<lparr>localAlias := sanitiseField alias\<rparr>"

definition MarkRelay :: "string \<Rightarrow> 'a cm_state_scheme \<Rightarrow> 'a cm_state_scheme" where
  "MarkRelay addr s = s\<lparr>relayAddrs := AList.update addr True (relayAddrs s)\<rparr>"

text \<open>The zero value \<open>false\<close> for an address that was never marked.\<close>

definition IsRelayPeer :: "string \<Rightarrow> 'a cm_state_scheme \<Rightarrow> bool" where
  "IsRelayPeer addr s = (map_of (relayAddrs s) addr = Some True)"

definition GetRelayAddrs :: "'a cm_state_scheme \<Rightarrow> string list" where
  "GetRelayAddrs s = keys (relayAddrs s)"


section \<open>The health check\<close>

text \<open>
  One tick.  Over a snapshot of the registry, an address with an unanswered ping of more than
  ten seconds is dead, one with a younger ping is left alone, every other one is marked as
  pinged.  Then the dead ones are removed, and each address to ping is looked up again and
  written to; a failed write removes it.
\<close>

definition ping_timeout :: time where
  "ping_timeout = seconds 10"

fun scan_pings ::
    "time \<Rightarrow> string list \<Rightarrow> (string, time) gomap \<Rightarrow> string list \<times> string list \<times> (string, time) gomap" where
  "scan_pings now [] pending = ([], [], pending)"
| "scan_pings now (addr # addrs) pending =
     (case map_of pending addr of
        Some sent \<Rightarrow>
          (let r = scan_pings now addrs pending
           in (if ping_timeout < now - sent then addr # fst r else fst r, fst (snd r), snd (snd r)))
      | None \<Rightarrow>
          (let r = scan_pings now addrs (AList.update addr now pending)
           in (fst r, addr # fst (snd r), snd (snd r))))"

definition drop_dead :: "string \<Rightarrow> 'a cm_state_scheme \<Rightarrow> 'a cm_state_scheme" where
  "drop_dead addr s =
     (let s1 = ClearPing addr s;
          s2 = print_line (formatSystemMessage (addr @ '' disconnected (no response to ping)'')) s1
      in snd (removeConnection addr s2))"

definition send_ping :: "string \<Rightarrow> 'a cm_state_scheme \<Rightarrow> 'a cm_state_scheme" where
  "send_ping addr s =
     (case map_of (connections s) addr of
        None \<Rightarrow> ClearPing addr s
      | Some i \<Rightarrow>
          (let w = conn_write (mc_conn (mcs s i)) (''PING'' @ [newline]) s
           in if fst w then snd w else snd (removeConnection addr (ClearPing addr (snd w)))))"

definition healthCheck :: "time \<Rightarrow> 'a cm_state_scheme \<Rightarrow> 'a cm_state_scheme" where
  "healthCheck now s =
     (case scan_pings now (keys (connections s)) (pendingPings s) of
        (dead, ping, p) \<Rightarrow>
          fold send_ping ping (fold drop_dead dead (s\<lparr>pendingPings := p\<rparr>)))"

end
