(* ===== verification/Conn_Invariants.thy ===== *)
theory Conn_Invariants
  imports Conn_Manager
begin

text \<open>
  What the registry operations of \<open>Conn_Manager\<close> keep and achieve: the registry invariant and
  the absence of panics, removal and its effect on the transport, the order of the writer's
  output, and which peers a health check removes.
\<close>

section \<open>The invariant\<close>

definition cm_ok :: "'a cm_state_scheme \<Rightarrow> bool" where
  "cm_ok s \<longleftrightarrow> registry_ok s \<and> \<not> crashed s"

lemma registry_ok_cong:
  "connections s' = connections s \<Longrightarrow> mcs s' = mcs s \<Longrightarrow> nextMC s' = nextMC s \<Longrightarrow>
   registry_ok s' = registry_ok s"
  by (simp add: registry_ok_def)

lemma cm_ok_cong:
  "connections s' = connections s \<Longrightarrow> mcs s' = mcs s \<Longrightarrow> nextMC s' = nextMC s \<Longrightarrow>
   crashed s' = crashed s \<Longrightarrow> cm_ok s' = cm_ok s"
  by (simp add: cm_ok_def registry_ok_def)

lemma cm_ok_registry: "cm_ok s \<Longrightarrow> registry_ok s"
  by (simp add: cm_ok_def)

lemma cm_ok_conn_put [simp]: "cm_ok (conn_put i m s) = cm_ok s"
  by (rule cm_ok_cong) simp_all

lemma cm_ok_conn_close [simp]: "cm_ok (conn_close i s) = cm_ok s"
  by (rule cm_ok_cong) simp_all

lemma cm_ok_print_line [simp]: "cm_ok (print_line t s) = cm_ok s"
  by (rule cm_ok_cong) simp_all

lemma cm_ok_UpdateRoomKeys [simp]: "cm_ok (snd (UpdateRoomKeys C r p h s)) = cm_ok s"
  by (rule cm_ok_cong) simp_all

lemma cm_ok_IsDuplicate [simp]: "cm_ok (snd (IsDuplicate C a m t s)) = cm_ok s"
  by (rule cm_ok_cong) simp_all

lemma cm_ok_ClearPing [simp]: "cm_ok (ClearPing a s) = cm_ok s"
  by (rule cm_ok_cong) (simp_all add: ClearPing_def)

lemma cm_ok_fields [simp]:
  "cm_ok (s\<lparr>pendingPings := p\<rparr>) = cm_ok s" "cm_ok (s\<lparr>kicked := b\<rparr>) = cm_ok s"
  "cm_ok (s\<lparr>disconnected := b\<rparr>) = cm_ok s" "cm_ok (s\<lparr>localAlias := a\<rparr>) = cm_ok s"
  "cm_ok (s\<lparr>relayAddrs := ra\<rparr>) = cm_ok s" "cm_ok (s\<lparr>roomPassword := pw\<rparr>) = cm_ok s"
  "cm_ok (s\<lparr>seenMsgs := sm\<rparr>) = cm_ok s" "cm_ok (s\<lparr>tofuFingerprints := tf\<rparr>) = cm_ok s"
  "cm_ok (s\<lparr>tofuFile := tx\<rparr>) = cm_ok s"
  by (rule cm_ok_cong; simp)+

lemma cm_ok_New [simp]:
  "\<not> crashed n \<Longrightarrow> cm_ok (NewConnectionManager C n port r tcp pw ea d sv g)"
  by (simp add: cm_ok_def registry_ok_def NewConnectionManager_def)

text \<open>An update of a managed connection that keeps what the invariant reads.\<close>

lemma cm_ok_set_mc:
  assumes "cm_ok s" and "mc_peerAddr mc = mc_peerAddr (mcs s i)"
    and "mc_done mc = mc_done (mcs s i)"
    and "\<And>rp'. mc_replay mc = Some rp' \<Longrightarrow>
           \<exists>rp. mc_replay (mcs s i) = Some rp \<and> rp_done rp' = rp_done rp"
  shows "cm_ok (set_mc i mc s)"
  using assms unfolding cm_ok_def registry_ok_def by (fastforce split: if_splits)

lemma cm_ok_enqueue_at [simp]: "cm_ok s \<Longrightarrow> cm_ok (snd (enqueue_at i m s))"
  by (auto simp: enqueue_at_def Let_def intro!: cm_ok_set_mc)


section \<open>Registration\<close>

lemma register_mc_sel [simp]:
  "connections (register_mc c a t s) = AList.update a (nextMC s) (connections s)"
  "nextMC (register_mc c a t s) = Suc (nextMC s)"
  "conns (register_mc c a t s) = conns s" "crashed (register_mc c a t s) = crashed s"
  "screen (register_mc c a t s) = screen s" "pendingPings (register_mc c a t s) = pendingPings s"
  "mc_conn (mcs (register_mc c a t s) (nextMC s)) = c"
  "mc_out (mcs (register_mc c a t s) (nextMC s)) = []"
  "mc_done (mcs (register_mc c a t s) (nextMC s)) = False"
  "i \<noteq> nextMC s \<Longrightarrow> mcs (register_mc c a t s) i = mcs s i"
  by (simp_all add: register_mc_def Let_def newManagedConnection_def)

lemma cm_ok_register_mc:
  assumes "cm_ok s" and "\<not> mapped (connections s) a"
  shows "cm_ok (register_mc c a t s)"
proof -
  have new: "connections (register_mc c a t s) = connections s @ [(a, nextMC s)]"
    using assms(2) by (simp add: set_update_new)
  have old: "i \<noteq> nextMC s" if "(b, i) \<in> set (connections s)" for b i
    using assms(1) that by (auto simp: cm_ok_def registry_ok_def)
  have "gomap (connections (register_mc c a t s))"
    using assms(1) by (simp add: cm_ok_def registry_ok_def)
  moreover have "mc_peerAddr (mcs (register_mc c a t s) (nextMC s)) = a"
    "mc_replay (mcs (register_mc c a t s) (nextMC s)) = Some (NewReplayProtector replay_window)"
    by (simp_all add: register_mc_def Let_def newManagedConnection_def)
  ultimately show ?thesis
    using assms(1) old unfolding cm_ok_def registry_ok_def new
    by (fastforce simp: NewReplayProtector_def)
qed

lemma cm_ok_RegisterIncoming [simp]: "cm_ok s \<Longrightarrow> cm_ok (RegisterIncoming a c t s)"
  by (auto simp: RegisterIncoming_def intro: cm_ok_register_mc)

lemma RegisterIncoming_mapped: "mapped (connections (RegisterIncoming a c t s)) a"
  by (simp add: RegisterIncoming_def)


section \<open>Removal\<close>

lemma shut_mc_frame [simp]:
  "connections (shut_mc i s) = connections s" "nextMC (shut_mc i s) = nextMC s"
  "pendingPings (shut_mc i s) = pendingPings s" "screen (shut_mc i s) = screen s"
  "roomKeys (shut_mc i s) = roomKeys s" "seenMsgs (shut_mc i s) = seenMsgs s"
  "kicked (shut_mc i s) = kicked s" "disconnected (shut_mc i s) = disconnected s"
  "localAlias (shut_mc i s) = localAlias s" "roomSecret (shut_mc i s) = roomSecret s"
  "roomName (shut_mc i s) = roomName s" "roomPassword (shut_mc i s) = roomPassword s"
  "tofuFingerprints (shut_mc i s) = tofuFingerprints s" "relayAddrs (shut_mc i s) = relayAddrs s"
  by (simp_all add: shut_mc_def Let_def crash_def split: option.split)

lemma shut_mc_conns:
  "conns (shut_mc i s) =
     (conns s)(mc_conn (mcs s i) := (conns s (mc_conn (mcs s i)))\<lparr>c_closed := True\<rparr>)"
  by (simp add: shut_mc_def Let_def conn_close_def crash_def split: option.split)

lemma shut_mc_other [simp]: "j \<noteq> i \<Longrightarrow> mcs (shut_mc i s) j = mcs s j"
  by (simp add: shut_mc_def Let_def crash_def split: option.split)

lemma shut_mc_self [simp]:
  "mc_peerAddr (mcs (shut_mc i s) i) = mc_peerAddr (mcs s i)"
  "mc_conn (mcs (shut_mc i s) i) = mc_conn (mcs s i)"
  "mc_out (mcs (shut_mc i s) i) = mc_out (mcs s i)"
  "mc_lastAuthErr (mcs (shut_mc i s) i) = mc_lastAuthErr (mcs s i)"
  "mc_done (mcs (shut_mc i s) i)"
  by (simp_all add: shut_mc_def Let_def crash_def signalClosed_def split: option.split)

lemma shut_mc_crashed:
  assumes "\<And>rp. mc_replay (mcs s i) = Some rp \<Longrightarrow> \<not> rp_done rp"
  shows "crashed (shut_mc i s) = crashed s"
  using assms by (auto simp: shut_mc_def Let_def replay_Close_def split: option.split)

lemma removeConnection_connections [simp]:
  "connections (snd (removeConnection a s)) = AList.delete a (connections s)"
  by (auto simp: removeConnection_def Let_def delete_notin_dom map_of_eq_None_iff
     intro: AList.delete_id split: option.split)

lemma removeConnection_pending [simp]:
  "pendingPings (snd (removeConnection a s)) = AList.delete a (pendingPings s)"
  by (simp add: removeConnection_def Let_def split: option.split)

lemma removeConnection_found [simp]:
  "fst (removeConnection a s) = mapped (connections s) a"
  by (simp add: removeConnection_def Let_def split: option.split)

lemma removeConnection_frame [simp]:
  "nextMC (snd (removeConnection a s)) = nextMC s"
  "screen (snd (removeConnection a s)) = screen s"
  "roomKeys (snd (removeConnection a s)) = roomKeys s"
  "seenMsgs (snd (removeConnection a s)) = seenMsgs s"
  "kicked (snd (removeConnection a s)) = kicked s"
  "localAlias (snd (removeConnection a s)) = localAlias s"
  "roomSecret (snd (removeConnection a s)) = roomSecret s"
  by (simp_all add: removeConnection_def Let_def split: option.split)

lemma removeConnection_other_mc:
  "map_of (connections s) a \<noteq> Some j \<Longrightarrow> mcs (snd (removeConnection a s)) j = mcs s j"
  by (auto simp: removeConnection_def Let_def split: option.split)

lemma cm_ok_removeConnection [simp]:
  assumes "cm_ok s"
  shows "cm_ok (snd (removeConnection a s))"
proof (cases "map_of (connections s) a")
  case None
  then show ?thesis using assms by (simp add: removeConnection_def)
next
  case (Some i)
  let ?s' = "snd (removeConnection a s)"
  have reg: "registry_ok s" and nc: "\<not> crashed s" using assms by (simp_all add: cm_ok_def)
  have other: "mcs ?s' j = mcs s j" if "(b, j) \<in> set (connections s)" "b \<noteq> a" for b j
  proof (rule removeConnection_other_mc)
    have "map_of (connections s) b = Some j"
      using reg that by (simp add: registry_ok_def gomap_map_of_iff)
    then show "map_of (connections s) a \<noteq> Some j" using registry_inj [OF reg] that(2) by blast
  qed
  have "gomap (connections ?s')" using reg by (simp add: registry_ok_def)
  moreover have "\<forall>(b, j) \<in> set (connections ?s').
      j < nextMC ?s' \<and> mc_peerAddr (mcs ?s' j) = b \<and> \<not> mc_done (mcs ?s' j) \<and>
      (\<forall>rp. mc_replay (mcs ?s' j) = Some rp \<longrightarrow> \<not> rp_done rp)"
    using reg other by (fastforce simp: registry_ok_def set_delete)
  moreover have "\<not> crashed ?s'"
    using nc registry_okD(4) [OF reg Some] by (simp add: removeConnection_def Some Let_def shut_mc_crashed)
  ultimately show ?thesis by (simp add: cm_ok_def registry_ok_def)
qed

lemma removeConnection_closes:
  "map_of (connections s) a = Some i \<Longrightarrow>
   c_closed (conns (snd (removeConnection a s)) (mc_conn (mcs s i)))"
  by (simp add: removeConnection_def Let_def shut_mc_conns)

lemma removeConnection_conns:
  "conns (snd (removeConnection a s)) =
     (case map_of (connections s) a of
        None \<Rightarrow> conns s
      | Some i \<Rightarrow> (conns s)(mc_conn (mcs s i) := (conns s (mc_conn (mcs s i)))\<lparr>c_closed := True\<rparr>))"
  by (simp add: removeConnection_def Let_def shut_mc_conns split: option.split)

lemma removeConnection_sent [simp]:
  "c_sent (conns (snd (removeConnection a s)) c) = c_sent (conns s c)"
  by (simp add: removeConnection_conns split: option.split)


section \<open>Shutting down\<close>

lemma close_entry_frame [simp]:
  "crashed (close_entry e s) = crashed s" "nextMC (close_entry e s) = nextMC s"
  "connections (close_entry e s) = AList.delete (fst e) (connections s)"
  by (simp_all add: close_entry_def Let_def)

lemma fold_close_connections:
  "connections (fold close_entry es s) =
     filter (\<lambda>(k, v). k \<notin> fst ` set es) (connections s)"
proof (induction es arbitrary: s)
  case Nil
  then show ?case by (simp add: filter_id_conv)
next
  case (Cons e es)
  show ?case
    by (simp add: Cons AList.delete_eq) (rule filter_cong; auto)
qed

lemma cm_Close_empty: "connections (cm_Close s) = []"
  by (auto simp: cm_Close_def fold_close_connections filter_empty_conv intro: rev_image_eqI)

lemma cm_Close_crashed: "crashed (cm_Close s) = crashed s"
  unfolding cm_Close_def by (rule fold_field) simp

lemma cm_ok_Close [simp]: "cm_ok s \<Longrightarrow> cm_ok (cm_Close s)"
  by (simp add: cm_ok_def cm_Close_crashed registry_ok_def cm_Close_empty)


section \<open>The writer\<close>

text \<open>
  Everything accepted for a connection, in order: what the transport has taken, as one text,
  then what still waits in the queue.
\<close>

definition accepted_text :: "'a cm_state_scheme \<Rightarrow> nat \<Rightarrow> string" where
  "accepted_text s i =
     concat (c_sent (conns s (mc_conn (mcs s i)))) @ concat (mc_out (mcs s i))"

lemma write_batch_text:
  assumes "writable (mc_conn (mcs s i)) s"
  shows "accepted_text (snd (write_batch i s)) i = accepted_text s i"
    and "mc_out (mcs (snd (write_batch i s)) i) = []" and "fst (write_batch i s)"
  using assms
  by (simp_all add: write_batch_def Let_def mc_drain_def accepted_text_def conn_put_sent)

lemma cm_ok_write_batch: "cm_ok s \<Longrightarrow> cm_ok (snd (write_batch i s))"
  by (auto simp: write_batch_def Let_def mc_drain_def
     intro!: cm_ok_set_mc cm_ok_removeConnection cm_ok_conn_put [THEN iffD2])

lemma cm_ok_writeLoop: "writeLoop i s b s' \<Longrightarrow> cm_ok s \<Longrightarrow> cm_ok s'"
  by (erule writeLoopE) (auto dest: cm_ok_write_batch [of s i])

lemma enqueue_at_text:
  assumes "fst (enqueue_at i m s)"
  shows "accepted_text (snd (enqueue_at i m s)) i = accepted_text s i @ m"
  using assms
  by (auto simp: enqueue_at_def Let_def accepted_text_def mcq.enq_queued split: if_splits)


section \<open>The health check\<close>

definition overdue :: "time \<Rightarrow> (string, time) gomap \<Rightarrow> string \<Rightarrow> bool" where
  "overdue now p a = (case map_of p a of None \<Rightarrow> False | Some t \<Rightarrow> ping_timeout < now - t)"

lemma overdue_update [simp]: "b \<noteq> a \<Longrightarrow> overdue now (AList.update a t p) b = overdue now p b"
  by (simp add: overdue_def)

lemma filter_overdue_update:
  "a \<notin> set addrs \<Longrightarrow> filter (overdue now (AList.update a t p)) addrs = filter (overdue now p) addrs"
  by (rule filter_cong [OF refl]) (metis overdue_update)

lemma filter_unpinged_update:
  "a \<notin> set addrs \<Longrightarrow>
     filter (\<lambda>b. \<not> mapped (AList.update a t p) b) addrs = filter (\<lambda>b. \<not> mapped p b) addrs"
  by (rule filter_cong) auto

lemma scan_pings_dead:
  "distinct addrs \<Longrightarrow> fst (scan_pings now addrs p) = filter (overdue now p) addrs"
  by (induction now addrs p rule: scan_pings.induct)
    (auto simp: Let_def filter_overdue_update overdue_def split: option.split)

lemma scan_pings_ping:
  "distinct addrs \<Longrightarrow> fst (snd (scan_pings now addrs p)) = filter (\<lambda>a. \<not> mapped p a) addrs"
proof (induction now addrs p rule: scan_pings.induct)
  case (1 now p)
  then show ?case by simp
next
  case (2 now a addrs p)
  then show ?case
    using filter_unpinged_update [of a addrs now p] by (auto simp: Let_def split: option.split)
qed

lemma scan_pings_pending:
  "map_of (snd (snd (scan_pings now addrs p))) a =
     (if a \<in> set addrs \<and> \<not> mapped p a then Some now else map_of p a)"
  by (induction now addrs p rule: scan_pings.induct) (auto simp: Let_def split: option.splits)

lemma cm_ok_drop_dead [simp]: "cm_ok s \<Longrightarrow> cm_ok (drop_dead a s)"
  by (simp add: drop_dead_def Let_def)

lemma cm_ok_send_ping [simp]: "cm_ok s \<Longrightarrow> cm_ok (send_ping a s)"
  by (simp add: send_ping_def Let_def split: option.split)

lemma cm_ok_fold_drop_dead: "cm_ok s \<Longrightarrow> cm_ok (fold drop_dead ds s)"
  by (rule fold_preserves) auto

lemma cm_ok_fold_send_ping: "cm_ok s \<Longrightarrow> cm_ok (fold send_ping as s)"
  by (rule fold_preserves) auto

lemma cm_ok_healthCheck [simp]: "cm_ok s \<Longrightarrow> cm_ok (healthCheck now s)"
  by (auto simp: healthCheck_def split: prod.split
     intro!: cm_ok_fold_send_ping cm_ok_fold_drop_dead)

lemma drop_dead_connections [simp]:
  "connections (drop_dead a s) = AList.delete a (connections s)"
  by (simp add: drop_dead_def Let_def ClearPing_def)

lemma fold_drop_dead_connections:
  "connections (fold drop_dead ds s) = filter (\<lambda>(k, v). k \<notin> set ds) (connections s)"
proof (induction ds arbitrary: s)
  case Nil
  then show ?case by (simp add: filter_id_conv)
next
  case (Cons d ds)
  show ?case
    by (simp add: Cons AList.delete_eq) (rule filter_cong; auto)
qed

text \<open>A ping never adds an entry, and removes one only when its transport refuses the write.\<close>

lemma send_ping_connections:
  "connections (send_ping a s) =
     (case map_of (connections s) a of
        None \<Rightarrow> connections s
      | Some i \<Rightarrow> if writable (mc_conn (mcs s i)) s then connections s
                  else AList.delete a (connections s))"
  by (simp add: send_ping_def Let_def ClearPing_def split: option.split)

lemma send_ping_mapped: "mapped (connections (send_ping a s)) b \<Longrightarrow> mapped (connections s) b"
  by (auto simp: send_ping_connections split: option.splits if_splits)

lemma fold_send_ping_mapped:
  "mapped (connections (fold send_ping as s)) b \<Longrightarrow> mapped (connections s) b"
proof (induction as arbitrary: s)
  case Nil
  then show ?case by simp
next
  case (Cons a as)
  then have "mapped (connections (send_ping a s)) b" by simp
  then show ?case by (rule send_ping_mapped)
qed

text \<open>An address whose ping has gone unanswered for too long is gone after the tick.\<close>

lemma healthCheck_removes_dead:
  assumes "cm_ok s" and "overdue now (pendingPings s) a"
  shows "\<not> mapped (connections (healthCheck now s)) a"
proof
  assume m: "mapped (connections (healthCheck now s)) a"
  obtain d g p where sc: "scan_pings now (keys (connections s)) (pendingPings s) = (d, g, p)"
    by (metis prod_cases3)
  let ?s1 = "fold drop_dead d (s\<lparr>pendingPings := p\<rparr>)"
  from m have "mapped (connections (fold send_ping g ?s1)) a" by (simp add: healthCheck_def sc)
  then have m1: "mapped (connections ?s1) a" by (rule fold_send_ping_mapped)
  have "distinct (keys (connections s))"
    using assms(1) by (simp add: cm_ok_def registry_ok_def gomap_def)
  then have d: "d = filter (overdue now (pendingPings s)) (keys (connections s))"
    using scan_pings_dead [of "keys (connections s)" now "pendingPings s"] by (simp add: sc)
  from m1 have "a \<in> set (keys (connections ?s1))" unfolding mapped_keys .
  then have "a \<in> set (keys (connections s))" and "a \<notin> set d"
    by (auto simp: fold_drop_dead_connections)
  with assms(2) show False by (simp add: d)
qed

text \<open>The registry after the pings, when every transport of the snapshot still takes writes.\<close>

lemma fold_send_ping_live:
  assumes "\<forall>i. writable (mc_conn (mcs s i)) s \<or> (\<forall>a \<in> set as. map_of (connections s) a \<noteq> Some i)"
  shows "connections (fold send_ping as s) = connections s \<and> mcs (fold send_ping as s) = mcs s"
  using assms
proof (induction as arbitrary: s)
  case Nil
  then show ?case by simp
next
  case (Cons a as)
  have keep: "connections (send_ping a s) = connections s \<and> mcs (send_ping a s) = mcs s \<and>
      (\<forall>c. writable c (send_ping a s) = writable c s)"
  proof (cases "map_of (connections s) a")
    case None
    then show ?thesis by (simp add: send_ping_def ClearPing_def writable_def)
  next
    case (Some i)
    with Cons.prems have "writable (mc_conn (mcs s i)) s" by auto
    then show ?thesis by (simp add: send_ping_def Some)
  qed
  then have "\<forall>i. writable (mc_conn (mcs (send_ping a s) i)) (send_ping a s) \<or>
      (\<forall>b \<in> set as. map_of (connections (send_ping a s)) b \<noteq> Some i)"
    using Cons.prems by auto
  from Cons.IH [OF this] keep show ?case by simp
qed

text \<open>
  With no ping overdue and every registered transport working, a tick removes nobody.
\<close>

lemma healthCheck_quiet:
  assumes ok: "cm_ok s"
    and live: "\<forall>a i. map_of (connections s) a = Some i \<longrightarrow> writable (mc_conn (mcs s i)) s"
    and young: "\<forall>a. \<not> overdue now (pendingPings s) a"
  shows "connections (healthCheck now s) = connections s"
proof -
  obtain d g p where sc: "scan_pings now (keys (connections s)) (pendingPings s) = (d, g, p)"
    by (metis prod_cases3)
  have dist: "distinct (keys (connections s))"
    using ok by (simp add: cm_ok_def registry_ok_def gomap_def)
  have d: "d = []"
    using scan_pings_dead [OF dist, of now "pendingPings s"] young by (simp add: sc)
  let ?s = "s\<lparr>pendingPings := p\<rparr>"
  have "\<forall>i. writable (mc_conn (mcs ?s i)) ?s \<or> (\<forall>a \<in> set g. map_of (connections ?s) a \<noteq> Some i)"
    using live by (auto simp: writable_def)
  from fold_send_ping_live [OF this] show ?thesis by (simp add: healthCheck_def sc d)
qed

end
