(* ===== verification/Dialing.thy ===== *)
theory Dialing
  imports Conn_Invariants
begin

text \<open>
  Outgoing connections of \<open>connection_manager.go\<close>: trust on first use (\<open>checkAndPin\<close>, the
  known-peers file), the three ways to dial, \<open>getOrCreate\<close> with its \<open>JOIN\<close> handshake, and
  \<open>Send\<close>.

  What the network answers to a dial is a \<open>dial_env\<close> argument: the result of each transport's
  connect, the certificates presented, any other handshake error.  The certificate callback runs
  inside the handshake, as \<open>VerifyPeerCertificate\<close> does.  \<open>getOrCreate\<close> releases its lock while
  it waits for the room secret, so it is two operations, \<open>getOrCreate_begin\<close> and
  \<open>getOrCreate_finish\<close>; the lines \<open>readLoop\<close> handles in between are operations of
  \<open>Client_Session\<close>.
\<close>

section \<open>Trust on first use\<close>

text \<open>\<open>store_ok\<close> says whether the append to the store succeeds; a failure is only logged.\<close>

definition appendKnownPeer ::
    "bool \<Rightarrow> string \<Rightarrow> string \<Rightarrow> 'a cm_state_scheme \<Rightarrow> 'a cm_state_scheme" where
  "appendKnownPeer store_ok addr fpHex s =
     (if store_ok then s\<lparr>tofuFile := tofuFile s @ addr @ '' '' @ fpHex @ [newline]\<rparr> else s)"

definition checkAndPin ::
    "bool \<Rightarrow> string \<Rightarrow> string \<Rightarrow> 'a cm_state_scheme \<Rightarrow> string option \<times> 'a cm_state_scheme" where
  "checkAndPin store_ok peerAddr fpHex s =
     (case map_of (tofuFingerprints s) peerAddr of
        Some known \<Rightarrow>
          (if known \<noteq> fpHex
           then (Some (''TOFU: certificate fingerprint mismatch for '' @ peerAddr @
                       '' (possible MITM): pinned '' @ known @ '', got '' @ fpHex), s)
           else (None, s))
      | None \<Rightarrow>
          (let s1 = s\<lparr>tofuFingerprints := AList.update peerAddr fpHex (tofuFingerprints s)\<rparr>
           in (None, if tofuPath s1 \<noteq> [] then appendKnownPeer store_ok peerAddr fpHex s1 else s1)))"

text \<open>The contract of a pin store: the first fingerprint of an address is the only one ever taken.\<close>

locale pin_store =
  fixes check :: "'addr \<Rightarrow> 'fp \<Rightarrow> 's \<Rightarrow> bool \<times> 's"
    and pinned :: "'s \<Rightarrow> 'addr \<Rightarrow> 'fp option"
  assumes check_new:
      "pinned s a = None \<Longrightarrow> fst (check a f s) \<and> pinned (snd (check a f s)) = (pinned s)(a \<mapsto> f)"
    and check_known:
      "pinned s a = Some g \<Longrightarrow> check a f s = (f = g, s)"
begin

lemma check_keeps: "pinned s a = Some g \<Longrightarrow> pinned (snd (check b f s)) a = Some g"
proof (cases "pinned s b")
  case None
  assume "pinned s a = Some g"
  with None check_new [OF None, of f] show ?thesis by auto
qed (simp add: check_known)

lemma pins_stable:
  "pinned s a = Some g \<Longrightarrow> pinned (fold (\<lambda>(b, f) s. snd (check b f s)) es s) a = Some g"
  by (induction es arbitrary: s) (auto intro: check_keeps)

text \<open>After a first contact, only the same fingerprint passes, whatever happened in between.\<close>

lemma only_first_accepted:
  assumes "pinned s a = None"
  shows "fst (check a f (fold (\<lambda>(b, f) s. snd (check b f s)) es (snd (check a g s)))) \<longleftrightarrow> f = g"
proof -
  have "pinned (snd (check a g s)) a = Some g" using check_new [OF assms] by simp
  then have "pinned (fold (\<lambda>(b, f) s. snd (check b f s)) es (snd (check a g s))) a = Some g"
    by (rule pins_stable)
  then show ?thesis by (simp add: check_known)
qed

end

definition pin_accepts :: "bool \<Rightarrow> string \<Rightarrow> string \<Rightarrow> 'a cm_state_scheme \<Rightarrow> bool \<times> 'a cm_state_scheme" where
  "pin_accepts w a f s = (fst (checkAndPin w a f s) = None, snd (checkAndPin w a f s))"

lemma checkAndPin_fingerprints:
  "tofuFingerprints (snd (checkAndPin w a f s)) =
     (if mapped (tofuFingerprints s) a then tofuFingerprints s
      else AList.update a f (tofuFingerprints s))"
  by (auto simp: checkAndPin_def appendKnownPeer_def Let_def split: option.split)

interpretation tofu: pin_store "pin_accepts w" "\<lambda>s. map_of (tofuFingerprints s)" for w
  by unfold_locales
    (auto simp: pin_accepts_def checkAndPin_fingerprints fun_eq_iff checkAndPin_def
       appendKnownPeer_def Let_def
       split: if_splits)

lemma cm_ok_checkAndPin [simp]: "cm_ok (snd (checkAndPin w a f s)) = cm_ok s"
  by (auto simp: checkAndPin_def appendKnownPeer_def Let_def split: option.split)

lemma checkAndPin_frame [simp]:
  "connections (snd (checkAndPin w a f s)) = connections s"
  "conns (snd (checkAndPin w a f s)) = conns s" "mcs (snd (checkAndPin w a f s)) = mcs s"
  "nextMC (snd (checkAndPin w a f s)) = nextMC s"
  by (auto simp: checkAndPin_def appendKnownPeer_def Let_def split: option.split)


section \<open>The known-peers file\<close>

text \<open>\<open>bufio.ScanLines\<close>: no trailing empty line, a trailing carriage return removed.\<close>

definition raw_lines :: "string \<Rightarrow> string list" where
  "raw_lines text =
     (let ps = split_on newline text in if last ps = [] then butlast ps else ps)"

definition drop_cr :: "string \<Rightarrow> string" where
  "drop_cr l = (if l \<noteq> [] \<and> last l = carriage_return then butlast l else l)"

definition pin_of_line :: "string \<Rightarrow> (string \<times> string) option" where
  "pin_of_line l =
     (let t = trim_space l
      in if t = [] \<or> has_prefix t ''#'' then None
         else (case str_fields t of a # f # _ \<Rightarrow> Some (a, f) | _ \<Rightarrow> None))"

datatype file_read = FileMissing | FileError | FileText string

text \<open>The scanner's limit on a line (64 KiB); reading stops with an error at a longer one.\<close>

definition max_token :: nat where
  "max_token = 65536"

definition load_pin :: "string \<Rightarrow> (string, string) gomap \<Rightarrow> (string, string) gomap" where
  "load_pin l m =
     (case pin_of_line (drop_cr l) of None \<Rightarrow> m | Some (a, f) \<Rightarrow> AList.update a f m)"

definition LoadKnownPeers ::
    "string \<Rightarrow> file_read \<Rightarrow> 'a cm_state_scheme \<Rightarrow> bool \<times> 'a cm_state_scheme" where
  "LoadKnownPeers path read s =
     (let s1 = s\<lparr>tofuPath := path\<rparr>
      in case read of
           FileMissing \<Rightarrow> (True, s1\<lparr>tofuFile := []\<rparr>)
         | FileError \<Rightarrow> (False, s1)
         | FileText text \<Rightarrow>
             (let ls = takeWhile (\<lambda>l. length l < max_token) (raw_lines text)
              in (list_all (\<lambda>l. length l < max_token) (raw_lines text),
                  s1\<lparr>tofuFile := text,
                     tofuFingerprints := fold load_pin ls (tofuFingerprints s1)\<rparr>)))"

lemma split_on_append: "split_on c (a @ c # b) = split_on c a @ split_on c b"
proof (induction a)
  case Nil
  then show ?case by simp
next
  case (Cons x a)
  obtain v vs where "split_on c a = v # vs" by (cases "split_on c a") auto
  with Cons show ?case by auto
qed

text \<open>Appending one line to a file of complete lines adds exactly that line.\<close>

lemma raw_lines_append:
  assumes "newline \<notin> set l" and "text = [] \<or> last text = newline"
  shows "raw_lines (text @ l @ [newline]) = raw_lines text @ [l]"
proof (cases "text = []")
  case True
  then show ?thesis using assms(1) split_on_sep [of newline l "[]"]
    by (simp add: raw_lines_def Let_def)
next
  case False
  with assms(2) obtain t where t: "text = t @ [newline]" by (metis append_butlast_last_id)
  have l: "split_on newline (l @ [newline]) = [l, []]"
    using assms(1) split_on_sep [of newline l "[]"] by simp
  show ?thesis
    using split_on_append [of newline t "l @ [newline]"] split_on_append [of newline t "[]"]
    by (simp add: raw_lines_def t l Let_def butlast_append)
qed

text \<open>A token of the file: what addresses and fingerprints look like.\<close>

definition file_token :: "string \<Rightarrow> bool" where
  "file_token t \<longleftrightarrow> t \<noteq> [] \<and> list_all solid t \<and> hd t \<noteq> CHR ''#''"

lemma pin_of_line_token:
  assumes "file_token a" and "file_token f"
  shows "pin_of_line (drop_cr (a @ CHR 0x20 # f)) = Some (a, f)"
proof -
  let ?l = "a @ CHR 0x20 # f"
  have sa: "a \<noteq> []" "solid (hd a)" and sf: "f \<noteq> []" "solid (last f)"
    using assms by (auto simp: file_token_def list_all_iff)
  have cr: "last f \<noteq> carriage_return" using sf(2) by (auto simp: solid_def ascii_space_def)
  have d: "drop_cr ?l = ?l" using sf(1) cr by (simp add: drop_cr_def)
  have t: "trim_space ?l = ?l" using sa sf by (intro trim_space_solid) auto
  have h: "\<not> has_prefix ?l ''#''"
    using assms(1) by (cases a) (auto simp: file_token_def)
  have "str_fields (a @ CHR 0x20 # f) = [a, f]"
    using assms by (intro str_fields_pair) (auto simp: file_token_def list_all_iff solid_def)
  with sa show ?thesis by (simp add: pin_of_line_def d t h Let_def)
qed


section \<open>Dialling\<close>

datatype dial_result = DialOK nat | DialError string

record dial_env =
  de_tcp :: "string + nat"
  de_quic :: "string + nat"
  de_certs :: "bytes list"
  de_tls_error :: "string option"
  de_stream_error :: "string option"
  de_store_ok :: bool

definition verify_certificates ::
    "crypto \<Rightarrow> dial_env \<Rightarrow> string \<Rightarrow> 'a cm_state_scheme \<Rightarrow> string option \<times> 'a cm_state_scheme" where
  "verify_certificates C env peerAddr s =
     (case de_certs env of
        [] \<Rightarrow> (Some (''no certificate from peer '' @ peerAddr), s)
      | c # _ \<Rightarrow> checkAndPin (de_store_ok env) peerAddr (hex_encode (sha256_sum C c)) s)"

text \<open>A TLS handshake: the certificate callback, then anything else that can fail.\<close>

definition handshake ::
    "crypto \<Rightarrow> dial_env \<Rightarrow> string \<Rightarrow> 'a cm_state_scheme \<Rightarrow> string option \<times> 'a cm_state_scheme" where
  "handshake C env peerAddr s =
     (let v = verify_certificates C env peerAddr s
      in case fst v of Some e \<Rightarrow> (Some e, snd v) | None \<Rightarrow> (de_tls_error env, snd v))"

definition dialTCPPeer ::
    "crypto \<Rightarrow> dial_env \<Rightarrow> string \<Rightarrow> 'a cm_state_scheme \<Rightarrow> dial_result \<times> 'a cm_state_scheme" where
  "dialTCPPeer C env peerAddr s =
     (case de_tcp env of
        Inl e \<Rightarrow> (DialError (''tcp dial failed: '' @ e), s)
      | Inr i \<Rightarrow>
          (let h = handshake C env peerAddr s
           in case fst h of
                Some e \<Rightarrow> (DialError (''tls handshake failed: '' @ e), conn_close i (snd h))
              | None \<Rightarrow> (DialOK i, snd h)))"

definition dialQUICPeer ::
    "crypto \<Rightarrow> dial_env \<Rightarrow> string \<Rightarrow> 'a cm_state_scheme \<Rightarrow> dial_result \<times> 'a cm_state_scheme" where
  "dialQUICPeer C env peerAddr s =
     (case de_quic env of
        Inl e \<Rightarrow> (DialError (''quic dial failed: '' @ e), s)
      | Inr i \<Rightarrow>
          (let h = handshake C env peerAddr s
           in case fst h of
                Some e \<Rightarrow> (DialError (''quic dial failed: '' @ e), snd h)
              | None \<Rightarrow>
                  (case de_stream_error env of
                     Some e \<Rightarrow> (DialError (''stream open failed: '' @ e), conn_close i (snd h))
                   | None \<Rightarrow> (DialOK i, snd h))))"

text \<open>
  \<open>raceDial\<close> over the two results in the order they arrive: the first success wins and a later
  success is closed; with two failures the error of the last one is reported.
\<close>

definition race_results ::
    "dial_result \<Rightarrow> dial_result \<Rightarrow> 'a cm_state_scheme \<Rightarrow> dial_result \<times> 'a cm_state_scheme" where
  "race_results first second s =
     (case first of
        DialOK i \<Rightarrow> (DialOK i, case second of DialOK j \<Rightarrow> conn_close j s | DialError e \<Rightarrow> s)
      | DialError e1 \<Rightarrow>
          (case second of
             DialOK j \<Rightarrow> (DialOK j, s)
           | DialError e2 \<Rightarrow> (DialError (''race dial failed: '' @ e2), s)))"

definition raceDial ::
    "crypto \<Rightarrow> bool \<Rightarrow> dial_env \<Rightarrow> string \<Rightarrow> 'a cm_state_scheme \<Rightarrow> dial_result \<times> 'a cm_state_scheme" where
  "raceDial C quic_first env peerAddr s =
     (if quic_first
      then (let q = dialQUICPeer C env peerAddr s; t = dialTCPPeer C env peerAddr (snd q)
            in race_results (fst q) (fst t) (snd t))
      else (let t = dialTCPPeer C env peerAddr s; q = dialQUICPeer C env peerAddr (snd t)
            in race_results (fst t) (fst q) (snd q)))"

definition dial_peer ::
    "crypto \<Rightarrow> bool \<Rightarrow> dial_env \<Rightarrow> string \<Rightarrow> 'a cm_state_scheme \<Rightarrow> dial_result \<times> 'a cm_state_scheme" where
  "dial_peer C quic_first env peerAddr s =
     (if raceTransports s then raceDial C quic_first env peerAddr s
      else if useTCP s then dialTCPPeer C env peerAddr s
      else dialQUICPeer C env peerAddr s)"


section \<open>Creating a connection\<close>

datatype conn_error = ConnErr string | AuthErr auth_error

datatype get_result = Existing nat | Started nat | GetFailed conn_error

text \<open>The \<open>JOIN\<close> line; \<open>devID\<close> is empty when \<open>GetDeviceID\<close> fails.\<close>

definition join_handshake :: "string \<Rightarrow> string \<Rightarrow> string \<Rightarrow> string \<Rightarrow> string" where
  "join_handshake room alias password devID =
     ''JOIN:'' @ join_with pipe
       ([room, alias] @ (if password \<noteq> [] then [password] else []) @
        (if devID \<noteq> [] then [devID] else [])) @ [newline]"

text \<open>
  Up to the point where the lock is released: \<open>Existing\<close> for a connection found in the registry
  (the second look under the write lock sees the same registry), an error, or \<open>Started\<close> for a
  new one whose reader and writer run and whose caller waits.
\<close>

definition getOrCreate_begin ::
    "crypto \<Rightarrow> bool \<Rightarrow> dial_env \<Rightarrow> string \<Rightarrow> time \<Rightarrow> string \<Rightarrow> 'a cm_state_scheme
     \<Rightarrow> get_result \<times> 'a cm_state_scheme" where
  "getOrCreate_begin C quic_first env devID now peerAddr s =
     (case map_of (connections s) peerAddr of
        Some i \<Rightarrow> (Existing i, s)
      | None \<Rightarrow>
          (let d = dial_peer C quic_first env peerAddr s
           in case fst d of
                DialError e \<Rightarrow> (GetFailed (ConnErr e), snd d)
              | DialOK pc \<Rightarrow>
                  (let w = conn_write pc
                             (join_handshake (roomName s) (localAlias s) (roomPassword s) devID) (snd d)
                   in if fst w
                      then (Started (nextMC (snd w)), register_mc pc peerAddr now (snd w))
                      else (GetFailed (ConnErr ''handshake failed''), conn_close pc (snd w)))))"

text \<open>
  After the wait.  \<open>timed_out\<close>: five seconds passed and \<open>secretReady\<close> was not released.
\<close>

definition getOrCreate_finish ::
    "nat \<Rightarrow> string \<Rightarrow> bool \<Rightarrow> 'a cm_state_scheme \<Rightarrow> (conn_error + nat) \<times> 'a cm_state_scheme" where
  "getOrCreate_finish i peerAddr timed_out s =
     (if timed_out
      then (Inl (AuthErr (AuthError ErrTimeout ''no response from relay within 5s'')),
            snd (removeConnection peerAddr s))
      else if mapped (connections s) peerAddr then (Inr i, s)
      else (case mc_lastAuthErr (mcs s i) of
              Some e \<Rightarrow> (Inl (AuthErr e), s)
            | None \<Rightarrow> (Inl (AuthErr (AuthError ErrWrongPassword ''no response from relay'')), s)))"


section \<open>Sending a message\<close>

text \<open>
  The line \<open>Send\<close> writes: \<open>FROM:alias|payload|nonce|signature\<close>.  \<open>gcm_nonce\<close> and \<open>rnd\<close> are the
  bytes the random source gave to \<open>Encrypt\<close> and \<open>generateReplayNonce\<close>.
\<close>

definition generateReplayNonce :: "bytes \<Rightarrow> string" where
  "generateReplayNonce rnd = hex_encode (take 8 rnd)"

definition unsigned_text :: "string \<Rightarrow> string \<Rightarrow> string \<Rightarrow> string" where
  "unsigned_text alias payload nonce = ''FROM:'' @ alias @ [pipe] @ payload @ [pipe] @ nonce"

definition message_line ::
    "crypto \<Rightarrow> room_keys \<Rightarrow> string \<Rightarrow> string \<Rightarrow> bytes \<Rightarrow> bytes \<Rightarrow> crypto_error + string" where
  "message_line C rk alias message gcm_nonce rnd =
     (case Encrypt C rk gcm_nonce (sanitiseField message) of
        Inl e \<Rightarrow> Inl e
      | Inr payload \<Rightarrow>
          (let unsigned = unsigned_text (sanitiseField alias) payload (generateReplayNonce rnd)
           in Inr (unsigned @ [pipe] @ Sign C rk unsigned @ [newline])))"

text \<open>
  \<open>Send\<close> once \<open>getOrCreate\<close> has returned the connection \<open>i\<close>; \<open>ctx_ok\<close> is \<open>ctx.Err() == nil\<close>.
  The flag is \<open>err == nil\<close>.
\<close>

definition cm_Send ::
    "crypto \<Rightarrow> bool \<Rightarrow> bytes \<Rightarrow> bytes \<Rightarrow> time \<Rightarrow> nat \<Rightarrow> string \<Rightarrow> 'a cm_state_scheme
     \<Rightarrow> bool \<times> 'a cm_state_scheme" where
  "cm_Send C ctx_ok gcm_nonce rnd now i message s =
     (if \<not> ctx_ok then (False, s)
      else
        (let s1 = set_mc i ((mcs s i)\<lparr>mc_lastUsed := now\<rparr>) s
         in case message_line C (roomKeys s1) (localAlias s1) message gcm_nonce rnd of
              Inl e \<Rightarrow> (False, s1)
            | Inr line \<Rightarrow> conn_write (mc_conn (mcs s1 i)) line s1))"


section \<open>Facts\<close>

text \<open>
  Pins survive a restart: a manager with a store that pinned an address on first contact, and a
  fresh manager that loads that store, agree on the fingerprint.
\<close>

lemma checkAndPin_stored:
  assumes "\<not> mapped (tofuFingerprints s) a" and "tofuPath s \<noteq> []"
  shows "tofuFile (snd (checkAndPin True a f s)) = tofuFile s @ (a @ CHR 0x20 # f) @ [newline]"
  using assms by (auto simp: checkAndPin_def appendKnownPeer_def Let_def)

lemma LoadKnownPeers_fingerprints:
  assumes "list_all (\<lambda>l. length l < max_token) (raw_lines text)"
  shows "tofuFingerprints (snd (LoadKnownPeers p (FileText text) s)) =
     fold load_pin (raw_lines text) (tofuFingerprints s)"
  using assms by (simp add: LoadKnownPeers_def Let_def list_all_iff takeWhile_eq_all_conv [THEN iffD2])

lemma LoadKnownPeers_last_pin:
  assumes "file_token a" and "file_token f" and "text = [] \<or> last text = newline"
    and "list_all (\<lambda>l. length l < max_token) (raw_lines (text @ (a @ CHR 0x20 # f) @ [newline]))"
  shows "map_of (tofuFingerprints (snd (LoadKnownPeers p
           (FileText (text @ (a @ CHR 0x20 # f) @ [newline])) s))) a = Some f"
proof -
  have nl: "newline \<notin> set (a @ CHR 0x20 # f)"
    using assms(1,2) by (auto simp: file_token_def list_all_iff solid_def ascii_space_def)
  show ?thesis
    unfolding LoadKnownPeers_fingerprints [OF assms(4)]
    by (simp add: raw_lines_append [OF nl assms(3), simplified] load_pin_def
        pin_of_line_token [OF assms(1,2)])
qed

text \<open>Dialling keeps the registry as it is; only the pins and transports change.\<close>

lemma handshake_frame [simp]:
  "connections (snd (handshake C env a s)) = connections s"
  "mcs (snd (handshake C env a s)) = mcs s" "nextMC (snd (handshake C env a s)) = nextMC s"
  "cm_ok (snd (handshake C env a s)) = cm_ok s"
  by (simp_all add: handshake_def verify_certificates_def Let_def split: option.split list.split)

lemma dial_tcp_frame [simp]:
  "connections (snd (dialTCPPeer C env a s)) = connections s"
  "mcs (snd (dialTCPPeer C env a s)) = mcs s" "nextMC (snd (dialTCPPeer C env a s)) = nextMC s"
  "cm_ok (snd (dialTCPPeer C env a s)) = cm_ok s"
  by (simp_all add: dialTCPPeer_def Let_def split: option.split sum.split)

lemma dial_quic_frame [simp]:
  "connections (snd (dialQUICPeer C env a s)) = connections s"
  "mcs (snd (dialQUICPeer C env a s)) = mcs s" "nextMC (snd (dialQUICPeer C env a s)) = nextMC s"
  "cm_ok (snd (dialQUICPeer C env a s)) = cm_ok s"
  by (simp_all add: dialQUICPeer_def Let_def split: option.split sum.split)

lemma race_results_frame [simp]:
  "connections (snd (race_results r1 r2 s)) = connections s"
  "mcs (snd (race_results r1 r2 s)) = mcs s" "nextMC (snd (race_results r1 r2 s)) = nextMC s"
  "cm_ok (snd (race_results r1 r2 s)) = cm_ok s"
  by (simp_all add: race_results_def split: dial_result.split)

lemma dial_peer_frame [simp]:
  "connections (snd (dial_peer C q env a s)) = connections s"
  "mcs (snd (dial_peer C q env a s)) = mcs s" "nextMC (snd (dial_peer C q env a s)) = nextMC s"
  "cm_ok (snd (dial_peer C q env a s)) = cm_ok s"
  by (simp_all add: dial_peer_def raceDial_def Let_def)

lemma cm_ok_getOrCreate_begin [simp]:
  "cm_ok s \<Longrightarrow> cm_ok (snd (getOrCreate_begin C q env d t a s))"
  by (auto simp: getOrCreate_begin_def Let_def intro!: cm_ok_register_mc
      split: option.split dial_result.split)

lemma cm_ok_getOrCreate_finish [simp]:
  "cm_ok s \<Longrightarrow> cm_ok (snd (getOrCreate_finish i a b s))"
  by (auto simp: getOrCreate_finish_def split: option.split)

lemma cm_ok_Send [simp]: "cm_ok s \<Longrightarrow> cm_ok (snd (cm_Send C b n r t i m s))"
  by (auto simp: cm_Send_def Let_def intro!: cm_ok_set_mc split: sum.split)

text \<open>A certificate that does not match the pin never yields a connection, on any transport.\<close>

lemma handshake_pinned:
  assumes "map_of (tofuFingerprints s) a = Some g" and "de_certs env = c # cs"
    and "hex_encode (sha256_sum C c) \<noteq> g"
  shows "\<exists>e. handshake C env a s = (Some e, s)"
  using assms by (auto simp: handshake_def verify_certificates_def checkAndPin_def Let_def)

lemma dial_pinned:
  assumes "map_of (tofuFingerprints s) a = Some g" and "de_certs env = c # cs"
    and "hex_encode (sha256_sum C c) \<noteq> g"
  shows "(\<exists>e. fst (dialTCPPeer C env a s) = DialError e) \<and>
     tofuFingerprints (snd (dialTCPPeer C env a s)) = tofuFingerprints s"
    and "(\<exists>e. fst (dialQUICPeer C env a s) = DialError e) \<and>
     tofuFingerprints (snd (dialQUICPeer C env a s)) = tofuFingerprints s"
  using handshake_pinned [OF assms]
  by (auto simp: dialTCPPeer_def dialQUICPeer_def Let_def split: sum.split)

lemma dial_peer_pinned:
  assumes "map_of (tofuFingerprints s) a = Some g" and "de_certs env = c # cs"
    and "hex_encode (sha256_sum C c) \<noteq> g"
  shows "\<exists>e. fst (dial_peer C q env a s) = DialError e"
proof -
  have tcp: "\<exists>e. fst (dialTCPPeer C env a s') = DialError e"
    and quic: "\<exists>e. fst (dialQUICPeer C env a s') = DialError e"
    if "tofuFingerprints s' = tofuFingerprints s" for s'
    using dial_pinned [of s' a g env c cs C] assms that by auto
  note same = dial_pinned [OF assms, THEN conjunct2]
  show ?thesis
    using tcp [of s] quic [of s] tcp [OF same(2)] quic [OF same(1)]
    by (auto simp: dial_peer_def raceDial_def race_results_def Let_def)
qed

end
