(* ===== verification/Client_Session.thy ===== *)
theory Client_Session
  imports Dialing
begin

text \<open>
  The reader goroutine of an outgoing connection (\<open>readLoop\<close>): what a client does with each
  line of the relay.  One line is one operation; its flag says whether the loop goes on.  When
  it does not, the deferred \<open>removeConnection\<close> runs, a separate operation (\<open>readLoop_exit\<close>)
  because other goroutines may run before it.
\<close>

section \<open>The handlers of one line\<close>

definition update_mc ::
    "nat \<Rightarrow> (managed_connection \<Rightarrow> managed_connection) \<Rightarrow> 'a cm_state_scheme \<Rightarrow> 'a cm_state_scheme" where
  "update_mc i f s = set_mc i (f (mcs s i)) s"

abbreviation secret_done :: "nat \<Rightarrow> 'a cm_state_scheme \<Rightarrow> 'a cm_state_scheme" where
  "secret_done i s \<equiv> update_mc i (\<lambda>mc. mc\<lparr>mc_secretDone := True\<rparr>) s"

definition classify_reason :: "string \<Rightarrow> auth_error" where
  "classify_reason reason =
     (if contains_str (to_lower reason) ''banned'' then AuthError ErrBanned reason
      else AuthError ErrWrongPassword reason)"

definition auth_failed_line :: "nat \<Rightarrow> string \<Rightarrow> 'a cm_state_scheme \<Rightarrow> bool \<times> 'a cm_state_scheme" where
  "auth_failed_line i line s =
     (let stripped = trim_prefix line ''AUTH:FAILED|'';
          reason = (if stripped = [] then ''Authentication failed'' else stripped);
          s1 = print_line (formatSystemMessage (''Authentication failed: '' @ reason)) s;
          s2 = update_mc i (\<lambda>mc. mc\<lparr>mc_lastAuthErr := Some (classify_reason reason)\<rparr>) s1;
          s3 = snd (removeConnection (mc_peerAddr (mcs s2 i)) s2)
      in (False, secret_done i s3))"

definition secret_line ::
    "crypto \<Rightarrow> nat \<Rightarrow> string \<Rightarrow> 'a cm_state_scheme \<Rightarrow> bool \<times> 'a cm_state_scheme" where
  "secret_line C i line s =
     (let secretHex = trim_space (trim_prefix line ''SECRET:'');
          s1 = (if secretHex = [] then s
                else (let u = UpdateRoomKeys C (roomName s) (roomPassword s) secretHex s
                      in if fst u
                         then print_line (formatSystemMessage ''Room security keys have been updated'') (snd u)
                         else snd u))
      in (True, secret_done i s1))"

text \<open>The text that tells a client it was kicked or banned.\<close>

definition eviction_notice :: "string \<Rightarrow> bool" where
  "eviction_notice message =
     (let m = to_lower message
      in (contains_str m ''kicked'' \<or> contains_str m ''banned'') \<and> contains_str m ''you were'')"

definition system_line ::
    "crypto \<Rightarrow> time \<Rightarrow> string \<Rightarrow> 'a cm_state_scheme \<Rightarrow> bool \<times> 'a cm_state_scheme" where
  "system_line C now line s =
     (let message = trim_prefix line ''SYSTEM:'';
          s1 = (if eviction_notice message then s\<lparr>kicked := True\<rparr> else s);
          d = IsDuplicate C ''System'' message now s1
      in (True, if fst d then snd d else print_line (formatSystemMessage message) (snd d)))"

text \<open>
  An encrypted message: signature, replay, decryption, duplicate, in that order; each failure
  drops the line.  A nil replay protector would be a nil dereference.
\<close>

definition encrypted_message ::
    "crypto \<Rightarrow> nat \<Rightarrow> time \<Rightarrow> string \<Rightarrow> string \<Rightarrow> string \<Rightarrow> string \<Rightarrow> 'a cm_state_scheme
     \<Rightarrow> 'a cm_state_scheme" where
  "encrypted_message C i now sender payload nonce hmacHex s =
     (if \<not> Verify C (roomKeys s) (unsigned_text sender payload nonce) hmacHex then s
      else (case mc_replay (mcs s i) of
              None \<Rightarrow> crash s
            | Some rp \<Rightarrow>
                (let r = replay_Check nonce now rp;
                     s1 = update_mc i (\<lambda>mc. mc\<lparr>mc_replay := Some (snd r)\<rparr>) s
                 in if \<not> fst r then s1
                    else (case Decrypt C (roomKeys s1) payload of
                            Inl e \<Rightarrow> s1
                          | Inr message \<Rightarrow>
                              (let d = IsDuplicate C sender message now s1
                               in if fst d then snd d
                                  else print_line (formatMessage sender message) (snd d))))))"

definition from_line ::
    "crypto \<Rightarrow> nat \<Rightarrow> time \<Rightarrow> string \<Rightarrow> 'a cm_state_scheme \<Rightarrow> bool \<times> 'a cm_state_scheme" where
  "from_line C i now line s =
     (case split_n 4 pipe (trim_prefix line ''FROM:'') of
        [sender, payload, nonce, hmacHex] \<Rightarrow>
          (True, encrypted_message C i now sender payload nonce hmacHex s)
      | _ \<Rightarrow> (True, s))"

definition readLoop_line ::
    "crypto \<Rightarrow> nat \<Rightarrow> time \<Rightarrow> string \<Rightarrow> 'a cm_state_scheme \<Rightarrow> bool \<times> 'a cm_state_scheme" where
  "readLoop_line C i now raw s =
     (let line = trim_space raw
      in if line = [] then (True, s)
         else if line = ''PONG'' then
           (True, ClearPing (mc_peerAddr (mcs s i)) (update_mc i (\<lambda>mc. mc\<lparr>mc_lastUsed := now\<rparr>) s))
         else if line = ''PING'' then (True, conn_put (mc_conn (mcs s i)) (''PONG'' @ [newline]) s)
         else if has_prefix line ''AUTH:FAILED'' then auth_failed_line i line s
         else if has_prefix line ''SECRET:'' then secret_line C i line s
         else if has_prefix line ''SYSTEM:'' then system_line C now line s
         else if has_prefix line ''FROM:'' then from_line C i now line s
         else if has_prefix line ''MSG:'' then
           (True, print_line (formatMessage (mc_peerAddr (mcs s i)) (trim_prefix line ''MSG:'')) s)
         else (True, print_line (formatMessage (mc_peerAddr (mcs s i)) line) s))"

text \<open>A read error: \<open>disconnected\<close> is closed unless the peer was kicked or it is closed already.\<close>

definition readLoop_error :: "'a cm_state_scheme \<Rightarrow> 'a cm_state_scheme" where
  "readLoop_error s = (if kicked s then s else if disconnected s then s else s\<lparr>disconnected := True\<rparr>)"

definition readLoop_exit :: "nat \<Rightarrow> 'a cm_state_scheme \<Rightarrow> 'a cm_state_scheme" where
  "readLoop_exit i s = snd (removeConnection (mc_peerAddr (mcs s i)) s)"

text \<open>The whole loop over the lines the relay sends before the stream ends.\<close>

fun readLoop ::
    "crypto \<Rightarrow> nat \<Rightarrow> (time \<times> string) list \<Rightarrow> 'a cm_state_scheme \<Rightarrow> 'a cm_state_scheme" where
  "readLoop C i [] s = readLoop_exit i (readLoop_error s)"
| "readLoop C i ((now, raw) # rest) s =
     (let r = readLoop_line C i now raw s
      in if fst r then readLoop C i rest (snd r) else readLoop_exit i (snd r))"


section \<open>The handlers keep the registry\<close>

lemma update_mc_frame [simp]:
  "conns (update_mc i f s) = conns s" "screen (update_mc i f s) = screen s"
  "crashed (update_mc i f s) = crashed s" "connections (update_mc i f s) = connections s"
  "roomKeys (update_mc i f s) = roomKeys s" "seenMsgs (update_mc i f s) = seenMsgs s"
  "kicked (update_mc i f s) = kicked s" "pendingPings (update_mc i f s) = pendingPings s"
  "mcs (update_mc i f s) = (mcs s)(i := f (mcs s i))"
  by (simp_all add: update_mc_def)

lemma cm_ok_update_mc:
  assumes "cm_ok s" and "\<And>mc. mc_peerAddr (f mc) = mc_peerAddr mc"
    and "\<And>mc. mc_done (f mc) = mc_done mc" and "\<And>mc. mc_replay (f mc) = mc_replay mc"
  shows "cm_ok (update_mc i f s)"
  using assms by (auto simp: update_mc_def intro!: cm_ok_set_mc)

lemma cm_ok_update_replay:
  assumes "cm_ok s" and "mc_replay (mcs s i) = Some rp" and "rp_done rp' = rp_done rp"
  shows "cm_ok (update_mc i (\<lambda>mc. mc\<lparr>mc_replay := Some rp'\<rparr>) s)"
  using assms by (auto simp: update_mc_def intro!: cm_ok_set_mc)

lemma replay_Check_done [simp]: "rp_done (snd (replay_Check n t rp)) = rp_done rp"
  by (simp add: replay_Check_def)

lemma cm_ok_auth_failed_line [simp]:
  "cm_ok s \<Longrightarrow> cm_ok (snd (auth_failed_line i l s))"
  by (simp add: auth_failed_line_def Let_def cm_ok_update_mc)

lemma cm_ok_secret_line [simp]: "cm_ok s \<Longrightarrow> cm_ok (snd (secret_line C i l s))"
  by (simp add: secret_line_def Let_def cm_ok_update_mc)

lemma cm_ok_system_line [simp]: "cm_ok s \<Longrightarrow> cm_ok (snd (system_line C t l s))"
  by (simp add: system_line_def Let_def)

lemma cm_ok_encrypted_message [simp]:
  assumes "cm_ok s" and "mc_replay (mcs s i) \<noteq> None"
  shows "cm_ok (encrypted_message C i t a p n h s)"
  using assms
  by (auto simp: encrypted_message_def Let_def cm_ok_update_replay split: sum.split)

lemma cm_ok_from_line [simp]:
  assumes "cm_ok s" and "mc_replay (mcs s i) \<noteq> None"
  shows "cm_ok (snd (from_line C i t l s))"
  using assms by (simp add: from_line_def split: list.split)

text \<open>
  No line of a relay makes the client panic or breaks its registry; the reader of a connection
  made by \<open>getOrCreate\<close> has a replay protector.
\<close>

lemma cm_ok_readLoop_line:
  assumes "cm_ok s" and "mc_replay (mcs s i) \<noteq> None"
  shows "cm_ok (snd (readLoop_line C i now raw s))"
  using assms by (simp add: readLoop_line_def Let_def cm_ok_update_mc)

lemma shut_mc_replay: "mc_replay (mcs s j) \<noteq> None \<Longrightarrow> mc_replay (mcs (shut_mc i s) j) \<noteq> None"
  by (auto simp: shut_mc_def Let_def crash_def signalClosed_def split: option.splits)

lemma removeConnection_replay:
  "mc_replay (mcs s j) \<noteq> None \<Longrightarrow> mc_replay (mcs (snd (removeConnection a s)) j) \<noteq> None"
  using shut_mc_replay [of s j] by (simp add: removeConnection_def Let_def split: option.split)

lemma UpdateRoomKeys_mcs: "mcs (snd (UpdateRoomKeys C r p h s)) = mcs s"
  by simp

lemma readLoop_line_replay:
  assumes "mc_replay (mcs s j) \<noteq> None"
  shows "mc_replay (mcs (snd (readLoop_line C i now raw s)) j) \<noteq> None"
proof -
  have sec: "mc_replay (mcs (snd (secret_line C i l s)) j) \<noteq> None" for l
    using assms by (auto simp: secret_line_def Let_def)
  have sys: "mc_replay (mcs (snd (system_line C now l s)) j) \<noteq> None" for l
    using assms by (simp add: system_line_def Let_def)
  have enc: "mc_replay (mcs (encrypted_message C i now a p n h s) j) \<noteq> None" for a p n h
    using assms by (auto simp: encrypted_message_def Let_def crash_def split: option.split sum.split)
  have frm: "mc_replay (mcs (snd (from_line C i now l s)) j) \<noteq> None" for l
    using assms enc by (simp add: from_line_def split: list.split)
  have auth: "mc_replay (mcs (snd (auth_failed_line i l s)) j) \<noteq> None" for l
    using assms by (auto simp: auth_failed_line_def Let_def simp del: not_None_eq intro!: removeConnection_replay)
  define P where "P t \<longleftrightarrow> mc_replay (mcs t j) \<noteq> None" for t :: "'a cm_state_scheme"
  have P: "P (snd (secret_line C i l s))" "P (snd (system_line C now l s))"
    "P (snd (from_line C i now l s))" "P (snd (auth_failed_line i l s))" for l
    using sec sys frm auth by (simp_all add: P_def)
  have Q: "P s" "P (print_line x s)" "P (conn_put k x s)"
    "P (ClearPing a (update_mc i (\<lambda>mc. mc\<lparr>mc_lastUsed := t\<rparr>) s))" for x k a t
    using assms by (auto simp: P_def ClearPing_def)
  have "P (snd (readLoop_line C i now raw s))"
    by (simp add: readLoop_line_def Let_def P Q)
  then show ?thesis by (simp add: P_def)
qed

lemma cm_ok_readLoop_error [simp]: "cm_ok (readLoop_error s) = cm_ok s"
  by (simp add: readLoop_error_def)

lemma cm_ok_readLoop_exit [simp]: "cm_ok s \<Longrightarrow> cm_ok (readLoop_exit i s)"
  by (simp add: readLoop_exit_def)

lemma cm_ok_readLoop:
  "cm_ok s \<Longrightarrow> mc_replay (mcs s i) \<noteq> None \<Longrightarrow> cm_ok (readLoop C i lines s)"
proof (induction C i lines s rule: readLoop.induct)
  case (1 C i s)
  then show ?case by simp
next
  case (2 C i now raw rest s)
  then show ?case
    using cm_ok_readLoop_line [of s i C now raw] readLoop_line_replay [of s i C i now raw]
    by (simp add: Let_def)
qed


section \<open>Receiving an encrypted message\<close>

text \<open>The line of \<open>message_line\<close>, stripped and split, is its four fields again.\<close>

lemma message_line_fields:
  assumes "message_line C rk alias message gn rnd = Inr line"
  obtains payload where
    "Encrypt C rk gn (sanitiseField message) = Inr payload"
    "line = unsigned_text (sanitiseField alias) payload (generateReplayNonce rnd) @ [pipe] @
       Sign C rk (unsigned_text (sanitiseField alias) payload (generateReplayNonce rnd)) @ [newline]"
  using assms by (auto simp: message_line_def Let_def split: sum.splits)

lemma unsigned_text_solid: "solid (last (unsigned_text a p n @ [pipe] @ h))"
  if "\<forall>c \<in> set h. solid c"
  using that by (cases h rule: rev_cases) (auto simp: solid_def ascii_space_def)

lemma trim_signed_line:
  assumes "\<forall>c \<in> set h. solid c"
  shows "trim_space ((unsigned_text a p n @ [pipe] @ h) @ [newline]) = unsigned_text a p n @ [pipe] @ h"
  using unsigned_text_solid [OF assms, of a p n]
  by (intro trim_space_line) (auto simp: unsigned_text_def solid_def ascii_space_def)

lemma readLoop_line_FROM:
  assumes "trim_space raw = ''FROM:'' @ r"
  shows "readLoop_line C i now raw s = from_line C i now (''FROM:'' @ r) s"
  using assms by (simp add: readLoop_line_def Let_def)

lemma readLoop_line_SYSTEM:
  assumes "trim_space raw = ''SYSTEM:'' @ r"
  shows "readLoop_line C i now raw s = system_line C now (''SYSTEM:'' @ r) s"
  using assms by (simp add: readLoop_line_def Let_def)

lemma readLoop_line_signed:
  assumes "\<forall>c \<in> set h. solid c" and "pipe \<notin> set a" and "pipe \<notin> set p" and "pipe \<notin> set n"
  shows "readLoop_line C i now ((unsigned_text a p n @ [pipe] @ h) @ [newline]) s =
     (True, encrypted_message C i now a p n h s)"
proof -
  let ?r = "a @ pipe # p @ pipe # n @ pipe # h"
  have t: "trim_space ((unsigned_text a p n @ [pipe] @ h) @ [newline]) = ''FROM:'' @ ?r"
    unfolding trim_signed_line [OF assms(1)] by (simp add: unsigned_text_def)
  have f: "trim_prefix (''FROM:'' @ ?r) ''FROM:'' = ?r" by (rule trim_prefix_append)
  show ?thesis
    unfolding readLoop_line_FROM [OF t] from_line_def f using assms by (simp add: split_n_4)
qed

lemma generateReplayNonce_no_pipe: "pipe \<notin> set (generateReplayNonce rnd)"
  by (simp add: generateReplayNonce_def hex.enc_no_pipe)

text \<open>
  A line made by \<open>message_line\<close> and received under the same room keys is displayed as the
  sender's sanitised message, once its nonce is fresh on the connection and its text is not a
  duplicate.
\<close>

lemma receive_message_line:
  assumes gcm: "gcm_correct C" and n: "length gn = nonce_size"
    and line: "message_line C (roomKeys s) alias message gn rnd = Inr line"
    and rp: "mc_replay (mcs s i) = Some rp" "\<not> mapped (rp_seen rp) (generateReplayNonce rnd)"
    and dup: "\<not> mapped (seenMsgs s) (msg_hash C (sanitiseField alias) (sanitiseField message))"
  shows "fst (readLoop_line C i now line s)"
    and "screen (snd (readLoop_line C i now line s)) =
      screen (print_line (formatMessage (sanitiseField alias) (sanitiseField message)) s)"
    and "mc_replay (mcs (snd (readLoop_line C i now line s)) i) =
      Some (snd (replay_Check (generateReplayNonce rnd) now rp))"
proof -
  obtain payload where enc: "Encrypt C (roomKeys s) gn (sanitiseField message) = Inr payload"
    and l: "line = unsigned_text (sanitiseField alias) payload (generateReplayNonce rnd) @ [pipe] @
       Sign C (roomKeys s) (unsigned_text (sanitiseField alias) payload (generateReplayNonce rnd)) @ [newline]"
    using message_line_fields [OF line] by blast
  let ?u = "unsigned_text (sanitiseField alias) payload (generateReplayNonce rnd)"
  have read: "readLoop_line C i now line s =
      (True, encrypted_message C i now (sanitiseField alias) payload (generateReplayNonce rnd)
         (Sign C (roomKeys s) ?u) s)"
    using readLoop_line_signed [of "Sign C (roomKeys s) ?u" "sanitiseField alias" payload
        "generateReplayNonce rnd" C i now s] Sign_solid Encrypt_no_pipe [OF enc]
      generateReplayNonce_no_pipe by (simp add: l)
  have dec: "Decrypt C (roomKeys s) payload = Inr (sanitiseField message)"
    using gcm n enc by (rule Decrypt_Encrypt)
  show "fst (readLoop_line C i now line s)" by (simp add: read)
  show "screen (snd (readLoop_line C i now line s)) =
      screen (print_line (formatMessage (sanitiseField alias) (sanitiseField message)) s)"
    "mc_replay (mcs (snd (readLoop_line C i now line s)) i) =
      Some (snd (replay_Check (generateReplayNonce rnd) now rp))"
    using rp dup
    by (simp_all add: read encrypted_message_def dec Let_def replay_Check_True_iff IsDuplicate_def
        print_line_def show_ui_def)
qed

text \<open>A line whose nonce the connection has seen shows nothing, and neither does a forged one.\<close>

lemma encrypted_message_replayed:
  assumes "mc_replay (mcs s i) = Some rp" and "mapped (rp_seen rp) nonce"
  shows "screen (encrypted_message C i now a p nonce h s) = screen s"
  using assms by (simp add: encrypted_message_def Let_def replay_Check_def)

lemma encrypted_message_forged:
  "\<not> Verify C (roomKeys s) (unsigned_text a p n) h \<Longrightarrow> encrypted_message C i now a p n h s = s"
  by (simp add: encrypted_message_def)

end
