(* ===== verification/Relay_State.thy ===== *)
theory Relay_State
  imports Client_Session "HOL-Library.Char_ord" "HOL-Library.List_Lexorder"
begin

text \<open>
  The state of \<open>server.go\<close>: the \<open>Server\<close>, \<open>Room\<close> and \<open>Peer\<close> structs, and the room operations
  everything else is made of: \<open>broadcastToRoom\<close>, \<open>CreateRoom\<close>, \<open>joinRoom\<close>, \<open>rotateRoomSecret\<close>
  and \<open>removePeer\<close>.

  The server's state extends the connection manager's, since both live in one process and the
  server works on the manager's registry.  Rooms and peers are objects of two heaps: a room may
  outlive its registry entry and a peer may stay in a room's map after it has moved on, exactly
  as the pointers of the code allow.  \<open>hasConnManager\<close>, \<open>hasOnMessage\<close> and \<open>hasOnSystemMessage\<close>
  say which of the optional fields are non-nil.
\<close>

section \<open>State\<close>

record peer =
  p_addr :: string
  p_alias :: string
  p_conn :: nat
  p_room :: "nat option"
  p_deviceID :: string

record room =
  r_name :: string
  r_hasAuth :: bool
  r_keys :: room_keys
  r_ownerAuthKey :: bytes
  r_roomSecret :: bytes
  r_ownerAddr :: string
  r_peers :: "(string, nat) gomap"
  r_createdLocally :: bool

record server = cm_state +
  rooms :: "(string, nat) gomap"
  roomHeap :: "nat \<Rightarrow> room"
  nextRoom :: nat
  peerHeap :: "nat \<Rightarrow> peer"
  nextPeer :: nat
  banList :: "(string, bool) gomap"
  aliasToDeviceID :: "(string, string) gomap"
  hasConnManager :: bool
  hasOnMessage :: bool
  hasOnSystemMessage :: bool
  serverPort :: int

definition update_room :: "nat \<Rightarrow> (room \<Rightarrow> room) \<Rightarrow> server \<Rightarrow> server" where
  "update_room r f s = s\<lparr>roomHeap := (roomHeap s)(r := f (roomHeap s r))\<rparr>"

definition update_peer :: "nat \<Rightarrow> (peer \<Rightarrow> peer) \<Rightarrow> server \<Rightarrow> server" where
  "update_peer p f s = s\<lparr>peerHeap := (peerHeap s)(p := f (peerHeap s p))\<rparr>"

definition room_members :: "nat \<Rightarrow> server \<Rightarrow> nat list" where
  "room_members r s = map snd (r_peers (roomHeap s r))"


text \<open>
  \<open>NewServer\<close>: \<open>quic_port\<close> is the port the QUIC listener got (\<open>None\<close> when it cannot listen) and
  \<open>tcp_ok\<close> says whether TLS over TCP can listen there too.
\<close>

datatype server_error = QuicListenError | TcpListenError

definition NewServer ::
    "int option \<Rightarrow> bool \<Rightarrow> bool \<Rightarrow> bool \<Rightarrow> bool \<Rightarrow> cm_state \<Rightarrow> server_error + server" where
  "NewServer quic_port tcp_ok onMessage onSystemMessage cm_given cm =
     (case quic_port of
        None \<Rightarrow> Inl QuicListenError
      | Some port \<Rightarrow>
          if \<not> tcp_ok then Inl TcpListenError
          else Inr (cm_state.extend cm
            (server.fields [] (\<lambda>_. undefined) 0 (\<lambda>_. undefined) 0 [] [] cm_given onMessage
               onSystemMessage port)))"


section \<open>Broadcast\<close>

text \<open>One recipient: its outbound queue when it has a managed connection, its transport otherwise.\<close>

definition deliver :: "string \<Rightarrow> nat \<Rightarrow> server \<Rightarrow> server" where
  "deliver msg p s =
     (if hasConnManager s
      then (case map_of (connections s) (p_addr (peerHeap s p)) of
              Some i \<Rightarrow> snd (enqueue_at i msg s)
            | None \<Rightarrow> conn_put (p_conn (peerHeap s p)) msg s)
      else conn_put (p_conn (peerHeap s p)) msg s)"

text \<open>The loop over the room: the alias of the sender and everybody else.\<close>

definition sender_alias :: "nat \<Rightarrow> string \<Rightarrow> server \<Rightarrow> string" where
  "sender_alias r senderAddr s =
     fold (\<lambda>p a. if p_addr (peerHeap s p) = senderAddr then p_alias (peerHeap s p) else a)
       (room_members r s) []"

definition recipients :: "nat \<Rightarrow> string \<Rightarrow> server \<Rightarrow> nat list" where
  "recipients r senderAddr s =
     filter (\<lambda>p. p_addr (peerHeap s p) \<noteq> senderAddr) (room_members r s)"

definition broadcast_text :: "nat \<Rightarrow> string \<Rightarrow> string \<Rightarrow> server \<Rightarrow> string" where
  "broadcast_text r senderAddr message s =
     (let from = sender_alias r senderAddr s
      in if from = [] \<and> senderAddr \<noteq> []
           then ''FROM:'' @ senderAddr @ [pipe] @ message @ [newline]
         else if from = [] then ''SYSTEM:'' @ message @ [newline]
         else ''FROM:'' @ from @ [pipe] @ message @ [newline])"

definition broadcastToRoom :: "nat \<Rightarrow> string \<Rightarrow> string \<Rightarrow> server \<Rightarrow> server" where
  "broadcastToRoom r senderAddr message s =
     fold (deliver (broadcast_text r senderAddr message s)) (recipients r senderAddr s) s"


section \<open>Callbacks of the host process\<close>

text \<open>\<open>s.onSystemMessage != nil && s.connManager != nil && !IsDuplicate("System", msg)\<close>.\<close>

definition notify_system :: "crypto \<Rightarrow> time \<Rightarrow> string \<Rightarrow> server \<Rightarrow> server" where
  "notify_system C now msg s =
     (if hasOnSystemMessage s \<and> hasConnManager s
      then (let d = IsDuplicate C ''System'' msg now s
            in if fst d then snd d else show_ui (OnSystemMessage msg) (snd d))
      else s)"

definition notify_message :: "crypto \<Rightarrow> time \<Rightarrow> string \<Rightarrow> string \<Rightarrow> string \<Rightarrow> server \<Rightarrow> server" where
  "notify_message C now from room msg s =
     (if hasOnMessage s \<and> hasConnManager s
      then (let d = IsDuplicate C from msg now s
            in if fst d then snd d else show_ui (OnMessage from room msg) (snd d))
      else s)"


section \<open>Rooms\<close>

text \<open>
  \<open>CreateRoom\<close>; \<open>rnd\<close> are the bytes \<open>GenerateRoomSecret\<close> draws and \<open>cm_given\<close> says whether the
  connection manager argument is non-nil.
\<close>

definition CreateRoom ::
    "crypto \<Rightarrow> bytes \<Rightarrow> string \<Rightarrow> room_keys \<Rightarrow> bool \<Rightarrow> string \<Rightarrow> server \<Rightarrow> server" where
  "CreateRoom C rnd name rk cm_given password s =
     (if mapped (rooms s) name then s
      else
        (let secret = GenerateRoomSecret rnd;
             r = nextRoom s;
             room = \<lparr>r_name = name, r_hasAuth = True,
                     r_keys = room_keys_from C (AuthKey rk) secret,
                     r_ownerAuthKey = AuthKey rk, r_roomSecret = secret, r_ownerAddr = [],
                     r_peers = [], r_createdLocally = True\<rparr>;
             s1 = s\<lparr>roomHeap := (roomHeap s)(r := room), nextRoom := Suc r,
                    rooms := AList.update name r (rooms s)\<rparr>
         in if cm_given then snd (UpdateRoomKeys C name password (hex_encode secret) s1) else s1))"

text \<open>The room of \<open>joinRoom\<close>: the registered one, or a new one owned by the joiner.\<close>

definition find_or_create_room ::
    "crypto \<Rightarrow> bytes \<Rightarrow> string \<Rightarrow> string \<Rightarrow> room_keys \<Rightarrow> bool \<Rightarrow> server \<Rightarrow> nat \<times> server" where
  "find_or_create_room C rnd ownerAddr name rk hasAuth s =
     (case map_of (rooms s) name of
        Some r \<Rightarrow> (r, s)
      | None \<Rightarrow>
          (let secret = GenerateRoomSecret rnd;
               r = nextRoom s;
               room = \<lparr>r_name = name, r_hasAuth = hasAuth,
                       r_keys = (if hasAuth then room_keys_from C (AuthKey rk) secret
                                 else DeriveRoomKeys C name [] secret),
                       r_ownerAuthKey = (if hasAuth then AuthKey rk else []),
                       r_roomSecret = secret, r_ownerAddr = ownerAddr, r_peers = [],
                       r_createdLocally = False\<rparr>
           in (r, s\<lparr>roomHeap := (roomHeap s)(r := room), nextRoom := Suc r,
                    rooms := AList.update name r (rooms s)\<rparr>)))"

definition enter_room :: "nat \<Rightarrow> nat \<Rightarrow> server \<Rightarrow> server" where
  "enter_room p r s =
     (let addr = p_addr (peerHeap s p);
          s1 = update_room r (\<lambda>rm. rm\<lparr>r_peers := AList.update addr p (r_peers rm)\<rparr>) s;
          s2 = update_peer p (\<lambda>pr. pr\<lparr>p_room := Some r\<rparr>) s1
      in update_room r
           (\<lambda>rm. if r_ownerAddr rm = [] then rm\<lparr>r_ownerAddr := addr\<rparr> else rm) s2)"

definition secret_message :: "bytes \<Rightarrow> string" where
  "secret_message secret = ''SECRET:'' @ hex_encode secret @ [newline]"

definition join_notice :: "peer \<Rightarrow> string" where
  "join_notice pr = p_alias pr @ '' ('' @ p_addr pr @ '') joined the chat''"

definition leave_notice :: "peer \<Rightarrow> string" where
  "leave_notice pr = p_alias pr @ '' ('' @ p_addr pr @ '') left the chat''"

definition joinRoom ::
    "crypto \<Rightarrow> bytes \<Rightarrow> time \<Rightarrow> nat \<Rightarrow> string \<Rightarrow> room_keys \<Rightarrow> bool \<Rightarrow> server \<Rightarrow> server" where
  "joinRoom C rnd now p name rk hasAuth s =
     (let f = find_or_create_room C rnd (p_addr (peerHeap s p)) name rk hasAuth s;
          r = fst f;
          s1 = enter_room p r (snd f);
          s2 = conn_put (p_conn (peerHeap s1 p)) (secret_message (r_roomSecret (roomHeap s1 r))) s1;
          msg = join_notice (peerHeap s2 p);
          s3 = broadcastToRoom r (p_addr (peerHeap s2 p)) msg s2
      in notify_system C now msg s3)"

text \<open>\<open>rotateRoomSecret\<close>: new secret and keys, the secret to every member, the host's keys.\<close>

definition room_auth :: "crypto \<Rightarrow> room \<Rightarrow> bytes" where
  "room_auth C rm =
     (if r_hasAuth rm \<and> r_ownerAuthKey rm \<noteq> [] then r_ownerAuthKey rm
      else argon2_idkey C (r_name rm) (r_name rm))"

definition rotateRoomSecret :: "crypto \<Rightarrow> bytes \<Rightarrow> nat \<Rightarrow> server \<Rightarrow> server" where
  "rotateRoomSecret C rnd r s =
     (let secret = GenerateRoomSecret rnd;
          s1 = update_room r
                 (\<lambda>rm. rm\<lparr>r_roomSecret := secret,
                          r_keys := room_keys_from C (room_auth C rm) secret\<rparr>) s;
          s2 = fold (\<lambda>p. conn_put (p_conn (peerHeap s1 p)) (secret_message secret))
                 (room_members r s1) s1
      in if hasConnManager s2
         then snd (UpdateRoomKeys C (r_name (roomHeap s2 r)) [] (hex_encode secret) s2)
         else s2)"


section \<open>Leaving\<close>

text \<open>The loop that picks the next owner: the least address, by byte order.\<close>

fun least_addr :: "string \<Rightarrow> string list \<Rightarrow> string" where
  "least_addr best [] = best"
| "least_addr best (a # as) = least_addr (if best = [] \<or> a < best then a else best) as"

definition leave_room :: "nat \<Rightarrow> nat \<Rightarrow> server \<Rightarrow> server" where
  "leave_room p r s =
     update_room r
       (\<lambda>rm. let wasOwner = (r_ownerAddr rm = p_addr (peerHeap s p));
                  ps = AList.delete (p_addr (peerHeap s p)) (r_peers rm)
              in rm\<lparr>r_peers := ps,
                    r_ownerAddr := (if wasOwner \<and> ps \<noteq> [] then least_addr [] (keys ps)
                                    else if ps = [] then [] else r_ownerAddr rm)\<rparr>) s"

text \<open>An empty room leaves the registry unless the host created it.\<close>

definition drop_empty_room :: "nat \<Rightarrow> server \<Rightarrow> server" where
  "drop_empty_room r s =
     (let name = r_name (roomHeap s r)
      in if r_peers (roomHeap s r) = [] \<and> name \<noteq> []
         then (case map_of (rooms s) name of
                 None \<Rightarrow> s
               | Some r' \<Rightarrow>
                   if r_createdLocally (roomHeap s r') then s
                   else if r_peers (roomHeap s r') = []
                     then s\<lparr>rooms := AList.delete name (rooms s)\<rparr> else s)
         else s)"

text \<open>The end of \<open>removePeer\<close>: the transport is closed, through the registry if it is there.\<close>

definition disconnect_peer :: "nat \<Rightarrow> server \<Rightarrow> server" where
  "disconnect_peer p s =
     (if hasConnManager s
      then (let rc = removeConnection (p_addr (peerHeap s p)) s
            in if fst rc then snd rc else conn_close (p_conn (peerHeap s p)) (snd rc))
      else conn_close (p_conn (peerHeap s p)) s)"

definition removePeer :: "crypto \<Rightarrow> time \<Rightarrow> nat \<Rightarrow> server \<Rightarrow> server" where
  "removePeer C now p s =
     (case p_room (peerHeap s p) of
        None \<Rightarrow> disconnect_peer p s
      | Some r \<Rightarrow>
          (let s1 = drop_empty_room r (leave_room p r s);
               msg = leave_notice (peerHeap s1 p);
               s2 = broadcastToRoom r [] msg s1
           in disconnect_peer p (notify_system C now msg s2)))"

end
