(* ===== verification/Relay_Moderation.thy ===== *)
theory Relay_Moderation
  imports Relay_State
begin

text \<open>
  Kick, ban, unban and shut-down of \<open>server.go\<close>.

  \<open>handleKick\<close> and \<open>handleBan\<close> release every lock while they sleep for 200 ms between the notice
  to the evicted peer and the rotation of the room secret, so each is two operations here
  (\<open>kick_evict\<close> or \<open>ban_evict\<close>, then \<open>evict_finish\<close>), and \<open>handleKick\<close> and \<open>handleBan\<close> are
  their composition when nothing runs in between.  The requester is a \<open>Peer\<close> value: the CLI
  of the host process calls these operations with a peer that is in no room map, of address
  \<open>creator\<close>.  A nil room dereference is a panic.

  A Go map is iterated in an unspecified order; the order of the association list stands for it,
  and no lemma depends on which order that is.
\<close>

section \<open>Owner check and target\<close>

definition is_owner :: "peer \<Rightarrow> room \<Rightarrow> bool" where
  "is_owner requester rm \<longleftrightarrow> r_ownerAddr rm = p_addr requester \<or> p_addr requester = ''creator''"

definition find_alias :: "string \<Rightarrow> nat \<Rightarrow> server \<Rightarrow> (string \<times> nat) option" where
  "find_alias targetAlias r s =
     find (\<lambda>(a, p). p_alias (peerHeap s p) = targetAlias) (r_peers (roomHeap s r))"

text \<open>
  The first half of \<open>handleKick\<close> and \<open>handleBan\<close> up to the removal from the room: the room, the
  address and the peer, when the requester owns the room and the alias is in it.
\<close>

definition evict_target :: "peer \<Rightarrow> string \<Rightarrow> server \<Rightarrow> (nat \<times> string \<times> nat) option" where
  "evict_target requester targetAlias s =
     (case p_room requester of
        None \<Rightarrow> None
      | Some r \<Rightarrow>
          if is_owner requester (roomHeap s r)
          then map_option (\<lambda>e. (r, fst e, snd e)) (find_alias targetAlias r s)
          else None)"

definition delete_member :: "nat \<Rightarrow> string \<Rightarrow> server \<Rightarrow> server" where
  "delete_member r addr s =
     update_room r (\<lambda>rm. rm\<lparr>r_peers := AList.delete addr (r_peers rm)\<rparr>) s"


section \<open>Kick and ban\<close>

definition kick_notice :: "string \<Rightarrow> string" where
  "kick_notice name = ''SYSTEM:You were kicked from room '' @ [CHR 0x27] @ name @ [CHR 0x27]
     @ '' by the owner'' @ [newline]"

definition ban_notice :: "string \<Rightarrow> string" where
  "ban_notice name = ''SYSTEM:You were banned from room '' @ [CHR 0x27] @ name @ [CHR 0x27]
     @ '' by the owner'' @ [newline]"

definition kick_evict :: "peer \<Rightarrow> string \<Rightarrow> server \<Rightarrow> server" where
  "kick_evict requester targetAlias s =
     (if p_room requester = None then crash s
      else (case evict_target requester targetAlias s of
              None \<Rightarrow> s
            | Some (r, addr, p) \<Rightarrow>
                conn_put (p_conn (peerHeap s p)) (kick_notice (r_name (roomHeap s r)))
                  (delete_member r addr s)))"

text \<open>The entries a ban adds, before any key is rotated.\<close>

definition add_ban :: "string \<Rightarrow> peer \<Rightarrow> server \<Rightarrow> server" where
  "add_ban addr target s =
     (let b1 = AList.update addr True (banList s);
          b2 = (if p_deviceID target \<noteq> [] then AList.update (''device:'' @ p_deviceID target) True b1
                else b1);
          b3 = AList.update (''alias:'' @ p_alias target) True b2
      in s\<lparr>banList := b3,
           aliasToDeviceID := AList.update (p_alias target) (p_deviceID target) (aliasToDeviceID s)\<rparr>)"

definition ban_evict :: "peer \<Rightarrow> string \<Rightarrow> server \<Rightarrow> server" where
  "ban_evict requester targetAlias s =
     (if p_room requester = None then crash s
      else (case evict_target requester targetAlias s of
              None \<Rightarrow> s
            | Some (r, addr, p) \<Rightarrow>
                conn_put (p_conn (peerHeap s p)) (ban_notice (r_name (roomHeap s r)))
                  (add_ban addr (peerHeap s p) (delete_member r addr s))))"

text \<open>
  The second half: rotate, close the transport, drop the managed connection, tell the room and
  the host.
\<close>

definition drop_transport :: "string \<Rightarrow> nat \<Rightarrow> server \<Rightarrow> server" where
  "drop_transport addr p s =
     (let s1 = conn_close (p_conn (peerHeap s p)) s
      in if hasConnManager s1 then snd (removeConnection addr s1) else s1)"

definition evict_finish ::
    "crypto \<Rightarrow> bytes \<Rightarrow> nat \<Rightarrow> string \<Rightarrow> nat \<Rightarrow> string \<Rightarrow> server \<Rightarrow> server" where
  "evict_finish C rnd r addr p leaveMsg s =
     (let s1 = rotateRoomSecret C rnd r s;
          s2 = drop_transport addr p s1;
          s3 = broadcastToRoom r [] leaveMsg s2
      in if hasOnSystemMessage s3 then show_ui (OnSystemMessage leaveMsg) s3 else s3)"

definition kick_leave :: "string \<Rightarrow> string" where
  "kick_leave targetAlias = targetAlias @ '' was removed from the chat by the owner''"

definition ban_leave :: "string \<Rightarrow> string" where
  "ban_leave targetAlias = targetAlias @ '' was banned from the chat by the owner''"

definition handleKick :: "crypto \<Rightarrow> bytes \<Rightarrow> peer \<Rightarrow> string \<Rightarrow> server \<Rightarrow> server" where
  "handleKick C rnd requester targetAlias s =
     (let s1 = kick_evict requester targetAlias s
      in case evict_target requester targetAlias s of
           None \<Rightarrow> s1
         | Some (r, addr, p) \<Rightarrow> evict_finish C rnd r addr p (kick_leave targetAlias) s1)"

definition handleBan :: "crypto \<Rightarrow> bytes \<Rightarrow> peer \<Rightarrow> string \<Rightarrow> server \<Rightarrow> server" where
  "handleBan C rnd requester targetAlias s =
     (let s1 = ban_evict requester targetAlias s
      in case evict_target requester targetAlias s of
           None \<Rightarrow> s1
         | Some (r, addr, p) \<Rightarrow> evict_finish C rnd r addr p (ban_leave targetAlias) s1)"


section \<open>Unban\<close>

text \<open>
  The ban table and the reverse map after \<open>/unban target\<close>; the number of removed entries is only
  logged.  \<open>forget_alias\<close> is the lookup through the reverse map, which both the bare and the
  \<open>alias:\<close> form use.
\<close>

type_synonym ban_tables = "(string, bool) gomap \<times> (string, string) gomap"

definition forget_alias :: "string \<Rightarrow> ban_tables \<Rightarrow> ban_tables" where
  "forget_alias alias t =
     (case map_of (snd t) alias of
        None \<Rightarrow> t
      | Some did \<Rightarrow>
          if did = [] then t
          else (AList.delete (''device:'' @ did) (fst t), AList.delete alias (snd t)))"

definition forget_device :: "string \<Rightarrow> ban_tables \<Rightarrow> ban_tables" where
  "forget_device did t =
     fold (\<lambda>(alias, d) (b, m).
         if d = did then (AList.delete (''alias:'' @ alias) b, AList.delete alias m) else (b, m))
       (snd t) t"

definition unban_entries :: "string \<Rightarrow> ban_tables \<Rightarrow> ban_tables" where
  "unban_entries target t0 =
     (let t1 = (AList.delete target (fst t0), snd t0);
          t2 = (if \<not> has_prefix target ''device:'' \<and> \<not> has_prefix target ''alias:''
                then forget_alias target (AList.delete (''alias:'' @ target) (fst t1), snd t1)
                else t1);
          t3 = (if has_prefix target ''alias:'' then forget_alias (trim_prefix target ''alias:'') t2
                else t2)
      in if has_prefix target ''device:'' then forget_device (trim_prefix target ''device:'') t3
         else t3)"

definition unban_room :: "peer \<Rightarrow> server \<Rightarrow> nat option" where
  "unban_room requester s =
     (case p_room requester of
        Some r \<Rightarrow> Some r
      | None \<Rightarrow> (case rooms s of [] \<Rightarrow> None | e # _ \<Rightarrow> Some (snd e)))"

definition handleUnban :: "peer \<Rightarrow> string \<Rightarrow> server \<Rightarrow> server" where
  "handleUnban requester target s =
     (case unban_room requester s of
        None \<Rightarrow> s
      | Some r \<Rightarrow>
          if is_owner requester (roomHeap s r)
          then (let t = unban_entries target (banList s, aliasToDeviceID s)
                in s\<lparr>banList := fst t, aliasToDeviceID := snd t\<rparr>)
          else s)"


section \<open>Shut-down\<close>

text \<open>
  \<open>Close\<close> notifies every member of every registered room, sleeps, and removes the peers in a
  goroutine that holds \<open>roomsMu\<close> for reading.  \<open>removePeer\<close> takes \<open>roomsMu\<close> for writing when
  the room becomes empty, so the goroutine then blocks on itself: the flag is whether the
  removal returned.
\<close>

definition shutdown_message :: string where
  "shutdown_message = ''SYSTEM:Server is shutting down'' @ [newline]"

definition close_notify :: "server \<Rightarrow> server" where
  "close_notify s =
     fold (\<lambda>p. conn_put (p_conn (peerHeap s p)) shutdown_message)
       (concat (map (\<lambda>e. room_members (snd e) s) (rooms s))) s"

definition removePeer_locked :: "crypto \<Rightarrow> time \<Rightarrow> nat \<Rightarrow> server \<Rightarrow> bool \<times> server" where
  "removePeer_locked C now p s =
     (case p_room (peerHeap s p) of
        None \<Rightarrow> (True, removePeer C now p s)
      | Some r \<Rightarrow>
          (let s1 = leave_room p r s
           in if r_peers (roomHeap s1 r) = [] \<and> r_name (roomHeap s1 r) \<noteq> [] then (False, s1)
              else (True, removePeer C now p s)))"

fun close_members :: "crypto \<Rightarrow> time \<Rightarrow> nat list \<Rightarrow> server \<Rightarrow> bool \<times> server" where
  "close_members C now [] s = (True, s)"
| "close_members C now (p # ps) s =
     (let r = removePeer_locked C now p s
      in if fst r then close_members C now ps (snd r) else r)"

fun close_rooms :: "crypto \<Rightarrow> time \<Rightarrow> nat list \<Rightarrow> server \<Rightarrow> bool \<times> server" where
  "close_rooms C now [] s = (True, s)"
| "close_rooms C now (r # rs) s =
     (let c = close_members C now (room_members r s) s
      in if fst c then close_rooms C now rs (snd c) else c)"

definition Server_Close :: "crypto \<Rightarrow> time \<Rightarrow> server \<Rightarrow> bool \<times> server" where
  "Server_Close C now s = (let s1 = close_notify s in close_rooms C now (map snd (rooms s1)) s1)"

end
