(* ===== verification/Relay_Handler.thy ===== *)
theory Relay_Handler
  imports Relay_Moderation
begin

text \<open>
  The relay's protocol handler: \<open>handleMessage\<close> with one definition per message kind, and the
  per-connection loop \<open>handlePeerConnection\<close>.  The arguments \<open>rnd\<close> and \<open>now\<close> of a message are the
  random bytes \<open>GenerateRoomSecret\<close> draws and the clock while it is handled.
\<close>

section \<open>JOIN\<close>

text \<open>
  The fields of a JOIN payload: room, alias (empty when absent or blank, and then the peer keeps
  its alias), password and device ID.  With three fields, a third one of 64 bytes is a device
  ID.
\<close>

fun join_fields :: "string list \<Rightarrow> string \<times> string \<times> string \<times> string" where
  "join_fields [] = ([], [], [], [])"
| "join_fields [r] = (r, [], [], [])"
| "join_fields [r, a] = (r, a, [], [])"
| "join_fields [r, a, x] = (if length x = 64 then (r, a, [], x) else (r, a, x, []))"
| "join_fields (r # a # p # d # extra) = (r, a, p, d)"

definition parse_join :: "string \<Rightarrow> string \<times> string \<times> string \<times> string" where
  "parse_join payload = join_fields (if payload = [] then [] else split_on pipe payload)"

definition is_banned :: "nat \<Rightarrow> server \<Rightarrow> bool" where
  "is_banned p s \<longleftrightarrow>
     map_of (banList s) (p_addr (peerHeap s p)) = Some True \<or>
     p_deviceID (peerHeap s p) \<noteq> [] \<and>
     map_of (banList s) (''device:'' @ p_deviceID (peerHeap s p)) = Some True"

definition reject_join :: "nat \<Rightarrow> string \<Rightarrow> server \<Rightarrow> server" where
  "reject_join p reason s =
     conn_close (p_conn (peerHeap s p))
       (conn_put (p_conn (peerHeap s p)) (''AUTH:FAILED|'' @ reason @ [newline]) s)"

definition alias_taken :: "nat \<Rightarrow> string \<Rightarrow> server \<Rightarrow> bool" where
  "alias_taken r alias s =
     list_ex (\<lambda>p. equal_fold (p_alias (peerHeap s p)) alias) (room_members r s)"

text \<open>The checks against an existing room, in order; \<open>None\<close> admits the peer.\<close>

definition join_refusal :: "nat \<Rightarrow> nat \<Rightarrow> string \<Rightarrow> room_keys \<Rightarrow> server \<Rightarrow> string option" where
  "join_refusal p r password rk s =
     (let rm = roomHeap s r
      in if r_hasAuth rm \<and> password = [] then Some ''Room requires a password''
         else if r_hasAuth rm \<and> AuthKey (r_keys rm) \<noteq> AuthKey rk then Some ''Incorrect password''
         else if alias_taken r (p_alias (peerHeap s p)) s then Some ''Alias already in use''
         else None)"

definition note_identity :: "nat \<Rightarrow> string \<Rightarrow> string \<Rightarrow> server \<Rightarrow> server" where
  "note_identity p alias did s =
     update_peer p
       (\<lambda>pr. pr\<lparr>p_alias := (if alias \<noteq> [] then alias else p_alias pr),
                p_deviceID := (if did \<noteq> [] then did else p_deviceID pr)\<rparr>) s"

definition handle_join ::
    "crypto \<Rightarrow> bytes \<Rightarrow> time \<Rightarrow> nat \<Rightarrow> string \<Rightarrow> server \<Rightarrow> server" where
  "handle_join C rnd now p payload s =
     (case parse_join payload of
        (name, alias, password, did) \<Rightarrow>
          (let s1 = note_identity p alias did s
           in if is_banned p s1 then reject_join p ''Banned'' s1
              else (case map_of (rooms s1) name of
                      None \<Rightarrow> joinRoom C rnd now p name (DeriveRoomKeys C name password [])
                                (password \<noteq> []) s1
                    | Some r \<Rightarrow>
                        (let rk = DeriveRoomKeys C name password (r_roomSecret (roomHeap s1 r))
                         in case join_refusal p r password rk s1 of
                              Some reason \<Rightarrow> reject_join p reason s1
                            | None \<Rightarrow> joinRoom C rnd now p name rk (password \<noteq> []) s1))))"


section \<open>FROM, SYSTEM, MSG and plain text\<close>

text \<open>An encrypted message: checked under the room's keys, then forwarded as it came.\<close>

definition relay_encrypted ::
    "crypto \<Rightarrow> time \<Rightarrow> nat \<Rightarrow> nat \<Rightarrow> string \<Rightarrow> string \<Rightarrow> string list \<Rightarrow> server \<Rightarrow> server" where
  "relay_encrypted C now p r alias content parts s =
     (case parts of
        [payload, nonce, hmacHex] \<Rightarrow>
          if \<not> Verify C (r_keys (roomHeap s r)) (unsigned_text alias payload nonce) hmacHex then s
          else
            (let s1 = update_peer p (\<lambda>pr. pr\<lparr>p_alias := alias\<rparr>) s;
                 s2 = broadcastToRoom r (p_addr (peerHeap s1 p)) content s1;
                 shown = (case Decrypt C (r_keys (roomHeap s2 r)) payload of
                            Inr pt \<Rightarrow> pt
                          | Inl e \<Rightarrow> content)
             in notify_message C now (p_alias (peerHeap s2 p)) (r_name (roomHeap s2 r)) shown s2)
      | _ \<Rightarrow> s)"

definition handle_from :: "crypto \<Rightarrow> time \<Rightarrow> nat \<Rightarrow> string \<Rightarrow> server \<Rightarrow> server" where
  "handle_from C now p body s =
     (case split_n 2 pipe body of
        [alias, content] \<Rightarrow>
          (case p_room (peerHeap s p) of
             None \<Rightarrow> s
           | Some r \<Rightarrow> relay_encrypted C now p r alias content (split_n 3 pipe content) s)
      | _ \<Rightarrow> s)"

text \<open>
  A system line: the display guard does not test the connection manager, so a server with a
  message callback and no connection manager panics.
\<close>

definition handle_system :: "crypto \<Rightarrow> time \<Rightarrow> nat \<Rightarrow> string \<Rightarrow> server \<Rightarrow> server" where
  "handle_system C now p msg s =
     (case p_room (peerHeap s p) of
        None \<Rightarrow> s
      | Some r \<Rightarrow>
          (let s1 = broadcastToRoom r [] msg s
           in if \<not> hasOnMessage s1 then s1
              else if \<not> hasConnManager s1 then crash s1
              else notify_message C now ''System'' (r_name (roomHeap s1 r)) msg s1))"

text \<open>\<open>MSG:\<close> and text of no known kind: broadcast and displayed as they are.\<close>

definition handle_text :: "crypto \<Rightarrow> time \<Rightarrow> nat \<Rightarrow> string \<Rightarrow> server \<Rightarrow> server" where
  "handle_text C now p content s =
     (case p_room (peerHeap s p) of
        None \<Rightarrow> s
      | Some r \<Rightarrow>
          (let s1 = broadcastToRoom r (p_addr (peerHeap s p)) content s
           in notify_message C now (p_alias (peerHeap s1 p)) (r_name (roomHeap s1 r)) content s1))"


section \<open>The dispatcher\<close>

definition in_room :: "nat \<Rightarrow> server \<Rightarrow> bool" where
  "in_room p s \<longleftrightarrow> p_room (peerHeap s p) \<noteq> None"

definition command_arg :: "string \<Rightarrow> string \<Rightarrow> string" where
  "command_arg cmd message = trim_space (trim_prefix message cmd)"

definition handleMessage ::
    "crypto \<Rightarrow> bytes \<Rightarrow> time \<Rightarrow> nat \<Rightarrow> string \<Rightarrow> server \<Rightarrow> server" where
  "handleMessage C rnd now p message s =
     (if message = ''PING'' then conn_put (p_conn (peerHeap s p)) (''PONG'' @ [newline]) s
      else if message = ''PONG'' then
        (if hasConnManager s then ClearPing (p_addr (peerHeap s p)) s else s)
      else if has_prefix message ''JOIN:'' then
        handle_join C rnd now p (trim_prefix message ''JOIN:'') s
      else if has_prefix message ''FROM:'' then
        handle_from C now p (trim_prefix message ''FROM:'') s
      else if has_prefix message ''SYSTEM:'' then
        handle_system C now p (trim_prefix message ''SYSTEM:'') s
      else if has_prefix message ''MSG:'' then
        handle_text C now p (trim_prefix message ''MSG:'') s
      else if has_prefix message ''KICK:'' then
        (if in_room p s then handleKick C rnd (peerHeap s p) (command_arg ''KICK:'' message) s else s)
      else if has_prefix message ''BAN:'' then
        (if in_room p s then handleBan C rnd (peerHeap s p) (command_arg ''BAN:'' message) s else s)
      else if has_prefix message ''UNBAN:'' then
        (if in_room p s then handleUnban (peerHeap s p) (command_arg ''UNBAN:'' message) s else s)
      else handle_text C now p message s)"


section \<open>The connection loop\<close>

text \<open>\<open>handlePeerConnection\<close> up to its loop: registration and a fresh peer of a random alias.\<close>

definition accept_peer :: "nat \<Rightarrow> string \<Rightarrow> string \<Rightarrow> time \<Rightarrow> server \<Rightarrow> nat \<times> server" where
  "accept_peer pc peerAddr alias now s =
     (let s1 = (if hasConnManager s then RegisterIncoming peerAddr pc now s else s);
          p = nextPeer s1
      in (p, s1\<lparr>peerHeap := (peerHeap s1)
                   (p := \<lparr>p_addr = peerAddr, p_alias = alias, p_conn = pc, p_room = None,
                          p_deviceID = []\<rparr>),
                nextPeer := Suc p\<rparr>))"

definition serve_line ::
    "crypto \<Rightarrow> nat \<Rightarrow> bytes \<times> time \<times> string \<Rightarrow> server \<Rightarrow> server" where
  "serve_line C p input s =
     (case input of
        (rnd, now, raw) \<Rightarrow>
          (let line = trim_space raw
           in if line = [] then s else handleMessage C rnd now p line s))"

text \<open>
  The whole goroutine, when it runs alone: the lines the peer sends until its stream ends at
  time \<open>eof\<close>.  The interleaving of several of them is the event machine of \<open>Relay_Invariants\<close>.
\<close>

definition handlePeerConnection ::
    "crypto \<Rightarrow> nat \<Rightarrow> string \<Rightarrow> string \<Rightarrow> time \<Rightarrow> (bytes \<times> time \<times> string) list \<Rightarrow> time
     \<Rightarrow> server \<Rightarrow> server" where
  "handlePeerConnection C pc peerAddr alias now lines eof s =
     (let a = accept_peer pc peerAddr alias now s
      in removePeer C eof (fst a) (fold (serve_line C (fst a)) lines (snd a)))"

end
