(* ===== verification/Relay_Frame.thy ===== *)
theory Relay_Frame
  imports Relay_Handler
begin

text \<open>
  Frame facts of the relay: the transport and connection-manager operations leave the rooms,
  the peers and the ban tables alone, and the room operations keep the connection registry.
  \<open>relay_part\<close> is the part of the state that only \<open>server.go\<close> writes.
\<close>

section \<open>The relay's own part of the state\<close>

type_synonym relay_fields =
  "(string, nat) gomap \<times> (nat \<Rightarrow> room) \<times> nat \<times> (nat \<Rightarrow> peer) \<times> nat \<times> (string, bool) gomap \<times>
   (string, string) gomap \<times> bool \<times> bool \<times> bool"

definition relay_part :: "server \<Rightarrow> relay_fields" where
  "relay_part s =
     (rooms s, roomHeap s, nextRoom s, peerHeap s, nextPeer s, banList s, aliasToDeviceID s,
      hasConnManager s, hasOnMessage s, hasOnSystemMessage s)"

lemma relay_partD:
  assumes "relay_part s' = relay_part s"
  shows "rooms s' = rooms s" "roomHeap s' = roomHeap s" "nextRoom s' = nextRoom s"
    "peerHeap s' = peerHeap s" "nextPeer s' = nextPeer s" "banList s' = banList s"
    "aliasToDeviceID s' = aliasToDeviceID s" "hasConnManager s' = hasConnManager s"
    "hasOnMessage s' = hasOnMessage s" "hasOnSystemMessage s' = hasOnSystemMessage s"
  using assms by (simp_all add: relay_part_def)

lemma relay_part_cm [simp]:
  "relay_part (s\<lparr>conns := c\<rparr>) = relay_part s" "relay_part (s\<lparr>screen := e\<rparr>) = relay_part s"
  "relay_part (s\<lparr>crashed := b\<rparr>) = relay_part s" "relay_part (s\<lparr>mcs := m\<rparr>) = relay_part s"
  "relay_part (s\<lparr>nextMC := n\<rparr>) = relay_part s" "relay_part (s\<lparr>connections := cs\<rparr>) = relay_part s"
  "relay_part (s\<lparr>seenMsgs := sm\<rparr>) = relay_part s" "relay_part (s\<lparr>pendingPings := pp\<rparr>) = relay_part s"
  "relay_part (s\<lparr>roomKeys := rk\<rparr>) = relay_part s" "relay_part (s\<lparr>roomSecret := rs\<rparr>) = relay_part s"
  by (simp_all add: relay_part_def)

lemma relay_part_conn_put [simp]: "relay_part (conn_put i m s) = relay_part s"
  by (simp add: conn_write_def)

lemma relay_part_conn_close [simp]: "relay_part (conn_close i s) = relay_part s"
  by (simp add: conn_close_def)

lemma relay_part_show_ui [simp]: "relay_part (show_ui e s) = relay_part s"
  by (simp add: show_ui_def)

lemma relay_part_set_mc [simp]: "relay_part (set_mc i mc s) = relay_part s"
  by (simp add: set_mc_def)

lemma relay_part_enqueue_at [simp]: "relay_part (snd (enqueue_at i m s)) = relay_part s"
  by (simp add: enqueue_at_def Let_def)

lemma relay_part_IsDuplicate [simp]: "relay_part (snd (IsDuplicate C a m t s)) = relay_part s"
  by (simp add: IsDuplicate_def Let_def)

lemma relay_part_UpdateRoomKeys [simp]: "relay_part (snd (UpdateRoomKeys C r p h s)) = relay_part s"
  by (simp add: UpdateRoomKeys_def Let_def split: option.split)

lemma relay_part_ClearPing [simp]: "relay_part (ClearPing a s) = relay_part s"
  by (simp add: ClearPing_def)

lemma relay_part_shut_mc [simp]: "relay_part (shut_mc i s) = relay_part s"
  by (simp add: shut_mc_def Let_def crash_def split: option.split)

lemma relay_part_removeConnection [simp]: "relay_part (snd (removeConnection a s)) = relay_part s"
  by (simp add: removeConnection_def Let_def split: option.split)

lemma relay_part_RegisterIncoming [simp]: "relay_part (RegisterIncoming a c t s) = relay_part s"
  by (simp add: RegisterIncoming_def register_mc_def Let_def)

lemma relay_part_write_batch [simp]: "relay_part (snd (write_batch i s)) = relay_part s"
  by (simp add: write_batch_def Let_def)

lemma relay_part_cleanupSeenMsgs [simp]: "relay_part (cleanupSeenMsgs t s) = relay_part s"
  by (simp add: cleanupSeenMsgs_def Let_def)

lemma relay_part_healthCheck [simp]: "relay_part (healthCheck t s) = relay_part s"
proof -
  have ping: "relay_part (send_ping a s) = relay_part s" for a s
    by (simp add: send_ping_def Let_def split: option.split)
  have dead: "relay_part (drop_dead a s) = relay_part s" for a s
    by (simp add: drop_dead_def Let_def print_line_def)
  show ?thesis
    by (simp add: healthCheck_def split: prod.split)
      (metis dead ping fold_field relay_part_cm(8))
qed

lemma relay_part_deliver [simp]: "relay_part (deliver m p s) = relay_part s"
  by (simp add: deliver_def split: option.split)

lemma relay_part_broadcastToRoom [simp]: "relay_part (broadcastToRoom r a m s) = relay_part s"
  unfolding broadcastToRoom_def by (rule fold_field) simp

lemma relay_part_notify_system [simp]: "relay_part (notify_system C t m s) = relay_part s"
  by (simp add: notify_system_def Let_def)

lemma relay_part_notify_message [simp]: "relay_part (notify_message C t a r m s) = relay_part s"
  by (simp add: notify_message_def Let_def)

lemma relay_part_fold_put [simp]:
  "relay_part (fold (\<lambda>p. conn_put (f p) m) ps s) = relay_part s"
  by (rule fold_field) simp

lemma relay_part_close_notify [simp]: "relay_part (close_notify s) = relay_part s"
  unfolding close_notify_def by (rule fold_field) simp

lemma relay_part_drop_transport [simp]: "relay_part (drop_transport a p s) = relay_part s"
  by (simp add: drop_transport_def Let_def)

lemmas relay_frame [simp] =
  relay_partD [OF relay_part_drop_transport]
  relay_partD [OF relay_part_conn_put] relay_partD [OF relay_part_conn_close]
  relay_partD [OF relay_part_show_ui] relay_partD [OF relay_part_set_mc]
  relay_partD [OF relay_part_enqueue_at] relay_partD [OF relay_part_IsDuplicate]
  relay_partD [OF relay_part_UpdateRoomKeys] relay_partD [OF relay_part_ClearPing]
  relay_partD [OF relay_part_removeConnection] relay_partD [OF relay_part_RegisterIncoming]
  relay_partD [OF relay_part_deliver] relay_partD [OF relay_part_broadcastToRoom]
  relay_partD [OF relay_part_notify_system] relay_partD [OF relay_part_notify_message]
  relay_partD [OF relay_part_fold_put] relay_partD [OF relay_part_close_notify]


section \<open>The registry under the room operations\<close>

lemma cm_ok_crash_free:
  "cm_ok s \<Longrightarrow> \<not> crashed s"
  by (simp add: cm_ok_def)

lemma cm_ok_show_ui [simp]: "cm_ok (show_ui e s) = cm_ok s"
  by (rule cm_ok_cong) (simp_all add: show_ui_def)

lemma cm_ok_relay_fields [simp]:
  "cm_ok ((s :: server)\<lparr>rooms := rs\<rparr>) = cm_ok s" "cm_ok (s\<lparr>roomHeap := rh\<rparr>) = cm_ok s"
  "cm_ok (s\<lparr>nextRoom := n\<rparr>) = cm_ok s" "cm_ok (s\<lparr>peerHeap := ph\<rparr>) = cm_ok s"
  "cm_ok (s\<lparr>nextPeer := n\<rparr>) = cm_ok s" "cm_ok (s\<lparr>banList := b\<rparr>) = cm_ok s"
  "cm_ok (s\<lparr>aliasToDeviceID := d\<rparr>) = cm_ok s"
  by (rule cm_ok_cong; simp)+

lemma cm_ok_update_room [simp]: "cm_ok (update_room r f s) = cm_ok s"
  by (simp add: update_room_def)

lemma cm_ok_update_peer [simp]: "cm_ok (update_peer p f s) = cm_ok s"
  by (simp add: update_peer_def)

lemma cm_ok_deliver [simp]: "cm_ok s \<Longrightarrow> cm_ok (deliver m p s)"
  by (simp add: deliver_def split: option.split)

lemma cm_ok_broadcastToRoom [simp]: "cm_ok s \<Longrightarrow> cm_ok (broadcastToRoom r a m s)"
  unfolding broadcastToRoom_def by (rule fold_preserves) auto

lemma cm_ok_notify_system [simp]: "cm_ok (notify_system C t m s) = cm_ok s"
  by (simp add: notify_system_def Let_def)

lemma cm_ok_notify_message [simp]: "cm_ok (notify_message C t a r m s) = cm_ok s"
  by (simp add: notify_message_def Let_def)

lemma cm_ok_fold_put [simp]: "cm_ok s \<Longrightarrow> cm_ok (fold (\<lambda>p. conn_put (f p) m) ps s)"
  by (rule fold_preserves) auto

lemma cm_ok_find_or_create_room [simp]:
  "cm_ok s \<Longrightarrow> cm_ok (snd (find_or_create_room C rnd a n rk h s))"
  by (simp add: find_or_create_room_def Let_def split: option.split)

lemma cm_ok_enter_room [simp]: "cm_ok (enter_room p r s) = cm_ok s"
  by (simp add: enter_room_def Let_def)

lemma cm_ok_joinRoom [simp]: "cm_ok s \<Longrightarrow> cm_ok (joinRoom C rnd t p n rk h s)"
  by (simp add: joinRoom_def Let_def)

lemma cm_ok_CreateRoom [simp]: "cm_ok s \<Longrightarrow> cm_ok (CreateRoom C rnd n rk b pw s)"
  by (simp add: CreateRoom_def Let_def)

lemma cm_ok_rotateRoomSecret [simp]: "cm_ok s \<Longrightarrow> cm_ok (rotateRoomSecret C rnd r s)"
  by (simp add: rotateRoomSecret_def Let_def)

lemma cm_ok_disconnect_peer [simp]: "cm_ok s \<Longrightarrow> cm_ok (disconnect_peer p s)"
  by (simp add: disconnect_peer_def Let_def)

lemma cm_ok_drop_empty_room [simp]: "cm_ok (drop_empty_room r s) = cm_ok s"
  by (simp add: drop_empty_room_def Let_def split: option.split)

lemma cm_ok_removePeer [simp]: "cm_ok s \<Longrightarrow> cm_ok (removePeer C t p s)"
  by (simp add: removePeer_def Let_def leave_room_def split: option.split)

lemma cm_ok_kick_evict [simp]: "cm_ok s \<Longrightarrow> p_room rq \<noteq> None \<Longrightarrow> cm_ok (kick_evict rq a s)"
  by (auto simp: kick_evict_def delete_member_def split: option.split)

lemma cm_ok_ban_evict [simp]: "cm_ok s \<Longrightarrow> p_room rq \<noteq> None \<Longrightarrow> cm_ok (ban_evict rq a s)"
  by (auto simp: ban_evict_def delete_member_def add_ban_def Let_def split: option.split)

lemma cm_ok_drop_transport [simp]: "cm_ok s \<Longrightarrow> cm_ok (drop_transport a p s)"
  by (simp add: drop_transport_def Let_def)

lemma cm_ok_evict_finish [simp]: "cm_ok s \<Longrightarrow> cm_ok (evict_finish C rnd r a p m s)"
  by (simp add: evict_finish_def Let_def)

lemma cm_ok_handleKick [simp]: "cm_ok s \<Longrightarrow> p_room rq \<noteq> None \<Longrightarrow> cm_ok (handleKick C rnd rq a s)"
  by (auto simp: handleKick_def Let_def split: option.split)

lemma cm_ok_handleBan [simp]: "cm_ok s \<Longrightarrow> p_room rq \<noteq> None \<Longrightarrow> cm_ok (handleBan C rnd rq a s)"
  by (auto simp: handleBan_def Let_def split: option.split)

lemma cm_ok_handleUnban [simp]: "cm_ok s \<Longrightarrow> cm_ok (handleUnban rq t s)"
  by (simp add: handleUnban_def Let_def split: option.split)

lemma cm_ok_reject_join [simp]: "cm_ok (reject_join p m s) = cm_ok s"
  by (simp add: reject_join_def)

lemma cm_ok_handle_join [simp]: "cm_ok s \<Longrightarrow> cm_ok (handle_join C rnd t p m s)"
  by (auto simp: handle_join_def Let_def note_identity_def split: prod.split option.split)

lemma cm_ok_relay_encrypted [simp]:
  "cm_ok s \<Longrightarrow> cm_ok (relay_encrypted C t p r a c ps s)"
  by (simp add: relay_encrypted_def Let_def split: list.split)

lemma cm_ok_handle_from [simp]: "cm_ok s \<Longrightarrow> cm_ok (handle_from C t p b s)"
  by (simp add: handle_from_def split: list.split option.split)

lemma cm_ok_handle_system [simp]:
  "cm_ok s \<Longrightarrow> hasOnMessage s \<longrightarrow> hasConnManager s \<Longrightarrow> cm_ok (handle_system C t p m s)"
  by (auto simp: handle_system_def Let_def split: option.split)

lemma cm_ok_handle_text [simp]: "cm_ok s \<Longrightarrow> cm_ok (handle_text C t p m s)"
  by (simp add: handle_text_def Let_def split: option.split)

lemma cm_ok_handleMessage [simp]:
  assumes "cm_ok s" and "hasOnMessage s \<longrightarrow> hasConnManager s"
  shows "cm_ok (handleMessage C rnd t p m s)"
  using assms by (simp add: handleMessage_def in_room_def)

end
