(* ===== verification/Relay_Invariants.thy ===== *)
theory Relay_Invariants
  imports Relay_Frame
begin

text \<open>
  The invariant of the relay, over every interleaving of its goroutines: an event machine whose
  events are the atomic operations of the handlers, and \<open>srv_ok\<close>, kept by each of them.

  The guard of an event (\<open>enabled\<close>) states what the program and its environment guarantee when
  it happens: the objects it names exist, an address is not empty, the random source fills its
  buffer.  A goroutine that has ended sends no more lines, which the machine does not demand, so
  it has more runs than the program.
\<close>

section \<open>The invariant\<close>

definition room_ok :: "crypto \<Rightarrow> server \<Rightarrow> room \<Rightarrow> bool" where
  "room_ok C s rm \<longleftrightarrow>
     gomap (r_peers rm) \<and>
     (\<forall>(a, p) \<in> set (r_peers rm). p < nextPeer s \<and> p_addr (peerHeap s p) = a) \<and>
     r_keys rm = room_keys_from C (room_auth C rm) (r_roomSecret rm) \<and>
     (r_hasAuth rm \<longrightarrow> r_ownerAuthKey rm \<noteq> []) \<and>
     (r_peers rm \<noteq> [] \<longrightarrow> r_ownerAddr rm \<noteq> [])"

definition registry_of_rooms :: "server \<Rightarrow> bool" where
  "registry_of_rooms s \<longleftrightarrow>
     gomap (rooms s) \<and>
     (\<forall>(n, r) \<in> set (rooms s). r < nextRoom s \<and> r_name (roomHeap s r) = n)"

definition peer_ok :: "server \<Rightarrow> peer \<Rightarrow> bool" where
  "peer_ok s pr \<longleftrightarrow> p_addr pr \<noteq> [] \<and> (\<forall>r. p_room pr = Some r \<longrightarrow> r < nextRoom s)"

definition rooms_ok :: "crypto \<Rightarrow> server \<Rightarrow> bool" where
  "rooms_ok C s \<longleftrightarrow>
     registry_of_rooms s \<and>
     (\<forall>r < nextRoom s. room_ok C s (roomHeap s r)) \<and>
     (\<forall>p < nextPeer s. peer_ok s (peerHeap s p))"

definition srv_ok :: "crypto \<Rightarrow> server \<Rightarrow> bool" where
  "srv_ok C s \<longleftrightarrow> cm_ok s \<and> rooms_ok C s \<and> (hasOnMessage s \<longrightarrow> hasConnManager s)"

lemma rooms_ok_cong: "relay_part s' = relay_part s \<Longrightarrow> rooms_ok C s' = rooms_ok C s"
  using relay_partD [of s' s]
  by (simp add: rooms_ok_def registry_of_rooms_def room_ok_def peer_ok_def)

lemma rooms_ok_frame [simp]:
  "rooms_ok C (conn_put i m s) = rooms_ok C s" "rooms_ok C (conn_close i s) = rooms_ok C s"
  "rooms_ok C (show_ui e s) = rooms_ok C s" "rooms_ok C (broadcastToRoom r a m s) = rooms_ok C s"
  "rooms_ok C (notify_system C t m s) = rooms_ok C s"
  "rooms_ok C (notify_message C t a rn m s) = rooms_ok C s"
  "rooms_ok C (ClearPing a s) = rooms_ok C s"
  "rooms_ok C (snd (removeConnection a s)) = rooms_ok C s"
  "rooms_ok C (RegisterIncoming a c t s) = rooms_ok C s"
  "rooms_ok C (snd (UpdateRoomKeys C rn pw h s)) = rooms_ok C s"
  "rooms_ok C (snd (write_batch i s)) = rooms_ok C s"
  "rooms_ok C (cleanupSeenMsgs t s) = rooms_ok C s"
  "rooms_ok C (healthCheck t s) = rooms_ok C s"
  "rooms_ok C (drop_transport a p s) = rooms_ok C s"
  "rooms_ok C (fold (\<lambda>p. conn_put (f p) m) ps s) = rooms_ok C s"
  by (rule rooms_ok_cong; simp)+

lemma rooms_okD:
  assumes "rooms_ok C s"
  shows "registry_of_rooms s" "r < nextRoom s \<Longrightarrow> room_ok C s (roomHeap s r)"
    "p < nextPeer s \<Longrightarrow> peer_ok s (peerHeap s p)"
  using assms by (simp_all add: rooms_ok_def)

lemma rooms_ok_registered:
  assumes "rooms_ok C s" and "map_of (rooms s) n = Some r"
  shows "r < nextRoom s" "r_name (roomHeap s r) = n"
  using rooms_okD(1) [OF assms(1)] map_of_SomeD [OF assms(2)]
  by (auto simp: registry_of_rooms_def)


section \<open>Updates of one room or one peer\<close>

lemma update_room_sel [simp]:
  "rooms (update_room r f s) = rooms s" "nextRoom (update_room r f s) = nextRoom s"
  "peerHeap (update_room r f s) = peerHeap s" "nextPeer (update_room r f s) = nextPeer s"
  "roomHeap (update_room r f s) = (roomHeap s)(r := f (roomHeap s r))"
  "hasConnManager (update_room r f s) = hasConnManager s"
  "hasOnMessage (update_room r f s) = hasOnMessage s"
  "hasOnSystemMessage (update_room r f s) = hasOnSystemMessage s"
  "banList (update_room r f s) = banList s" "conns (update_room r f s) = conns s"
  "aliasToDeviceID (update_room r f s) = aliasToDeviceID s"
  "connections (update_room r f s) = connections s" "mcs (update_room r f s) = mcs s"
  "screen (update_room r f s) = screen s" "seenMsgs (update_room r f s) = seenMsgs s"
  by (simp_all add: update_room_def)

lemma update_peer_sel [simp]:
  "rooms (update_peer p f s) = rooms s" "nextRoom (update_peer p f s) = nextRoom s"
  "peerHeap (update_peer p f s) = (peerHeap s)(p := f (peerHeap s p))"
  "nextPeer (update_peer p f s) = nextPeer s" "roomHeap (update_peer p f s) = roomHeap s"
  "hasConnManager (update_peer p f s) = hasConnManager s"
  "hasOnMessage (update_peer p f s) = hasOnMessage s"
  "hasOnSystemMessage (update_peer p f s) = hasOnSystemMessage s"
  "banList (update_peer p f s) = banList s" "conns (update_peer p f s) = conns s"
  "aliasToDeviceID (update_peer p f s) = aliasToDeviceID s"
  "connections (update_peer p f s) = connections s" "mcs (update_peer p f s) = mcs s"
  "screen (update_peer p f s) = screen s" "seenMsgs (update_peer p f s) = seenMsgs s"
  by (simp_all add: update_peer_def)

lemma room_ok_update_room [simp]: "room_ok C (update_room r f s) rm = room_ok C s rm"
  by (simp add: room_ok_def)

lemma peer_ok_update_room [simp]: "peer_ok (update_room r f s) pr = peer_ok s pr"
  by (simp add: peer_ok_def)

lemma peer_ok_update_peer [simp]: "peer_ok (update_peer p f s) pr = peer_ok s pr"
  by (simp add: peer_ok_def)

lemma rooms_ok_update_room:
  assumes "rooms_ok C s" and "r < nextRoom s \<Longrightarrow> room_ok C s (f (roomHeap s r))"
    and "\<And>rm. r_name (f rm) = r_name rm"
  shows "rooms_ok C (update_room r f s)"
  using assms by (auto simp: rooms_ok_def registry_of_rooms_def)

lemma rooms_ok_update_peer:
  assumes "rooms_ok C s" and "\<And>pr. p_addr (f pr) = p_addr pr"
    and "\<And>r. p_room (f (peerHeap s p)) = Some r \<Longrightarrow>
           p_room (peerHeap s p) = Some r \<or> r < nextRoom s"
  shows "rooms_ok C (update_peer p f s)"
proof -
  have "p_addr (peerHeap (update_peer p f s) q) = p_addr (peerHeap s q)" for q
    by (simp add: assms(2))
  then have "room_ok C (update_peer p f s) rm = room_ok C s rm" for rm
    by (simp add: room_ok_def del: update_peer_sel(3))
  moreover have "p < nextPeer s \<Longrightarrow> peer_ok s (f (peerHeap s p))"
    using assms by (auto simp: rooms_ok_def peer_ok_def)
  ultimately show ?thesis
    using assms(1) by (auto simp: rooms_ok_def registry_of_rooms_def)
qed


section \<open>Each operation keeps the rooms\<close>

lemma GenerateRoomSecret_nonempty: "length rnd = 32 \<Longrightarrow> GenerateRoomSecret rnd \<noteq> []"
  by (auto simp: GenerateRoomSecret_def)

text \<open>A room object added to the heap, registered under its name.\<close>

lemma rooms_ok_new_room:
  assumes "rooms_ok C s" and "room_ok C s rm" and "\<not> mapped (rooms s) (r_name rm)"
  shows "rooms_ok C (s\<lparr>roomHeap := (roomHeap s)(nextRoom s := rm), nextRoom := Suc (nextRoom s),
           rooms := AList.update (r_name rm) (nextRoom s) (rooms s)\<rparr>)"
proof -
  let ?s = "s\<lparr>roomHeap := (roomHeap s)(nextRoom s := rm), nextRoom := Suc (nextRoom s),
           rooms := AList.update (r_name rm) (nextRoom s) (rooms s)\<rparr>"
  have "room_ok C ?s x = room_ok C s x" for x by (simp add: room_ok_def)
  moreover have "peer_ok s x \<Longrightarrow> peer_ok ?s x" for x by (auto simp: peer_ok_def)
  moreover have "rooms ?s = rooms s @ [(r_name rm, nextRoom s)]"
    using set_update_new [OF assms(3)] by simp
  moreover have "gomap (rooms ?s)"
    using assms(1) by (simp add: rooms_ok_def registry_of_rooms_def)
  ultimately show ?thesis
    using assms(1,2) by (auto simp: rooms_ok_def registry_of_rooms_def less_Suc_eq)
qed

lemma room_ok_created:
  assumes "AuthKey rk \<noteq> []"
  shows "room_ok C s
    \<lparr>r_name = n, r_hasAuth = True, r_keys = room_keys_from C (AuthKey rk) sec,
     r_ownerAuthKey = AuthKey rk, r_roomSecret = sec, r_ownerAddr = a, r_peers = [],
     r_createdLocally = b\<rparr>"
  using assms by (simp add: room_ok_def room_auth_def)

lemma rooms_ok_CreateRoom [simp]:
  assumes "rooms_ok C s" and "AuthKey rk \<noteq> []"
  shows "rooms_ok C (CreateRoom C rnd n rk b pw s)"
  using rooms_ok_new_room [OF assms(1) room_ok_created [OF assms(2)]]
  by (auto simp: CreateRoom_def Let_def assms(1))

lemma find_or_create_room_ok:
  assumes ok: "rooms_ok C s" and rnd: "length rnd = 32" and rk: "h \<Longrightarrow> AuthKey rk \<noteq> []"
  shows "rooms_ok C (snd (find_or_create_room C rnd a n rk h s))"
    and "fst (find_or_create_room C rnd a n rk h s)
           < nextRoom (snd (find_or_create_room C rnd a n rk h s))"
proof -
  let ?sec = "GenerateRoomSecret rnd"
  have "room_ok C s \<lparr>r_name = n, r_hasAuth = h,
      r_keys = (if h then room_keys_from C (AuthKey rk) ?sec else DeriveRoomKeys C n [] ?sec),
      r_ownerAuthKey = (if h then AuthKey rk else []), r_roomSecret = ?sec, r_ownerAddr = a,
      r_peers = [], r_createdLocally = False\<rparr>"
    using rk by (auto simp: room_ok_def room_auth_def DeriveRoomKeys_secret room_auth_key_def
        GenerateRoomSecret_nonempty [OF rnd])
  from rooms_ok_new_room [OF ok this]
  show "rooms_ok C (snd (find_or_create_room C rnd a n rk h s))"
    using ok by (auto simp: find_or_create_room_def Let_def split: option.split)
  show "fst (find_or_create_room C rnd a n rk h s)
           < nextRoom (snd (find_or_create_room C rnd a n rk h s))"
    using rooms_ok_registered(1) [OF ok]
    by (auto simp: find_or_create_room_def Let_def split: option.split)
qed

lemma find_or_create_room_sel [simp]:
  "peerHeap (snd (find_or_create_room C rnd a n rk h s)) = peerHeap s"
  "nextPeer (snd (find_or_create_room C rnd a n rk h s)) = nextPeer s"
  "hasConnManager (snd (find_or_create_room C rnd a n rk h s)) = hasConnManager s"
  "hasOnMessage (snd (find_or_create_room C rnd a n rk h s)) = hasOnMessage s"
  "hasOnSystemMessage (snd (find_or_create_room C rnd a n rk h s)) = hasOnSystemMessage s"
  "banList (snd (find_or_create_room C rnd a n rk h s)) = banList s"
  "conns (snd (find_or_create_room C rnd a n rk h s)) = conns s"
  "connections (snd (find_or_create_room C rnd a n rk h s)) = connections s"
  "mcs (snd (find_or_create_room C rnd a n rk h s)) = mcs s"
  "screen (snd (find_or_create_room C rnd a n rk h s)) = screen s"
  by (simp_all add: find_or_create_room_def Let_def split: option.split)

text \<open>What a join makes of the room object.\<close>

definition with_member :: "string \<Rightarrow> nat \<Rightarrow> room \<Rightarrow> room" where
  "with_member addr p rm =
     rm\<lparr>r_peers := AList.update addr p (r_peers rm),
        r_ownerAddr := (if r_ownerAddr rm = [] then addr else r_ownerAddr rm)\<rparr>"

lemma enter_room_eq:
  "enter_room p r s =
     update_peer p (\<lambda>pr. pr\<lparr>p_room := Some r\<rparr>)
       (update_room r (with_member (p_addr (peerHeap s p)) p) s)"
  by (simp add: enter_room_def with_member_def update_room_def update_peer_def Let_def)

lemma room_ok_with_member:
  assumes "room_ok C s rm" and "p < nextPeer s" and "p_addr (peerHeap s p) = a" and "a \<noteq> []"
  shows "room_ok C s (with_member a p rm)"
  using assms set_update_subset [of a p "r_peers rm"]
  by (fastforce simp: room_ok_def with_member_def room_auth_def)

lemma rooms_ok_enter_room:
  assumes "rooms_ok C s" and "p < nextPeer s" and "r < nextRoom s"
  shows "rooms_ok C (enter_room p r s)"
  unfolding enter_room_eq
proof (rule rooms_ok_update_peer)
  show "rooms_ok C (update_room r (with_member (p_addr (peerHeap s p)) p) s)"
    using rooms_okD(3) [OF assms(1,2)]
    by (intro rooms_ok_update_room room_ok_with_member assms rooms_okD(2) [OF assms(1)])
      (simp_all add: with_member_def peer_ok_def)
qed (use assms(3) in auto)

lemma rooms_ok_joinRoom:
  assumes "rooms_ok C s" and "p < nextPeer s" and "length rnd = 32" and "h \<Longrightarrow> AuthKey rk \<noteq> []"
  shows "rooms_ok C (joinRoom C rnd t p n rk h s)"
  using find_or_create_room_ok [OF assms(1,3,4)] assms(2)
  by (simp add: joinRoom_def Let_def rooms_ok_enter_room)

lemma rooms_ok_rotateRoomSecret [simp]:
  assumes "rooms_ok C s"
  shows "rooms_ok C (rotateRoomSecret C rnd r s)"
proof -
  let ?f = "\<lambda>rm. rm\<lparr>r_roomSecret := GenerateRoomSecret rnd,
       r_keys := room_keys_from C (room_auth C rm) (GenerateRoomSecret rnd)\<rparr>"
  have "room_ok C s rm \<Longrightarrow> room_ok C s (?f rm)" for rm
    by (simp add: room_ok_def room_auth_def)
  then have "rooms_ok C (update_room r ?f s)"
    using rooms_okD(2) [OF assms, of r] by (intro rooms_ok_update_room [OF assms]) (blast, simp)
  then show ?thesis by (simp add: rotateRoomSecret_def Let_def)
qed

text \<open>The next owner is the least address, for non-empty addresses.\<close>

lemma least_addr_from:
  "best \<noteq> [] \<Longrightarrow> [] \<notin> set as \<Longrightarrow> least_addr best as = Min (insert best (set as))"
proof (induction best as rule: least_addr.induct)
  case (1 best)
  then show ?case by simp
next
  case (2 best a as)
  then have "least_addr (if a < best then a else best) as =
      Min (insert (if a < best then a else best) (set as))" by (cases "a < best") auto
  also have "\<dots> = Min (insert best (insert a (set as)))"
    by (cases "set as = {}") (auto simp: min_def)
  finally show ?case using "2.prems" by simp
qed

lemma least_addr_Min:
  assumes "as \<noteq> []" and "[] \<notin> set as"
  shows "least_addr [] as = Min (set as)"
  using assms least_addr_from by (cases as) auto

lemma least_addr_nonempty:
  assumes "as \<noteq> []" and "[] \<notin> set as"
  shows "least_addr [] as \<noteq> []"
proof -
  have "Min (set as) \<in> set as" using assms(1) by (intro Min_in) auto
  with assms show ?thesis by (metis least_addr_Min)
qed

lemma room_ok_delete:
  assumes "room_ok C s rm"
  shows "room_ok C s (rm\<lparr>r_peers := AList.delete a (r_peers rm)\<rparr>)"
  using assms by (auto simp: room_ok_def set_delete room_auth_def)

lemma rooms_ok_leave_room [simp]:
  assumes "rooms_ok C s"
  shows "rooms_ok C (leave_room p r s)"
  unfolding leave_room_def
proof (rule rooms_ok_update_room [OF assms])
  assume "r < nextRoom s"
  then have rm: "room_ok C s (roomHeap s r)" using rooms_okD(2) [OF assms] by blast
  let ?ps = "AList.delete (p_addr (peerHeap s p)) (r_peers (roomHeap s r))"
  have "[] \<notin> set (keys ?ps)"
    using rm rooms_okD(3) [OF assms] by (fastforce simp: room_ok_def peer_ok_def set_delete)
  then have "?ps \<noteq> [] \<Longrightarrow> least_addr [] (keys ?ps) \<noteq> []"
    by (intro least_addr_nonempty) auto
  then show "room_ok C s
      (let wasOwner = r_ownerAddr (roomHeap s r) = p_addr (peerHeap s p); ps = ?ps
       in roomHeap s r \<lparr>r_peers := ps,
            r_ownerAddr := if wasOwner \<and> ps \<noteq> [] then least_addr [] (keys ps)
                           else if ps = [] then [] else r_ownerAddr (roomHeap s r)\<rparr>)"
    using room_ok_delete [OF rm, of "p_addr (peerHeap s p)"]
    by (auto simp: Let_def room_ok_def room_auth_def)
qed (simp add: Let_def)

lemma rooms_ok_drop_empty_room [simp]:
  assumes "rooms_ok C s"
  shows "rooms_ok C (drop_empty_room r s)"
proof -
  have "rooms_ok C (s\<lparr>rooms := AList.delete n (rooms s)\<rparr>)" for n
    using assms
    by (simp add: rooms_ok_def registry_of_rooms_def room_ok_def peer_ok_def set_delete)
  then show ?thesis
    using assms by (simp add: drop_empty_room_def Let_def split: option.split)
qed

lemma rooms_ok_disconnect_peer [simp]: "rooms_ok C (disconnect_peer p s) = rooms_ok C s"
  by (simp add: disconnect_peer_def Let_def)

lemma rooms_ok_removePeer [simp]: "rooms_ok C s \<Longrightarrow> rooms_ok C (removePeer C t p s)"
  by (simp add: removePeer_def Let_def split: option.split)

lemma rooms_ok_delete_member [simp]:
  assumes "rooms_ok C s"
  shows "rooms_ok C (delete_member r a s)"
  unfolding delete_member_def
  by (rule rooms_ok_update_room [OF assms]) (auto intro: room_ok_delete rooms_okD(2) [OF assms])

lemma rooms_ok_ban_tables [simp]:
  "rooms_ok C (s\<lparr>banList := b\<rparr>) = rooms_ok C s"
  "rooms_ok C (s\<lparr>aliasToDeviceID := d\<rparr>) = rooms_ok C s"
  "rooms_ok C (crash s) = rooms_ok C s"
  by (simp_all add: rooms_ok_def registry_of_rooms_def room_ok_def peer_ok_def crash_def)

lemma rooms_ok_kick_evict [simp]: "rooms_ok C s \<Longrightarrow> rooms_ok C (kick_evict rq a s)"
  by (simp add: kick_evict_def split: option.split)

lemma rooms_ok_ban_evict [simp]: "rooms_ok C s \<Longrightarrow> rooms_ok C (ban_evict rq a s)"
  by (simp add: ban_evict_def add_ban_def Let_def split: option.split)

lemma rooms_ok_evict_finish [simp]: "rooms_ok C s \<Longrightarrow> rooms_ok C (evict_finish C rnd r a p m s)"
  by (simp add: evict_finish_def Let_def)

lemma rooms_ok_handleKick [simp]: "rooms_ok C s \<Longrightarrow> rooms_ok C (handleKick C rnd rq a s)"
  by (simp add: handleKick_def Let_def split: option.split)

lemma rooms_ok_handleBan [simp]: "rooms_ok C s \<Longrightarrow> rooms_ok C (handleBan C rnd rq a s)"
  by (simp add: handleBan_def Let_def split: option.split)

lemma rooms_ok_handleUnban [simp]: "rooms_ok C s \<Longrightarrow> rooms_ok C (handleUnban rq a s)"
  by (simp add: handleUnban_def Let_def split: option.split)


section \<open>The handlers keep the invariant\<close>

lemma room_auth_key_nonempty: "kdf_length C \<Longrightarrow> room_auth_key C n pw \<noteq> []"
  by (metis kdf_length_def length_0_conv room_auth_key_def zero_neq_numeral)

lemma rooms_ok_note_identity [simp]: "rooms_ok C s \<Longrightarrow> rooms_ok C (note_identity p a d s)"
  unfolding note_identity_def by (rule rooms_ok_update_peer) auto

lemma note_identity_nextPeer [simp]: "nextPeer (note_identity p a d s) = nextPeer s"
  by (simp add: note_identity_def)

lemma rooms_ok_reject_join [simp]: "rooms_ok C (reject_join p m s) = rooms_ok C s"
  by (simp add: reject_join_def)

lemma rooms_ok_handle_join:
  assumes "rooms_ok C s" and "p < nextPeer s" and "length rnd = 32" and "kdf_length C"
  shows "rooms_ok C (handle_join C rnd t p m s)"
  using assms
  by (auto simp: handle_join_def Let_def rooms_ok_joinRoom room_auth_key_nonempty
     split: prod.split option.split)

lemma rooms_ok_relay_encrypted [simp]:
  "rooms_ok C s \<Longrightarrow> rooms_ok C (relay_encrypted C t p r a c ps s)"
  by (auto simp: relay_encrypted_def Let_def split: list.split intro: rooms_ok_update_peer)

lemma rooms_ok_handleMessage:
  assumes "rooms_ok C s" and "p < nextPeer s" and "length rnd = 32" and "kdf_length C"
  shows "rooms_ok C (handleMessage C rnd t p m s)"
  using assms
  by (simp add: handleMessage_def rooms_ok_handle_join handle_from_def handle_system_def
     handle_text_def Let_def split: list.split option.split)

lemma accept_peer_sel [simp]:
  "fst (accept_peer c a al t s) = nextPeer s"
  "nextPeer (snd (accept_peer c a al t s)) = Suc (nextPeer s)"
  "hasConnManager (snd (accept_peer c a al t s)) = hasConnManager s"
  "hasOnMessage (snd (accept_peer c a al t s)) = hasOnMessage s"
  by (simp_all add: accept_peer_def Let_def)

lemma cm_ok_accept_peer [simp]: "cm_ok s \<Longrightarrow> cm_ok (snd (accept_peer c a al t s))"
  by (simp add: accept_peer_def Let_def)

lemma rooms_ok_new_peer:
  assumes "rooms_ok C s" and "p_addr pr \<noteq> []" and "p_room pr = None"
  shows "rooms_ok C (s\<lparr>peerHeap := (peerHeap s)(nextPeer s := pr), nextPeer := Suc (nextPeer s)\<rparr>)"
  using assms
  by (fastforce simp: rooms_ok_def registry_of_rooms_def room_ok_def peer_ok_def less_Suc_eq)

lemma rooms_ok_accept_peer:
  assumes "rooms_ok C s" and "a \<noteq> []"
  shows "rooms_ok C (snd (accept_peer c a al t s))"
  using rooms_ok_new_peer [of C "RegisterIncoming a c t s"] rooms_ok_new_peer [of C s] assms
  by (simp add: accept_peer_def Let_def)


section \<open>The flags of the host never change\<close>

definition host_flags :: "server \<Rightarrow> bool \<times> bool \<times> bool" where
  "host_flags s = (hasConnManager s, hasOnMessage s, hasOnSystemMessage s)"

lemma host_flags_cong: "relay_part s' = relay_part s \<Longrightarrow> host_flags s' = host_flags s"
  using relay_partD [of s' s] by (simp add: host_flags_def)

lemma host_flags_ops [simp]:
  "host_flags (update_room r f s) = host_flags s"
  "host_flags (update_peer p g s) = host_flags s"
  "host_flags (s\<lparr>rooms := rs\<rparr>) = host_flags s"
  "host_flags (crash s) = host_flags s"
  "host_flags (s\<lparr>banList := b\<rparr>) = host_flags s"
  "host_flags (s\<lparr>aliasToDeviceID := d\<rparr>) = host_flags s"
  by (simp_all add: host_flags_def crash_def)

lemma host_flags_frame [simp]:
  "host_flags (conn_put i m s) = host_flags s" "host_flags (conn_close i s) = host_flags s"
  "host_flags (show_ui e s) = host_flags s" "host_flags (broadcastToRoom r a m s) = host_flags s"
  "host_flags (notify_system C t m s) = host_flags s"
  "host_flags (notify_message C t a rn m s) = host_flags s"
  "host_flags (ClearPing a s) = host_flags s"
  "host_flags (snd (removeConnection a s)) = host_flags s"
  "host_flags (snd (UpdateRoomKeys C rn pw h s)) = host_flags s"
  "host_flags (snd (write_batch i s)) = host_flags s"
  "host_flags (cleanupSeenMsgs t s) = host_flags s"
  "host_flags (healthCheck t s) = host_flags s"
  "host_flags (drop_transport a p s) = host_flags s"
  "host_flags (fold (\<lambda>p. conn_put (f p) m) ps s) = host_flags s"
  by (rule host_flags_cong; simp)+

lemma host_flags_find_or_create_room [simp]:
  "host_flags (snd (find_or_create_room C rnd a n rk h s)) = host_flags s"
  by (simp add: host_flags_def)

lemma host_flags_accept_peer [simp]: "host_flags (snd (accept_peer c a al t s)) = host_flags s"
  by (simp add: host_flags_def accept_peer_def Let_def)

lemma host_flags_CreateRoom [simp]: "host_flags (CreateRoom C rnd n rk b pw s) = host_flags s"
  by (simp add: CreateRoom_def Let_def) (simp add: host_flags_def)

lemma host_flags_joinRoom [simp]: "host_flags (joinRoom C rnd t p n rk h s) = host_flags s"
  by (simp add: joinRoom_def enter_room_def Let_def)

lemma host_flags_evict_finish [simp]: "host_flags (evict_finish C rnd r a p m s) = host_flags s"
  by (simp add: evict_finish_def rotateRoomSecret_def Let_def)

lemma host_flags_kick_evict [simp]: "host_flags (kick_evict rq a s) = host_flags s"
  by (simp add: kick_evict_def delete_member_def split: option.split)

lemma host_flags_ban_evict [simp]: "host_flags (ban_evict rq a s) = host_flags s"
  by (simp add: ban_evict_def delete_member_def add_ban_def Let_def split: option.split)

lemma host_flags_handleUnban [simp]: "host_flags (handleUnban rq t s) = host_flags s"
  by (simp add: handleUnban_def Let_def split: option.split)

lemma host_flags_leave_room [simp]: "host_flags (leave_room p r s) = host_flags s"
  by (simp add: leave_room_def)

lemma host_flags_drop_empty_room [simp]: "host_flags (drop_empty_room r s) = host_flags s"
  by (simp add: drop_empty_room_def Let_def split: option.split)

lemma host_flags_disconnect_peer [simp]: "host_flags (disconnect_peer p s) = host_flags s"
  by (simp add: disconnect_peer_def Let_def)

lemma host_flags_removePeer [simp]: "host_flags (removePeer C t p s) = host_flags s"
  by (simp add: removePeer_def Let_def split: option.split)

lemma host_flags_handleKick [simp]: "host_flags (handleKick C rnd rq a s) = host_flags s"
  by (simp add: handleKick_def Let_def split: option.split)

lemma host_flags_handleBan [simp]: "host_flags (handleBan C rnd rq a s) = host_flags s"
  by (simp add: handleBan_def Let_def split: option.split)

lemma host_flags_handle_join [simp]: "host_flags (handle_join C rnd t p m s) = host_flags s"
  by (simp add: handle_join_def note_identity_def reject_join_def Let_def
      split: prod.split option.split)

lemma host_flags_relay_encrypted [simp]:
  "host_flags (relay_encrypted C t p r a c ps s) = host_flags s"
  by (simp add: relay_encrypted_def Let_def split: list.split)

lemma host_flags_handle_from [simp]: "host_flags (handle_from C t p b s) = host_flags s"
  by (simp add: handle_from_def split: list.split option.split)

lemma host_flags_handle_system [simp]: "host_flags (handle_system C t p m s) = host_flags s"
  by (simp add: handle_system_def Let_def split: option.split)

lemma host_flags_handle_text [simp]: "host_flags (handle_text C t p m s) = host_flags s"
  by (simp add: handle_text_def Let_def split: option.split)

lemma host_flags_handleMessage [simp]: "host_flags (handleMessage C rnd t p m s) = host_flags s"
  by (simp add: handleMessage_def)


section \<open>The event machine\<close>

text \<open>
  \<open>HostKick\<close>, \<open>HostBan\<close> and \<open>HostUnban\<close> are the CLI commands of the host (\<open>kickPeer\<close>, \<open>banPeer\<close>,
  \<open>unbanPeer\<close> of \<open>main.go\<close>), on behalf of its creator peer; \<open>PeerKick\<close> and \<open>PeerBan\<close> are the first halves of
  the handlers when a peer's line asks for them, and \<open>FinishEviction\<close> the second half of either.
\<close>

datatype relay_event =
    Accept nat string string time
  | Line nat bytes time string
  | Eof nat time
  | HostCreate bytes string string
  | HostKick nat string
  | HostBan nat string
  | HostUnban nat string
  | PeerKick nat string
  | PeerBan nat string
  | FinishEviction bytes nat string nat string
  | HealthTick time
  | SweepTick time
  | WriterTurn nat
  | NetworkFailure nat

definition creator :: "string \<Rightarrow> nat option \<Rightarrow> peer" where
  "creator alias r =
     \<lparr>p_addr = ''creator'', p_alias = alias, p_conn = 0, p_room = r, p_deviceID = []\<rparr>"

definition break_conn :: "nat \<Rightarrow> 'a net_scheme \<Rightarrow> 'a net_scheme" where
  "break_conn i s = s\<lparr>conns := (conns s)(i := (conns s i)\<lparr>c_broken := True\<rparr>)\<rparr>"

fun enabled :: "relay_event \<Rightarrow> server \<Rightarrow> bool" where
  "enabled (Accept c a al t) s = (a \<noteq> [])"
| "enabled (Line p rnd t raw) s = (p < nextPeer s \<and> length rnd = 32)"
| "enabled (Eof p t) s = (p < nextPeer s)"
| "enabled (PeerKick p al) s = (p < nextPeer s \<and> in_room p s)"
| "enabled (PeerBan p al) s = (p < nextPeer s \<and> in_room p s)"
| "enabled (FinishEviction rnd r a p m) s = (r < nextRoom s \<and> p < nextPeer s \<and> length rnd = 32)"
| "enabled (HostKick r al) s = (r < nextRoom s)"
| "enabled (HostBan r al) s = (r < nextRoom s)"
| "enabled (HostUnban r t) s = (r < nextRoom s)"
| "enabled (HostCreate rnd n pw) s = (length rnd = 32)"
| "enabled e s = True"

fun relay_op :: "crypto \<Rightarrow> relay_event \<Rightarrow> server \<Rightarrow> server" where
  "relay_op C (Accept c a al t) s = snd (accept_peer c a al t s)"
| "relay_op C (Line p rnd t raw) s = serve_line C p (rnd, t, raw) s"
| "relay_op C (Eof p t) s = removePeer C t p s"
| "relay_op C (HostCreate rnd n pw) s =
     CreateRoom C rnd n (DeriveRoomKeys C n pw []) True pw s"
| "relay_op C (HostKick r al) s = kick_evict (creator (localAlias s) (Some r)) al s"
| "relay_op C (HostBan r al) s = ban_evict (creator (localAlias s) (Some r)) al s"
| "relay_op C (HostUnban r t) s = handleUnban (creator (localAlias s) (Some r)) t s"
| "relay_op C (PeerKick p al) s = kick_evict (peerHeap s p) al s"
| "relay_op C (PeerBan p al) s = ban_evict (peerHeap s p) al s"
| "relay_op C (FinishEviction rnd r a p m) s = evict_finish C rnd r a p m s"
| "relay_op C (HealthTick t) s = healthCheck t s"
| "relay_op C (SweepTick t) s = cleanupSeenMsgs t s"
| "relay_op C (WriterTurn i) s = snd (write_batch i s)"
| "relay_op C (NetworkFailure i) s = break_conn i s"

definition relay_step :: "crypto \<Rightarrow> relay_event \<Rightarrow> server \<Rightarrow> server" where
  "relay_step C e s = (if enabled e s then relay_op C e s else s)"

lemma relay_part_break_conn [simp]: "relay_part (break_conn i s) = relay_part s"
  by (simp add: break_conn_def)

lemma cm_ok_break_conn [simp]: "cm_ok (break_conn i s) = cm_ok s"
  by (rule cm_ok_cong) (simp_all add: break_conn_def)

lemma cm_ok_cleanupSeenMsgs [simp]: "cm_ok (cleanupSeenMsgs t s) = cm_ok s"
  by (simp add: cleanupSeenMsgs_def Let_def)

lemma creator_room [simp]: "p_room (creator a r) = r"
  by (simp add: creator_def)

lemma cm_ok_relay_op:
  assumes "srv_ok C s" and "enabled e s"
  shows "cm_ok (relay_op C e s)"
  using assms
  by (cases e) (simp_all add: srv_ok_def serve_line_def Let_def in_room_def cm_ok_write_batch)

lemma rooms_ok_relay_op:
  assumes "srv_ok C s" and "enabled e s" and "kdf_length C"
  shows "rooms_ok C (relay_op C e s)"
  using assms
  by (cases e)
    (simp_all add: srv_ok_def serve_line_def Let_def rooms_ok_handleMessage rooms_ok_accept_peer
      room_auth_key_nonempty rooms_ok_cong [OF relay_part_break_conn])

lemma host_flags_relay_op: "host_flags (relay_op C e s) = host_flags s"
  by (cases e)
    (simp_all add: serve_line_def Let_def host_flags_cong [OF relay_part_break_conn])

lemma srv_ok_relay_step:
  assumes "srv_ok C s" and "kdf_length C"
  shows "srv_ok C (relay_step C e s)"
proof (cases "enabled e s")
  case True
  have "host_flags (relay_op C e s) = host_flags s" by (rule host_flags_relay_op)
  then show ?thesis
    using cm_ok_relay_op [OF assms(1) True] rooms_ok_relay_op [OF assms(1) True assms(2)] assms(1)
    by (simp add: relay_step_def True srv_ok_def host_flags_def)
qed (simp add: relay_step_def assms)

text \<open>The relay as an instance of the invariant interface, for primitives of the right length.\<close>

interpretation relay: preserving "\<lambda>s. kdf_length C \<longrightarrow> srv_ok C s" "relay_step C" for C
  by unfold_locales (simp add: srv_ok_relay_step)

end
