(* ===== verification/Relay_Delivery.thy ===== *)
theory Relay_Delivery
  imports Relay_Invariants
begin

text \<open>
  What the relay delivers: \<open>broadcastToRoom\<close> puts one line at the end of the queue of every other
  member and touches no other queue, an encrypted line is forwarded as it came, and a line that
  does not verify changes nothing.
\<close>

section \<open>Who gets a broadcast\<close>

lemma room_ok_members:
  assumes "room_ok C s (roomHeap s r)" and "p \<in> set (room_members r s)"
  shows "(p_addr (peerHeap s p), p) \<in> set (r_peers (roomHeap s r))" "p < nextPeer s"
  using assms by (auto simp: room_ok_def room_members_def)

lemma room_ok_lookup:
  assumes "room_ok C s (roomHeap s r)"
  shows "map_of (r_peers (roomHeap s r)) a = Some p \<longleftrightarrow>
     p \<in> set (room_members r s) \<and> p_addr (peerHeap s p) = a"
  using assms by (force simp: room_ok_def gomap_map_of_iff room_members_def)

lemma fold_last_match:
  "fold (\<lambda>p x. if P p then f p else x) ps x0 =
     (if filter P ps = [] then x0 else f (last (filter P ps)))"
  by (induction ps arbitrary: x0) auto

lemma filter_unique:
  assumes "distinct (map g ps)" and "p \<in> set ps"
  shows "filter (\<lambda>q. g q = g p) ps = [p]"
  using assms
proof (induction ps)
  case Nil
  then show ?case by simp
next
  case (Cons q ps)
  show ?case
  proof (cases "q = p")
    case True
    have "g p \<notin> g ` set ps" using Cons.prems(1) True by simp
    then have "filter (\<lambda>x. g x = g p) ps = []" by (auto simp: filter_empty_conv image_iff)
    with True show ?thesis by simp
  next
    case False
    with Cons.prems have p: "p \<in> set ps" and "g q \<notin> g ` set ps" by auto
    then have "g q \<noteq> g p" by (metis imageI)
    with Cons p show ?thesis by simp
  qed
qed

lemma room_member_addrs:
  assumes "room_ok C s (roomHeap s r)"
  shows "map (\<lambda>p. p_addr (peerHeap s p)) (room_members r s) = keys (r_peers (roomHeap s r))"
  using assms by (auto simp: room_ok_def room_members_def)

lemma room_members_distinct:
  assumes "room_ok C s (roomHeap s r)"
  shows "distinct (map (\<lambda>p. p_addr (peerHeap s p)) (room_members r s))"
  unfolding room_member_addrs [OF assms] using assms by (simp add: room_ok_def gomap_def)

lemma sender_alias_member:
  assumes "room_ok C s (roomHeap s r)" and "p \<in> set (room_members r s)"
  shows "sender_alias r (p_addr (peerHeap s p)) s = p_alias (peerHeap s p)"
  using filter_unique [OF room_members_distinct [OF assms(1)] assms(2)]
  by (simp add: sender_alias_def fold_last_match)

lemma sender_alias_none:
  assumes "\<forall>p \<in> set (room_members r s). p_addr (peerHeap s p) \<noteq> a"
  shows "sender_alias r a s = []"
  using assms by (simp add: sender_alias_def fold_last_match filter_empty_conv)

lemma broadcast_text_member:
  assumes "room_ok C s (roomHeap s r)" and "p \<in> set (room_members r s)"
    and "p_alias (peerHeap s p) \<noteq> []"
  shows "broadcast_text r (p_addr (peerHeap s p)) m s =
     ''FROM:'' @ p_alias (peerHeap s p) @ [pipe] @ m @ [newline]"
  using assms by (simp add: broadcast_text_def Let_def sender_alias_member)

lemma broadcast_text_system:
  assumes "rooms_ok C s" and "r < nextRoom s"
  shows "broadcast_text r [] m s = ''SYSTEM:'' @ m @ [newline]"
proof -
  have "room_ok C s (roomHeap s r)" using assms rooms_okD(2) by blast
  then have "\<forall>p \<in> set (room_members r s). p_addr (peerHeap s p) \<noteq> []"
    using room_ok_members(2) rooms_okD(3) [OF assms(1)] by (fastforce simp: peer_ok_def)
  then show ?thesis by (simp add: broadcast_text_def sender_alias_none)
qed


section \<open>One delivery\<close>

lemma deliver_connections [simp]:
  "connections (deliver m p s) = connections s" "nextMC (deliver m p s) = nextMC s"
  by (simp_all add: deliver_def enqueue_at_def Let_def split: option.split)

lemma deliver_self:
  assumes "cm_ok s" and "hasConnManager s"
    and "map_of (connections s) (p_addr (peerHeap s p)) = Some i"
  shows "mc_out (mcs (deliver m p s) i) =
     (if length (mc_out (mcs s i)) < OutboundQueueSize then mc_out (mcs s i) @ [m]
      else mc_out (mcs s i))"
  using assms registry_okD(3) [OF cm_ok_registry [OF assms(1)] assms(3)]
  by (simp add: deliver_def enqueue_at_def Let_def mc_enqueue_def)

lemma deliver_other:
  assumes "cm_ok s" and "map_of (connections s) a = Some i" and "p_addr (peerHeap s p) \<noteq> a"
  shows "mcs (deliver m p s) i = mcs s i"
proof -
  have "map_of (connections s) (p_addr (peerHeap s p)) \<noteq> Some i"
    using registry_inj [OF cm_ok_registry [OF assms(1)] assms(2)] assms(3) by blast
  then show ?thesis by (auto simp: deliver_def enqueue_at_def Let_def split: option.split)
qed

lemma fold_deliver_other:
  assumes "cm_ok s" and "map_of (connections s) a = Some i"
    and "\<forall>p \<in> set ps. p_addr (peerHeap s p) \<noteq> a"
  shows "mcs (fold (deliver m) ps s) i = mcs s i"
  using assms
proof (induction ps arbitrary: s)
  case Nil
  then show ?case by simp
next
  case (Cons p ps)
  then show ?case using Cons.IH [of "deliver m p s"] by (simp add: deliver_other)
qed

lemma fold_deliver_self:
  assumes "cm_ok s" and "hasConnManager s" and "p \<in> set ps"
    and "distinct (map (\<lambda>q. p_addr (peerHeap s q)) ps)"
    and "map_of (connections s) (p_addr (peerHeap s p)) = Some i"
  shows "mc_out (mcs (fold (deliver m) ps s) i) =
     (if length (mc_out (mcs s i)) < OutboundQueueSize then mc_out (mcs s i) @ [m]
      else mc_out (mcs s i))"
  using assms
proof (induction ps arbitrary: s)
  case Nil
  then show ?case by simp
next
  case (Cons q ps)
  show ?case
  proof (cases "q = p")
    case True
    then have "p_addr (peerHeap s p) \<notin> (\<lambda>x. p_addr (peerHeap s x)) ` set ps"
      using Cons.prems(4) by simp
    then have "\<forall>x \<in> set ps. p_addr (peerHeap (deliver m p s) x) \<noteq> p_addr (peerHeap s p)"
      by (simp add: image_iff) metis
    then show ?thesis
      using fold_deliver_other [of "deliver m p s" "p_addr (peerHeap s p)" i ps m] Cons.prems True
      by (simp add: deliver_self)
  next
    case False
    with Cons.prems have p: "p \<in> set ps"
      and "p_addr (peerHeap s q) \<notin> (\<lambda>x. p_addr (peerHeap s x)) ` set ps" by auto
    then have "p_addr (peerHeap s q) \<noteq> p_addr (peerHeap s p)" by (metis imageI)
    then show ?thesis
      using Cons.IH [of "deliver m q s"] Cons.prems p deliver_other [OF Cons.prems(1,5), of q m]
      by simp
  qed
qed

lemma recipients_distinct:
  "room_ok C s (roomHeap s r) \<Longrightarrow> distinct (map (\<lambda>p. p_addr (peerHeap s p)) (recipients r a s))"
  unfolding recipients_def by (drule room_members_distinct) (rule distinct_map_filter)

text \<open>The queue of a member other than the sender grows by the line, unless it is full.\<close>

lemma broadcast_enqueues:
  assumes "cm_ok s" and "hasConnManager s" and "room_ok C s (roomHeap s r)"
    and "p \<in> set (room_members r s)" and "p_addr (peerHeap s p) \<noteq> a"
    and "map_of (connections s) (p_addr (peerHeap s p)) = Some i"
  shows "mc_out (mcs (broadcastToRoom r a m s) i) =
     (if length (mc_out (mcs s i)) < OutboundQueueSize
      then mc_out (mcs s i) @ [broadcast_text r a m s] else mc_out (mcs s i))"
  unfolding broadcastToRoom_def
  by (rule fold_deliver_self)
    (use assms recipients_distinct [OF assms(3)] in \<open>simp_all add: recipients_def\<close>)

text \<open>Nothing reaches the sender or anybody outside the room.\<close>

lemma broadcast_spares:
  assumes "cm_ok s" and "map_of (connections s) b = Some i"
    and "\<forall>p \<in> set (recipients r a s). p_addr (peerHeap s p) \<noteq> b"
  shows "mcs (broadcastToRoom r a m s) i = mcs s i"
  unfolding broadcastToRoom_def by (rule fold_deliver_other) (use assms in auto)

lemma broadcast_not_to_sender:
  assumes "cm_ok s" and "map_of (connections s) a = Some i"
  shows "mcs (broadcastToRoom r a m s) i = mcs s i"
  using assms by (rule broadcast_spares) (simp add: recipients_def)


section \<open>Forwarding an encrypted line\<close>

lemma notify_message_mcs [simp]: "mcs (notify_message C t a rn m s) = mcs s"
  by (simp add: notify_message_def Let_def show_ui_def)

lemma serve_line_dispatch:
  assumes "trim_space raw = ''FROM:'' @ body"
  shows "serve_line C p (rnd, t, raw) s = handle_from C t p body s"
proof -
  have "trim_prefix (''FROM:'' @ body) ''FROM:'' = body" by (rule trim_prefix_append)
  then show ?thesis using assms by (simp add: serve_line_def handleMessage_def Let_def)
qed

lemma handle_from_fields:
  assumes "p_room (peerHeap s p) = Some r" and "pipe \<notin> set a" and "pipe \<notin> set pl" and "pipe \<notin> set n"
  shows "handle_from C t p (a @ pipe # pl @ pipe # n @ pipe # h) s =
     relay_encrypted C t p r a (pl @ pipe # n @ pipe # h) [pl, n, h] s"
  using assms by (simp add: handle_from_def split_n_2 split_n_3)

lemma relay_encrypted_invalid:
  "\<not> Verify C (r_keys (roomHeap s r)) (unsigned_text a pl n) h \<Longrightarrow>
     relay_encrypted C t p r a c [pl, n, h] s = s"
  by (simp add: relay_encrypted_def)

text \<open>A signed line of a room member reaches the queue of another member unchanged.\<close>

lemma relay_encrypted_forwards:
  assumes ok: "cm_ok s" and rm: "room_ok C s (roomHeap s r)" and cm: "hasConnManager s"
    and p: "p \<in> set (room_members r s)" and q: "q \<in> set (room_members r s)"
    and pq: "p_addr (peerHeap s q) \<noteq> p_addr (peerHeap s p)" and a: "a \<noteq> []"
    and v: "Verify C (r_keys (roomHeap s r)) (unsigned_text a pl n) h"
    and i: "map_of (connections s) (p_addr (peerHeap s q)) = Some i"
    and space: "length (mc_out (mcs s i)) < OutboundQueueSize"
  shows "mc_out (mcs (relay_encrypted C t p r a c [pl, n, h] s) i) =
     mc_out (mcs s i) @ [''FROM:'' @ a @ [pipe] @ c @ [newline]]"
proof -
  let ?s = "update_peer p (\<lambda>pr. pr\<lparr>p_alias := a\<rparr>) s"
  have addr: "p_addr (peerHeap ?s x) = p_addr (peerHeap s x)" for x by simp
  have rm': "room_ok C ?s (roomHeap ?s r)"
    using rm by (simp add: room_ok_def addr del: update_peer_sel(3))
  have mem: "room_members r ?s = room_members r s" by (simp add: room_members_def)
  have ok': "cm_ok ?s" using ok by simp
  have line: "broadcast_text r (p_addr (peerHeap ?s p)) c ?s =
      ''FROM:'' @ a @ [pipe] @ c @ [newline]"
    using broadcast_text_member [OF rm', of p c] p a by (simp add: mem)
  have "mc_out (mcs (broadcastToRoom r (p_addr (peerHeap ?s p)) c ?s) i) =
      mc_out (mcs s i) @ [''FROM:'' @ a @ [pipe] @ c @ [newline]]"
    using broadcast_enqueues [OF ok' _ rm', of q "p_addr (peerHeap ?s p)" i c] q pq i space cm
      line [unfolded addr] unfolding addr by (simp add: mem)
  then show ?thesis using v by (simp add: relay_encrypted_def Let_def)
qed

end
