(* ===== verification/Relay_Access.thy ===== *)
theory Relay_Access
  imports Relay_Delivery
begin

text \<open>
  Who gets into a room and who is put out: admission and refusal of a JOIN, what an eviction
  sends and to whom, how long a ban lasts, who owns a room after its owner left, and when a room
  leaves the registry.
\<close>

section \<open>What a write leaves on a transport\<close>

lemma fold_put_writable [simp]:
  "writable c (fold (\<lambda>p. conn_put (f p) m) ps s) = writable c s"
  by (rule fold_field) simp

lemma conn_put_other: "c \<noteq> i \<Longrightarrow> conns (conn_put i m s) c = conns s c"
  by (simp add: conn_write_def)

lemma fold_put_other:
  "\<forall>p \<in> set ps. f p \<noteq> c \<Longrightarrow> conns (fold (\<lambda>p. conn_put (f p) m) ps s) c = conns s c"
  by (induction ps arbitrary: s) (simp_all add: conn_put_other)

lemma conn_put_keeps: "x \<in> set (c_sent (conns s c)) \<Longrightarrow> x \<in> set (c_sent (conns (conn_put i m s) c))"
  by (auto simp: conn_put_sent)

lemma fold_put_keeps:
  "x \<in> set (c_sent (conns s c)) \<Longrightarrow> x \<in> set (c_sent (conns (fold (\<lambda>p. conn_put (f p) m) ps s) c))"
  by (induction ps arbitrary: s) (simp_all add: conn_put_keeps)

lemma fold_put_reaches:
  assumes "p \<in> set ps" and "writable (f p) s"
  shows "m \<in> set (c_sent (conns (fold (\<lambda>p. conn_put (f p) m) ps s) (f p)))"
  using assms
proof (induction ps arbitrary: s)
  case Nil
  then show ?case by simp
next
  case (Cons q ps)
  show ?case
  proof (cases "q = p")
    case True
    with Cons.prems show ?thesis by (auto intro!: fold_put_keeps simp: conn_put_sent)
  next
    case False
    with Cons show ?thesis by simp
  qed
qed

lemma deliver_keeps: "x \<in> set (c_sent (conns s c)) \<Longrightarrow> x \<in> set (c_sent (conns (deliver m p s) c))"
  by (simp add: deliver_def enqueue_at_def Let_def conn_put_keeps split: option.split)

lemma deliver_closed_conn:
  "c_closed (conns s c) \<Longrightarrow> conns (deliver m p s) c = conns s c"
  by (cases "p_conn (peerHeap s p) = c")
    (simp_all add: deliver_def enqueue_at_def Let_def conn_put_other conn_write_def writable_def
      split: option.split)

lemma broadcast_keeps:
  "x \<in> set (c_sent (conns s c)) \<Longrightarrow> x \<in> set (c_sent (conns (broadcastToRoom r a m s) c))"
  unfolding broadcastToRoom_def by (rule fold_preserves) (auto intro: deliver_keeps)

lemma broadcast_closed_conn:
  assumes "c_closed (conns s c)"
  shows "conns (broadcastToRoom r a m s) c = conns s c"
proof -
  have "conns (fold (deliver x) ps t) c = conns s c" if "conns t c = conns s c" for x ps t
    using that assms by (induction ps arbitrary: t) (simp_all add: deliver_closed_conn)
  then show ?thesis by (simp add: broadcastToRoom_def)
qed

lemma UpdateRoomKeys_writable [simp]: "writable c (snd (UpdateRoomKeys C r p h s)) = writable c s"
  by (simp add: writable_def)


section \<open>Rotation\<close>

lemma rotate_sel [simp]:
  "peerHeap (rotateRoomSecret C rnd r s) = peerHeap s"
  "banList (rotateRoomSecret C rnd r s) = banList s"
  "rooms (rotateRoomSecret C rnd r s) = rooms s"
  "hasConnManager (rotateRoomSecret C rnd r s) = hasConnManager s"
  "hasOnSystemMessage (rotateRoomSecret C rnd r s) = hasOnSystemMessage s"
  "aliasToDeviceID (rotateRoomSecret C rnd r s) = aliasToDeviceID s"
  by (simp_all add: rotateRoomSecret_def Let_def)

lemma rotate_room:
  "roomHeap (rotateRoomSecret C rnd r s) =
     (roomHeap s)(r := (roomHeap s r)\<lparr>r_roomSecret := GenerateRoomSecret rnd,
        r_keys := room_keys_from C (room_auth C (roomHeap s r)) (GenerateRoomSecret rnd)\<rparr>)"
  by (simp add: rotateRoomSecret_def Let_def)

lemma fold_put_conns_cong:
  "conns t = conns u \<Longrightarrow>
     conns (fold (\<lambda>p. conn_put (f p) m) ps t) = conns (fold (\<lambda>p. conn_put (f p) m) ps u)"
  for t u :: server
proof (induction ps arbitrary: t u)
  case Nil
  then show ?case by simp
next
  case (Cons p ps)
  then have "conns (conn_put (f p) m t) = conns (conn_put (f p) m u)"
    by (simp add: conn_write_def writable_def)
  from Cons.IH [OF this] show ?case by simp
qed

lemma rotate_conns:
  "conns (rotateRoomSecret C rnd r s) =
     conns (fold (\<lambda>p. conn_put (p_conn (peerHeap s p)) (secret_message (GenerateRoomSecret rnd)))
       (room_members r s) s)"
  by (simp add: rotateRoomSecret_def Let_def room_members_def) (rule fold_put_conns_cong, simp)

lemma fold_put_connections [simp]:
  "connections (fold (\<lambda>p. conn_put (f p) m) ps s) = connections s"
  by (rule fold_field) simp

lemma connections_rotate [simp]: "connections (rotateRoomSecret C rnd r s) = connections s"
  by (simp add: rotateRoomSecret_def Let_def)


section \<open>Eviction\<close>

lemma find_alias_member:
  assumes "find_alias al r s = Some (a, p)"
  shows "(a, p) \<in> set (r_peers (roomHeap s r))" "p_alias (peerHeap s p) = al"
  using find_Some_in [OF assms [unfolded find_alias_def]] by auto

lemma evict_targetD:
  assumes "evict_target rq al s = Some (r, a, p)"
  shows "p_room rq = Some r" "is_owner rq (roomHeap s r)" "find_alias al r s = Some (a, p)"
  using assms by (auto simp: evict_target_def split: option.splits if_splits)

lemma delete_member_sel [simp]:
  "peerHeap (delete_member r a s) = peerHeap s" "conns (delete_member r a s) = conns s"
  "banList (delete_member r a s) = banList s" "connections (delete_member r a s) = connections s"
  "hasConnManager (delete_member r a s) = hasConnManager s"
  "roomHeap (delete_member r a s) = (roomHeap s)(r := (roomHeap s r)
     \<lparr>r_peers := AList.delete a (r_peers (roomHeap s r))\<rparr>)"
  by (simp_all add: delete_member_def)

lemma writable_delete_member [simp]: "writable c (delete_member r a s) = writable c s"
  by (simp add: writable_def)

lemma room_members_delete:
  assumes "room_ok C s (roomHeap s r)" and "(a, p) \<in> set (r_peers (roomHeap s r))"
  shows "set (room_members r (delete_member r a s)) = set (room_members r s) - {p}"
proof -
  let ?ps = "r_peers (roomHeap s r)"
  have addr: "b = p_addr (peerHeap s q)" if "(b, q) \<in> set ?ps" for b q
    using assms(1) that by (auto simp: room_ok_def)
  have one: "q = p" if "(a, q) \<in> set ?ps" for q
    using that assms by (auto simp: room_ok_def gomap_def dest: eq_key_imp_eq_value)
  have "(b, q) \<in> set ?ps \<Longrightarrow> b \<noteq> a \<longleftrightarrow> q \<noteq> p" for b q
    using addr one assms(2) by blast
  then show ?thesis by (fastforce simp: room_members_def set_delete)
qed

text \<open>What the second half of an eviction does to the transports, the room and the registry.\<close>

lemma evict_finish_room:
  "roomHeap (evict_finish C rnd r a p m s) = roomHeap (rotateRoomSecret C rnd r s)"
  by (simp add: evict_finish_def Let_def)

lemma evict_finish_sel [simp]:
  "peerHeap (evict_finish C rnd r a p m s) = peerHeap s"
  "banList (evict_finish C rnd r a p m s) = banList s"
  "rooms (evict_finish C rnd r a p m s) = rooms s"
  by (simp_all add: evict_finish_def Let_def)

lemma connections_broadcast [simp]: "connections (broadcastToRoom r a m s) = connections s"
  unfolding broadcastToRoom_def by (rule fold_field) simp

lemma drop_transport_closed: "c_closed (conns (drop_transport a p s) (p_conn (peerHeap s p)))"
  by (simp add: drop_transport_def Let_def removeConnection_conns split: option.split)

lemma drop_transport_sent [simp]: "c_sent (conns (drop_transport a p s) c) = c_sent (conns s c)"
  by (simp add: drop_transport_def Let_def)

lemma evict_finish_conns:
  "conns (evict_finish C rnd r a p m s) =
     conns (broadcastToRoom r [] m (drop_transport a p (rotateRoomSecret C rnd r s)))"
  by (simp add: evict_finish_def Let_def)

lemma evict_finish_unregisters:
  "hasConnManager s \<Longrightarrow> \<not> mapped (connections (evict_finish C rnd r a p m s)) a"
  by (simp add: evict_finish_def drop_transport_def Let_def show_ui_def)

lemma evict_finish_closed:
  "c_closed (conns (evict_finish C rnd r a p m s) (p_conn (peerHeap s p)))"
  using drop_transport_closed [of a p "rotateRoomSecret C rnd r s"]
  by (simp add: evict_finish_conns broadcast_closed_conn)

lemma evict_finish_sent_evicted:
  assumes "\<forall>q \<in> set (room_members r s). p_conn (peerHeap s q) \<noteq> p_conn (peerHeap s p)"
  shows "c_sent (conns (evict_finish C rnd r a p m s) (p_conn (peerHeap s p))) =
     c_sent (conns s (p_conn (peerHeap s p)))"
proof -
  let ?c = "p_conn (peerHeap s p)" and ?s1 = "rotateRoomSecret C rnd r s"
  have "conns ?s1 ?c = conns s ?c"
    unfolding rotate_conns using assms by (intro fold_put_other) simp
  moreover have "c_closed (conns (drop_transport a p ?s1) ?c)"
    using drop_transport_closed [of a p ?s1] by simp
  ultimately show ?thesis by (simp add: evict_finish_conns broadcast_closed_conn)
qed

lemma evict_finish_reaches:
  assumes "q \<in> set (room_members r s)" and "writable (p_conn (peerHeap s q)) s"
  shows "secret_message (GenerateRoomSecret rnd)
     \<in> set (c_sent (conns (evict_finish C rnd r a p m s) (p_conn (peerHeap s q))))"
proof -
  have "secret_message (GenerateRoomSecret rnd)
      \<in> set (c_sent (conns (rotateRoomSecret C rnd r s) (p_conn (peerHeap s q))))"
    unfolding rotate_conns
    by (rule fold_put_reaches [where f = "\<lambda>p. p_conn (peerHeap s p)"]) (use assms in auto)
  then show ?thesis by (simp add: evict_finish_conns broadcast_keeps)
qed


section \<open>Bans\<close>

definition ban_entry :: "string \<Rightarrow> server \<Rightarrow> bool" where
  "ban_entry k s \<longleftrightarrow> map_of (banList s) k = Some True"

lemma add_ban_sel [simp]:
  "roomHeap (add_ban a t s) = roomHeap s" "peerHeap (add_ban a t s) = peerHeap s"
  "conns (add_ban a t s) = conns s" "connections (add_ban a t s) = connections s"
  "hasConnManager (add_ban a t s) = hasConnManager s" "rooms (add_ban a t s) = rooms s"
  by (simp_all add: add_ban_def Let_def)

lemma add_ban_entry:
  "ban_entry k (add_ban a t s) \<longleftrightarrow>
     k = a \<or> p_deviceID t \<noteq> [] \<and> k = ''device:'' @ p_deviceID t \<or> k = ''alias:'' @ p_alias t \<or>
     ban_entry k s"
  by (auto simp: ban_entry_def add_ban_def Let_def)

lemma ban_entry_cong: "relay_part s' = relay_part s \<Longrightarrow> ban_entry k s' = ban_entry k s"
  using relay_partD(6) [of s' s] by (simp add: ban_entry_def)

lemma ban_entry_sel [simp]:
  "ban_entry k (update_room r f s) = ban_entry k s"
  "ban_entry k (update_peer p g s) = ban_entry k s"
  "ban_entry k (crash s) = ban_entry k s"
  "ban_entry k (conn_put c m s) = ban_entry k s"
  "ban_entry k (conn_close c s) = ban_entry k s"
  "ban_entry k (show_ui e s) = ban_entry k s"
  "ban_entry k (ClearPing a s) = ban_entry k s"
  "ban_entry k (snd (removeConnection a s)) = ban_entry k s"
  "ban_entry k (broadcastToRoom r a m s) = ban_entry k s"
  "ban_entry k (notify_system C t m s) = ban_entry k s"
  "ban_entry k (notify_message C t a rn m s) = ban_entry k s"
  "ban_entry k (snd (find_or_create_room C rnd a n rk h s)) = ban_entry k s"
  "ban_entry k (delete_member r a s) = ban_entry k s"
  "ban_entry k (evict_finish C rnd r a p m s) = ban_entry k s"
  "ban_entry k (break_conn c s) = ban_entry k s"
  "ban_entry k (healthCheck t s) = ban_entry k s"
  "ban_entry k (cleanupSeenMsgs t s) = ban_entry k s"
  "ban_entry k (snd (write_batch c s)) = ban_entry k s"
  "ban_entry k (snd (UpdateRoomKeys C rn pw hx s)) = ban_entry k s"
  by (simp_all add: ban_entry_def crash_def relay_partD [OF relay_part_break_conn]
      relay_partD [OF relay_part_healthCheck] relay_partD [OF relay_part_cleanupSeenMsgs]
      relay_partD [OF relay_part_write_batch])

lemma ban_entry_accept [simp]: "ban_entry k (snd (accept_peer c a al t s)) = ban_entry k s"
  by (simp add: ban_entry_def accept_peer_def Let_def)

lemma ban_entry_create [simp]: "ban_entry k (CreateRoom C rnd n rk b pw s) = ban_entry k s"
  by (simp add: CreateRoom_def Let_def) (simp add: ban_entry_def)

lemma ban_entry_drop [simp]: "ban_entry k (drop_empty_room r s) = ban_entry k s"
  by (simp add: drop_empty_room_def Let_def ban_entry_def split: option.split)

lemma ban_entry_remove [simp]: "ban_entry k (removePeer C t p s) = ban_entry k s"
  by (simp add: removePeer_def Let_def leave_room_def disconnect_peer_def split: option.split)

lemma ban_entry_kick_evict [simp]: "ban_entry k (kick_evict rq al s) = ban_entry k s"
  by (simp add: kick_evict_def split: option.split)

lemma ban_entry_ban_evict: "ban_entry k s \<Longrightarrow> ban_entry k (ban_evict rq al s)"
  by (simp add: ban_evict_def add_ban_entry split: option.split)

lemma ban_entry_handleBan: "ban_entry k s \<Longrightarrow> ban_entry k (handleBan C rnd rq al s)"
  using ban_entry_ban_evict by (simp add: handleBan_def Let_def split: option.split)

lemma ban_entry_joinRoom [simp]: "ban_entry k (joinRoom C rnd t p n rk h s) = ban_entry k s"
  by (simp add: joinRoom_def enter_room_def Let_def)

lemma ban_entry_handle_join [simp]: "ban_entry k (handle_join C rnd t p m s) = ban_entry k s"
  by (simp add: handle_join_def note_identity_def reject_join_def Let_def
      split: prod.split option.split)

lemma ban_entry_relay_encrypted [simp]:
  "ban_entry k (relay_encrypted C t p r a c ps s) = ban_entry k s"
  by (simp add: relay_encrypted_def Let_def split: list.split)

lemma ban_entry_handle_text [simp]: "ban_entry k (handle_text C t p m s) = ban_entry k s"
  by (simp add: handle_text_def Let_def split: option.split)

lemma ban_entry_handleKick [simp]: "ban_entry k (handleKick C rnd rq al s) = ban_entry k s"
  by (simp add: handleKick_def Let_def split: option.split)

lemma ban_entry_handle_from [simp]: "ban_entry k (handle_from C t p b s) = ban_entry k s"
  by (simp add: handle_from_def split: list.split option.split)

lemma ban_entry_handle_system [simp]: "ban_entry k (handle_system C t p m s) = ban_entry k s"
  by (simp add: handle_system_def Let_def split: option.split)

text \<open>Only an unban lifts a ban: the CLI command, or an UNBAN line of a peer.\<close>

fun lifts_ban :: "relay_event \<Rightarrow> bool" where
  "lifts_ban (HostUnban r t) = True"
| "lifts_ban (Line p rnd t raw) = has_prefix (trim_space raw) ''UNBAN:''"
| "lifts_ban e = False"

lemma ban_entry_handleMessage:
  assumes "ban_entry k s" and "\<not> has_prefix m ''UNBAN:''"
  shows "ban_entry k (handleMessage C rnd t p m s)"
  using assms by (simp add: handleMessage_def ban_entry_handleBan)

lemma ban_entry_step:
  assumes "ban_entry k s" and "\<not> lifts_ban e"
  shows "ban_entry k (relay_step C e s)"
  using assms
  by (cases e) (simp_all add: relay_step_def serve_line_def Let_def ban_entry_handleMessage
      ban_entry_ban_evict)

lemma ban_entry_run:
  "ban_entry k s \<Longrightarrow> \<forall>e \<in> set es. \<not> lifts_ban e \<Longrightarrow> ban_entry k (fold (relay_step C) es s)"
  by (induction es arbitrary: s) (simp_all add: ban_entry_step)

lemma handleBan_entries:
  assumes "evict_target rq al s = Some (r, a, p)"
  shows "ban_entry k (handleBan C rnd rq al s) \<longleftrightarrow> ban_entry k (add_ban a (peerHeap s p) s)"
  using evict_targetD [OF assms] assms
  by (simp add: handleBan_def ban_evict_def Let_def add_ban_entry)

lemma is_banned_entry:
  "is_banned p s \<longleftrightarrow> ban_entry (p_addr (peerHeap s p)) s \<or>
     p_deviceID (peerHeap s p) \<noteq> [] \<and> ban_entry (''device:'' @ p_deviceID (peerHeap s p)) s"
  by (simp add: is_banned_def ban_entry_def)

end
