(* ===== verification/Relay_Properties.thy ===== *)
theory Relay_Properties
  imports Relay_Access
begin

text \<open>
  The properties of the relay's rooms and moderation, each with a witness at \<open>demo\<close>, a relay
  with two members in one room.
\<close>

section \<open>A concrete relay\<close>

definition demo_peer :: "string \<Rightarrow> string \<Rightarrow> nat \<Rightarrow> string \<Rightarrow> peer" where
  "demo_peer addr alias c did =
     \<lparr>p_addr = addr, p_alias = alias, p_conn = c, p_room = Some 0, p_deviceID = did\<rparr>"

definition demo_mc :: "nat \<Rightarrow> string \<Rightarrow> managed_connection" where
  "demo_mc c addr = (newManagedConnection c addr 0)\<lparr>mc_replay := Some (NewReplayProtector 300)\<rparr>"

definition demo_room :: room where
  "demo_room =
     \<lparr>r_name = ''lobby'', r_hasAuth = True,
      r_keys = room_keys_from toy (room_auth_key toy ''lobby'' ''pw'') ''s'',
      r_ownerAuthKey = room_auth_key toy ''lobby'' ''pw'', r_roomSecret = ''s'',
      r_ownerAddr = ''a:1'', r_peers = [(''a:1'', 0), (''b:2'', 1)], r_createdLocally = False\<rparr>"

definition demo :: server where
  "demo =
     \<lparr>conns = (\<lambda>_. \<lparr>c_sent = [], c_closed = False, c_broken = False\<rparr>), screen = [], crashed = False,
      mcs = (\<lambda>i. if i = 0 then demo_mc 0 ''a:1'' else demo_mc 1 ''b:2''), nextMC = 2,
      connections = [(''a:1'', 0), (''b:2'', 1)], localPort = 9000, roomName = ''lobby'',
      localAlias = ''host'', deviceID = [], useTCP = False, roomPassword = ''pw'',
      raceTransports = False, roomKeys = room_keys_from toy (room_auth_key toy ''lobby'' ''pw'') ''s'',
      roomSecret = Some ''s'', seenMsgs = [], tofuFingerprints = [], tofuPath = [], tofuFile = [],
      pendingPings = [], relayAddrs = [], kicked = False, disconnected = False,
      rooms = [(''lobby'', 0)], roomHeap = (\<lambda>_. demo_room), nextRoom = 1,
      peerHeap = (\<lambda>p. if p = 0 then demo_peer ''a:1'' ''ann'' 0 [] else demo_peer ''b:2'' ''bob'' 1 ''d''),
      nextPeer = 2, banList = [], aliasToDeviceID = [], hasConnManager = True, hasOnMessage = True,
      hasOnSystemMessage = True, serverPort = 9000\<rparr>"

lemmas demo_defs = demo_def demo_room_def demo_peer_def demo_mc_def newManagedConnection_def
  NewReplayProtector_def

lemma demo_cm_ok: "cm_ok demo"
  by (simp add: demo_defs cm_ok_def registry_ok_def gomap_def)

lemma demo_srv_ok: "srv_ok toy demo"
  using room_auth_key_nonempty [OF toy_kdf_length, of "''lobby''" "''pw''"] demo_cm_ok
  by (auto simp: demo_defs srv_ok_def rooms_ok_def registry_of_rooms_def room_ok_def peer_ok_def
      gomap_def room_auth_def)


section \<open>Membership after a join\<close>

lemma conn_put_rooms_members [simp]: "room_members r (conn_put c m s) = room_members r s"
  by (simp add: room_members_def)

lemma room_members_frame [simp]:
  "room_members r (broadcastToRoom q a m s) = room_members r s"
  "room_members r (notify_system C t m s) = room_members r s"
  "room_members r (reject_join p m s) = room_members r s"
  "room_members r (note_identity p al d s) = room_members r s"
  by (simp_all add: room_members_def reject_join_def note_identity_def)

lemma note_identity_sel [simp]:
  "rooms (note_identity p al d s) = rooms s" "roomHeap (note_identity p al d s) = roomHeap s"
  "conns (note_identity p al d s) = conns s" "mcs (note_identity p al d s) = mcs s"
  "p_conn (peerHeap (note_identity p al d s) q) = p_conn (peerHeap s q)"
  "p_addr (peerHeap (note_identity p al d s) q) = p_addr (peerHeap s q)"
  by (simp_all add: note_identity_def)

lemma handle_join_existing:
  assumes "parse_join payload = (name, al, pw, did)" and "map_of (rooms s) name = Some r"
  shows "handle_join C rnd t p payload s =
    (let s1 = note_identity p al did s;
         rk = DeriveRoomKeys C name pw (r_roomSecret (roomHeap s r))
     in if is_banned p s1 then reject_join p ''Banned'' s1
        else case join_refusal p r pw rk s1 of
               Some reason \<Rightarrow> reject_join p reason s1
             | None \<Rightarrow> joinRoom C rnd t p name rk (pw \<noteq> []) s1)"
  using assms by (simp add: handle_join_def Let_def)

text \<open>
  C8. Nobody enters a room the relay already has without passing every check: a peer that a JOIN
  adds to the room is not banned, gives the room's password when the room has one, and has an
  alias that no member uses.
\<close>

theorem join_admits_only_checked:
  assumes "parse_join payload = (name, al, pw, did)" and "map_of (rooms s) name = Some r"
    and "p \<notin> set (room_members r s)"
    and "p \<in> set (room_members r (handle_join C rnd t p payload s))"
  shows "\<not> is_banned p (note_identity p al did s) \<and>
    (r_hasAuth (roomHeap s r) \<longrightarrow>
       pw \<noteq> [] \<and> AuthKey (r_keys (roomHeap s r)) = room_auth_key C name pw) \<and>
    \<not> alias_taken r (p_alias (peerHeap (note_identity p al did s) p)) (note_identity p al did s)"
  using assms
  by (auto simp: handle_join_existing [OF assms(1,2)] Let_def join_refusal_def
      split: if_splits option.splits)

theorem join_admits_only_checked_witness:
  "\<not> is_banned 2 (note_identity 2 ''cat'' [] demo) \<and>
   AuthKey (r_keys (roomHeap demo 0)) = room_auth_key toy ''lobby'' ''pw''"
proof -
  have "parse_join ''lobby|cat|pw'' = (''lobby'', ''cat'', ''pw'', [])"
    by (simp add: parse_join_def)
  moreover have "map_of (rooms demo) ''lobby'' = Some 0" "2 \<notin> set (room_members 0 demo)"
    by (simp_all add: demo_defs room_members_def)
  moreover have "2 \<in> set (room_members 0 (handle_join toy [] 0 2 ''lobby|cat|pw'' demo))"
    by code_simp
  moreover have "r_hasAuth (roomHeap demo 0)" by (simp add: demo_defs)
  ultimately show ?thesis using join_admits_only_checked by blast
qed




section \<open>Eviction\<close>

lemma handleKick_eq:
  assumes "evict_target rq al s = Some (r, a, p)"
  shows "handleKick C rnd rq al s =
    evict_finish C rnd r a p (kick_leave al)
      (conn_put (p_conn (peerHeap s p)) (kick_notice (r_name (roomHeap s r))) (delete_member r a s))"
  using evict_targetD(1) [OF assms] assms by (simp add: handleKick_def kick_evict_def Let_def)

lemma handleBan_eq:
  assumes "evict_target rq al s = Some (r, a, p)"
  shows "handleBan C rnd rq al s =
    evict_finish C rnd r a p (ban_leave al)
      (conn_put (p_conn (peerHeap s p)) (ban_notice (r_name (roomHeap s r)))
        (add_ban a (peerHeap s p) (delete_member r a s)))"
  using evict_targetD(1) [OF assms] assms by (simp add: handleBan_def ban_evict_def Let_def)


lemma demo_bob: "evict_target (peerHeap demo 0) ''bob'' demo = Some (0, ''b:2'', 1)"
  by code_simp


text \<open>
  A kick rotates the secret for those who stay: every remaining member whose transport works
  is sent the new secret.
\<close>

theorem kick_rekeys_the_rest:
  assumes "srv_ok C s" and "evict_target rq al s = Some (r, a, p)" and "r < nextRoom s"
    and "q \<in> set (room_members r s)" and "q \<noteq> p" and "writable (p_conn (peerHeap s q)) s"
  shows "secret_message (GenerateRoomSecret rnd)
    \<in> set (c_sent (conns (handleKick C rnd rq al s) (p_conn (peerHeap s q))))"
proof -
  let ?s1 = "conn_put (p_conn (peerHeap s p)) (kick_notice (r_name (roomHeap s r)))
     (delete_member r a s)"
  have rm: "room_ok C s (roomHeap s r)" using assms(1,3) by (simp add: srv_ok_def rooms_ok_def)
  have "q \<in> set (room_members r ?s1)"
    using room_members_delete [OF rm find_alias_member(1)] evict_targetD(3) [OF assms(2)] assms(4,5)
    by simp
  then show ?thesis
    using evict_finish_reaches [of q r ?s1 rnd C a p "kick_leave al"] assms(6)
    by (simp add: handleKick_eq [OF assms(2)])
qed

theorem kick_rekeys_the_rest_witness:
  "secret_message ''new'' \<in> set (c_sent (conns (handleKick toy ''new'' (peerHeap demo 0) ''bob'' demo)
     (p_conn (peerHeap demo 0))))"
proof -
  have "0 < nextRoom demo" "0 \<in> set (room_members 0 demo)" "writable (p_conn (peerHeap demo 0)) demo"
    by (simp_all add: demo_defs room_members_def writable_def)
  then show ?thesis
    using kick_rekeys_the_rest [OF demo_srv_ok demo_bob, of 0 "''new''"]
    by (simp add: GenerateRoomSecret_def)
qed

text \<open>
  C11. A ban lasts: whatever happens afterwards short of an unban, a JOIN from the banned address
  or with the banned device ID is answered with AUTH:FAILED|Banned.
\<close>

theorem banned_cannot_rejoin:
  assumes "evict_target rq al s = Some (r, a, p)"
    and "\<forall>e \<in> set es. \<not> lifts_ban e"
    and "s2 = fold (relay_step C) es (handleBan C rnd rq al s)"
    and "parse_join payload = (name, al', pw, did)"
    and "p_addr (peerHeap s2 q) = a \<or> did \<noteq> [] \<and> did = p_deviceID (peerHeap s p)"
  shows "handle_join C rnd' t q payload s2 = reject_join q ''Banned'' (note_identity q al' did s2)"
proof -
  let ?n = "note_identity q al' did s2"
  have keep: "ban_entry k (add_ban a (peerHeap s p) s) \<Longrightarrow> ban_entry k s2" for k
    using ban_entry_run [OF _ assms(2), of k "handleBan C rnd rq al s" C]
    by (simp add: assms(3) handleBan_entries [OF assms(1)])
  have same: "ban_entry k ?n = ban_entry k s2" for k by (simp add: note_identity_def)
  have "is_banned q ?n"
    using assms(5)
  proof
    assume "p_addr (peerHeap s2 q) = a"
    then show ?thesis using keep [of a] by (simp add: is_banned_entry same add_ban_entry)
  next
    assume "did \<noteq> [] \<and> did = p_deviceID (peerHeap s p)"
    then have d: "did \<noteq> []" "p_deviceID (peerHeap s p) = did" by metis+
    then have "p_deviceID (peerHeap ?n q) = did" by (simp add: note_identity_def)
    moreover have "ban_entry (''device:'' @ did) s2" using d by (intro keep) (simp add: add_ban_entry)
    ultimately show ?thesis using d(1) unfolding is_banned_entry same by simp
  qed
  then show ?thesis using assms(4) by (simp add: handle_join_def Let_def)
qed

theorem banned_cannot_rejoin_witness:
  "\<exists>s2. s2 = fold (relay_step toy) [Accept 7 ''c:3'' ''x'' 5] (handleBan toy ''new'' (peerHeap demo 0) ''bob'' demo)
     \<and> handle_join toy [] 6 2 ''lobby|rob|pw|d'' s2 =
         reject_join 2 ''Banned'' (note_identity 2 ''rob'' ''d'' s2)"
proof -
  have "parse_join ''lobby|rob|pw|d'' = (''lobby'', ''rob'', ''pw'', ''d'')"
    by (simp add: parse_join_def)
  moreover have "p_deviceID (peerHeap demo 1) = ''d''" by (simp add: demo_defs)
  ultimately show ?thesis
    using banned_cannot_rejoin [OF demo_bob _ refl, of "[Accept 7 ''c:3'' ''x'' 5]"] by auto
qed


text \<open>
  Unbanning by alias lifts the alias and the device entry of the ban, so the device may join
  again, but not the address entry: the address the peer was banned from stays banned.
\<close>

theorem unban_by_alias:
  assumes "evict_target rq al s = Some (r, a, p)" and "p_deviceID (peerHeap s p) = d" and "d \<noteq> []"
    and "s1 = handleBan C rnd rq al s"
    and "unban_room rq' s1 = Some r'" and "is_owner rq' (roomHeap s1 r')"
    and "\<not> has_prefix al ''device:''" and "\<not> has_prefix al ''alias:''"
    and "a \<noteq> al" and "a \<noteq> ''alias:'' @ al" and "a \<noteq> ''device:'' @ d"
  shows "\<not> ban_entry (''device:'' @ d) (handleUnban rq' al s1) \<and>
    \<not> ban_entry (''alias:'' @ al) (handleUnban rq' al s1) \<and>
    ban_entry a (handleUnban rq' al s1)"
proof -
  have al: "p_alias (peerHeap s p) = al"
    using find_alias_member(2) evict_targetD(3) [OF assms(1)] by blast
  have m: "map_of (aliasToDeviceID s1) al = Some d"
    by (simp add: assms(4) handleBan_eq [OF assms(1)] evict_finish_def Let_def add_ban_def al assms(2))
  have b: "ban_entry a s1"
    using handleBan_entries [OF assms(1), of a C rnd] by (simp add: assms(4) add_ban_entry)
  have e: "map_of (fst (unban_entries al (banList s1, aliasToDeviceID s1))) k =
      (if k \<in> {al, ''alias:'' @ al, ''device:'' @ d} then None else map_of (banList s1) k)" for k
    using assms(3,7,8) m by (simp add: unban_entries_def forget_alias_def Let_def)
  have "ban_entry k (handleUnban rq' al s1) \<longleftrightarrow>
      k \<notin> {al, ''alias:'' @ al, ''device:'' @ d} \<and> ban_entry k s1" for k
    using assms(5,6) e by (simp add: handleUnban_def Let_def ban_entry_def)
  with b assms(9-11) show ?thesis by simp
qed

theorem unban_by_alias_witness:
  "\<not> ban_entry ''device:d'' (handleUnban (creator ''host'' (Some 0)) ''bob''
       (handleBan toy ''new'' (peerHeap demo 0) ''bob'' demo)) \<and>
   ban_entry ''b:2'' (handleUnban (creator ''host'' (Some 0)) ''bob''
       (handleBan toy ''new'' (peerHeap demo 0) ''bob'' demo))"
proof -
  have "p_deviceID (peerHeap demo 1) = ''d''" by (simp add: demo_defs)
  moreover have "unban_room (creator ''host'' (Some 0)) x = Some 0" for x
    by (simp add: unban_room_def creator_def)
  moreover have "is_owner (creator ''host'' (Some 0)) rm" for rm
    by (simp add: is_owner_def creator_def)
  ultimately show ?thesis
    using unban_by_alias [OF demo_bob, of "''d''" _ toy "''new''" "creator ''host'' (Some 0)" 0] by simp
qed


section \<open>Broadcast\<close>

text \<open>
  The queue of a registered connection grows by the one line if its address is in the room and is
  not the sender's, as long as the queue has room, and no other queue changes.
\<close>

lemma broadcast_queue:
  assumes "srv_ok C s" and "r < nextRoom s" and "hasConnManager s"
    and "map_of (connections s) b = Some i"
  shows "mc_out (mcs (broadcastToRoom r a m s) i) =
    (if b \<noteq> a \<and> mapped (r_peers (roomHeap s r)) b \<and> length (mc_out (mcs s i)) < 1024
     then mc_out (mcs s i) @ [broadcast_text r a m s] else mc_out (mcs s i))"
proof -
  have cm: "cm_ok s" and rm: "room_ok C s (roomHeap s r)"
    using assms(1,2) by (simp_all add: srv_ok_def rooms_ok_def)
  show ?thesis
  proof (cases "b \<noteq> a \<and> mapped (r_peers (roomHeap s r)) b")
    case True
    then obtain p where "map_of (r_peers (roomHeap s r)) b = Some p" by auto
    then have p: "p \<in> set (room_members r s)" "p_addr (peerHeap s p) = b"
      unfolding room_ok_lookup [OF rm] by simp_all
    then show ?thesis
      using broadcast_enqueues [OF cm assms(3) rm p(1), of a i m] True assms(4)
      by (simp add: OutboundQueueSize_def)
  next
    case False
    have "p_addr (peerHeap s p) \<noteq> b" if "p \<in> set (recipients r a s)" for p
    proof
      assume pb: "p_addr (peerHeap s p) = b"
      from that have "p \<in> set (room_members r s)" "p_addr (peerHeap s p) \<noteq> a"
        by (simp_all add: recipients_def)
      then have "map_of (r_peers (roomHeap s r)) b = Some p"
        unfolding room_ok_lookup [OF rm] using pb by simp
      with False pb \<open>p_addr (peerHeap s p) \<noteq> a\<close> show False by simp
    qed
    then have "mcs (broadcastToRoom r a m s) i = mcs s i"
      by (intro broadcast_spares [OF cm assms(4)]) blast
    with False show ?thesis by auto
  qed
qed

text \<open>
  C13. The relay forwards nothing it cannot verify: an encrypted line whose signature does not
  verify under the room's keys changes nothing at all.
\<close>

theorem forged_line_dropped:
  assumes "trim_space raw = ''FROM:'' @ a @ pipe # pl @ pipe # n @ pipe # h"
    and "pipe \<notin> set a" and "pipe \<notin> set pl" and "pipe \<notin> set n"
    and "p_room (peerHeap s p) = Some r"
    and "\<not> Verify C (r_keys (roomHeap s r)) (unsigned_text a pl n) h"
  shows "serve_line C p (rnd, t, raw) s = s"
  unfolding serve_line_dispatch [OF assms(1)] handle_from_fields [OF assms(5,2-4)]
  by (rule relay_encrypted_invalid [OF assms(6)])

theorem forged_line_dropped_witness:
  "serve_line toy 0 ([], 5, ''FROM:ann|p|n|00'' @ [newline]) demo = demo"
proof (rule forged_line_dropped [of _ "''ann''" "''p''" "''n''" "''00''"])
  show "trim_space (''FROM:ann|p|n|00'' @ [newline]) =
      ''FROM:'' @ ''ann'' @ pipe # ''p'' @ pipe # ''n'' @ pipe # ''00''" by code_simp
  show "p_room (peerHeap demo 0) = Some 0" by (simp add: demo_defs)
  show "\<not> Verify toy (r_keys (roomHeap demo 0)) (unsigned_text ''ann'' ''p'' ''n'') ''00''" by code_simp
qed simp_all


section \<open>Leaving\<close>

lemma removePeer_rooms:
  assumes "p_room (peerHeap s p) = Some r"
  shows "roomHeap (removePeer C t p s) = roomHeap (leave_room p r s)"
    and "rooms (removePeer C t p s) = rooms (drop_empty_room r (leave_room p r s))"
proof -
  have d: "roomHeap (drop_empty_room q x) = roomHeap x" for q x
    by (simp add: drop_empty_room_def Let_def split: option.split)
  have c: "roomHeap (disconnect_peer q x) = roomHeap x" "rooms (disconnect_peer q x) = rooms x" for q x
    by (simp_all add: disconnect_peer_def Let_def)
  show "roomHeap (removePeer C t p s) = roomHeap (leave_room p r s)"
    "rooms (removePeer C t p s) = rooms (drop_empty_room r (leave_room p r s))"
    using assms by (simp_all add: removePeer_def Let_def c d)
qed

text \<open>
  C22. Ownership is transferred deterministically: when a member leaves a room where others stay,
  the owner is the remaining member with the least address if the leaver owned the room, and
  the same as before otherwise.
\<close>

theorem owner_after_leave:
  assumes "srv_ok C s" and "p < nextPeer s" and "p_room (peerHeap s p) = Some r"
    and "rest = set (keys (r_peers (roomHeap s r))) - {p_addr (peerHeap s p)}" and "rest \<noteq> {}"
  shows "r_ownerAddr (roomHeap (removePeer C t p s) r) =
    (if r_ownerAddr (roomHeap s r) = p_addr (peerHeap s p) then Min rest else r_ownerAddr (roomHeap s r))"
proof -
  have ok: "rooms_ok C s" using assms(1) by (simp add: srv_ok_def)
  have r: "r < nextRoom s" using rooms_okD(3) [OF ok assms(2)] assms(3) by (simp add: peer_ok_def)
  let ?ps = "AList.delete (p_addr (peerHeap s p)) (r_peers (roomHeap s r))"
  have ks: "set (keys ?ps) = rest" unfolding assms(4) by (force simp: set_delete)
  have "[] \<notin> set (keys ?ps)"
    using rooms_okD(2) [OF ok r] rooms_okD(3) [OF ok] by (fastforce simp: room_ok_def peer_ok_def set_delete)
  moreover have ne: "?ps \<noteq> []" using ks assms(5) by auto
  ultimately have "least_addr [] (keys ?ps) = Min rest"
    using least_addr_Min [of "keys ?ps"] ks by simp
  then show ?thesis
    using ne by (simp add: removePeer_rooms [OF assms(3)] leave_room_def Let_def)
qed

theorem owner_after_leave_witness:
  "r_ownerAddr (roomHeap (removePeer toy 5 0 demo) 0) = ''b:2''"
proof -
  have h: "{''b:2''} = set (keys (r_peers (roomHeap demo 0))) - {p_addr (peerHeap demo 0)}"
    by (auto simp: demo_defs)
  have p: "p_room (peerHeap demo 0) = Some 0" "0 < nextPeer demo"
    "r_ownerAddr (roomHeap demo 0) = p_addr (peerHeap demo 0)" by (simp_all add: demo_defs)
  have "r_ownerAddr (roomHeap (removePeer toy 5 0 demo) 0) = Min {''b:2''}"
    using owner_after_leave [OF demo_srv_ok p(2,1) h] by (simp add: p(3))
  then show ?thesis by simp
qed

text \<open>
  C23. A room leaves the registry exactly when its last member leaves and the host did not create
  it: rooms of the host stay, and so does every room somebody is still in.
\<close>

theorem room_registry_after_leave:
  assumes "p_room (peerHeap s p) = Some r" and "map_of (rooms s) (r_name (roomHeap s r)) = Some r"
    and "r_name (roomHeap s r) \<noteq> []"
  shows "rooms (removePeer C t p s) =
    (if set (keys (r_peers (roomHeap s r))) \<subseteq> {p_addr (peerHeap s p)} \<and>
        \<not> r_createdLocally (roomHeap s r)
     then AList.delete (r_name (roomHeap s r)) (rooms s) else rooms s)"
proof -
  have "AList.delete (p_addr (peerHeap s p)) (r_peers (roomHeap s r)) = [] \<longleftrightarrow>
      set (keys (r_peers (roomHeap s r))) \<subseteq> {p_addr (peerHeap s p)}"
    by (auto simp: AList.delete_eq filter_empty_conv)
  then show ?thesis
    using assms(2,3)
    by (auto simp: removePeer_rooms [OF assms(1)] leave_room_def drop_empty_room_def Let_def)
qed

theorem room_registry_after_leave_witness:
  "rooms (removePeer toy 6 1 (removePeer toy 5 0 demo)) = []"
proof -
  have "p_room (peerHeap demo 0) = Some 0" by (simp add: demo_defs)
  note left = removePeer_rooms [OF this, of toy 5]
  have s1: "rooms (removePeer toy 5 0 demo) = [(''lobby'', 0)]"
    "r_peers (roomHeap (removePeer toy 5 0 demo) 0) = [(''b:2'', 1)]"
    "r_name (roomHeap (removePeer toy 5 0 demo) 0) = ''lobby''"
    "\<not> r_createdLocally (roomHeap (removePeer toy 5 0 demo) 0)"
    unfolding left by (simp_all add: leave_room_def drop_empty_room_def demo_defs Let_def update_room_def)
  have ph: "peerHeap (removePeer toy 5 0 demo) = peerHeap demo"
    by (simp add: removePeer_def demo_defs leave_room_def drop_empty_room_def disconnect_peer_def Let_def)
  have "p_room (peerHeap (removePeer toy 5 0 demo) 1) = Some 0"
    "p_addr (peerHeap (removePeer toy 5 0 demo) 1) = ''b:2''"
    unfolding ph by (simp_all add: demo_defs)
  then show ?thesis
    using room_registry_after_leave [of "removePeer toy 5 0 demo" 1 0 toy 6] s1 by simp
qed

text \<open>
  A peer that JOINs a second room stays a member of the first: both rooms broadcast to it, and
  when it disconnects only the second one forgets it.
\<close>

lemma rejoin_leaves_stale_member:
  assumes "map_of (rooms s) name = Some r2" and "r1 \<noteq> r2" and "p \<in> set (room_members r1 s)"
  shows "p \<in> set (room_members r1 (joinRoom C rnd t p name rk h s)) \<and>
    p \<in> set (room_members r1 (removePeer C t' p (joinRoom C rnd t p name rk h s)))"
proof -
  let ?j = "joinRoom C rnd t p name rk h s"
  have h: "roomHeap ?j r1 = roomHeap s r1" "p_room (peerHeap ?j p) = Some r2"
    using assms(1,2)
    by (simp_all add: joinRoom_def find_or_create_room_def enter_room_eq Let_def)
  have "roomHeap (removePeer C t' p ?j) r1 = roomHeap s r1"
    using assms(2) h by (simp add: removePeer_rooms [OF h(2)] leave_room_def)
  with h(1) assms(3) show ?thesis by (simp add: room_members_def)
qed

end
