(* ===== verification/Identity.thy ===== *)
theory Identity
  imports Encoding
begin

text \<open>
  The per-install identity (\<open>deviceid.go\<close>), the port argument of the command line
  (\<open>parsePortArg\<close>), and the tuning constants and buffer check of \<open>performance.go\<close>.

  The file system is a map from paths to contents with the answers of the operating system as
  parameters: which directories can be made, which files can be written.  \<open>filepath.Join\<close> is
  modelled for parts without \<open>.\<close> and \<open>..\<close> elements.
\<close>

section \<open>The operating system\<close>

type_synonym files = "string \<Rightarrow> string option"

record os_env =
  goos :: string
  appdata :: string
  home_dir :: "string option"
  config_dir :: "string option"
  separator :: char
  mkdir_ok :: "string \<Rightarrow> bool"
  write_ok :: "string \<Rightarrow> bool"

datatype id_error =
    AppdataNotSet
  | NoHome
  | NoConfigDir
  | RandomFailed
  | MkdirFailed
  | EmptyDeviceID
  | DeviceIDTooShort
  | InvalidAlias
  | WriteFailed

definition strip_sep :: "char \<Rightarrow> string \<Rightarrow> string" where
  "strip_sep c p = rev (dropWhile (\<lambda>x. x = c) (rev p))"

definition path_join :: "os_env \<Rightarrow> string list \<Rightarrow> string" where
  "path_join E parts = join_with (separator E) (filter (\<lambda>p. p \<noteq> []) (map (strip_sep (separator E)) parts))"

text \<open>\<open>filepath.Dir\<close>: everything before the last separator.\<close>

definition path_dir :: "os_env \<Rightarrow> string \<Rightarrow> string" where
  "path_dir E p = strip_sep (separator E) (rev (dropWhile (\<lambda>x. x \<noteq> separator E) (rev p)))"

definition write_file :: "os_env \<Rightarrow> string \<Rightarrow> string \<Rightarrow> files \<Rightarrow> bool \<times> files" where
  "write_file E path content fs = (if write_ok E path then (True, fs(path \<mapsto> content)) else (False, fs))"


section \<open>The device identifier\<close>

definition deviceIDFile :: string where
  "deviceIDFile = ''device-id''"

definition getDeviceIDFile :: "os_env \<Rightarrow> id_error + string" where
  "getDeviceIDFile E =
     (if goos E = ''windows'' then
        (if appdata E = [] then Inl AppdataNotSet
         else Inr (path_join E [path_join E [appdata E, ''p2p-messenger''], deviceIDFile]))
      else if goos E \<in> {''darwin'', ''linux'', ''freebsd'', ''openbsd'', ''netbsd''} then
        (case home_dir E of
           None \<Rightarrow> Inl NoHome
         | Some home \<Rightarrow>
             Inr (path_join E [path_join E [home, ''.config'', ''p2p-messenger''], deviceIDFile]))
      else Inr (path_join E [''.p2p-messenger'', deviceIDFile]))"

text \<open>A stored identifier counts only at its full length of 64 bytes.\<close>

definition stored_id :: "string \<Rightarrow> files \<Rightarrow> string option" where
  "stored_id path fs =
     (case fs path of None \<Rightarrow> None | Some d \<Rightarrow> if length d = 64 then Some d else None)"

text \<open>\<open>rnd\<close> are the 32 bytes of \<open>rand.Read\<close>, \<open>None\<close> when it fails.\<close>

definition GetDeviceID :: "os_env \<Rightarrow> bytes option \<Rightarrow> files \<Rightarrow> (id_error + string) \<times> files" where
  "GetDeviceID E rnd fs =
     (case getDeviceIDFile E of
        Inl e \<Rightarrow> (Inl e, fs)
      | Inr path \<Rightarrow>
          (case stored_id path fs of
             Some d \<Rightarrow> (Inr d, fs)
           | None \<Rightarrow>
               (case rnd of
                  None \<Rightarrow> (Inl RandomFailed, fs)
                | Some bs \<Rightarrow>
                    (let d = hex_encode bs; dir = path_dir E path
                     in if dir \<noteq> [] \<and> \<not> mkdir_ok E dir then (Inl MkdirFailed, fs)
                        else (Inr d, snd (write_file E path d fs))))))"


section \<open>The stored alias\<close>

definition aliasPath :: "os_env \<Rightarrow> string \<Rightarrow> id_error + string" where
  "aliasPath E devID =
     (if length devID < 16 then Inl DeviceIDTooShort
      else (case config_dir E of
              None \<Rightarrow> Inl NoConfigDir
            | Some cfg \<Rightarrow>
                (let dir = path_join E [cfg, ''p2p-messenger'']
                 in if \<not> mkdir_ok E dir then Inl MkdirFailed
                    else Inr (path_join E [dir, ''alias-'' @ take 16 devID]))))"

definition SaveAlias :: "os_env \<Rightarrow> string \<Rightarrow> string \<Rightarrow> files \<Rightarrow> id_error option \<times> files" where
  "SaveAlias E devID alias fs =
     (if devID = [] then (Some EmptyDeviceID, fs)
      else (case aliasPath E devID of
              Inl e \<Rightarrow> (Some e, fs)
            | Inr path \<Rightarrow>
                if list_ex (\<lambda>c. c \<in> {pipe, newline, carriage_return}) alias
                then (Some InvalidAlias, fs)
                else (let w = write_file E path alias fs
                      in (if fst w then None else Some WriteFailed, snd w))))"

definition LoadAlias :: "os_env \<Rightarrow> string \<Rightarrow> files \<Rightarrow> string" where
  "LoadAlias E devID fs =
     (if devID = [] then []
      else (case aliasPath E devID of
              Inl e \<Rightarrow> []
            | Inr path \<Rightarrow> (case fs path of None \<Rightarrow> [] | Some d \<Rightarrow> trim_space d)))"


section \<open>The port argument\<close>

datatype port_error = NotANumber string | OutOfRange int

definition parsePortArg :: "string \<Rightarrow> port_error + int" where
  "parsePortArg s =
     (case atoi (trim_space s) of
        None \<Rightarrow> Inl (NotANumber s)
      | Some p \<Rightarrow> if p < 0 \<or> p > 65535 then Inl (OutOfRange p) else Inr p)"


section \<open>UDP buffers\<close>

definition recommendedUDPBufSize :: int where
  "recommendedUDPBufSize = 7 * 1024 * 1024"

definition MaxConcurrentHandshakes :: nat where
  "MaxConcurrentHandshakes = 256"

definition readProcSysInt :: "files \<Rightarrow> string \<Rightarrow> int" where
  "readProcSysInt fs path =
     (case fs path of
        None \<Rightarrow> 0
      | Some d \<Rightarrow> (case atoi (trim_space d) of None \<Rightarrow> 0 | Some v \<Rightarrow> v))"

datatype buffer_log = NoLog | BelowRecommended int int | BuffersOK int int | SkippedOnWindows

definition checkLinuxUDPBuffers :: "files \<Rightarrow> buffer_log" where
  "checkLinuxUDPBuffers fs =
     (let rmem = readProcSysInt fs ''/proc/sys/net/core/rmem_max'';
          wmem = readProcSysInt fs ''/proc/sys/net/core/wmem_max''
      in if rmem = 0 \<and> wmem = 0 then NoLog
         else if rmem < recommendedUDPBufSize \<or> wmem < recommendedUDPBufSize
           then BelowRecommended rmem wmem
           else BuffersOK rmem wmem)"

definition CheckUDPBuffers :: "string \<Rightarrow> files \<Rightarrow> buffer_log" where
  "CheckUDPBuffers os fs =
     (if os = ''linux'' then checkLinuxUDPBuffers fs
      else if os = ''windows'' then SkippedOnWindows else NoLog)"


section \<open>Facts\<close>

text \<open>A concrete Linux account for the witnesses.\<close>

definition demo_env :: os_env where
  "demo_env =
     \<lparr>goos = ''linux'', appdata = [], home_dir = Some ''/home/u'', config_dir = Some ''/home/u/.config'',
      separator = CHR ''/'', mkdir_ok = (\<lambda>_. True), write_ok = (\<lambda>_. True)\<rparr>"

text \<open>
  The device ID is stable across calls once it could be stored: the call that made it wrote
  it where the next call, with whatever random bytes, finds it and changes nothing.
\<close>

theorem GetDeviceID_stable:
  assumes "GetDeviceID E (Some bs) fs = (Inr d, fs')" and "length bs = 32"
    and "\<forall>path. write_ok E path"
  shows "GetDeviceID E rnd fs' = (Inr d, fs')"
proof -
  obtain path where p: "getDeviceIDFile E = Inr path"
    using assms(1) by (cases "getDeviceIDFile E") (simp_all add: GetDeviceID_def)
  have "stored_id path fs' = Some d"
    using assms by (auto simp: GetDeviceID_def p Let_def stored_id_def write_file_def length_hex_encode
        split: option.splits if_splits)
  then show ?thesis by (simp add: GetDeviceID_def p)
qed

theorem GetDeviceID_stable_witness:
  "fst (GetDeviceID demo_env None
     (snd (GetDeviceID demo_env (Some (replicate 32 (CHR ''x''))) (\<lambda>_. None)))) =
   Inr (hex_encode (replicate 32 (CHR ''x'')))"
proof -
  let ?bs = "replicate 32 (CHR ''x'')"
  have "GetDeviceID demo_env (Some ?bs) (\<lambda>_. None) =
      (Inr (hex_encode ?bs), snd (GetDeviceID demo_env (Some ?bs) (\<lambda>_. None)))"
    by (simp add: GetDeviceID_def getDeviceIDFile_def stored_id_def demo_env_def Let_def)
  from GetDeviceID_stable [OF this, of None] show ?thesis by (simp add: demo_env_def)
qed

text \<open>
  When the ID cannot be stored, every call makes up a new one: two calls with different
  random bytes return different IDs.
\<close>

theorem GetDeviceID_unstable_without_storage:
  assumes "getDeviceIDFile E = Inr path" and "stored_id path fs = None" and "\<not> write_ok E path"
    and "path_dir E path = [] \<or> mkdir_ok E (path_dir E path)" and "b1 \<noteq> b2"
  shows "\<exists>d1 d2. GetDeviceID E (Some b1) fs = (Inr d1, fs) \<and>
     GetDeviceID E (Some b2) fs = (Inr d2, fs) \<and> d1 \<noteq> d2"
  using assms by (auto simp: GetDeviceID_def Let_def write_file_def hex.enc_inj)

theorem GetDeviceID_unstable_without_storage_witness:
  "\<exists>d1 d2. GetDeviceID (demo_env\<lparr>write_ok := (\<lambda>_. False)\<rparr>) (Some ''a'') (\<lambda>_. None) = (Inr d1, \<lambda>_. None) \<and>
     GetDeviceID (demo_env\<lparr>write_ok := (\<lambda>_. False)\<rparr>) (Some ''b'') (\<lambda>_. None) = (Inr d2, \<lambda>_. None) \<and> d1 \<noteq> d2"
proof -
  have "\<exists>path. getDeviceIDFile (demo_env\<lparr>write_ok := (\<lambda>_. False)\<rparr>) = Inr path"
    by (simp add: getDeviceIDFile_def demo_env_def)
  then show ?thesis
    using GetDeviceID_unstable_without_storage [where fs = "\<lambda>_. None" and ?b1.0 = "''a''" and ?b2.0 = "''b''"]
    by (auto simp: stored_id_def demo_env_def)
qed

text \<open>
  An alias that \<open>SaveAlias\<close> accepted is the alias \<open>LoadAlias\<close> returns for the device, when it
  has no surrounding white space.
\<close>

theorem LoadAlias_SaveAlias:
  assumes "SaveAlias E devID alias fs = (None, fs')" and "trim_space alias = alias"
  shows "LoadAlias E devID fs' = alias"
  using assms
  by (auto simp: SaveAlias_def LoadAlias_def write_file_def Let_def
      split: if_splits sum.splits option.splits)

theorem LoadAlias_SaveAlias_witness:
  "LoadAlias demo_env (replicate 64 (CHR ''a''))
     (snd (SaveAlias demo_env (replicate 64 (CHR ''a'')) ''bob'' (\<lambda>_. None))) = ''bob''"
proof -
  have "SaveAlias demo_env (replicate 64 (CHR ''a'')) ''bob'' (\<lambda>_. None) =
      (None, snd (SaveAlias demo_env (replicate 64 (CHR ''a'')) ''bob'' (\<lambda>_. None)))"
    by (simp add: SaveAlias_def aliasPath_def demo_env_def Let_def write_file_def)
  moreover have "trim_space ''bob'' = ''bob''" by code_simp
  ultimately show ?thesis by (rule LoadAlias_SaveAlias)
qed

text \<open>
  The port argument accepts exactly the decimal numbers from 0 to 65535: whatever it returns
  is in that range, and every number of the range is read back from its decimal text.
\<close>

theorem parsePortArg_range:
  "(case parsePortArg s of Inr p \<Rightarrow> 0 \<le> p \<and> p \<le> 65535 | Inl e \<Rightarrow> True) \<and>
   parsePortArg (nat_str n) =
     (if n \<le> 65535 then Inr (int n)
      else if int64_range (int n) then Inl (OutOfRange (int n)) else Inl (NotANumber (nat_str n)))"
proof -
  have d: "c \<in> set (nat_str n) \<Longrightarrow> solid c" for c
    using nat_str_digits [of n] by (auto simp: list_all_iff is_digit_def solid_def ascii_space_def)
  have "trim_space (nat_str n) = nat_str n"
    using nat_str_digits [of n] d by (intro trim_space_solid d hd_in_set last_in_set) auto
  moreover have "atoi (nat_str n) = (if int64_range (int n) then Some (int n) else None)"
    by (simp add: atoi_def signed_val_def)
  moreover have "n \<le> 65535 \<Longrightarrow> int64_range (int n)" by (simp add: int64_range_def)
  ultimately show ?thesis by (auto simp: parsePortArg_def split: option.split)
qed

end
