(* ===== verification/Relay_Accept.thy ===== *)
theory Relay_Accept
  imports Relay_Properties Identity
begin

text \<open>
  Connection setup of the relay (\<open>acceptLoopQUIC\<close>, \<open>acceptLoopTCP\<close>, \<open>handleQUICConnection\<close>,
  \<open>handleTCPConnection\<close>, \<open>acquireSetup\<close>, \<open>releaseSetup\<close>): each accepted connection is a goroutine
  that takes one of \<open>MaxConcurrentHandshakes\<close> slots for its setup phase and gives it back whatever
  the outcome.  A step relation over the goroutines' phases; the semaphore is the number of
  elements in its channel.
\<close>

section \<open>Phases and steps\<close>

datatype transport_kind = QUIC | TCP

datatype phase = Waiting transport_kind | Setup transport_kind | Serving | Rejected

record accept_state =
  phases :: "nat \<Rightarrow> phase option"
  accepted :: nat
  slots :: nat

definition accept_start :: accept_state where
  "accept_start = \<lparr>phases = (\<lambda>_. None), accepted = 0, slots = 0\<rparr>"

definition set_phase :: "nat \<Rightarrow> phase \<Rightarrow> accept_state \<Rightarrow> accept_state" where
  "set_phase i p a = a\<lparr>phases := (phases a)(i \<mapsto> p)\<rparr>"

text \<open>\<open>acquireSetup\<close> blocks while the channel is full; \<open>releaseSetup\<close> takes one element out.\<close>

definition acquireSetup :: "accept_state \<Rightarrow> accept_state option" where
  "acquireSetup a = (if slots a < MaxConcurrentHandshakes then Some (a\<lparr>slots := Suc (slots a)\<rparr>) else None)"

definition releaseSetup :: "accept_state \<Rightarrow> accept_state option" where
  "releaseSetup a = (case slots a of 0 \<Rightarrow> None | Suc n \<Rightarrow> Some (a\<lparr>slots := n\<rparr>))"

text \<open>
  The outcome of a setup: the first stream (QUIC) or the TLS handshake (TCP) succeeded, and the
  peer loop starts, or it failed or timed out, and the connection is closed.
\<close>

inductive accept_step :: "accept_state \<Rightarrow> accept_state \<Rightarrow> bool" where
  arrive: "accept_step a
    ((set_phase (accepted a) (Waiting k) a)\<lparr>accepted := Suc (accepted a)\<rparr>)"
| acquire: "phases a i = Some (Waiting k) \<Longrightarrow> acquireSetup a = Some a' \<Longrightarrow>
    accept_step a (set_phase i (Setup k) a')"
| finish: "phases a i = Some (Setup k) \<Longrightarrow> releaseSetup a = Some a' \<Longrightarrow>
    accept_step a (set_phase i (if ok then Serving else Rejected) a')"

inductive accept_reachable :: "accept_state \<Rightarrow> bool" where
  start: "accept_reachable accept_start"
| step: "accept_reachable a \<Longrightarrow> accept_step a a' \<Longrightarrow> accept_reachable a'"


section \<open>The semaphore counts the setups\<close>

definition in_setup :: "accept_state \<Rightarrow> nat set" where
  "in_setup a = {i. \<exists>k. phases a i = Some (Setup k)}"

definition accept_ok :: "accept_state \<Rightarrow> bool" where
  "accept_ok a \<longleftrightarrow>
     (\<forall>i. phases a i \<noteq> None \<longrightarrow> i < accepted a) \<and>
     slots a = card (in_setup a) \<and> slots a \<le> MaxConcurrentHandshakes"

lemma in_setup_finite: "accept_ok a \<Longrightarrow> finite (in_setup a)"
  by (rule finite_subset [of _ "{..<accepted a}"]) (auto simp: accept_ok_def in_setup_def)

lemma set_phase_sel [simp]:
  "slots (set_phase i p a) = slots a" "accepted (set_phase i p a) = accepted a"
  "phases (set_phase i p a) = (phases a)(i \<mapsto> p)"
  by (simp_all add: set_phase_def)

lemma accept_ok_step:
  assumes ok: "accept_ok a" and st: "accept_step a a'"
  shows "accept_ok a'"
  using st
proof (cases rule: accept_step.cases)
  case (arrive k)
  have "phases a (accepted a) = None" using ok by (auto simp: accept_ok_def)
  then have "in_setup a' = in_setup a" by (auto simp: arrive in_setup_def)
  then show ?thesis using ok by (auto simp: arrive accept_ok_def less_Suc_eq)
next
  case (acquire i k b)
  then have b: "b = a\<lparr>slots := Suc (slots a)\<rparr>" "slots a < MaxConcurrentHandshakes"
    by (simp_all add: acquireSetup_def split: if_splits)
  have "in_setup a' = insert i (in_setup a)" "i \<notin> in_setup a"
    using acquire by (auto simp: in_setup_def b)
  then show ?thesis
    using ok b acquire in_setup_finite [OF ok] by (auto simp: accept_ok_def)
next
  case (finish i k b ok')
  then obtain n where n: "slots a = Suc n" "b = a\<lparr>slots := n\<rparr>"
    by (auto simp: releaseSetup_def split: nat.splits)
  have "in_setup a' = in_setup a - {i}" "i \<in> in_setup a"
    using finish by (auto simp: in_setup_def n)
  then show ?thesis
    using ok n finish in_setup_finite [OF ok] by (auto simp: accept_ok_def)
qed

lemma accept_ok_reachable: "accept_reachable a \<Longrightarrow> accept_ok a"
proof (induction rule: accept_reachable.induct)
  case start
  then show ?case by (simp add: accept_ok_def accept_start_def in_setup_def)
next
  case (step a a')
  then show ?case using accept_ok_step by blast
qed

text \<open>
  C24. The relay never runs more than 256 connection setups at once, a setup can always end (its
  release never blocks), and a waiting connection is blocked only while all 256 slots are taken.
\<close>

theorem setup_bounded:
  assumes "accept_reachable a"
  shows "card (in_setup a) \<le> 256 \<and>
    (\<forall>i k. phases a i = Some (Setup k) \<longrightarrow>
       (\<forall>ok. \<exists>a'. accept_step a a' \<and> phases a' i = Some (if ok then Serving else Rejected))) \<and>
    (\<forall>i k. phases a i = Some (Waiting k) \<longrightarrow>
       card (in_setup a) = 256 \<or> (\<exists>a'. accept_step a a' \<and> phases a' i = Some (Setup k)))"
proof -
  have ok: "accept_ok a" using assms by (rule accept_ok_reachable)
  then have slots: "slots a = card (in_setup a)" "slots a \<le> 256"
    by (simp_all add: accept_ok_def MaxConcurrentHandshakes_def)
  have fin: "\<exists>a'. accept_step a a' \<and> phases a' i = Some (if b then Serving else Rejected)"
    if "phases a i = Some (Setup k)" for i k b
  proof -
    have "i \<in> in_setup a" using that by (auto simp: in_setup_def)
    then have "slots a \<noteq> 0" using slots in_setup_finite [OF ok] by auto
    then obtain n where "slots a = Suc n" by (cases "slots a") auto
    then have "releaseSetup a = Some (a\<lparr>slots := n\<rparr>)" by (simp add: releaseSetup_def)
    from accept_step.finish [OF that this, of b] show ?thesis by fastforce
  qed
  have acq: "card (in_setup a) = 256 \<or> (\<exists>a'. accept_step a a' \<and> phases a' i = Some (Setup k))"
    if "phases a i = Some (Waiting k)" for i k
  proof (cases "slots a = 256")
    case False
    then have "acquireSetup a = Some (a\<lparr>slots := Suc (slots a)\<rparr>)"
      using slots by (simp add: acquireSetup_def MaxConcurrentHandshakes_def)
    from accept_step.acquire [OF that this] show ?thesis by fastforce
  qed (use slots in simp)
  show ?thesis using slots fin acq by auto
qed

theorem setup_bounded_witness:
  "\<exists>a. accept_reachable a \<and> card (in_setup a) \<le> 256 \<and> phases a 0 = Some (Setup QUIC)"
proof -
  let ?a1 = "(set_phase 0 (Waiting QUIC) accept_start)\<lparr>accepted := 1\<rparr>"
  have "accept_step accept_start ?a1"
    using accept_step.arrive [of accept_start QUIC] by (simp add: accept_start_def)
  then have r1: "accept_reachable ?a1" by (rule accept_reachable.step [OF start])
  have "phases ?a1 0 = Some (Waiting QUIC)" by simp
  moreover have "card (in_setup ?a1) = 0" by (simp add: in_setup_def accept_start_def)
  moreover have "\<forall>i k. phases ?a1 i = Some (Waiting k) \<longrightarrow>
      card (in_setup ?a1) = 256 \<or> (\<exists>a'. accept_step ?a1 a' \<and> phases a' i = Some (Setup k))"
    using setup_bounded [OF r1] by (elim conjE)
  ultimately have "\<exists>a'. accept_step ?a1 a' \<and> phases a' 0 = Some (Setup QUIC)" by fastforce
  then obtain a' where "accept_step ?a1 a'" "phases a' 0 = Some (Setup QUIC)" by blast
  then have "accept_reachable a'" "phases a' 0 = Some (Setup QUIC)"
    using r1 by (auto intro: accept_reachable.step)
  then show ?thesis using setup_bounded by blast
qed


section \<open>A fresh relay\<close>

lemma NewServer_sel:
  assumes "NewServer port tcp om osm cmg cm = Inr s"
  shows "rooms s = []" "nextRoom s = 0" "nextPeer s = 0" "banList s = []"
    "hasConnManager s = cmg" "hasOnMessage s = om" "hasOnSystemMessage s = osm"
    "connections s = connections cm" "mcs s = mcs cm" "nextMC s = nextMC cm"
    "crashed s = crashed cm" "conns s = conns cm"
  using assms
  by (auto simp: NewServer_def cm_state.defs server.defs split: option.splits if_splits)

lemma NewServer_srv_ok:
  assumes "NewServer port tcp om osm cmg cm = Inr s" and "cm_ok cm" and "om \<longrightarrow> cmg"
  shows "srv_ok C s"
proof -
  have "cm_ok s"
    using assms(2) NewServer_sel [OF assms(1)] by (simp add: cm_ok_def registry_ok_def)
  then show ?thesis
    using assms(3) NewServer_sel [OF assms(1)]
    by (simp add: srv_ok_def rooms_ok_def registry_of_rooms_def gomap_def)
qed

text \<open>
  C3. The relay is safe in every interleaving: from a fresh server, after any sequence of
  connections, lines, disconnections, moderation by peers or by the host, health checks,
  writer turns and network failures, the registries are consistent, every room's keys belong to
  its secret, every non-empty room has an owner, and nothing has panicked.
\<close>

theorem relay_invariant:
  assumes "NewServer port tcp om osm cmg cm = Inr s0" and "cm_ok cm" and "om \<longrightarrow> cmg"
    and "kdf_length C"
  shows "srv_ok C (fold (relay_step C) es s0)"
  using relay.run_inv [of C s0 es] NewServer_srv_ok [OF assms(1-3), of C] assms(4) by simp

definition demo_cm :: cm_state where
  "demo_cm =
     NewConnectionManager toy
       \<lparr>conns = (\<lambda>_. \<lparr>c_sent = [], c_closed = False, c_broken = False\<rparr>), screen = [], crashed = False\<rparr>
       0 ''lobby'' False ''pw'' ''host'' [] [] []"

lemma demo_cm_ok': "cm_ok demo_cm"
  by (simp add: demo_cm_def)

theorem relay_invariant_witness:
  "\<exists>s0. NewServer (Some 9000) True True True True demo_cm = Inr s0 \<and>
     srv_ok toy (fold (relay_step toy)
       [Accept 1 ''a:1'' ''x'' 5, Line 0 (replicate 32 (CHR ''s'')) 6 ''JOIN:lobby|ann'', Eof 0 7] s0)"
proof -
  obtain s0 where "NewServer (Some 9000) True True True True demo_cm = Inr s0"
    by (simp add: NewServer_def)
  then show ?thesis using relay_invariant [OF _ demo_cm_ok' _ toy_kdf_length] by blast
qed


section \<open>A connection on its own\<close>

text \<open>No handler creates a peer.\<close>

lemma nextPeer_rooms [simp]:
  "nextPeer (crash s) = nextPeer (s :: server)" "nextPeer (reject_join p m s) = nextPeer s"
  "nextPeer (joinRoom C rnd t p n rk h s) = nextPeer s"
  "nextPeer (handle_join C rnd t p m s) = nextPeer s"
  by (simp_all add: crash_def reject_join_def joinRoom_def handle_join_def enter_room_eq Let_def
      split: prod.split option.split)

lemma nextPeer_evict [simp]:
  "nextPeer (kick_evict rq al s) = nextPeer s" "nextPeer (ban_evict rq al s) = nextPeer s"
  "nextPeer (rotateRoomSecret C rnd r s) = nextPeer s"
  by (simp_all add: kick_evict_def ban_evict_def delete_member_def add_ban_def rotateRoomSecret_def
      Let_def split: option.split)

lemma nextPeer_moderation [simp]:
  "nextPeer (evict_finish C rnd r a p m s) = nextPeer s"
  "nextPeer (handleKick C rnd rq al s) = nextPeer s"
  "nextPeer (handleBan C rnd rq al s) = nextPeer s" "nextPeer (handleUnban rq al s) = nextPeer s"
  by (simp_all add: handleKick_def handleBan_def handleUnban_def evict_finish_def Let_def
      split: option.split)

lemma nextPeer_handleMessage [simp]: "nextPeer (handleMessage C rnd t p m s) = nextPeer s"
  by (simp add: handleMessage_def handle_from_def relay_encrypted_def handle_system_def
      handle_text_def Let_def split: list.split option.split)

lemma nextPeer_serve_line [simp]: "nextPeer (serve_line C p inp s) = nextPeer s"
  by (simp add: serve_line_def Let_def split: prod.split)

definition line_event :: "nat \<Rightarrow> bytes \<times> time \<times> string \<Rightarrow> relay_event" where
  "line_event p inp = (case inp of (rnd, t, raw) \<Rightarrow> Line p rnd t raw)"

lemma fold_lines:
  assumes "p < nextPeer s" and "\<forall>(rnd, t, raw) \<in> set lines. length rnd = 32"
  shows "fold (relay_step C) (map (line_event p) lines) s = fold (serve_line C p) lines s"
  using assms
proof (induction lines arbitrary: s)
  case (Cons inp lines)
  obtain rnd t raw where "inp = (rnd, t, raw)" by (metis prod_cases3)
  then have "relay_step C (line_event p inp) s = serve_line C p inp s"
    using Cons.prems by (simp add: line_event_def relay_step_def)
  then show ?case using Cons by simp
qed simp

lemma nextPeer_fold_lines [simp]: "nextPeer (fold (serve_line C p) lines s) = nextPeer s"
  by (rule fold_field) simp



end
