(* ===== verification/Discovery.thy ===== *)
theory Discovery
  imports Go_Strings
begin

text \<open>
  LAN discovery (\<open>discovery.go\<close>).  A datagram is its decoded message, \<open>None\<close> when it is not
  valid JSON; datagrams sent are recorded in order with their destination.  The closures
  \<open>hasPassword\<close> and \<open>isRelay\<close> read two fields of the application, passed here as booleans.  The
  sockets are IPv4 (\<open>udp4\<close>), so a host text is an IPv4 address or no address.
\<close>

section \<open>State\<close>

record discovery_message =
  d_type :: string
  d_room :: string
  d_port :: int
  d_version :: string
  d_hasPassword :: bool
  d_isRelay :: bool

record discovery =
  ds_roomName :: string
  ds_localPort :: int
  ds_discoveryPort :: int
  ds_peers :: "(string, time) gomap"
  ds_relayPeers :: "(string, time) gomap"
  ds_localAddrs :: "string list"
  ds_stopped :: bool
  ds_sent :: "(string \<times> discovery_message) list"

record room_info =
  ri_name :: string
  ri_peers :: "string list"
  ri_hasPassword :: bool
  ri_isRelay :: bool

definition broadcastAddresses :: "string list" where
  "broadcastAddresses = [''255.255.255.255'', ''127.255.255.255'', ''127.0.0.1'']"

definition addr_of :: "string \<Rightarrow> int \<Rightarrow> string" where
  "addr_of ip port = ip @ '':'' @ int_str port"

text \<open>\<open>ifaces\<close> are the interfaces' IPv4 addresses, empty when they cannot be listed.\<close>

definition getLocalAddrsMap :: "string list \<Rightarrow> int \<Rightarrow> string list" where
  "getLocalAddrsMap ifaces port = map (\<lambda>ip. addr_of ip port) (''127.0.0.1'' # ifaces)"

definition sendBroadcast :: "discovery_message \<Rightarrow> discovery \<Rightarrow> discovery" where
  "sendBroadcast msg ds =
     ds\<lparr>ds_sent := ds_sent ds @ map (\<lambda>ip. (addr_of ip (ds_discoveryPort ds), msg)) broadcastAddresses\<rparr>"

definition announce_message :: "bool \<Rightarrow> bool \<Rightarrow> discovery \<Rightarrow> discovery_message" where
  "announce_message hasPassword isRelay ds =
     \<lparr>d_type = ''announce'', d_room = ds_roomName ds, d_port = ds_localPort ds,
      d_version = ''0.4'', d_hasPassword = hasPassword, d_isRelay = isRelay\<rparr>"

definition announce :: "bool \<Rightarrow> bool \<Rightarrow> discovery \<Rightarrow> discovery" where
  "announce hasPassword isRelay ds = sendBroadcast (announce_message hasPassword isRelay ds) ds"

definition announceToAddr :: "bool \<Rightarrow> bool \<Rightarrow> string \<Rightarrow> discovery \<Rightarrow> discovery" where
  "announceToAddr hasPassword isRelay addr ds =
     ds\<lparr>ds_sent := ds_sent ds @ [(addr, announce_message hasPassword isRelay ds)]\<rparr>"

definition query :: "discovery \<Rightarrow> discovery" where
  "query ds =
     sendBroadcast \<lparr>d_type = ''query'', d_room = ds_roomName ds, d_port = ds_localPort ds,
       d_version = ''0.4'', d_hasPassword = False, d_isRelay = False\<rparr> ds"

text \<open>\<open>listening\<close>: the UDP socket could be bound.\<close>

definition NewDiscoveryService ::
    "bool \<Rightarrow> string list \<Rightarrow> int \<Rightarrow> string \<Rightarrow> int \<Rightarrow> bool \<Rightarrow> bool \<Rightarrow> discovery option" where
  "NewDiscoveryService listening ifaces port room discPort hasPassword isRelay =
     (if \<not> listening then None
      else Some (announce hasPassword isRelay
        \<lparr>ds_roomName = room, ds_localPort = port, ds_discoveryPort = discPort, ds_peers = [],
         ds_relayPeers = [], ds_localAddrs = getLocalAddrsMap ifaces port, ds_stopped = False,
         ds_sent = []\<rparr>))"


section \<open>The listener and the announcer\<close>

text \<open>One datagram of \<open>listenLoop\<close>, from the host \<open>ip\<close> with the full source address \<open>remote\<close>.\<close>

definition listen_step ::
    "bool \<Rightarrow> bool \<Rightarrow> time \<Rightarrow> string \<Rightarrow> string \<Rightarrow> discovery_message option \<Rightarrow> discovery \<Rightarrow> discovery" where
  "listen_step hasPassword isRelay now ip remote packet ds =
     (case packet of
        None \<Rightarrow> ds
      | Some msg \<Rightarrow>
          (let peerAddr = addr_of ip (d_port msg)
           in if peerAddr \<in> set (ds_localAddrs ds) then ds
              else if d_type msg = ''announce'' then
                (if d_room msg = ds_roomName ds
                 then (let ds1 = ds\<lparr>ds_peers := AList.update peerAddr now (ds_peers ds)\<rparr>
                       in if d_isRelay msg
                          then ds1\<lparr>ds_relayPeers := AList.update peerAddr now (ds_relayPeers ds1)\<rparr>
                          else ds1)
                 else ds)
              else if d_type msg = ''query'' then
                (if d_room msg = [] \<or> d_room msg = ds_roomName ds
                 then announceToAddr hasPassword isRelay remote (announce hasPassword isRelay ds)
                 else ds)
              else ds))"

definition cleanupPeers :: "time \<Rightarrow> discovery \<Rightarrow> discovery" where
  "cleanupPeers now ds =
     (let cutoff = now - seconds 15
      in ds\<lparr>ds_peers := filter (\<lambda>(a, t). \<not> t < cutoff) (ds_peers ds),
            ds_relayPeers := filter (\<lambda>(a, t). \<not> t < cutoff) (ds_relayPeers ds)\<rparr>)"

definition announce_tick :: "bool \<Rightarrow> bool \<Rightarrow> time \<Rightarrow> discovery \<Rightarrow> discovery" where
  "announce_tick hasPassword isRelay now ds = cleanupPeers now (announce hasPassword isRelay ds)"

text \<open>The lookups after their wait of 500 ms; \<open>None\<close> when the context ended first.\<close>

definition LookupPeers_result :: "bool \<Rightarrow> discovery \<Rightarrow> string list option" where
  "LookupPeers_result ctx_done ds = (if ctx_done then None else Some (keys (ds_peers ds)))"

definition LookupRelays_result :: "bool \<Rightarrow> discovery \<Rightarrow> string list option" where
  "LookupRelays_result ctx_done ds = (if ctx_done then None else Some (keys (ds_relayPeers ds)))"

definition ds_Shutdown :: "discovery \<Rightarrow> discovery" where
  "ds_Shutdown ds = ds\<lparr>ds_stopped := True\<rparr>"


section \<open>Addresses\<close>

text \<open>\<open>net.SplitHostPort\<close>: the last colon ends the host, which may stand in brackets.\<close>

definition split_last :: "char \<Rightarrow> string \<Rightarrow> (string \<times> string) option" where
  "split_last c s =
     (case break_on c (rev s) of (p, None) \<Rightarrow> None | (p, Some h) \<Rightarrow> Some (rev h, rev p))"

definition split_host_port :: "string \<Rightarrow> (string \<times> string) option" where
  "split_host_port s =
     (case split_last (CHR '':'') s of
        None \<Rightarrow> None
      | Some (h, p) \<Rightarrow>
          (case s of
             [] \<Rightarrow> None
           | c # cs \<Rightarrow>
               if c = CHR ''['' then
                 (if h \<noteq> [c] \<and> last h = CHR '']'' \<and> CHR '']'' \<notin> set (butlast h)
                     \<and> CHR ''['' \<notin> set cs \<and> CHR '']'' \<notin> set p
                  then Some (butlast (tl h), p) else None)
               else if CHR '':'' \<in> set h \<or> CHR ''['' \<in> set s \<or> CHR '']'' \<in> set s then None
               else Some (h, p)))"

text \<open>One field of a dotted IPv4 address: no leading zero, at most 255.\<close>

definition ip_octet :: "string \<Rightarrow> nat option" where
  "ip_octet w =
     (if w \<noteq> [] \<and> length w \<le> 3 \<and> list_all is_digit w \<and> (length w = 1 \<or> hd w \<noteq> CHR ''0'')
         \<and> digits_val w \<le> 255
      then Some (digits_val w) else None)"

definition parse_ip4 :: "string \<Rightarrow> (nat \<times> nat \<times> nat \<times> nat) option" where
  "parse_ip4 h =
     (case split_on (CHR ''.'') h of
        [a, b, c, d] \<Rightarrow>
          (case (ip_octet a, ip_octet b, ip_octet c, ip_octet d) of
             (Some w, Some x, Some y, Some z) \<Rightarrow> Some (w, x, y, z)
           | _ \<Rightarrow> None)
      | _ \<Rightarrow> None)"

definition host_text :: "string \<Rightarrow> string" where
  "host_text p = (case split_host_port p of None \<Rightarrow> [] | Some (h, port) \<Rightarrow> h)"

definition is_loopback :: "string \<Rightarrow> bool" where
  "is_loopback p = (case parse_ip4 (host_text p) of None \<Rightarrow> False | Some q \<Rightarrow> fst q = 127)"

definition is_non_loopback :: "string \<Rightarrow> bool" where
  "is_non_loopback p = (case parse_ip4 (host_text p) of None \<Rightarrow> False | Some q \<Rightarrow> fst q \<noteq> 127)"

definition deduplicatePeers :: "string list \<Rightarrow> string list" where
  "deduplicatePeers peers =
     (if list_ex is_non_loopback peers then filter (\<lambda>p. \<not> is_loopback p) peers else peers)"


section \<open>Discovering all rooms\<close>

text \<open>
  The three maps of \<open>DiscoverAllRooms\<close> and one datagram of its loop; \<open>packets\<close> are the datagrams
  read before the deadline or the end of the context.
\<close>

record room_scan =
  rs_peers :: "(string, (string, bool) gomap) gomap"
  rs_hasPassword :: "(string, bool) gomap"
  rs_isRelay :: "(string, bool) gomap"

definition lookup_bool :: "(string, bool) gomap \<Rightarrow> string \<Rightarrow> bool" where
  "lookup_bool m k = (map_of m k = Some True)"

definition lookup_set :: "(string, (string, bool) gomap) gomap \<Rightarrow> string \<Rightarrow> (string, bool) gomap" where
  "lookup_set m k = (case map_of m k of None \<Rightarrow> [] | Some x \<Rightarrow> x)"

definition room_advert :: "discovery_message \<Rightarrow> bool" where
  "room_advert msg \<longleftrightarrow> d_type msg = ''announce'' \<and> d_room msg \<noteq> [] \<and> d_room msg \<noteq> ''private''"

definition scan_packet :: "string \<times> discovery_message option \<Rightarrow> room_scan \<Rightarrow> room_scan" where
  "scan_packet packet rs =
     (case snd packet of
        None \<Rightarrow> rs
      | Some msg \<Rightarrow>
          if \<not> room_advert msg then rs
          else
            (let rn = d_room msg; peerAddr = addr_of (fst packet) (d_port msg)
             in \<lparr>rs_peers = AList.update rn (AList.update peerAddr True (lookup_set (rs_peers rs) rn))
                              (rs_peers rs),
                 rs_hasPassword = AList.update rn (lookup_bool (rs_hasPassword rs) rn \<or> d_hasPassword msg)
                                    (rs_hasPassword rs),
                 rs_isRelay = (if d_isRelay msg then AList.update rn True (rs_isRelay rs)
                               else rs_isRelay rs)\<rparr>))"

definition scan_result :: "room_scan \<Rightarrow> room_info list" where
  "scan_result rs =
     map (\<lambda>(name, peers). \<lparr>ri_name = name, ri_peers = deduplicatePeers (keys peers),
            ri_hasPassword = lookup_bool (rs_hasPassword rs) name,
            ri_isRelay = lookup_bool (rs_isRelay rs) name\<rparr>) (rs_peers rs)"

definition DiscoverAllRooms ::
    "bool \<Rightarrow> (string \<times> discovery_message option) list \<Rightarrow> room_info list option" where
  "DiscoverAllRooms listening packets =
     (if \<not> listening then None
      else Some (scan_result (fold scan_packet packets
             \<lparr>rs_peers = [], rs_hasPassword = [], rs_isRelay = []\<rparr>)))"


section \<open>The peer tables\<close>

text \<open>
  The tables never list an own address, every relay is a listed peer last seen no earlier than
  as a relay, and no entry is from the future.
\<close>

definition tables_ok :: "time \<Rightarrow> discovery \<Rightarrow> bool" where
  "tables_ok now ds \<longleftrightarrow>
     gomap (ds_peers ds) \<and> gomap (ds_relayPeers ds) \<and>
     (\<forall>a. mapped (ds_peers ds) a \<longrightarrow> a \<notin> set (ds_localAddrs ds)) \<and>
     (\<forall>a t. map_of (ds_relayPeers ds) a = Some t \<longrightarrow>
        (\<exists>t' \<ge> t. map_of (ds_peers ds) a = Some t')) \<and>
     (\<forall>a t. map_of (ds_peers ds) a = Some t \<longrightarrow> t \<le> now)"

lemma sendBroadcast_frame [simp]:
  "ds_peers (sendBroadcast m ds) = ds_peers ds" "ds_relayPeers (sendBroadcast m ds) = ds_relayPeers ds"
  "ds_localAddrs (sendBroadcast m ds) = ds_localAddrs ds"
  by (simp_all add: sendBroadcast_def)

lemma tables_ok_cong:
  assumes "ds_peers ds' = ds_peers ds" and "ds_relayPeers ds' = ds_relayPeers ds"
    and "ds_localAddrs ds' = ds_localAddrs ds"
  shows "tables_ok now ds' = tables_ok now ds"
  using assms by (simp add: tables_ok_def)

lemma tables_ok_sent [simp]:
  "tables_ok now (announce hp ir ds) = tables_ok now ds"
  "tables_ok now (announceToAddr hp ir a ds) = tables_ok now ds"
  "tables_ok now (query ds) = tables_ok now ds"
  by (rule tables_ok_cong; simp add: announce_def announceToAddr_def query_def)+

lemma tables_ok_later: "tables_ok t0 ds \<Longrightarrow> t0 \<le> now \<Longrightarrow> tables_ok now ds"
  by (force simp: tables_ok_def)

lemma tables_ok_listen_step:
  assumes "tables_ok now ds"
  shows "tables_ok now (listen_step hp ir now ip remote packet ds)"
proof (cases packet)
  case None
  then show ?thesis using assms by (simp add: listen_step_def)
next
  case (Some msg)
  let ?a = "addr_of ip (d_port msg)"
  have peers: "\<exists>t' \<ge> t. map_of (AList.update ?a now (ds_peers ds)) b = Some t'"
    if r: "map_of (ds_relayPeers ds) b = Some t" for b t
  proof -
    obtain t' where "t' \<ge> t" "map_of (ds_peers ds) b = Some t'"
      using assms r unfolding tables_ok_def by blast
    moreover from this have "t' \<le> now" using assms unfolding tables_ok_def by blast
    ultimately show ?thesis by simp
  qed
  have seen: "tables_ok now (ds\<lparr>ds_peers := AList.update ?a now (ds_peers ds)\<rparr>)"
    if "?a \<notin> set (ds_localAddrs ds)"
    using assms that peers by (simp add: tables_ok_def)
  have relay: "tables_ok now (ds\<lparr>ds_peers := AList.update ?a now (ds_peers ds),
      ds_relayPeers := AList.update ?a now (ds_relayPeers ds)\<rparr>)"
    if "?a \<notin> set (ds_localAddrs ds)"
    using assms that peers by (simp add: tables_ok_def)
  show ?thesis
    using assms seen relay by (simp add: listen_step_def Some Let_def)
qed

lemma map_of_cleanup:
  assumes "tables_ok t0 ds"
  shows "map_of (ds_peers (cleanupPeers now ds)) a =
      (case map_of (ds_peers ds) a of None \<Rightarrow> None | Some t \<Rightarrow> if t < now - seconds 15 then None else Some t)"
    and "map_of (ds_relayPeers (cleanupPeers now ds)) a =
      (case map_of (ds_relayPeers ds) a of None \<Rightarrow> None | Some t \<Rightarrow> if t < now - seconds 15 then None else Some t)"
  using assms by (simp_all add: cleanupPeers_def Let_def tables_ok_def map_of_filter split: option.split)

lemma tables_ok_cleanup:
  assumes "tables_ok now ds"
  shows "tables_ok now (cleanupPeers now ds)"
proof -
  let ?c = "cleanupPeers now ds"
  have g: "gomap (ds_peers ?c)" "gomap (ds_relayPeers ?c)" and l: "ds_localAddrs ?c = ds_localAddrs ds"
    using assms by (auto simp: cleanupPeers_def Let_def tables_ok_def)
  have old: "map_of (ds_peers ds) a = Some t" if "map_of (ds_peers ?c) a = Some t" for a t
    using that unfolding map_of_cleanup [OF assms] by (simp split: option.splits if_splits)
  have keep: "\<exists>t' \<ge> t. map_of (ds_peers ?c) a = Some t'" if "map_of (ds_relayPeers ?c) a = Some t" for a t
  proof -
    have t: "map_of (ds_relayPeers ds) a = Some t" "\<not> t < now - seconds 15"
      using that unfolding map_of_cleanup [OF assms] by (simp_all split: option.splits if_splits)
    then obtain t' where "t' \<ge> t" "map_of (ds_peers ds) a = Some t'"
      using assms unfolding tables_ok_def by blast
    with t(2) show ?thesis unfolding map_of_cleanup [OF assms] by auto
  qed
  have "a \<notin> set (ds_localAddrs ds)" if "mapped (ds_peers ?c) a" for a
    using that old assms unfolding tables_ok_def by blast
  moreover have "t \<le> now" if "map_of (ds_peers ?c) a = Some t" for a t
    using old [OF that] assms unfolding tables_ok_def by blast
  ultimately show ?thesis using g keep unfolding tables_ok_def l by blast
qed

text \<open>One step of the service: a datagram, or a tick of the announcer, at a time.\<close>

datatype discovery_event =
    Datagram time string string "discovery_message option"
  | Tick time

fun event_time :: "discovery_event \<Rightarrow> time" where
  "event_time (Datagram t ip r m) = t"
| "event_time (Tick t) = t"

fun discovery_op :: "bool \<Rightarrow> bool \<Rightarrow> discovery_event \<Rightarrow> discovery \<Rightarrow> discovery" where
  "discovery_op hp ir (Datagram t ip r m) ds = listen_step hp ir t ip r m ds"
| "discovery_op hp ir (Tick t) ds = announce_tick hp ir t ds"

text \<open>The clock of the state is the time of the last event; an event in the past does not happen.\<close>

definition discovery_step ::
    "bool \<Rightarrow> bool \<Rightarrow> discovery_event \<Rightarrow> time \<times> discovery \<Rightarrow> time \<times> discovery" where
  "discovery_step hp ir e st =
     (if event_time e < fst st then st else (event_time e, discovery_op hp ir e (snd st)))"

interpretation disc: preserving "\<lambda>st. tables_ok (fst st) (snd st)" "discovery_step hp ir" for hp ir
proof unfold_locales
  fix st e
  assume ok: "tables_ok (fst st) (snd st)"
  show "tables_ok (fst (discovery_step hp ir e st)) (snd (discovery_step hp ir e st))"
  proof (cases "event_time e < fst st")
    case False
    then have "tables_ok (event_time e) (snd st)" using tables_ok_later [OF ok] by simp
    then show ?thesis
      using False
      by (cases e) (simp_all add: discovery_step_def announce_tick_def tables_ok_listen_step
          tables_ok_cleanup)
  qed (use ok in \<open>simp add: discovery_step_def\<close>)
qed

lemma tables_ok_new:
  "NewDiscoveryService True ifaces port room dp hp ir = Some ds \<Longrightarrow> tables_ok t ds"
  by (auto simp: NewDiscoveryService_def tables_ok_def announce_def gomap_def)

lemma tables_ok_run:
  assumes "NewDiscoveryService True ifaces port room dp hp ir = Some ds0"
  shows "tables_ok (fst (fold (discovery_step hp' ir') es (t0, ds0)))
     (snd (fold (discovery_step hp' ir') es (t0, ds0)))"
  using disc.run_inv [of "(t0, ds0)"] tables_ok_new [OF assms] by simp


definition demo_announce :: discovery_message where
  "demo_announce =
     \<lparr>d_type = ''announce'', d_room = ''lobby'', d_port = 9, d_version = ''0.4'',
      d_hasPassword = True, d_isRelay = True\<rparr>"

definition demo_service :: discovery where
  "demo_service = the (NewDiscoveryService True [''10.0.0.2''] 9 ''lobby'' 19999 False False)"

lemma demo_service: "NewDiscoveryService True [''10.0.0.2''] 9 ''lobby'' 19999 False False = Some demo_service"
  by (simp add: demo_service_def NewDiscoveryService_def)

definition demo_events :: "discovery_event list" where
  "demo_events =
     [Datagram 10 ''10.0.0.2'' ''10.0.0.2:19999'' (Some demo_announce),
      Datagram 20 ''10.0.0.7'' ''10.0.0.7:19999'' (Some demo_announce)]"

lemma demo_addr: "addr_of ip 9 = ip @ '':9''"
  by (simp add: addr_of_def) code_simp

lemma demo_run:
  "ds_peers (snd (fold (discovery_step False False) demo_events (0, demo_service))) = [(''10.0.0.7:9'', 20)]"
  "ds_relayPeers (snd (fold (discovery_step False False) demo_events (0, demo_service))) = [(''10.0.0.7:9'', 20)]"
  by (simp_all add: demo_events_def discovery_step_def listen_step_def demo_announce_def Let_def
      demo_addr demo_service_def NewDiscoveryService_def announce_def sendBroadcast_def
      getLocalAddrsMap_def)


text \<open>
  A tick of the announcer forgets exactly the peers that have been silent for more than
  fifteen seconds.
\<close>

theorem cleanup_expires_silent_peers:
  assumes "NewDiscoveryService True ifaces port room dp hp ir = Some ds0"
    and "ds = snd (fold (discovery_step hp' ir') es (t0, ds0))"
  shows "map_of (ds_peers (announce_tick hp' ir' now ds)) a =
    (case map_of (ds_peers ds) a of
       None \<Rightarrow> None
     | Some t \<Rightarrow> if now - t \<le> seconds 15 then Some t else None)"
proof -
  have "tables_ok (fst (fold (discovery_step hp' ir') es (t0, ds0))) (announce hp' ir' ds)"
    using tables_ok_run [OF assms(1)] assms(2) by simp
  from map_of_cleanup(1) [OF this, of now a] show ?thesis
    by (auto simp: announce_tick_def announce_def split: option.split)
qed

theorem cleanup_expires_silent_peers_witness:
  "map_of (ds_peers (announce_tick False False (20 + seconds 15)
     (snd (fold (discovery_step False False) demo_events (0, demo_service))))) ''10.0.0.7:9'' = Some 20"
proof -
  have "map_of (ds_peers (snd (fold (discovery_step False False) demo_events (0, demo_service))))
      ''10.0.0.7:9'' = Some 20" by (simp add: demo_run)
  then show ?thesis
    by (simp only: cleanup_expires_silent_peers [OF demo_service refl]) simp
qed


section \<open>The scan\<close>

lemma keys_update: "fst ` set (AList.update k v m) = insert k (fst ` set m)"
  by (induction m) auto

lemma scan_packet_sel:
  "fst ` set (rs_peers (scan_packet p rs)) =
     fst ` set (rs_peers rs) \<union> {n. \<exists>msg. snd p = Some msg \<and> room_advert msg \<and> d_room msg = n}"
  "lookup_bool (rs_hasPassword (scan_packet p rs)) n \<longleftrightarrow>
     lookup_bool (rs_hasPassword rs) n \<or>
     (\<exists>msg. snd p = Some msg \<and> room_advert msg \<and> d_room msg = n \<and> d_hasPassword msg)"
  "lookup_bool (rs_isRelay (scan_packet p rs)) n \<longleftrightarrow>
     lookup_bool (rs_isRelay rs) n \<or>
     (\<exists>msg. snd p = Some msg \<and> room_advert msg \<and> d_room msg = n \<and> d_isRelay msg)"
  by (auto simp: scan_packet_def Let_def lookup_bool_def keys_update split: option.split)

definition advert_in :: "(string \<times> discovery_message option) list \<Rightarrow> (discovery_message \<Rightarrow> bool) \<Rightarrow> bool" where
  "advert_in packets P \<longleftrightarrow> (\<exists>p \<in> set packets. \<exists>msg. snd p = Some msg \<and> room_advert msg \<and> P msg)"

lemma advert_in_Cons:
  "advert_in (p # ps) P \<longleftrightarrow> (\<exists>msg. snd p = Some msg \<and> room_advert msg \<and> P msg) \<or> advert_in ps P"
  by (simp add: advert_in_def)

lemma fold_scan_names:
  "fst ` set (rs_peers (fold scan_packet ps rs)) =
     fst ` set (rs_peers rs) \<union> {n. advert_in ps (\<lambda>m. d_room m = n)}"
proof (induction ps arbitrary: rs)
  case Nil
  then show ?case by (simp add: advert_in_def)
next
  case (Cons p ps)
  show ?case by (auto simp add: Cons scan_packet_sel(1) advert_in_Cons)
qed

lemma fold_scan_flags:
  "lookup_bool (rs_hasPassword (fold scan_packet ps rs)) n \<longleftrightarrow>
     lookup_bool (rs_hasPassword rs) n \<or> advert_in ps (\<lambda>m. d_room m = n \<and> d_hasPassword m)"
  "lookup_bool (rs_isRelay (fold scan_packet ps rs)) n \<longleftrightarrow>
     lookup_bool (rs_isRelay rs) n \<or> advert_in ps (\<lambda>m. d_room m = n \<and> d_isRelay m)"
proof (induction ps arbitrary: rs)
  case Nil
  { case 1 show ?case by (simp add: advert_in_def) next case 2 show ?case by (simp add: advert_in_def) }
next
  case (Cons p ps)
  { case 1 show ?case by (simp add: Cons.IH scan_packet_sel advert_in_Cons disj_assoc)
  next case 2 show ?case by (simp add: Cons.IH scan_packet_sel advert_in_Cons disj_assoc) }
qed

text \<open>
  C28. A scan lists exactly the rooms somebody announced, never the private one, and labels a room
  as protected exactly when at least one announcement of it said so.
\<close>

theorem DiscoverAllRooms_lists_announced:
  assumes "DiscoverAllRooms True packets = Some infos"
  shows "ri_name ` set infos = {n. advert_in packets (\<lambda>m. d_room m = n)} \<and>
    ''private'' \<notin> ri_name ` set infos \<and>
    (\<forall>i \<in> set infos. ri_hasPassword i = advert_in packets (\<lambda>m. d_room m = ri_name i \<and> d_hasPassword m) \<and>
       ri_isRelay i = advert_in packets (\<lambda>m. d_room m = ri_name i \<and> d_isRelay m))"
proof -
  let ?rs = "fold scan_packet packets \<lparr>rs_peers = [], rs_hasPassword = [], rs_isRelay = []\<rparr>"
  have i: "infos = scan_result ?rs" using assms by (simp add: DiscoverAllRooms_def)
  have "ri_name ` set infos = fst ` set (rs_peers ?rs)"
    unfolding i by (force simp: scan_result_def)
  then have "ri_name ` set infos = {n. advert_in packets (\<lambda>m. d_room m = n)}"
    unfolding fold_scan_names by simp
  moreover have "\<not> advert_in packets (\<lambda>m. d_room m = ''private'')"
    by (auto simp: advert_in_def room_advert_def)
  moreover have "ri_hasPassword x = lookup_bool (rs_hasPassword ?rs) (ri_name x) \<and>
      ri_isRelay x = lookup_bool (rs_isRelay ?rs) (ri_name x)" if "x \<in> set infos" for x
    using that by (auto simp: i scan_result_def)
  ultimately show ?thesis
    by (simp add: fold_scan_flags lookup_bool_def [where m = "[]"])
qed

theorem DiscoverAllRooms_lists_announced_witness:
  "ri_name ` set [\<lparr>ri_name = ''lobby'', ri_peers = [''10.0.0.7:9''], ri_hasPassword = True, ri_isRelay = True\<rparr>] =
     {n. advert_in [(''10.0.0.7'', Some demo_announce), (''127.0.0.1'', Some demo_announce)] (\<lambda>m. d_room m = n)}"
proof -
  have "DiscoverAllRooms True [(''10.0.0.7'', Some demo_announce), (''127.0.0.1'', Some demo_announce)] =
      Some [\<lparr>ri_name = ''lobby'', ri_peers = [''10.0.0.7:9''], ri_hasPassword = True, ri_isRelay = True\<rparr>]"
    by code_simp
  from DiscoverAllRooms_lists_announced [OF this] show ?thesis by blast
qed

end
