(* ===== verification/Port_Mapping.thy ===== *)
theory Port_Mapping
  imports Go_Strings
begin

text \<open>
  Reaching the relay from outside: the port mapping of \<open>upnp.go\<close> and the rendezvous client of
  \<open>rendezvous.go\<close>.

  The UPnP and NAT-PMP libraries are not part of the program; the answers of each gateway are
  the fields of a record, and \<open>leases\<close> lists the mappings the gateways hold, so that what the
  program leaves behind can be stated.  The HTTP exchange and the JSON decoder of the
  rendezvous client are parameters.
\<close>

section \<open>Gateways\<close>

datatype lease = UPnPLease nat | NatPmpLease

record igd_client =
  igd_add_ok :: bool
  igd_external :: "string option"
  igd_delete_ok :: bool

record natpmp_gateway =
  np_mapped_port :: "int option"
  np_external :: "(nat \<times> nat \<times> nat \<times> nat) option"
  np_delete_ok :: bool

record gateway_env =
  igd_clients :: "igd_client list option"
  local_ip :: "string option"
  natpmp :: "natpmp_gateway option"

datatype mapping_error =
    DiscoveryFailed
  | NoLocalIP
  | NoClientSucceeded
  | NoGateway
  | MappingRefused
  | NoExternalAddress

definition add_lease :: "lease \<Rightarrow> lease list \<Rightarrow> lease list" where
  "add_lease l ls = (if l \<in> set ls then ls else l # ls)"

definition drop_lease :: "bool \<Rightarrow> lease \<Rightarrow> lease list \<Rightarrow> lease list" where
  "drop_lease ok l ls = (if ok then filter (\<lambda>x. x \<noteq> l) ls else ls)"

text \<open>The loop over the clients: the first that maps the port and knows its address.\<close>

fun try_clients :: "nat \<Rightarrow> igd_client list \<Rightarrow> lease list \<Rightarrow> (string \<times> lease) option \<times> lease list" where
  "try_clients i [] ls = (None, ls)"
| "try_clients i (c # cs) ls =
     (if \<not> igd_add_ok c then try_clients (Suc i) cs ls
      else (let ls1 = add_lease (UPnPLease i) ls
            in case igd_external c of
                 None \<Rightarrow> try_clients (Suc i) cs (drop_lease (igd_delete_ok c) (UPnPLease i) ls1)
               | Some ip \<Rightarrow>
                   if ip = [] then
                     try_clients (Suc i) cs (drop_lease (igd_delete_ok c) (UPnPLease i) ls1)
                   else (Some (ip, UPnPLease i), ls1)))"

definition external_addr :: "string \<Rightarrow> int \<Rightarrow> string" where
  "external_addr ip port = ip @ '':'' @ int_str port"

definition tryUPnP ::
    "gateway_env \<Rightarrow> int \<Rightarrow> lease list \<Rightarrow> (mapping_error + string \<times> lease) \<times> lease list" where
  "tryUPnP E port ls =
     (case igd_clients E of
        None \<Rightarrow> (Inl DiscoveryFailed, ls)
      | Some cs \<Rightarrow>
          (case local_ip E of
             None \<Rightarrow> (Inl NoLocalIP, ls)
           | Some lip \<Rightarrow>
               (case try_clients 0 cs ls of
                  (None, ls') \<Rightarrow> (Inl NoClientSucceeded, ls')
                | (Some (ip, l), ls') \<Rightarrow> (Inr (external_addr ip port, l), ls'))))"

definition tryNATPMP ::
    "gateway_env \<Rightarrow> lease list \<Rightarrow> (mapping_error + string \<times> lease) \<times> lease list" where
  "tryNATPMP E ls =
     (case natpmp E of
        None \<Rightarrow> (Inl NoGateway, ls)
      | Some g \<Rightarrow>
          (case np_mapped_port g of
             None \<Rightarrow> (Inl MappingRefused, ls)
           | Some ext \<Rightarrow>
               (let ls1 = add_lease NatPmpLease ls
                in case np_external g of
                     None \<Rightarrow> (Inl NoExternalAddress, drop_lease (np_delete_ok g) NatPmpLease ls1)
                   | Some (a, b, c, d) \<Rightarrow>
                       (Inr (external_addr
                               (join_with (CHR ''.'') [nat_str a, nat_str b, nat_str c, nat_str d]) ext,
                             NatPmpLease), ls1))))"

text \<open>\<open>TryPortMapping\<close> never fails: without a mapping the address is empty (\<open>None\<close>).\<close>

definition TryPortMapping ::
    "gateway_env \<Rightarrow> int \<Rightarrow> lease list \<Rightarrow> (string \<times> lease) option \<times> lease list" where
  "TryPortMapping E port ls =
     (let u = tryUPnP E port ls
      in case fst u of
           Inr r \<Rightarrow> (Some r, snd u)
         | Inl e \<Rightarrow>
             (let n = tryNATPMP E (snd u)
              in case fst n of Inr r \<Rightarrow> (Some r, snd n) | Inl e \<Rightarrow> (None, snd n)))"

text \<open>The cleanup closure of a mapping.\<close>

definition mapping_cleanup :: "gateway_env \<Rightarrow> lease \<Rightarrow> lease list \<Rightarrow> lease list" where
  "mapping_cleanup E l ls =
     (case l of
        NatPmpLease \<Rightarrow>
          (case natpmp E of None \<Rightarrow> ls | Some g \<Rightarrow> drop_lease (np_delete_ok g) l ls)
      | UPnPLease i \<Rightarrow>
          (case igd_clients E of
             None \<Rightarrow> ls
           | Some cs \<Rightarrow> if i < length cs then drop_lease (igd_delete_ok (cs ! i)) l ls else ls))"


section \<open>Rendezvous\<close>

datatype rendezvous_error = RequestFailed | BadStatus int | BodyUnreadable | BadJSON

datatype http_response = NoResponse | Response int "string option"

definition room_url :: "string \<Rightarrow> string \<Rightarrow> string" where
  "room_url serverURL room = serverURL @ ''/rooms/'' @ room"

definition RenewRegistration ::
    "(string \<Rightarrow> string \<Rightarrow> http_response) \<Rightarrow> string \<Rightarrow> string \<Rightarrow> string \<Rightarrow> rendezvous_error option" where
  "RenewRegistration post serverURL room addr =
     (case post (room_url serverURL room) addr of
        NoResponse \<Rightarrow> Some RequestFailed
      | Response status body \<Rightarrow> if status \<ge> 300 then Some (BadStatus status) else None)"

definition FetchPeers ::
    "(string \<Rightarrow> http_response) \<Rightarrow> (string \<Rightarrow> string list option) \<Rightarrow> string \<Rightarrow> string
     \<Rightarrow> rendezvous_error + string list" where
  "FetchPeers get parse serverURL room =
     (case get (room_url serverURL room) of
        NoResponse \<Rightarrow> Inl RequestFailed
      | Response status body \<Rightarrow>
          if status \<ge> 300 then Inl (BadStatus status)
          else (case body of
                  None \<Rightarrow> Inl BodyUnreadable
                | Some b \<Rightarrow> (case parse b of None \<Rightarrow> Inl BadJSON | Some ps \<Rightarrow> Inr ps)))"


section \<open>No mapping is left behind\<close>

text \<open>Gateways that delete a mapping when asked to.\<close>

definition deletes_work :: "gateway_env \<Rightarrow> bool" where
  "deletes_work E \<longleftrightarrow>
     (case igd_clients E of None \<Rightarrow> True | Some cs \<Rightarrow> list_all igd_delete_ok cs) \<and>
     (case natpmp E of None \<Rightarrow> True | Some g \<Rightarrow> np_delete_ok g)"

lemma try_clients_leases:
  assumes "list_all igd_delete_ok cs"
  shows "(case fst (try_clients i cs []) of
       None \<Rightarrow> snd (try_clients i cs []) = []
     | Some r \<Rightarrow> \<exists>j < length cs. snd r = UPnPLease (i + j) \<and> snd (try_clients i cs []) = [snd r])"
  using assms
proof (induction cs arbitrary: i)
  case Nil
  then show ?case by simp
next
  case (Cons c cs)
  have IH: "case fst (try_clients (Suc i) cs []) of
       None \<Rightarrow> snd (try_clients (Suc i) cs []) = []
     | Some r \<Rightarrow> \<exists>j < Suc (length cs). snd r = UPnPLease (i + j) \<and> snd (try_clients (Suc i) cs []) = [snd r]"
    using Cons.IH [of "Suc i"] Cons.prems
    by (auto split: option.splits)
  have "drop_lease (igd_delete_ok c) (UPnPLease i) (add_lease (UPnPLease i) []) = []"
    using Cons.prems by (simp add: drop_lease_def add_lease_def)
  then show ?case
    using IH by (auto simp: Let_def add_lease_def split: option.split)
qed

lemma tryUPnP_leases:
  assumes "deletes_work E"
  shows "(case fst (tryUPnP E port []) of
       Inl e \<Rightarrow> snd (tryUPnP E port []) = []
     | Inr r \<Rightarrow> snd (tryUPnP E port []) = [snd r] \<and> mapping_cleanup E (snd r) [snd r] = [])"
proof (cases "igd_clients E")
  case None
  then show ?thesis by (simp add: tryUPnP_def)
next
  case (Some cs)
  then have ok: "list_all igd_delete_ok cs" using assms by (simp add: deletes_work_def)
  show ?thesis
    using try_clients_leases [OF ok, of 0] ok
    by (auto simp: tryUPnP_def Some mapping_cleanup_def drop_lease_def list_all_length
        split: option.splits prod.splits)
qed

text \<open>
  Starting with no mapping on any gateway, a failed attempt leaves none, and a successful one
  leaves exactly the mapping whose cleanup removes it.
\<close>

lemma port_mapping_leases:
  assumes "deletes_work E"
  shows "case fst (TryPortMapping E port []) of
      None \<Rightarrow> snd (TryPortMapping E port []) = []
    | Some (addr, l) \<Rightarrow> snd (TryPortMapping E port []) = [l] \<and>
        mapping_cleanup E l (snd (TryPortMapping E port [])) = []"
proof -
  have np: "case fst (tryNATPMP E []) of
       Inl e \<Rightarrow> snd (tryNATPMP E []) = []
     | Inr r \<Rightarrow> snd (tryNATPMP E []) = [snd r] \<and> mapping_cleanup E (snd r) [snd r] = []"
    using assms
    by (auto simp: tryNATPMP_def deletes_work_def drop_lease_def add_lease_def mapping_cleanup_def
        Let_def split: option.splits)
  show ?thesis
    using tryUPnP_leases [OF assms, of port] np
    by (auto simp: TryPortMapping_def Let_def split: sum.splits)
qed

text \<open>A mapping that is returned is held by its gateway.\<close>

lemma try_clients_holds: "fst (try_clients i cs ls) = Some (ip, l) \<Longrightarrow> l \<in> set (snd (try_clients i cs ls))"
  by (induction i cs ls rule: try_clients.induct)
    (auto simp: Let_def add_lease_def split: if_splits option.splits)

lemma TryPortMapping_holds:
  assumes "fst (TryPortMapping E port ls) = Some (addr, l)"
  shows "l \<in> set (snd (TryPortMapping E port ls))"
proof -
  have u: "l \<in> set (snd (tryUPnP E port ls))" if f: "fst (tryUPnP E port ls) = Inr (addr, l)"
  proof -
    obtain cs where cs: "igd_clients E = Some cs" using f by (auto simp: tryUPnP_def split: option.splits)
    obtain r ls' where r: "try_clients 0 cs ls = (r, ls')" by fastforce
    obtain ip where "r = Some (ip, l)" "local_ip E \<noteq> None"
      using f r by (auto simp: tryUPnP_def cs split: option.splits prod.splits)
    then show ?thesis
      using try_clients_holds [of 0 cs ls ip l] r by (auto simp: tryUPnP_def cs)
  qed
  have n: "fst (tryNATPMP E x) = Inr (addr, l) \<Longrightarrow> l \<in> set (snd (tryNATPMP E x))" for x
    by (auto simp: tryNATPMP_def Let_def add_lease_def split: option.splits)
  show ?thesis
    using assms u n by (auto simp: TryPortMapping_def Let_def split: sum.splits)
qed

definition demo_gateways :: gateway_env where
  "demo_gateways =
     \<lparr>igd_clients = Some [\<lparr>igd_add_ok = True, igd_external = None, igd_delete_ok = True\<rparr>],
      local_ip = Some ''10.0.0.2'',
      natpmp = Some \<lparr>np_mapped_port = Some 7, np_external = Some (1, 2, 3, 4), np_delete_ok = True\<rparr>\<rparr>"

end
