(* ===== verification/Session_Setup.thy ===== *)
theory Session_Setup
  imports Client_Session
begin

text \<open>
  \<open>GetOrCreate\<close> and \<open>Send\<close> as their caller sees them: the dial, the JOIN, the wait for the relay's
  answer while the reader goroutine runs, and the message.  What the network does during one
  attempt is a \<open>net_script\<close>: the dial environment, the clock, and the lines the relay sends before
  the five seconds are over.
\<close>

section \<open>One connection attempt\<close>

record net_script =
  ns_quic_first :: bool
  ns_dial :: dial_env
  ns_now :: time
  ns_device :: string
  ns_lines :: "(time \<times> string) list"

text \<open>The reader goroutine during the wait; when its loop ends, its deferred removal runs too.\<close>

fun wait_lines ::
    "crypto \<Rightarrow> nat \<Rightarrow> (time \<times> string) list \<Rightarrow> 'a cm_state_scheme \<Rightarrow> 'a cm_state_scheme" where
  "wait_lines C i [] s = s"
| "wait_lines C i ((now, raw) # rest) s =
     (let r = readLoop_line C i now raw s
      in if fst r then wait_lines C i rest (snd r) else readLoop_exit i (snd r))"

text \<open>
  The wait ends when the wait group is released; a script whose lines never release it is a
  timeout.  Lines after the release are read before the caller looks, which the scheduler may
  do; the script says how many there are.
\<close>

definition GetOrCreate ::
    "crypto \<Rightarrow> net_script \<Rightarrow> string \<Rightarrow> 'a cm_state_scheme \<Rightarrow> (conn_error + nat) \<times> 'a cm_state_scheme" where
  "GetOrCreate C sc peerAddr s =
     (let b = getOrCreate_begin C (ns_quic_first sc) (ns_dial sc) (ns_device sc) (ns_now sc) peerAddr s
      in case fst b of
           Existing i \<Rightarrow> (Inr i, snd b)
         | GetFailed e \<Rightarrow> (Inl e, snd b)
         | Started i \<Rightarrow>
             (let s1 = wait_lines C i (ns_lines sc) (snd b)
              in getOrCreate_finish i peerAddr (\<not> mc_secretDone (mcs s1 i)) s1))"

text \<open>The errors as the CLI prints and classifies them.\<close>

fun auth_kind_text :: "auth_kind \<Rightarrow> string" where
  "auth_kind_text ErrBanned = ''banned from room''"
| "auth_kind_text ErrWrongPassword = ''wrong password''"
| "auth_kind_text ErrTimeout = ''connection timed out''"

fun conn_error_text :: "conn_error \<Rightarrow> string" where
  "conn_error_text (ConnErr e) = e"
| "conn_error_text (AuthErr (AuthError k reason)) = auth_kind_text k @ '': '' @ reason"

fun error_is :: "auth_kind \<Rightarrow> conn_error \<Rightarrow> bool" where
  "error_is k (AuthErr (AuthError k' reason)) = (k = k')"
| "error_is k (ConnErr e) = False"

record send_env =
  se_script :: net_script
  se_ctx_ok :: bool
  se_gcm_nonce :: bytes
  se_nonce :: bytes

text \<open>\<open>Send\<close>; the flag is \<open>err == nil\<close>.\<close>

definition Send ::
    "crypto \<Rightarrow> send_env \<Rightarrow> string \<Rightarrow> string \<Rightarrow> 'a cm_state_scheme \<Rightarrow> bool \<times> 'a cm_state_scheme" where
  "Send C se peerAddr message s =
     (let g = GetOrCreate C (se_script se) peerAddr s
      in case fst g of
           Inl e \<Rightarrow> (False, snd g)
         | Inr i \<Rightarrow>
             cm_Send C (se_ctx_ok se) (se_gcm_nonce se) (se_nonce se) (ns_now (se_script se)) i message
               (snd g))"


section \<open>Facts\<close>

lemma cm_ok_wait_lines:
  "cm_ok s \<Longrightarrow> mc_replay (mcs s i) \<noteq> None \<Longrightarrow> cm_ok (wait_lines C i lines s)"
proof (induction C i lines s rule: wait_lines.induct)
  case (1 C i s)
  then show ?case by simp
next
  case (2 C i now raw rest s)
  then show ?case
    using cm_ok_readLoop_line [of s i C now raw] readLoop_line_replay [of s i C i now raw]
    by (simp add: Let_def)
qed

text \<open>A registered address is used as it is: no dial, no change.\<close>

lemma GetOrCreate_existing:
  "map_of (connections s) a = Some i \<Longrightarrow> GetOrCreate C sc a s = (Inr i, s)"
  by (simp add: GetOrCreate_def getOrCreate_begin_def Let_def)

lemma readLoop_line_auth_failed:
  assumes "trim_space raw = ''AUTH:FAILED|'' @ reason"
  shows "readLoop_line C i now raw s = auth_failed_line i (''AUTH:FAILED|'' @ reason) s"
  using assms by (simp add: readLoop_line_def Let_def)

lemma removeConnection_mc_fields:
  "mc_peerAddr (mcs (snd (removeConnection a s)) j) = mc_peerAddr (mcs s j)"
  "mc_lastAuthErr (mcs (snd (removeConnection a s)) j) = mc_lastAuthErr (mcs s j)"
proof -
  have "mc_peerAddr (mcs (shut_mc i s) j) = mc_peerAddr (mcs s j) \<and>
      mc_lastAuthErr (mcs (shut_mc i s) j) = mc_lastAuthErr (mcs s j)" for i
    by (cases "j = i") simp_all
  then show "mc_peerAddr (mcs (snd (removeConnection a s)) j) = mc_peerAddr (mcs s j)"
    "mc_lastAuthErr (mcs (snd (removeConnection a s)) j) = mc_lastAuthErr (mcs s j)"
    by (simp_all add: removeConnection_def Let_def split: option.split)
qed

text \<open>
  An AUTH:FAILED answer ends the attempt with the classified reason, and the address is not
  registered.
\<close>

lemma wait_lines_auth_failed:
  assumes "trim_space raw = ''AUTH:FAILED|'' @ reason" and "reason \<noteq> []"
    and "mc_peerAddr (mcs s i) = a"
  shows "mc_lastAuthErr (mcs (wait_lines C i ((now, raw) # rest) s) i) = Some (classify_reason reason)"
    and "\<not> mapped (connections (wait_lines C i ((now, raw) # rest) s)) a"
    and "mc_secretDone (mcs (wait_lines C i ((now, raw) # rest) s) i)"
proof -
  have t: "trim_prefix (''AUTH:FAILED|'' @ reason) ''AUTH:FAILED|'' = reason"
    by (rule trim_prefix_append)
  let ?s' = "snd (auth_failed_line i (''AUTH:FAILED|'' @ reason) s)"
  have e: "mc_lastAuthErr (mcs ?s' i) = Some (classify_reason reason)"
    "mc_peerAddr (mcs ?s' i) = a" "mc_secretDone (mcs ?s' i)"
    unfolding auth_failed_line_def t using assms(2,3)
    by (simp_all add: Let_def removeConnection_mc_fields)
  have d: "mc_secretDone (mcs (snd (removeConnection b x)) j)" if "mc_secretDone (mcs x j)" for b x j
    using that
    by (cases "map_of (connections x) b")
      (auto simp: removeConnection_def Let_def shut_mc_def crash_def signalClosed_def split: option.split)
  have w: "wait_lines C i ((now, raw) # rest) s = readLoop_exit i ?s'"
    by (simp add: readLoop_line_auth_failed [OF assms(1)]) (simp add: auth_failed_line_def Let_def)
  show "mc_lastAuthErr (mcs (wait_lines C i ((now, raw) # rest) s) i) = Some (classify_reason reason)"
    "\<not> mapped (connections (wait_lines C i ((now, raw) # rest) s)) a"
    "mc_secretDone (mcs (wait_lines C i ((now, raw) # rest) s) i)"
    using e d unfolding w readLoop_exit_def by (simp_all add: removeConnection_mc_fields)
qed

end
