(* ===== verification/App.thy ===== *)
theory App
  imports Relay_Accept Discovery Port_Mapping Session_Setup
begin

text \<open>
  The command-line application (\<open>main.go\<close>): the arguments, the room prompt, \<open>initializeApp\<close>,
  \<open>tryConnect\<close>, the command loop \<open>runCLI\<close> with its commands, and \<open>shutdown\<close>.

  Standard input is a list of lines; at its end \<open>ReadString\<close> returns the empty text.  What the
  commands print for the user is a value of \<open>cli_output\<close>; colours and layout are left out.  The
  network's behaviour during a command is given by scripts (\<open>Session_Setup\<close>).
\<close>

section \<open>Arguments\<close>

record options =
  o_debug :: bool
  o_useTCP :: bool
  o_rendezvousURL :: string
  o_discPort :: int
  o_relayPort :: int
  o_isRelay :: bool
  o_upnp :: bool
  o_noGSO :: bool
  o_noECN :: bool
  o_race :: bool

definition default_options :: options where
  "default_options =
     \<lparr>o_debug = False, o_useTCP = False, o_rendezvousURL = [], o_discPort = 19999, o_relayPort = 0,
      o_isRelay = False, o_upnp = False, o_noGSO = False, o_noECN = False, o_race = False\<rparr>"

text \<open>An argument without a value.\<close>

definition parse_flag :: "string \<Rightarrow> options \<Rightarrow> options" where
  "parse_flag a opt =
     (if a = ''--debug'' \<or> a = ''-d'' then opt\<lparr>o_debug := True\<rparr>
      else if a = ''--use-tcp'' \<or> a = ''-t'' then opt\<lparr>o_useTCP := True\<rparr>
      else if a = ''--relay'' then opt\<lparr>o_isRelay := True, o_upnp := True\<rparr>
      else if a = ''--no-upnp'' then opt\<lparr>o_upnp := False\<rparr>
      else if a = ''--disable-gso'' then opt\<lparr>o_noGSO := True\<rparr>
      else if a = ''--disable-ecn'' then opt\<lparr>o_noECN := True\<rparr>
      else if a = ''--race'' then opt\<lparr>o_race := True\<rparr>
      else opt)"

definition takes_value :: "string \<Rightarrow> bool" where
  "takes_value a \<longleftrightarrow> a = ''--rendezvous'' \<or> a = ''--discovery-port'' \<or> a = ''--relay-port''"

definition parse_value :: "string \<Rightarrow> string \<Rightarrow> options \<Rightarrow> port_error + options" where
  "parse_value a v opt =
     (if a = ''--rendezvous'' then Inr (opt\<lparr>o_rendezvousURL := v\<rparr>)
      else if a = ''--discovery-port'' then
        Inr (case sscanf_d v of None \<Rightarrow> opt | Some n \<Rightarrow> opt\<lparr>o_discPort := n\<rparr>)
      else (case parsePortArg v of
              Inl e \<Rightarrow> Inl e
            | Inr p \<Rightarrow> Inr (opt\<lparr>o_relayPort := p\<rparr>)))"

fun parse_args :: "string list \<Rightarrow> options \<Rightarrow> port_error + options" where
  "parse_args [] opt = Inr opt"
| "parse_args [a] opt = Inr (if takes_value a then opt else parse_flag a opt)"
| "parse_args (a # b # rest) opt =
     (if takes_value a
      then (case parse_value a b opt of Inl e \<Rightarrow> Inl e | Inr opt' \<Rightarrow> parse_args rest opt')
      else parse_args (b # rest) (parse_flag a opt))"


section \<open>The room prompt\<close>

record room_selection =
  sel_roomName :: string
  sel_roomPassword :: string
  sel_isPrivate :: bool
  sel_peers :: "string list"
  sel_isCreatingRoom :: bool
  sel_quit :: bool

definition no_selection :: room_selection where
  "no_selection =
     \<lparr>sel_roomName = [], sel_roomPassword = [], sel_isPrivate = False, sel_peers = [],
      sel_isCreatingRoom = False, sel_quit = False\<rparr>"

fun read_line :: "string list \<Rightarrow> string \<times> string list" where
  "read_line [] = ([], [])"
| "read_line (l # ls) = (trim_space l, ls)"

definition ask_password :: "room_selection \<times> string list \<Rightarrow> room_selection \<times> string list" where
  "ask_password st =
     (let p = read_line (snd st) in ((fst st)\<lparr>sel_roomPassword := fst p\<rparr>, snd p))"

definition or_default :: "string \<Rightarrow> string" where
  "or_default name = (if name = [] then ''default'' else name)"

definition select_from :: "room_info list \<Rightarrow> string \<Rightarrow> string list \<Rightarrow> room_selection \<times> string list" where
  "select_from found choice inputs =
     (if choice = ''q'' \<or> choice = ''Q'' then (no_selection\<lparr>sel_quit := True\<rparr>, inputs)
      else if choice = ''n'' \<or> choice = ''N'' then
        (let n = read_line inputs
         in ask_password (no_selection\<lparr>sel_isCreatingRoom := True, sel_roomName := or_default (fst n)\<rparr>, snd n))
      else if choice = ''p'' \<or> choice = ''P'' then
        ask_password (no_selection\<lparr>sel_isCreatingRoom := True, sel_roomName := ''private'',
                        sel_isPrivate := True\<rparr>, inputs)
      else (case sscanf_d choice of
              Some idx \<Rightarrow>
                if 0 < idx \<and> idx \<le> int (length found)
                then (let rm = found ! nat (idx - 1)
                      in ask_password (no_selection\<lparr>sel_roomName := ri_name rm, sel_peers := ri_peers rm\<rparr>, inputs))
                else ask_password (no_selection\<lparr>sel_roomName := choice\<rparr>, inputs)
            | None \<Rightarrow> ask_password (no_selection\<lparr>sel_roomName := choice\<rparr>, inputs)))"

definition promptRoomSelection :: "room_info list \<Rightarrow> string list \<Rightarrow> room_selection \<times> string list" where
  "promptRoomSelection found inputs =
     (let c = read_line inputs
      in if found \<noteq> [] then select_from found (fst c) (snd c)
         else if fst c = ''q'' \<or> fst c = ''Q'' \<or> equal_fold (fst c) ''quit''
           then (no_selection\<lparr>sel_quit := True\<rparr>, snd c)
         else ask_password (no_selection\<lparr>sel_isCreatingRoom := True, sel_roomName := or_default (fst c),
                              sel_isPrivate := (to_lower (or_default (fst c)) = ''private'')\<rparr>, snd c))"


section \<open>The application\<close>

datatype cli_output =
    HelpText
  | UsageOf string
  | UnknownCommand string
  | Notice string
  | PeerList "string list"
  | RoomInfo string string int nat
  | PublicAddress string int
  | ConnectFailed string string
  | Connected nat

record app =
  a_srv :: server
  a_roomName :: string
  a_roomPassword :: string
  a_isPrivate :: bool
  a_isRelay :: bool
  a_isCreatingRoom :: bool
  a_discovery :: "discovery option"
  a_externalAddr :: string
  a_mapping :: "lease option"
  a_leases :: "lease list"
  a_files :: files
  a_out :: "cli_output list"
  a_exit :: bool
  a_down :: bool

definition say :: "cli_output \<Rightarrow> app \<Rightarrow> app" where
  "say out app = app\<lparr>a_out := a_out app @ [out]\<rparr>"

text \<open>
  \<open>NewConnectionManager\<close> with what it does to the files: the device ID and the alias are loaded,
  or made up and stored.  \<open>rnd\<close> are the random bytes for a device ID and \<open>generated\<close> is what
  \<open>generateAlias\<close> returns; failures of \<open>GetDeviceID\<close> and \<open>SaveAlias\<close> are ignored.
\<close>

definition start_manager ::
    "crypto \<Rightarrow> os_env \<Rightarrow> bytes option \<Rightarrow> string \<Rightarrow> net \<Rightarrow> int \<Rightarrow> string \<Rightarrow> bool \<Rightarrow> string \<Rightarrow> string
     \<Rightarrow> files \<Rightarrow> cm_state \<times> files" where
  "start_manager C E rnd generated n port room tcp password explicitAlias fs =
     (let d = GetDeviceID E rnd fs;
          devID = (case fst d of Inl e \<Rightarrow> [] | Inr x \<Rightarrow> x);
          saved = LoadAlias E devID (snd d);
          fs1 = (if explicitAlias = [] \<and> saved = [] then snd (SaveAlias E devID generated (snd d))
                 else snd d)
      in (NewConnectionManager C n port room tcp password explicitAlias devID saved generated, fs1))"

text \<open>
  \<open>initializeApp\<close>: the answers of the environment are the listeners' ports, the gateways and the
  discovery socket; \<open>ie_rnd\<close> is for the secret of a pre-created room.  Beside the application or
  the error it returns the files and the port mappings the gateways hold.
\<close>

record init_env =
  ie_os :: os_env
  ie_device_rnd :: "bytes option"
  ie_alias :: string
  ie_quic_port :: "int option"
  ie_tcp_ok :: bool
  ie_known_peers :: "(string \<times> file_read) option"
  ie_gateways :: gateway_env
  ie_listening :: bool
  ie_ifaces :: "string list"
  ie_rnd :: bytes

datatype init_error = ServerStartFailed server_error | DiscoveryStartFailed

text \<open>The server of the session, with its pinned peers and its pre-created room.\<close>

definition start_server ::
    "crypto \<Rightarrow> init_env \<Rightarrow> options \<Rightarrow> room_selection \<Rightarrow> net \<Rightarrow> files \<Rightarrow> (server_error + server) \<times> files" where
  "start_server C E opt sel n fs =
     (let mgr = start_manager C (ie_os E) (ie_device_rnd E) (ie_alias E) n 0 (sel_roomName sel)
                  (o_useTCP opt) (sel_roomPassword sel) [] fs;
          cm1 = (case ie_known_peers E of
                   None \<Rightarrow> fst mgr
                 | Some (path, content) \<Rightarrow> snd (LoadKnownPeers path content (fst mgr)))
      in case NewServer (ie_quic_port E) (ie_tcp_ok E) True True True cm1 of
           Inl e \<Rightarrow> (Inl e, snd mgr)
         | Inr s0 \<Rightarrow>
             (let s1 = (if sel_isCreatingRoom sel \<and> sel_roomPassword sel \<noteq> []
                        then CreateRoom C (ie_rnd E) (sel_roomName sel)
                               (DeriveRoomKeys C (sel_roomName sel) (sel_roomPassword sel) []) True
                               (sel_roomPassword sel) s0
                        else s0)
              in (Inr (s1\<lparr>localPort := serverPort s1\<rparr>), snd mgr)))"

definition request_mapping ::
    "gateway_env \<Rightarrow> bool \<Rightarrow> int \<Rightarrow> lease list \<Rightarrow> (string \<times> lease) option \<times> lease list" where
  "request_mapping G wanted port ls = (if wanted then TryPortMapping G port ls else (None, ls))"

definition initializeApp ::
    "crypto \<Rightarrow> init_env \<Rightarrow> options \<Rightarrow> room_selection \<Rightarrow> bool \<Rightarrow> net \<Rightarrow> files \<Rightarrow> lease list
     \<Rightarrow> (init_error + app) \<times> files \<times> lease list" where
  "initializeApp C E opt sel isRelay n fs ls =
     (let st = start_server C E opt sel n fs
      in case fst st of
           Inl e \<Rightarrow> (Inl (ServerStartFailed e), snd st, ls)
         | Inr s \<Rightarrow>
             (let m = request_mapping (ie_gateways E) (isRelay \<and> o_upnp opt) (serverPort s) ls;
                  base = \<lparr>a_srv = s, a_roomName = sel_roomName sel, a_roomPassword = sel_roomPassword sel,
                          a_isPrivate = sel_isPrivate sel, a_isRelay = isRelay,
                          a_isCreatingRoom = sel_isCreatingRoom sel, a_discovery = None,
                          a_externalAddr = (case fst m of None \<Rightarrow> [] | Some r \<Rightarrow> fst r),
                          a_mapping = map_option snd (fst m), a_leases = snd m, a_files = snd st,
                          a_out = [], a_exit = False, a_down = False\<rparr>
              in if sel_isPrivate sel then (Inr base, snd st, snd m)
                 else (case NewDiscoveryService (ie_listening E) (ie_ifaces E) (serverPort s)
                              (sel_roomName sel) (o_discPort opt) (sel_roomPassword sel \<noteq> []) isRelay of
                         None \<Rightarrow> (Inl DiscoveryStartFailed, snd st, snd m)
                       | Some ds \<Rightarrow> (Inr (base\<lparr>a_discovery := Some ds\<rparr>), snd st, snd m))))"


section \<open>Connecting\<close>

text \<open>
  One round over the peers: how many connections, and the first and the last error.  The script
  of an address is what the network does during this round.
\<close>

record attempt =
  at_count :: nat
  at_first :: "conn_error option"
  at_last :: "conn_error option"

definition no_attempt :: attempt where
  "no_attempt = \<lparr>at_count = 0, at_first = None, at_last = None\<rparr>"

fun connect_all ::
    "crypto \<Rightarrow> (string \<Rightarrow> net_script) \<Rightarrow> string list \<Rightarrow> attempt \<Rightarrow> app \<Rightarrow> attempt \<times> app" where
  "connect_all C net [] t app = (t, app)"
| "connect_all C net (a # as) t app =
     (let g = GetOrCreate C (net a) a (a_srv app);
          app1 = app\<lparr>a_srv := snd g\<rparr>
      in case fst g of
           Inr i \<Rightarrow> connect_all C net as (t\<lparr>at_count := Suc (at_count t)\<rparr>) app1
         | Inl e \<Rightarrow>
             connect_all C net as
               (t\<lparr>at_first := (if at_first t = None then Some e else at_first t), at_last := Some e\<rparr>)
               (say (ConnectFailed a (conn_error_text e)) app1))"

definition is_error :: "auth_kind \<Rightarrow> conn_error option \<Rightarrow> bool" where
  "is_error k e = (case e of None \<Rightarrow> False | Some x \<Rightarrow> error_is k x)"

text \<open>The new password goes to the application and the connection manager, which re-derives its keys.\<close>

definition set_password :: "crypto \<Rightarrow> string \<Rightarrow> app \<Rightarrow> app" where
  "set_password C pw app =
     (let s1 = (a_srv app)\<lparr>roomPassword := pw\<rparr>;
          secretHex = (case roomSecret s1 of None \<Rightarrow> [] | Some sec \<Rightarrow> hex_encode sec)
      in app\<lparr>a_roomPassword := pw,
             a_srv := snd (UpdateRoomKeys C (a_roomName app) pw secretHex s1)\<rparr>)"

text \<open>The password loop: one round per line of input, until a connection, a ban or an empty line.\<close>

fun retry_loop ::
    "crypto \<Rightarrow> (nat \<Rightarrow> string \<Rightarrow> net_script) \<Rightarrow> nat \<Rightarrow> string list \<Rightarrow> string list \<Rightarrow> app
     \<Rightarrow> (bool \<times> string list) \<times> app" where
  "retry_loop C net k peers [] app =
     ((False, []), say (Notice ''Aborted. Returning to room selection...'') app)"
| "retry_loop C net k peers (l # ls) app =
     (let pw = trim_space l
      in if pw = [] then ((False, ls), say (Notice ''Aborted. Returning to room selection...'') app)
         else
           (let r = connect_all C (net k) peers no_attempt
                      (say (Notice ''Retrying with new password...'') (set_password C pw app));
                t = fst r
            in if at_count t > 0 then ((True, ls), say (Connected (at_count t)) (snd r))
               else if is_error ErrBanned (at_first t) then
                 ((False, ls),
                  say (Notice ''You are banned from this room. Returning to room selection...'') (snd r))
               else if is_error ErrWrongPassword (at_first t) then
                 retry_loop C net (Suc k) peers ls
                   (say (Notice ''Wrong password. Please try again.'') (snd r))
               else if is_error ErrTimeout (at_first t) then
                 retry_loop C net (Suc k) peers ls
                   (say (Notice ''Connection timed out. The relay may be offline or unreachable.'') (snd r))
               else retry_loop C net (Suc k) peers ls (snd r)))"

text \<open>
  \<open>lookup\<close> is what \<open>LookupRelays\<close> returns; the flag of the result is whether the application
  goes on.
\<close>

definition tryConnect ::
    "crypto \<Rightarrow> (nat \<Rightarrow> string \<Rightarrow> net_script) \<Rightarrow> string list \<Rightarrow> string list \<Rightarrow> string list \<Rightarrow> app
     \<Rightarrow> (bool \<times> string list) \<times> app" where
  "tryConnect C net lookup inputs peersToConnect app =
     (if peersToConnect = [] \<and> (a_isRelay app \<or> a_discovery app = None) then ((True, inputs), app)
      else
        (let peers = (if \<not> a_isRelay app \<and> a_discovery app \<noteq> None \<and> lookup \<noteq> [] then lookup
                      else peersToConnect)
         in if peers = [] then ((True, inputs), app)
            else
              (let r = connect_all C (net 0) peers no_attempt app; t = fst r
               in if at_count t = 0 \<and> at_last t \<noteq> None then
                    (if is_error ErrBanned (at_last t) then
                       ((False, inputs),
                        say (Notice ''You are banned from this room. Returning to room selection...'') (snd r))
                     else if \<not> a_isRelay app then retry_loop C net 1 peers inputs (snd r)
                     else ((False, inputs),
                           say (Notice ''No peers to retry. Returning to room selection...'') (snd r)))
                  else if at_count t > 0 then ((True, inputs), say (Connected (at_count t)) (snd r))
                  else ((False, inputs), snd r))))"


section \<open>Commands\<close>

datatype command =
    Help
  | Peers
  | Connect string string
  | Nick string
  | RoomCmd
  | MyIP
  | Kick string
  | Ban string
  | Unban string
  | Exit
  | Missing string
  | Unknown string
  | Message string

definition space :: char where
  "space = CHR '' ''"

text \<open>A trimmed, non-empty input line as a command.\<close>

definition command_of :: "string \<Rightarrow> string option \<Rightarrow> command" where
  "command_of cmd arg =
     (if cmd = ''help'' \<or> cmd = ''?'' then Help
      else if cmd = ''peers'' then Peers
      else if cmd = ''connect'' then
        (case arg of
           None \<Rightarrow> Missing ''/connect <ip:port> [message]''
         | Some a \<Rightarrow> (case split_n 2 space a of
                        [addr, msg] \<Rightarrow> Connect addr msg
                      | parts \<Rightarrow> Connect (concat parts) []))
      else if cmd = ''nick'' \<or> cmd = ''name'' \<or> cmd = ''alias'' then
        (case arg of
           None \<Rightarrow> Missing ''/nick <new_alias>''
         | Some a \<Rightarrow> if trim_space a = [] then Missing ''/nick <new_alias>'' else Nick (trim_space a))
      else if cmd = ''room'' \<or> cmd = ''rooms'' then RoomCmd
      else if cmd = ''myip'' then MyIP
      else if cmd = ''kick'' then (case arg of None \<Rightarrow> Missing ''/kick <alias>'' | Some a \<Rightarrow> Kick a)
      else if cmd = ''ban'' then (case arg of None \<Rightarrow> Missing ''/ban <alias>'' | Some a \<Rightarrow> Ban a)
      else if cmd = ''unban'' then
        (case arg of None \<Rightarrow> Missing ''/unban <alias|address|deviceID>'' | Some a \<Rightarrow> Unban a)
      else if cmd = ''exit'' \<or> cmd = ''quit'' \<or> cmd = ''q'' \<or> cmd = ''bye'' then Exit
      else Unknown cmd)"

definition parse_command :: "string \<Rightarrow> command" where
  "parse_command line =
     (if has_prefix line ''/'' then
        (case split_n 2 space (trim_prefix line ''/'') of
           [cmd, arg] \<Rightarrow> command_of (to_lower cmd) (Some arg)
         | parts \<Rightarrow> command_of (to_lower (concat parts)) None)
      else Message line)"

text \<open>What the environment does during one command.\<close>

record cli_env =
  ce_send :: "string \<Rightarrow> send_env"
  ce_lookup_peers :: "string list option"
  ce_lookup_relays :: "string list option"
  ce_os :: os_env
  ce_device :: string
  ce_rnd :: bytes
  ce_stun :: "string option"

definition host_mode :: "app \<Rightarrow> bool" where
  "host_mode app \<longleftrightarrow> a_isRelay app \<or> a_isCreatingRoom app"

definition send_each ::
    "crypto \<Rightarrow> cli_env \<Rightarrow> string \<Rightarrow> string list \<Rightarrow> app \<Rightarrow> nat \<times> app" where
  "send_each C ce message peers app =
     fold (\<lambda>a (n, ap).
         let w = Send C (ce_send ce a) a message (a_srv ap)
         in (if fst w then Suc n else n, ap\<lparr>a_srv := snd w\<rparr>)) peers (0, app)"

definition room_targets :: "cli_env \<Rightarrow> app \<Rightarrow> string list" where
  "room_targets ce app =
     (let connected = ListConnected (a_srv app);
          direct = (if a_isRelay app then connected
                    else if GetRelayAddrs (a_srv app) = [] then connected else GetRelayAddrs (a_srv app))
      in if direct = [] \<and> a_discovery app \<noteq> None
         then (case if a_isRelay app then ce_lookup_peers ce else ce_lookup_relays ce of
                 None \<Rightarrow> direct | Some found \<Rightarrow> direct @ found)
         else direct)"

definition sendToRoom :: "crypto \<Rightarrow> cli_env \<Rightarrow> string \<Rightarrow> app \<Rightarrow> app" where
  "sendToRoom C ce message app =
     (let peers = room_targets ce app
      in if peers = [] then
           say (Notice ''No peers connected. Use /connect <ip:port> to connect to a peer.'') app
         else (let r = send_each C ce message peers app
               in if fst r = 0 then say (Notice ''Failed to send message. Peers may be offline.'') (snd r)
                  else snd r))"

text \<open>The room that has a peer of this alias, in the order of the room table.\<close>

definition room_of_alias :: "string \<Rightarrow> server \<Rightarrow> nat option" where
  "room_of_alias alias s =
     map_option snd
       (find (\<lambda>(n, r). list_ex (\<lambda>p. p_alias (peerHeap s p) = alias) (room_members r s)) (rooms s))"

definition ask_relay :: "crypto \<Rightarrow> cli_env \<Rightarrow> string \<Rightarrow> string \<Rightarrow> app \<Rightarrow> app" where
  "ask_relay C ce what line app =
     (case GetRelayAddrs (a_srv app) of
        [] \<Rightarrow> say (Notice ''Not connected to a relay. Use /connect <ip:port> to connect.'') app
      | relay # _ \<Rightarrow>
          (let w = Send C (ce_send ce relay) relay line (a_srv app);
               app1 = app\<lparr>a_srv := snd w\<rparr>
           in if fst w then app1 else say (Notice (''Failed to send '' @ what)) app1))"

definition kickPeer :: "crypto \<Rightarrow> cli_env \<Rightarrow> string \<Rightarrow> app \<Rightarrow> app" where
  "kickPeer C ce alias app =
     (if host_mode app then
        (case room_of_alias alias (a_srv app) of
           Some r \<Rightarrow> app\<lparr>a_srv := handleKick C (ce_rnd ce)
                       (creator (GetLocalAlias (a_srv app)) (Some r)) alias (a_srv app)\<rparr>
         | None \<Rightarrow> say (Notice (''Peer not found: '' @ alias)) app)
      else ask_relay C ce ''kick'' (''KICK:'' @ alias) app)"

definition banPeer :: "crypto \<Rightarrow> cli_env \<Rightarrow> string \<Rightarrow> app \<Rightarrow> app" where
  "banPeer C ce alias app =
     (if host_mode app then
        (case room_of_alias alias (a_srv app) of
           Some r \<Rightarrow> app\<lparr>a_srv := handleBan C (ce_rnd ce)
                       (creator (GetLocalAlias (a_srv app)) (Some r)) alias (a_srv app)\<rparr>
         | None \<Rightarrow> say (Notice (''Peer not found: '' @ alias)) app)
      else ask_relay C ce ''ban'' (''BAN:'' @ alias) app)"

definition unbanPeer :: "crypto \<Rightarrow> cli_env \<Rightarrow> string \<Rightarrow> app \<Rightarrow> app" where
  "unbanPeer C ce target app =
     (if host_mode app then
        (case rooms (a_srv app) of
           [] \<Rightarrow> say (Notice ''No rooms hosted by this server'') app
         | e # _ \<Rightarrow> app\<lparr>a_srv := handleUnban (creator (GetLocalAlias (a_srv app)) (Some (snd e)))
                       target (a_srv app)\<rparr>)
      else ask_relay C ce ''unban'' (''UNBAN:'' @ target) app)"

definition connectTo :: "crypto \<Rightarrow> cli_env \<Rightarrow> string \<Rightarrow> string \<Rightarrow> app \<Rightarrow> app" where
  "connectTo C ce addr message app =
     (let g = GetOrCreate C (se_script (ce_send ce addr)) addr (a_srv app);
          app1 = app\<lparr>a_srv := snd g\<rparr>
      in case fst g of
           Inl e \<Rightarrow> say (Notice (''Connection failed: '' @ conn_error_text e)) app1
         | Inr i \<Rightarrow>
             (let app2 = say (Notice (''Connected to '' @ addr)) app1
              in if message = [] then app2
                 else (let w = Send C (ce_send ce addr) addr message (a_srv app2);
                           app3 = app2\<lparr>a_srv := snd w\<rparr>
                       in if fst w then app3 else say (Notice ''Failed to send message'') app3)))"

definition change_nick :: "cli_env \<Rightarrow> string \<Rightarrow> app \<Rightarrow> app" where
  "change_nick ce newAlias app =
     (let oldAlias = GetLocalAlias (a_srv app);
          s1 = SetLocalAlias newAlias (a_srv app);
          sv = SaveAlias (ce_os ce) (ce_device ce) newAlias (a_files app);
          app1 = (if fst sv = None then id else say (Notice ''could not persist alias''))
                   (app\<lparr>a_srv := s1, a_files := snd sv\<rparr>);
          app2 = say (Notice (''You changed your alias from '' @ oldAlias @ '' to '' @ newAlias)) app1;
          notify = ''SYSTEM:'' @ oldAlias @ '' is now known as '' @ newAlias @ [newline]
      in app2\<lparr>a_srv := fold (\<lambda>a s. snd (SendRaw a notify s)) (ListConnected (a_srv app2)) (a_srv app2)\<rparr>)"

definition listPeers :: "app \<Rightarrow> app" where
  "listPeers app = say (PeerList (ListConnected (a_srv app))) app"

definition showRoomInfo :: "app \<Rightarrow> app" where
  "showRoomInfo app =
     say (RoomInfo (a_roomName app) (GetLocalAlias (a_srv app)) (serverPort (a_srv app))
            (length (ListConnected (a_srv app)))) app"

definition showPublicIP :: "cli_env \<Rightarrow> app \<Rightarrow> app" where
  "showPublicIP ce app =
     (case ce_stun ce of
        None \<Rightarrow> say (Notice ''Could not determine public IP.'') app
      | Some ip \<Rightarrow> if ip = [] then say (Notice ''Could not determine public IP.'') app
                   else say (PublicAddress ip (serverPort (a_srv app))) app)"

definition run_command :: "crypto \<Rightarrow> cli_env \<Rightarrow> command \<Rightarrow> app \<Rightarrow> app" where
  "run_command C ce c app =
     (case c of
        Help \<Rightarrow> say HelpText app
      | Peers \<Rightarrow> listPeers app
      | Connect addr msg \<Rightarrow> connectTo C ce addr msg app
      | Nick a \<Rightarrow> change_nick ce a app
      | RoomCmd \<Rightarrow> showRoomInfo app
      | MyIP \<Rightarrow> showPublicIP ce app
      | Kick a \<Rightarrow> kickPeer C ce a app
      | Ban a \<Rightarrow> banPeer C ce a app
      | Unban a \<Rightarrow> unbanPeer C ce a app
      | Exit \<Rightarrow> (say (Notice ''Bye'') app)\<lparr>a_exit := True\<rparr>
      | Missing u \<Rightarrow> say (UsageOf u) app
      | Unknown cmd \<Rightarrow> say (UnknownCommand cmd) app
      | Message m \<Rightarrow> sendToRoom C ce m app)"

text \<open>
  The loop: between two lines the readers of the connections may run, which \<open>between\<close> stands
  for.  It returns at the end of the input, on an exit command, and after a command when the
  peer was kicked or disconnected.
\<close>

fun runCLI ::
    "crypto \<Rightarrow> (nat \<Rightarrow> cli_env) \<Rightarrow> (nat \<Rightarrow> server \<Rightarrow> server) \<Rightarrow> nat \<Rightarrow> string list \<Rightarrow> app
     \<Rightarrow> string list \<times> app" where
  "runCLI C ce between k [] app = ([], app)"
| "runCLI C ce between k (l # ls) app =
     (let app0 = app\<lparr>a_srv := between k (a_srv app)\<rparr>; line = trim_space l
      in if line = [] then runCLI C ce between (Suc k) ls app0
         else
           (let app1 = run_command C (ce k) (parse_command line) app0
            in if parse_command line = Exit then (ls, app1)
               else if kicked (a_srv app1) then
                 (ls, say (Notice ''You were removed from the room. Returning to room selection...'') app1)
               else if disconnected (a_srv app1) then
                 (ls, say (Notice ''Connection to relay lost. Returning to room selection...'') app1)
               else runCLI C ce between (Suc k) ls app1))"


section \<open>Shut-down and the main loop's decision\<close>

definition shutdown :: "crypto \<Rightarrow> time \<Rightarrow> gateway_env \<Rightarrow> app \<Rightarrow> app" where
  "shutdown C now E app =
     (if a_down app then app
      else
        (let leases = (case a_mapping app of
                         None \<Rightarrow> a_leases app
                       | Some l \<Rightarrow> mapping_cleanup E l (a_leases app));
             s1 = cm_Close (a_srv app);
             s2 = snd (Server_Close C now s1)
         in app\<lparr>a_leases := leases, a_discovery := map_option ds_Shutdown (a_discovery app),
                a_srv := s2, a_down := True\<rparr>))"

datatype main_next = EnterCLI | BackToSelection

definition after_connect :: "bool \<Rightarrow> app \<Rightarrow> main_next" where
  "after_connect relay_flag app =
     (if ListConnected (a_srv app) \<noteq> [] \<or> relay_flag \<or> a_isCreatingRoom app then EnterCLI
      else BackToSelection)"

end
