(* ===== verification/Client_Properties.thy ===== *)
theory Client_Properties
  imports Session_Setup
begin

text \<open>
  The properties of the client side: what it puts on the wire, what it accepts from it, which
  relays it talks to, and how a refused or failed connection ends.
\<close>

section \<open>A concrete client\<close>

definition demo_net :: net where
  "demo_net =
     \<lparr>conns = (\<lambda>_. \<lparr>c_sent = [], c_closed = False, c_broken = False\<rparr>), screen = [], crashed = False\<rparr>"

definition fresh_client :: cm_state where
  "fresh_client =
     NewConnectionManager toy demo_net 0 ''lobby'' False ''pw'' ''ann'' [] [] []"

text \<open>The same client connected to a relay, with the room's keys.\<close>

definition demo_client :: cm_state where
  "demo_client =
     (register_mc 0 ''r:1'' 0 fresh_client)
       \<lparr>roomKeys := room_keys_from toy (room_auth_key toy ''lobby'' ''pw'') ''s''\<rparr>"

lemmas demo_client_defs = demo_client_def fresh_client_def NewConnectionManager_def register_mc_def
  newManagedConnection_def NewReplayProtector_def demo_net_def Let_def

lemma demo_client_ok: "cm_ok demo_client"
  by (simp add: demo_client_defs cm_ok_def registry_ok_def gomap_def)

lemma demo_client_keys: "aes_key_ok (EncKey (roomKeys demo_client))"
  using kdf_aes_key_ok [OF toy_kdf_length] by (simp add: demo_client_def)

definition demo_nonce :: bytes where
  "demo_nonce = replicate 12 (CHR ''n'')"

lemma demo_line:
  "\<exists>line. message_line toy (roomKeys demo_client) ''bob'' ''hi'' demo_nonce ''12345678'' = Inr line"
  using demo_client_keys by (simp add: message_line_def Encrypt_ok Let_def)


section \<open>The wire\<close>

text \<open>
  Encoded bytes come back: hexadecimal and base64 decoding undo the encoding for every byte
  string, and neither encoding produces a separator, a line break or white space.
\<close>

theorem encodings_roundtrip:
  "hex_decode (hex_encode bs) = Some bs \<and> b64_decode (b64_encode bs) = Some bs \<and>
   list_all wire_char (hex_encode bs) \<and> list_all wire_char (b64_encode bs)"
  using hex.enc_wire b64.enc_wire by (auto simp: hex.dec_enc b64.dec_enc list_all_iff)

text \<open>
  C15. Encryption round trip: with the keys of a room secret every text can be encrypted, and
  decrypting the payload gives the text back; without a room secret nothing can be encrypted.
\<close>

theorem encryption_roundtrip:
  assumes "gcm_correct C" and "kdf_length C" and "length nonce = nonce_size"
  shows "(\<exists>payload. Encrypt C (room_keys_from C auth secret) nonce text = Inr payload \<and>
      Decrypt C (room_keys_from C auth secret) payload = Inr text) \<and>
    Encrypt C (DeriveRoomKeys C room pw []) nonce text = Inl (BadKeySize 0)"
proof -
  have "Encrypt C (room_keys_from C auth secret) nonce text =
      Inr (b64_encode (nonce @ gcm_seal C (EncKey (room_keys_from C auth secret)) nonce text))"
    using kdf_aes_key_ok [OF assms(2)] by (rule Encrypt_ok)
  then show ?thesis
    using Decrypt_Encrypt [OF assms(1,3)] Encrypt_without_secret by blast
qed

theorem encryption_roundtrip_witness:
  "\<exists>payload. Encrypt toy (room_keys_from toy ''a'' ''s'') demo_nonce ''hi'' = Inr payload \<and>
     Decrypt toy (room_keys_from toy ''a'' ''s'') payload = Inr ''hi''"
  using encryption_roundtrip [OF toy_gcm_correct toy_kdf_length, of demo_nonce]
  by (simp add: demo_nonce_def nonce_size_def)

text \<open>
  C14. A sent message is one well-formed line whatever the user typed or calls himself: it ends
  with its only line break, starts with FROM: and has exactly four fields, the alias first; the
  signature verifies.
\<close>

theorem sent_line_well_formed:
  assumes "message_line C rk alias message nonce rnd = Inr line"
  shows "\<exists>u payload n h. line = u @ [newline] \<and> newline \<notin> set u \<and> has_prefix u ''FROM:'' \<and>
    split_on pipe (trim_prefix u ''FROM:'') = [sanitiseField alias, payload, n, h] \<and>
    Verify C rk (''FROM:'' @ join_with pipe [sanitiseField alias, payload, n]) h"
proof -
  obtain payload where e: "Encrypt C rk nonce (sanitiseField message) = Inr payload"
    and l: "line = unsigned_text (sanitiseField alias) payload (generateReplayNonce rnd) @ [pipe] @
       Sign C rk (unsigned_text (sanitiseField alias) payload (generateReplayNonce rnd)) @ [newline]"
    using message_line_fields [OF assms] by blast
  let ?n = "generateReplayNonce rnd"
  let ?t = "unsigned_text (sanitiseField alias) payload ?n"
  let ?h = "Sign C rk ?t"
  have n: "newline \<notin> set ?n" "pipe \<notin> set ?n"
    by (simp_all add: generateReplayNonce_def hex.enc_no_newline hex.enc_no_pipe)
  let ?fields = "[sanitiseField alias, payload, ?n, ?h]"
  have u: "?t @ [pipe] @ ?h = ''FROM:'' @ join_with pipe ?fields"
    and s: "?t = ''FROM:'' @ join_with pipe [sanitiseField alias, payload, ?n]"
    by (simp_all add: unsigned_text_def)
  have split: "split_on pipe (join_with pipe ?fields) = ?fields"
    using n Encrypt_no_pipe [OF e] Sign_no_pipe by (intro split_on_join) auto
  have "newline \<notin> set (?t @ [pipe] @ ?h)"
    using n Encrypt_no_newline [OF e] Sign_no_newline by (auto simp: unsigned_text_def)
  moreover have "has_prefix (?t @ [pipe] @ ?h) ''FROM:''" by (simp add: unsigned_text_def)
  moreover have "split_on pipe (trim_prefix (?t @ [pipe] @ ?h) ''FROM:'') = ?fields"
    unfolding u trim_prefix_append by (rule split)
  moreover have "Verify C rk (''FROM:'' @ join_with pipe [sanitiseField alias, payload, ?n]) ?h"
    using Verify_Sign [of C rk ?t] s by simp
  moreover have "line = (?t @ [pipe] @ ?h) @ [newline]" by (simp add: l)
  ultimately show ?thesis by blast
qed

theorem sent_line_well_formed_witness:
  "\<exists>line u payload n h.
     message_line toy (roomKeys demo_client) ''b|ob'' ''hi'' demo_nonce ''12345678'' = Inr line \<and>
     line = u @ [newline] \<and>
     split_on pipe (trim_prefix u ''FROM:'') = [sanitiseField ''b|ob'', payload, n, h]"
proof -
  obtain line where l: "message_line toy (roomKeys demo_client) ''b|ob'' ''hi'' demo_nonce ''12345678'' = Inr line"
    using demo_client_keys by (simp add: message_line_def Encrypt_ok Let_def)
  from sent_line_well_formed [OF l] l show ?thesis by blast
qed


section \<open>Replay\<close>

text \<open>What happens on a connection between two lines: other lines, and ticks of the nonce clean-up.\<close>

datatype client_event = CLine time string | CTick time

fun client_event_op :: "crypto \<Rightarrow> nat \<Rightarrow> client_event \<Rightarrow> cm_state \<Rightarrow> cm_state" where
  "client_event_op C i (CLine now raw) s = snd (readLoop_line C i now raw s)"
| "client_event_op C i (CTick now) s =
     update_mc i (\<lambda>mc. mc\<lparr>mc_replay := map_option (replay_cleanup_tick now) (mc_replay mc)\<rparr>) s"

text \<open>The nonce \<open>n\<close> is known on connection \<open>i\<close> since \<open>t\<close>.\<close>

definition knows :: "nat \<Rightarrow> string \<Rightarrow> time \<Rightarrow> cm_state \<Rightarrow> bool" where
  "knows i n t s \<longleftrightarrow>
     (\<exists>rp. mc_replay (mcs s i) = Some rp \<and> replay_ok rp \<and> rp_maxAge rp = replay_window \<and>
        map_of (rp_seen rp) n = Some t)"

lemma knows_cong: "mc_replay (mcs s' i) = mc_replay (mcs s i) \<Longrightarrow> knows i n t s' = knows i n t s"
  by (simp add: knows_def)

lemma knows_removeConnection:
  assumes "knows i n t s"
  shows "knows i n t (snd (removeConnection a s))"
proof -
  have "knows i n t (shut_mc j s)" for j
    using assms
    by (cases "i = j")
      (auto simp: knows_def shut_mc_def Let_def crash_def signalClosed_def replay_Close_def
        replay_ok_def split: option.splits)
  then have "knows i n t (shut_mc j s)" for j .
  then show ?thesis
    using assms by (auto simp: removeConnection_def Let_def knows_def split: option.split)
qed

lemma knows_encrypted_message:
  assumes "knows i n t s"
  shows "knows i n t (encrypted_message C i now a p n' h s)"
proof -
  obtain rp where rp: "mc_replay (mcs s i) = Some rp" "replay_ok rp" "rp_maxAge rp = replay_window"
    "map_of (rp_seen rp) n = Some t"
    using assms by (auto simp: knows_def)
  have "map_of (rp_seen (snd (replay_Check n' now rp))) n = Some t"
    using replay.record_seen [OF rp(2), of n' now n] rp(4) by auto
  moreover have "replay_ok (snd (replay_Check n' now rp))" by (rule replay.ok_record [OF rp(2)])
  ultimately show ?thesis
    using rp by (auto simp: encrypted_message_def Let_def knows_def split: sum.split)
qed

lemma knows_readLoop_line:
  assumes "knows i n t s"
  shows "knows i n t (snd (readLoop_line C i now raw s))"
proof -
  have "knows i n t (snd (secret_line C i l s))" for l
    using assms by (simp add: secret_line_def Let_def knows_def)
  moreover have "knows i n t (snd (system_line C now l s))" for l
    using assms by (simp add: system_line_def Let_def knows_def)
  moreover have "knows i n t (snd (from_line C i now l s))" for l
    using assms by (simp add: from_line_def knows_encrypted_message split: list.split)
  moreover have "knows i n t (snd (auth_failed_line i l s))" for l
  proof -
    have u: "knows i n t (update_mc i f x) = knows i n t x"
      if "\<And>mc. mc_replay (f mc) = mc_replay mc" for f and x :: cm_state
      using that by (simp add: knows_def)
    have "knows i n t (print_line x s)" for x using assms by (simp add: knows_def)
    then show ?thesis
      unfolding auth_failed_line_def Let_def snd_conv
      by (subst u, simp) (rule knows_removeConnection, subst u, simp_all)
  qed
  moreover have "knows i n t (print_line x s)" "knows i n t (conn_put k x s)"
    "knows i n t (ClearPing a (update_mc i (\<lambda>mc. mc\<lparr>mc_lastUsed := now\<rparr>) s))" for x k a
    using assms by (simp_all add: knows_def ClearPing_def)
  ultimately show ?thesis using assms by (simp add: readLoop_line_def Let_def)
qed

fun tick_time :: "client_event \<Rightarrow> time option" where
  "tick_time (CTick now) = Some now"
| "tick_time (CLine now raw) = None"

lemma knows_client_event:
  assumes "knows i n t s" and "\<And>now. tick_time e = Some now \<Longrightarrow> now \<le> t + replay_window"
  shows "knows i n t (client_event_op C i e s)"
proof (cases e)
  case (CLine now raw)
  then show ?thesis using knows_readLoop_line [OF assms(1)] by simp
next
  case (CTick now)
  with assms(2) have le: "now \<le> t + replay_window" by simp
  obtain rp where rp: "mc_replay (mcs s i) = Some rp" "replay_ok rp" "rp_maxAge rp = replay_window"
    "map_of (rp_seen rp) n = Some t"
    using assms(1) by (auto simp: knows_def)
  have "map_of (rp_seen (replay_cleanup_tick now rp)) n = Some t"
    using replay.apply_event_keeps [OF rp(2,4), of "(None, now)"] le rp(3) by simp
  then show ?thesis
    using rp replay.ok_sweep [OF rp(2), of now] by (simp add: CTick knows_def replay.sweep_window)
qed




section \<open>Trust on first use\<close>

lemma pinned_begin_fails:
  assumes "map_of (tofuFingerprints s) a = Some g" and "de_certs env = c # cs"
    and "hex_encode (sha256_sum C c) \<noteq> g" and "\<not> mapped (connections s) a"
  shows "\<exists>e. fst (getOrCreate_begin C q env d t a s) = GetFailed (ConnErr e)"
    and "connections (snd (getOrCreate_begin C q env d t a s)) = connections s"
  using dial_peer_pinned [OF assms(1-3), of q] assms(4)
  by (auto simp: getOrCreate_begin_def Let_def)

text \<open>
  C16. A relay whose certificate does not match the fingerprint pinned for its address never gets
  a connection, over QUIC, TCP or the race of both: the attempt is an error and nothing is
  registered.
\<close>

theorem pin_mismatch_never_connects:
  assumes "map_of (tofuFingerprints s) a = Some g" and "de_certs (ns_dial sc) = c # cs"
    and "hex_encode (sha256_sum C c) \<noteq> g" and "\<not> mapped (connections s) a"
  shows "(\<exists>e. fst (GetOrCreate C sc a s) = Inl (ConnErr e)) \<and>
    connections (snd (GetOrCreate C sc a s)) = connections s"
proof -
  obtain e where "fst (getOrCreate_begin C (ns_quic_first sc) (ns_dial sc) (ns_device sc) (ns_now sc) a s) =
      GetFailed (ConnErr e)"
    using pinned_begin_fails(1) [OF assms] by blast
  then show ?thesis
    using pinned_begin_fails(2) [OF assms] by (simp add: GetOrCreate_def Let_def)
qed

definition demo_dial :: dial_env where
  "demo_dial =
     \<lparr>de_tcp = Inr 1, de_quic = Inr 2, de_certs = [''cert''], de_tls_error = None,
      de_stream_error = None, de_store_ok = True\<rparr>"

definition demo_script :: net_script where
  "demo_script =
     \<lparr>ns_quic_first = True, ns_dial = demo_dial, ns_now = 1, ns_device = [],
      ns_lines = [(2, ''AUTH:FAILED|Banned'' @ [newline])]\<rparr>"

theorem pin_mismatch_never_connects_witness:
  "(\<exists>e. fst (GetOrCreate toy demo_script ''r:2'' (demo_client\<lparr>tofuFingerprints := [(''r:2'', ''00'')]\<rparr>)) =
      Inl (ConnErr e))"
proof -
  let ?s = "demo_client\<lparr>tofuFingerprints := [(''r:2'', ''00'')]\<rparr>"
  have "hex_encode (sha256_sum toy ''cert'') \<noteq> ''00''"
  proof
    assume "hex_encode (sha256_sum toy ''cert'') = ''00''"
    then have "length (hex_encode (sha256_sum toy ''cert'')) = 2" by simp
    then show False by (simp add: length_hex_encode toy_def)
  qed
  moreover have "map_of (tofuFingerprints ?s) ''r:2'' = Some ''00''" by simp
  moreover have "\<not> mapped (connections ?s) ''r:2''" by (simp add: demo_client_defs)
  moreover have "de_certs (ns_dial demo_script) = ''cert'' # []" by (simp add: demo_script_def demo_dial_def)
  ultimately show ?thesis using pin_mismatch_never_connects [of ?s "''r:2''" "''00''" demo_script] by blast
qed

text \<open>
  C18. A pin survives a restart: the fingerprint accepted on first contact is written to the known
  peers file, and a fresh connection manager that loads the file pins the same address to it.
\<close>

theorem pin_survives_restart:
  assumes "\<not> mapped (tofuFingerprints s) a" and "tofuPath s \<noteq> []"
    and "checkAndPin True a f s = (None, s1)" and "file_token a" and "file_token f"
    and "tofuFile s = [] \<or> last (tofuFile s) = newline"
    and "list_all (\<lambda>l. length l < max_token) (raw_lines (tofuFile s1))"
  shows "map_of (tofuFingerprints s1) a = Some f \<and>
    map_of (tofuFingerprints (snd (LoadKnownPeers path (FileText (tofuFile s1)) s2))) a = Some f"
proof -
  have "tofuFile s1 = tofuFile s @ (a @ CHR 0x20 # f) @ [newline]"
    using checkAndPin_stored [OF assms(1,2), of f] assms(3) by simp
  then show ?thesis
    using LoadKnownPeers_last_pin [OF assms(4-6)] assms(1,3,7)
    by (auto simp: checkAndPin_def appendKnownPeer_def Let_def)
qed

lemma demo_token: "file_token ''r:2''" "file_token ''ab''"
  by (simp_all add: file_token_def solid_def ascii_space_def)

theorem pin_survives_restart_witness:
  "map_of (tofuFingerprints (snd (LoadKnownPeers ''kp'' (FileText (''r:2 ab'' @ [newline])) fresh_client)))
     ''r:2'' = Some ''ab''"
proof -
  let ?s = "fresh_client\<lparr>tofuPath := ''kp''\<rparr>"
  let ?s1 = "snd (checkAndPin True ''r:2'' ''ab'' ?s)"
  have c: "checkAndPin True ''r:2'' ''ab'' ?s = (None, ?s1)"
    and f: "tofuFile ?s1 = ''r:2 ab'' @ [newline]"
    by (simp_all add: checkAndPin_def appendKnownPeer_def fresh_client_def NewConnectionManager_def Let_def)
  have lines: "list_all (\<lambda>l. length l < max_token) (raw_lines (tofuFile ?s1))"
    unfolding f by (simp add: raw_lines_def max_token_def Let_def)
  have s: "\<not> mapped (tofuFingerprints ?s) ''r:2''" "tofuPath ?s \<noteq> []"
    "tofuFile ?s = [] \<or> last (tofuFile ?s) = newline"
    by (simp_all add: fresh_client_def NewConnectionManager_def)
  show ?thesis
    using pin_survives_restart [OF s(1,2) c demo_token s(3) lines, of "''kp''" fresh_client]
    unfolding f by (rule conjunct2)
qed


section \<open>How a connection attempt ends\<close>



text \<open>
  C20. A refusal by the relay reaches the caller: when the first line of the answer is
  \<open>AUTH:FAILED|reason\<close>, the attempt returns that reason, classified as a ban exactly when it
  mentions one, and the address is not registered.
\<close>

theorem refusal_reaches_caller:
  assumes "getOrCreate_begin C (ns_quic_first sc) (ns_dial sc) (ns_device sc) (ns_now sc) a s = (Started i, s1)"
    and "ns_lines sc = (now, raw) # rest" and "trim_space raw = ''AUTH:FAILED|'' @ reason"
    and "reason \<noteq> []"
  shows "fst (GetOrCreate C sc a s) =
      Inl (AuthErr (AuthError (if contains_str (to_lower reason) ''banned'' then ErrBanned
                               else ErrWrongPassword) reason)) \<and>
    \<not> mapped (connections (snd (GetOrCreate C sc a s))) a"
proof -
  have p: "mc_peerAddr (mcs s1 i) = a"
    using assms(1)
    by (auto simp: getOrCreate_begin_def register_mc_def Let_def newManagedConnection_def
        split: option.splits dial_result.splits if_splits)
  note w = wait_lines_auth_failed [OF assms(3,4) p, of C now rest]
  show ?thesis
    using w unfolding GetOrCreate_def Let_def assms(1,2) fst_conv snd_conv
    by (simp add: getOrCreate_finish_def classify_reason_def split: option.split)
qed

theorem refusal_reaches_caller_witness:
  "fst (GetOrCreate toy demo_script ''r:2'' demo_client) = Inl (AuthErr (AuthError ErrBanned ''Banned''))"
proof -
  have "\<exists>i s1. getOrCreate_begin toy True demo_dial [] 1 ''r:2'' demo_client = (Started i, s1)"
    by (simp add: getOrCreate_begin_def demo_client_defs demo_dial_def dial_peer_def dialQUICPeer_def
        handshake_def verify_certificates_def checkAndPin_def conn_write_def writable_def)
  then obtain i s1 where
    "getOrCreate_begin toy (ns_quic_first demo_script) (ns_dial demo_script) (ns_device demo_script)
       (ns_now demo_script) ''r:2'' demo_client = (Started i, s1)"
    by (auto simp: demo_script_def)
  moreover have "trim_space (''AUTH:FAILED|Banned'' @ [newline]) = ''AUTH:FAILED|'' @ ''Banned''"
    by code_simp
  moreover have "contains_str (to_lower ''Banned'') ''banned''" by code_simp
  ultimately show ?thesis
    using refusal_reaches_caller [of toy demo_script "''r:2''" demo_client i s1 2
        "''AUTH:FAILED|Banned'' @ [newline]" "[]" "''Banned''"]
    by (simp add: demo_script_def)
qed


section \<open>The outbound queue\<close>

lemma fold_enqueue_text:
  assumes "\<not> mc_done (mcs s i)" and "length (mc_out (mcs s i)) + length ms \<le> OutboundQueueSize"
  shows "mc_out (mcs (fold (\<lambda>m s. snd (enqueue_at i m s)) ms s) i) = mc_out (mcs s i) @ ms \<and>
    conns (fold (\<lambda>m s. snd (enqueue_at i m s)) ms s) = conns s \<and>
    mc_conn (mcs (fold (\<lambda>m s. snd (enqueue_at i m s)) ms s) i) = mc_conn (mcs s i)"
  using assms
proof (induction ms arbitrary: s)
  case Nil
  then show ?case by simp
next
  case (Cons m ms)
  then show ?case
    using Cons.IH [of "snd (enqueue_at i m s)"]
    by (simp add: enqueue_at_def Let_def mc_enqueue_def)
qed

text \<open>
  The writer loses and reorders nothing: messages queued on an open connection, at most as
  many as fit, reach the transport with the next batch in the order they were queued, after
  everything queued before.
\<close>

theorem writer_keeps_order:
  assumes "\<not> mc_done (mcs s i)" and "length (mc_out (mcs s i)) + length ms \<le> 1024"
    and "writable (mc_conn (mcs s i)) s"
    and "s1 = fold (\<lambda>m s. snd (enqueue_at i m s)) ms s"
  shows "concat (c_sent (conns (snd (write_batch i s1)) (mc_conn (mcs s i)))) =
      concat (c_sent (conns s (mc_conn (mcs s i)))) @ concat (mc_out (mcs s i)) @ concat ms \<and>
    mc_out (mcs (snd (write_batch i s1)) i) = []"
proof -
  have q: "mc_out (mcs s1 i) = mc_out (mcs s i) @ ms" "conns s1 = conns s"
    "mc_conn (mcs s1 i) = mc_conn (mcs s i)"
    using fold_enqueue_text [of s i ms] assms by (simp_all add: OutboundQueueSize_def)
  have w: "writable (mc_conn (mcs s1 i)) s1" using assms(3) by (simp add: writable_def q)
  have "mc_conn (mcs (snd (write_batch i s1)) i) = mc_conn (mcs s1 i)"
    using w by (simp add: write_batch_def Let_def mc_drain_def)
  then show ?thesis
    using write_batch_text [OF w] by (simp add: accepted_text_def q)
qed

theorem writer_keeps_order_witness:
  "concat (c_sent (conns (snd (write_batch 0 (fold (\<lambda>m s. snd (enqueue_at 0 m s)) [''a'', ''b''] demo_client))) 0)) =
     ''ab''"
proof -
  have "\<not> mc_done (mcs demo_client 0)" "mc_out (mcs demo_client 0) = []"
    "mc_conn (mcs demo_client 0) = 0" "writable 0 demo_client" "c_sent (conns demo_client 0) = []"
    by (simp_all add: demo_client_defs writable_def)
  then show ?thesis using writer_keeps_order [of demo_client 0 "[''a'', ''b'']"] by simp
qed


section \<open>The health check\<close>




section \<open>Names\<close>

text \<open>
  A generated alias is safe in every protocol field: it is an adjective, a noun and a number
  from 1 to 999, made of letters and digits only, and sanitising leaves it as it is; the colour
  of any name is one of the palette's.
\<close>

theorem generated_alias_safe:
  "(\<exists>a n k. generateAlias d1 d2 d3 = a @ n @ nat_str k \<and> a \<in> set aliasAdjectives \<and>
     n \<in> set aliasNouns \<and> 1 \<le> k \<and> k \<le> 999) \<and>
   sanitiseField (generateAlias d1 d2 d3) = generateAlias d1 d2 d3 \<and>
   getUsernameColor (generateAlias d1 d2 d3) \<in> set usernameColors"
proof -
  have "c \<notin> set (generateAlias d1 d2 d3)" if "c \<in> {pipe, newline, carriage_return}" for c
    using generateAlias_chars [of d1 d2 d3] that
    by (auto simp: letter_def is_digit_def)
  then show ?thesis
    using generateAlias_parts getUsernameColor_in by (simp add: sanitiseField_id)
qed

end
