(* ===== verification/App_Properties.thy ===== *)
theory App_Properties
  imports App Client_Properties
begin

text \<open>
  The properties of the command-line application and of its shut-down.
\<close>

section \<open>Arguments\<close>

lemma parse_flag_port [simp]: "o_relayPort (parse_flag a opt) = o_relayPort opt"
  by (simp add: parse_flag_def)

lemma parsePortArg_bound: "parsePortArg v = Inr p \<Longrightarrow> 0 \<le> p \<and> p \<le> 65535"
  by (auto simp: parsePortArg_def split: option.splits if_splits)

lemma parse_value_port:
  "parse_value a v opt = Inr opt' \<Longrightarrow> 0 \<le> o_relayPort opt \<and> o_relayPort opt \<le> 65535 \<Longrightarrow>
     0 \<le> o_relayPort opt' \<and> o_relayPort opt' \<le> 65535"
  by (auto simp: parse_value_def dest: parsePortArg_bound
      split: if_splits option.splits sum.splits)

text \<open>
  The program never starts with a bad relay port: whenever the arguments are accepted, the
  relay port is between 0 and 65535, whatever they are.
\<close>

theorem accepted_args_have_valid_port:
  assumes "parse_args args opt = Inr opt'" and "0 \<le> o_relayPort opt" and "o_relayPort opt \<le> 65535"
  shows "0 \<le> o_relayPort opt' \<and> o_relayPort opt' \<le> 65535"
  using assms
proof (induction args opt arbitrary: opt' rule: parse_args.induct)
  case (1 opt)
  then show ?case by simp
next
  case (2 a opt)
  then show ?case by (auto split: if_splits)
next
  case (3 a b rest opt)
  show ?case
  proof (cases "takes_value a")
    case True
    with "3.prems"(1) obtain o1 where "parse_value a b opt = Inr o1" "parse_args rest o1 = Inr opt'"
      by (auto split: sum.splits)
    with "3.IH"(1) [OF True] parse_value_port [of a b opt o1] "3.prems"(2,3) show ?thesis by blast
  next
    case False
    with "3.IH"(2) [OF False] "3.prems" show ?thesis by simp
  qed
qed

theorem accepted_args_have_valid_port_witness:
  "\<exists>opt'. parse_args [''--relay'', ''--relay-port'', ''19''] default_options = Inr opt' \<and>
     0 \<le> o_relayPort opt' \<and> o_relayPort opt' \<le> 65535"
proof -
  have "parsePortArg ''19'' = Inr 19" by code_simp
  then obtain opt' where p: "parse_args [''--relay'', ''--relay-port'', ''19''] default_options = Inr opt'"
    by (simp add: takes_value_def parse_value_def)
  have "0 \<le> o_relayPort default_options" "o_relayPort default_options \<le> 65535"
    by (simp_all add: default_options_def)
  from accepted_args_have_valid_port [OF p this] p show ?thesis by blast
qed


section \<open>Shut-down\<close>

text \<open>A transport that is closed takes no more text, whatever the relay does.\<close>

definition silent :: "nat \<Rightarrow> string list \<Rightarrow> server \<Rightarrow> bool" where
  "silent c out s \<longleftrightarrow> c_closed (conns s c) \<and> c_sent (conns s c) = out"

lemma silent_ops [simp]:
  "silent c out s \<Longrightarrow> silent c out (conn_put d m s)"
  "silent c out s \<Longrightarrow> silent c out (conn_close d s)"
  "silent c out s \<Longrightarrow> silent c out (show_ui e s)"
  "silent c out (update_room r f s) = silent c out s"
  by (auto simp: silent_def conn_write_def conn_close_def writable_def)

lemma silent_removeConnection [simp]:
  "silent c out s \<Longrightarrow> silent c out (snd (removeConnection a s))"
  by (auto simp: silent_def removeConnection_conns split: option.split)

lemma silent_broadcast [simp]: "silent c out s \<Longrightarrow> silent c out (broadcastToRoom r a m s)"
  by (simp add: silent_def broadcast_closed_conn)

lemma silent_notify [simp]: "silent c out s \<Longrightarrow> silent c out (notify_system C t m s)"
  by (simp add: notify_system_def Let_def silent_def)

lemma silent_drop [simp]: "silent c out s \<Longrightarrow> silent c out (drop_empty_room r s)"
  by (simp add: drop_empty_room_def Let_def silent_def split: option.split)

lemma silent_disconnect [simp]: "silent c out s \<Longrightarrow> silent c out (disconnect_peer p s)"
  by (simp add: disconnect_peer_def Let_def)

lemma silent_removePeer [simp]: "silent c out s \<Longrightarrow> silent c out (removePeer C t p s)"
  by (simp add: removePeer_def leave_room_def Let_def split: option.split)

lemma silent_removePeer_locked [simp]:
  "silent c out s \<Longrightarrow> silent c out (snd (removePeer_locked C t p s))"
  by (simp add: removePeer_locked_def leave_room_def Let_def split: option.split)

lemma silent_close_members [simp]:
  "silent c out s \<Longrightarrow> silent c out (snd (close_members C t ps s))"
  by (induction C t ps s rule: close_members.induct) (simp_all add: Let_def)

lemma silent_close_rooms [simp]: "silent c out s \<Longrightarrow> silent c out (snd (close_rooms C t rs s))"
  by (induction C t rs s rule: close_rooms.induct) (simp_all add: Let_def)

lemma silent_Server_Close: "silent c out s \<Longrightarrow> silent c out (snd (Server_Close C t s))"
  unfolding Server_Close_def close_notify_def Let_def
  by (rule silent_close_rooms) (rule fold_preserves, auto)

lemma close_entry_conns:
  "conns (close_entry e s) =
     (conns s)(mc_conn (mcs s (snd e)) := (conns s (mc_conn (mcs s (snd e))))\<lparr>c_closed := True\<rparr>)"
  "mc_conn (mcs (close_entry e s) i) = mc_conn (mcs s i)"
  by (simp_all add: close_entry_def Let_def conn_close_def signalClosed_def)

lemma fold_close_silent:
  assumes "silent c out s"
  shows "silent c out (fold close_entry es s)"
  using assms
  by (rule fold_preserves) (auto simp: silent_def close_entry_conns)

lemma cm_Close_silent:
  assumes "(a, i) \<in> set es" and "c = mc_conn (mcs s i)"
  shows "silent c (c_sent (conns s c)) (fold close_entry es s)"
  using assms
proof (induction es arbitrary: s)
  case Nil
  then show ?case by simp
next
  case (Cons e es)
  show ?case
  proof (cases "e = (a, i)")
    case True
    then have "silent c (c_sent (conns s c)) (close_entry e s)"
      using Cons.prems(2) by (simp add: silent_def close_entry_conns)
    then show ?thesis by (simp add: fold_close_silent)
  next
    case False
    then have "(a, i) \<in> set es" using Cons.prems(1) by auto
    moreover have "c = mc_conn (mcs (close_entry e s) i)"
      using Cons.prems(2) by (simp add: close_entry_conns)
    ultimately have "silent c (c_sent (conns (close_entry e s) c)) (fold close_entry es (close_entry e s))"
      by (rule Cons.IH)
    moreover have "c_sent (conns (close_entry e s) c) = c_sent (conns s c)"
      by (simp add: close_entry_conns)
    ultimately show ?thesis by simp
  qed
qed

text \<open>
  Shut-down cuts the peers off without a word: the connection manager closes the registered
  transports before the server sends its shut-down notice, so no registered peer receives one.
\<close>

theorem shutdown_sends_nothing:
  assumes "map_of (connections (a_srv app)) a = Some i" and "c = mc_conn (mcs (a_srv app) i)"
  shows "c_sent (conns (a_srv (shutdown C now E app)) c) = c_sent (conns (a_srv app) c) \<and>
    (a_down app \<or> c_closed (conns (a_srv (shutdown C now E app)) c))"
proof (cases "a_down app")
  case False
  have "silent c (c_sent (conns (a_srv app) c)) (cm_Close (a_srv app))"
    unfolding cm_Close_def using assms by (intro cm_Close_silent [of a i]) (auto dest: map_of_SomeD)
  then have "silent c (c_sent (conns (a_srv app) c)) (snd (Server_Close C now (cm_Close (a_srv app))))"
    by (rule silent_Server_Close)
  then show ?thesis using False by (simp add: shutdown_def Let_def silent_def)
qed (simp add: shutdown_def)

definition demo_app :: app where
  "demo_app =
     \<lparr>a_srv = demo, a_roomName = ''lobby'', a_roomPassword = ''pw'', a_isPrivate = False,
      a_isRelay = True, a_isCreatingRoom = True, a_discovery = None, a_externalAddr = [],
      a_mapping = None, a_leases = [], a_files = (\<lambda>_. None), a_out = [], a_exit = False,
      a_down = False\<rparr>"

theorem shutdown_sends_nothing_witness:
  "c_sent (conns (a_srv (shutdown toy 5 demo_gateways demo_app)) 1) = [] \<and>
   c_closed (conns (a_srv (shutdown toy 5 demo_gateways demo_app)) 1)"
proof -
  have "map_of (connections (a_srv demo_app)) ''b:2'' = Some 1" "1 = mc_conn (mcs (a_srv demo_app) 1)"
    "c_sent (conns (a_srv demo_app) 1) = []" "\<not> a_down demo_app"
    by (simp_all add: demo_app_def demo_defs)
  then show ?thesis
    using shutdown_sends_nothing [of demo_app "''b:2''" 1 1 toy 5 demo_gateways] by simp
qed


section \<open>The server's own close\<close>

lemma leave_room_frame [simp]:
  "peerHeap (leave_room p r s) = peerHeap s" "nextRoom (leave_room p r s) = nextRoom s"
  by (simp_all add: leave_room_def)

lemma drop_empty_room_frame [simp]:
  "peerHeap (drop_empty_room r s) = peerHeap s" "nextRoom (drop_empty_room r s) = nextRoom s"
  by (simp_all add: drop_empty_room_def Let_def split: option.split)

lemma disconnect_peer_frame [simp]:
  "peerHeap (disconnect_peer p s) = peerHeap s" "nextRoom (disconnect_peer p s) = nextRoom s"
  by (simp_all add: disconnect_peer_def Let_def)

lemma removePeer_peers [simp]:
  "peerHeap (removePeer C t p s) = peerHeap s" "nextRoom (removePeer C t p s) = nextRoom s"
  by (simp_all add: removePeer_def Let_def split: option.split)

lemma close_members_blocks:
  assumes "rooms_ok C s" and "r < nextRoom s" and "r_name (roomHeap s r) \<noteq> []"
    and "room_members r s = p # ps" and "\<forall>q \<in> set (p # ps). p_room (peerHeap s q) = Some r"
  shows "\<not> fst (close_members C t (p # ps) s)"
  using assms
proof (induction ps arbitrary: s p)
  case (Nil s p)
  have rm: "room_ok C s (roomHeap s r)" using rooms_okD(2) [OF Nil.prems(1,2)] .
  obtain a where a: "r_peers (roomHeap s r) = [(a, p)]"
    using Nil.prems(4) by (auto simp: room_members_def map_eq_Cons_conv)
  then have "a = p_addr (peerHeap s p)" using rm by (simp add: room_ok_def)
  then have "r_peers (roomHeap (leave_room p r s) r) = []" "r_name (roomHeap (leave_room p r s) r) \<noteq> []"
    using Nil.prems(3) by (simp_all add: leave_room_def a Let_def)
  then show ?case using Nil.prems(5) by (simp add: removePeer_locked_def Let_def)
next
  case (Cons q ps s p)
  have rm: "room_ok C s (roomHeap s r)" using rooms_okD(2) [OF Cons.prems(1,2)] .
  obtain a m where m: "r_peers (roomHeap s r) = (a, p) # m" "map snd m = q # ps"
    using Cons.prems(4) by (auto simp: room_members_def map_eq_Cons_conv)
  have a: "a = p_addr (peerHeap s p)" and "a \<notin> fst ` set m"
    using rm by (auto simp: room_ok_def gomap_def m)
  then have d: "AList.delete (p_addr (peerHeap s p)) (r_peers (roomHeap s r)) = m"
    by (simp add: m(1) delete_id)
  have pr: "p_room (peerHeap s p) = Some r" using Cons.prems(5) by simp
  have l: "r_peers (roomHeap (leave_room p r s) r) = m" by (simp add: leave_room_def d Let_def)
  let ?s = "removePeer C t p s"
  have h: "roomHeap ?s = roomHeap (leave_room p r s)" by (rule removePeer_rooms [OF pr])
  have "removePeer_locked C t p s = (True, ?s)"
    using m(2) by (auto simp: removePeer_locked_def pr l Let_def)
  moreover have "\<not> fst (close_members C t (q # ps) ?s)"
  proof (rule Cons.IH)
    show "r_name (roomHeap ?s r) \<noteq> []" using Cons.prems(3) by (simp add: h leave_room_def Let_def)
    show "room_members r ?s = q # ps" using m(2) by (simp add: room_members_def h l)
  qed (use Cons.prems in simp_all)
  ultimately show ?case by simp
qed




section \<open>What modelling showed about the prompt and the retry\<close>

text \<open>
  A typed room name that is not a listed number is not created: the selection does not say so,
  and without a peer the main loop returns to the prompt.
\<close>

lemma typed_name_creates_no_room:
  assumes "choice \<notin> {''q'', ''Q'', ''n'', ''N'', ''p'', ''P''}" and "sscanf_d choice = None"
  shows "\<not> sel_isCreatingRoom (fst (select_from found choice inputs)) \<and>
    sel_roomName (fst (select_from found choice inputs)) = choice"
  using assms by (simp add: select_from_def ask_password_def Let_def no_selection_def)

text \<open>A refusal because the alias is taken is reported to the user as a wrong password.\<close>

lemma alias_refusal_is_wrong_password:
  "classify_reason ''Alias already in use'' = AuthError ErrWrongPassword ''Alias already in use''"
  by code_simp

end
