(* ===== verification/Main_Loop.thy ===== *)
theory Main_Loop
  imports App_Properties
begin

text \<open>
  The loop of \<open>main\<close>: each round asks for a room, starts a session (manager, server, discovery,
  port mapping), connects, runs the commands and shuts the session down.  The process's state
  between rounds is \<open>main_state\<close>; what the environment does in a round is \<open>round_env\<close>.  Standard
  input is a terminal: a read returns one line.
\<close>

section \<open>State and rounds\<close>

record round_env =
  re_signal :: bool
  re_found :: "room_info list"
  re_get :: "string \<Rightarrow> http_response"
  re_parse :: "string \<Rightarrow> string list option"
  re_init :: init_env
  re_net :: "nat \<Rightarrow> string \<Rightarrow> net_script"
  re_lookup :: "string list"
  re_public_ip :: string
  re_cli :: "nat \<Rightarrow> cli_env"
  re_between :: "nat \<Rightarrow> server \<Rightarrow> server"
  re_end :: time

text \<open>
  \<open>ms_registrations\<close> are the rendezvous registrations (server, room, address) whose renewal
  goroutine runs, \<open>ms_sessions\<close> the sessions that ended, the latest first.
\<close>

record main_state =
  ms_net :: net
  ms_files :: files
  ms_leases :: "lease list"
  ms_racePrinted :: bool
  ms_registrations :: "(string \<times> string \<times> string) list"
  ms_sessions :: "app list"

definition peers_to_connect :: "options \<Rightarrow> round_env \<Rightarrow> room_selection \<Rightarrow> string list" where
  "peers_to_connect opt re sel =
     (if o_rendezvousURL opt = [] then sel_peers sel
      else (case FetchPeers (re_get re) (re_parse re) (o_rendezvousURL opt) (sel_roomName sel) of
              Inl e \<Rightarrow> sel_peers sel
            | Inr ps \<Rightarrow> sel_peers sel @ ps))"

text \<open>A started session and the race flag, which is set once per process.\<close>

definition start_session ::
    "crypto \<Rightarrow> options \<Rightarrow> round_env \<Rightarrow> room_selection \<Rightarrow> main_state
     \<Rightarrow> (init_error + app) \<times> main_state" where
  "start_session C opt re sel ms =
     (let i = initializeApp C (re_init re) opt sel (o_isRelay opt \<and> sel_isCreatingRoom sel)
                (ms_net ms) (ms_files ms) (ms_leases ms);
          ms1 = ms\<lparr>ms_files := fst (snd i), ms_leases := snd (snd i)\<rparr>
      in case fst i of
           Inl e \<Rightarrow> (Inl e, ms1)
         | Inr app \<Rightarrow>
             if o_race opt \<and> \<not> ms_racePrinted ms1
             then (Inr (app\<lparr>a_srv := (a_srv app)\<lparr>raceTransports := True\<rparr>\<rparr>), ms1\<lparr>ms_racePrinted := True\<rparr>)
             else (Inr app, ms1))"

definition public_address :: "round_env \<Rightarrow> app \<Rightarrow> string" where
  "public_address re app =
     (if a_externalAddr app \<noteq> [] then a_externalAddr app
      else if re_public_ip re \<noteq> [] then external_addr (re_public_ip re) (serverPort (a_srv app))
      else external_addr ''?'' (serverPort (a_srv app)))"

definition register_room :: "options \<Rightarrow> round_env \<Rightarrow> app \<Rightarrow> main_state \<Rightarrow> main_state" where
  "register_room opt re app ms =
     (if o_rendezvousURL opt \<noteq> [] \<and> \<not> a_isPrivate app
      then ms\<lparr>ms_registrations := ms_registrations ms @
                 [(o_rendezvousURL opt, a_roomName app, public_address re app)]\<rparr>
      else ms)"

definition end_session :: "crypto \<Rightarrow> round_env \<Rightarrow> app \<Rightarrow> main_state \<Rightarrow> main_state" where
  "end_session C re app ms =
     (let app1 = shutdown C (re_end re) (ie_gateways (re_init re)) app
      in ms\<lparr>ms_net := net.truncate (a_srv app1), ms_files := a_files app1, ms_leases := a_leases app1,
            ms_sessions := app1 # ms_sessions ms\<rparr>)"

text \<open>The first component of the result is whether the program ends.\<close>

definition main_round ::
    "crypto \<Rightarrow> options \<Rightarrow> round_env \<Rightarrow> string list \<Rightarrow> main_state \<Rightarrow> (bool \<times> string list) \<times> main_state" where
  "main_round C opt re inputs ms =
     (if re_signal re then ((True, inputs), ms)
      else
        (let p = promptRoomSelection (re_found re) inputs; sel = fst p
         in if sel_quit sel then ((True, snd p), ms)
            else
              (let st = start_session C opt re sel ms
               in case fst st of
                    Inl e \<Rightarrow> ((False, snd p), snd st)
                  | Inr app \<Rightarrow>
                      (let t = tryConnect C (re_net re) (re_lookup re) (snd p) (peers_to_connect opt re sel) app
                       in if \<not> fst (fst t) then ((False, snd (fst t)), end_session C re (snd t) (snd st))
                          else
                            (let ms1 = register_room opt re (snd t) (snd st)
                             in case after_connect (o_isRelay opt) (snd t) of
                                  EnterCLI \<Rightarrow>
                                    (let r = runCLI C (re_cli re) (re_between re) 0 (snd (fst t)) (snd t)
                                     in ((a_exit (snd r), fst r), end_session C re (snd r) ms1))
                                | BackToSelection \<Rightarrow>
                                    ((False, snd (fst t)), end_session C re (snd t) ms1))))))"

fun main_loop ::
    "crypto \<Rightarrow> options \<Rightarrow> round_env list \<Rightarrow> string list \<Rightarrow> main_state \<Rightarrow> (bool \<times> string list) \<times> main_state" where
  "main_loop C opt [] inputs ms = ((False, inputs), ms)"
| "main_loop C opt (re # rest) inputs ms =
     (let r = main_round C opt re inputs ms
      in if fst (fst r) then r else main_loop C opt rest (snd (fst r)) (snd r))"


section \<open>What the commands leave alone\<close>

text \<open>The fields of the application that only set-up and shut-down write.\<close>

definition session_part :: "app \<Rightarrow> lease option \<times> lease list \<times> bool \<times> bool" where
  "session_part app = (a_mapping app, a_leases app, a_isPrivate app, a_down app)"

lemma session_part_simps [simp]:
  "session_part (app\<lparr>a_srv := s\<rparr>) = session_part app"
  "session_part (app\<lparr>a_files := fs\<rparr>) = session_part app"
  "session_part (app\<lparr>a_exit := b\<rparr>) = session_part app"
  "session_part (app\<lparr>a_roomPassword := pw\<rparr>) = session_part app"
  "session_part (say out app) = session_part app"
  by (simp_all add: session_part_def say_def)

lemma exit_simps [simp]: "a_exit (say out app) = a_exit app"
  by (simp add: say_def)

lemma connect_all_part [simp]:
  "session_part (snd (connect_all C net as t app)) = session_part app"
  "a_exit (snd (connect_all C net as t app)) = a_exit app"
  by (induction C net as t app rule: connect_all.induct) (auto simp: Let_def split: sum.split)

lemma set_password_part [simp]:
  "session_part (set_password C pw app) = session_part app" "a_exit (set_password C pw app) = a_exit app"
  by (simp_all add: set_password_def Let_def session_part_def)

lemma retry_loop_part [simp]:
  "session_part (snd (retry_loop C net k peers ls app)) = session_part app"
  "a_exit (snd (retry_loop C net k peers ls app)) = a_exit app"
  by (induction C net k peers ls app rule: retry_loop.induct) (simp_all add: Let_def)

lemma tryConnect_part [simp]:
  "session_part (snd (tryConnect C net lookup ls peers app)) = session_part app"
  "a_exit (snd (tryConnect C net lookup ls peers app)) = a_exit app"
  by (simp_all add: tryConnect_def Let_def)


lemma send_each_part [simp]:
  "session_part (snd (send_each C ce m peers app)) = session_part app"
  "a_exit (snd (send_each C ce m peers app)) = a_exit app"
proof -
  let ?f = "\<lambda>a (n, ap). let w = Send C (ce_send ce a) a m (a_srv ap)
         in (if fst w then Suc n else n, ap\<lparr>a_srv := snd w\<rparr>)"
  have "session_part (snd (fold ?f peers x)) = session_part (snd x) \<and>
      a_exit (snd (fold ?f peers x)) = a_exit (snd x)" for x
    by (induction peers arbitrary: x) (simp_all add: case_prod_beta Let_def)
  then show "session_part (snd (send_each C ce m peers app)) = session_part app"
    "a_exit (snd (send_each C ce m peers app)) = a_exit app"
    by (simp_all add: send_each_def)
qed

lemma sendToRoom_part [simp]: "session_part (sendToRoom C ce m app) = session_part app"
  by (simp add: sendToRoom_def Let_def)

lemma ask_relay_part [simp]: "session_part (ask_relay C ce what l app) = session_part app"
  by (simp add: ask_relay_def Let_def split: list.split)

lemma moderation_part [simp]:
  "session_part (kickPeer C ce al app) = session_part app"
  "session_part (banPeer C ce al app) = session_part app"
  "session_part (unbanPeer C ce al app) = session_part app"
  by (simp_all add: kickPeer_def banPeer_def unbanPeer_def split: option.split list.split)

lemma connectTo_part [simp]: "session_part (connectTo C ce a m app) = session_part app"
  by (simp add: connectTo_def Let_def split: sum.split)

lemma change_nick_part [simp]: "session_part (change_nick ce al app) = session_part app"
  by (simp add: change_nick_def Let_def session_part_def say_def)

lemma run_command_part [simp]: "session_part (run_command C ce c app) = session_part app"
  by (simp add: run_command_def listPeers_def showRoomInfo_def showPublicIP_def
      split: command.split option.split)

lemma runCLI_part [simp]:
  "session_part (snd (runCLI C ce between k ls app)) = session_part app"
  by (induction C ce between k ls app rule: runCLI.induct) (simp_all add: Let_def)


section \<open>A session that ended\<close>

text \<open>After \<open>cm_Close\<close> the registry is empty and the server's close registers nothing.\<close>

lemma no_conns_ops [simp]:
  "connections s = [] \<Longrightarrow> connections (disconnect_peer p s) = []"
  "connections (notify_system C t m s) = connections s"
  "connections (drop_empty_room r s) = connections s"
  by (simp_all add: disconnect_peer_def notify_system_def drop_empty_room_def show_ui_def Let_def split: option.split)

lemma no_conns_removePeer [simp]:
  "connections s = [] \<Longrightarrow> connections (removePeer C t p s) = []"
  "connections s = [] \<Longrightarrow> connections (snd (removePeer_locked C t p s)) = []"
  by (simp_all add: removePeer_def removePeer_locked_def leave_room_def Let_def split: option.split)

lemma no_conns_close_members [simp]:
  "connections s = [] \<Longrightarrow> connections (snd (close_members C t ps s)) = []"
  by (induction C t ps s rule: close_members.induct) (simp_all add: Let_def)

lemma no_conns_close_rooms [simp]:
  "connections s = [] \<Longrightarrow> connections (snd (close_rooms C t rs s)) = []"
  by (induction C t rs s rule: close_rooms.induct) (simp_all add: Let_def)

lemma Server_Close_no_conns: "connections s = [] \<Longrightarrow> connections (snd (Server_Close C t s)) = []"
  by (simp add: Server_Close_def close_notify_def Let_def)

definition ended :: "app \<Rightarrow> bool" where
  "ended app \<longleftrightarrow> a_down app \<and> connections (a_srv app) = [] \<and>
     (case a_discovery app of None \<Rightarrow> True | Some ds \<Rightarrow> ds_stopped ds)"

lemma ended_shutdown: "\<not> a_down app \<Longrightarrow> ended (shutdown C t E app)"
  by (simp add: shutdown_def Let_def ended_def Server_Close_no_conns cm_Close_empty ds_Shutdown_def
      split: option.split)

text \<open>A running session holds exactly the mapping its cleanup will remove.\<close>

definition session_ok :: "gateway_env \<Rightarrow> app \<Rightarrow> bool" where
  "session_ok E app \<longleftrightarrow> \<not> a_down app \<and>
     (case a_mapping app of
        None \<Rightarrow> a_leases app = []
      | Some l \<Rightarrow> mapping_cleanup E l (a_leases app) = [])"

lemma session_ok_part: "session_part a = session_part b \<Longrightarrow> session_ok E a = session_ok E b"
  by (cases "a_mapping b") (simp_all add: session_ok_def session_part_def)

lemma shutdown_leases: "session_ok E app \<Longrightarrow> a_leases (shutdown C t E app) = []"
  by (auto simp: shutdown_def session_ok_def Let_def split: option.splits)

lemma request_mapping_leases:
  assumes "deletes_work G"
  shows "case fst (request_mapping G w port []) of
      None \<Rightarrow> snd (request_mapping G w port []) = []
    | Some r \<Rightarrow> mapping_cleanup G (snd r) (snd (request_mapping G w port [])) = []"
  using port_mapping_leases [OF assms, of port]
  by (auto simp: request_mapping_def split: option.splits)

lemma initializeApp_leases:
  assumes "deletes_work (ie_gateways E)" and "ie_listening E"
  shows "case fst (initializeApp C E opt sel isRelay n fs []) of
      Inl e \<Rightarrow> snd (snd (initializeApp C E opt sel isRelay n fs [])) = []
    | Inr app \<Rightarrow> session_ok (ie_gateways E) app"
proof (cases "fst (start_server C E opt sel n fs)")
  case (Inl e)
  then show ?thesis by (simp add: initializeApp_def Let_def)
next
  case (Inr s)
  let ?m = "request_mapping (ie_gateways E) (isRelay \<and> o_upnp opt) (serverPort s) []"
  have "case fst ?m of None \<Rightarrow> snd ?m = [] | Some r \<Rightarrow> mapping_cleanup (ie_gateways E) (snd r) (snd ?m) = []"
    using request_mapping_leases [OF assms(1)] .
  then show ?thesis
    using assms(2)
    by (cases "fst ?m") (simp_all add: initializeApp_def Inr Let_def session_ok_def NewDiscoveryService_def)
qed

lemma start_session_leases:
  assumes "deletes_work (ie_gateways (re_init re))" and "ie_listening (re_init re)" and "ms_leases ms = []"
  shows "case fst (start_session C opt re sel ms) of
      Inl e \<Rightarrow> ms_leases (snd (start_session C opt re sel ms)) = []
    | Inr app \<Rightarrow> session_ok (ie_gateways (re_init re)) app"
    and "ms_sessions (snd (start_session C opt re sel ms)) = ms_sessions ms"
  using initializeApp_leases [OF assms(1,2), of C opt sel "o_isRelay opt \<and> sel_isCreatingRoom sel"
      "ms_net ms" "ms_files ms"] assms(3)
  by (auto simp: start_session_def Let_def session_ok_def split: sum.splits option.splits)

lemma end_session_clean:
  assumes "session_ok (ie_gateways (re_init re)) app"
  shows "ms_leases (end_session C re app ms) = []"
    and "\<exists>a. ms_sessions (end_session C re app ms) = a # ms_sessions ms \<and> ended a"
  using assms shutdown_leases [OF assms] ended_shutdown [of app]
  by (simp_all add: end_session_def Let_def session_ok_def)

definition main_clean :: "main_state \<Rightarrow> bool" where
  "main_clean ms \<longleftrightarrow> ms_leases ms = [] \<and> (\<forall>app \<in> set (ms_sessions ms). ended app)"

lemma main_clean_end_session:
  assumes "session_ok (ie_gateways (re_init re)) app" and "\<forall>a \<in> set (ms_sessions ms). ended a"
  shows "main_clean (end_session C re app ms)"
  using end_session_clean [OF assms(1), of C ms] assms(2) by (auto simp: main_clean_def)

lemma main_clean_round:
  assumes "deletes_work (ie_gateways (re_init re))" and "ie_listening (re_init re)" and "main_clean ms"
  shows "main_clean (snd (main_round C opt re inputs ms))"
proof (cases "re_signal re \<or> sel_quit (fst (promptRoomSelection (re_found re) inputs))")
  case True
  then show ?thesis using assms(3) by (auto simp: main_round_def Let_def)
next
  case False
  let ?p = "promptRoomSelection (re_found re) inputs"
  let ?st = "start_session C opt re (fst ?p) ms"
  have l: "ms_leases ms = []" and d: "\<forall>a \<in> set (ms_sessions ms). ended a"
    using assms(3) by (simp_all add: main_clean_def)
  note st = start_session_leases [OF assms(1,2) l, of C opt "fst ?p"]
  show ?thesis
  proof (cases "fst ?st")
    case (Inl e)
    then show ?thesis using False st d by (simp add: main_round_def Let_def main_clean_def)
  next
    case (Inr app)
    let ?t = "tryConnect C (re_net re) (re_lookup re) (snd ?p) (peers_to_connect opt re (fst ?p)) app"
    let ?r = "runCLI C (re_cli re) (re_between re) 0 (snd (fst ?t)) (snd ?t)"
    have ok: "session_ok (ie_gateways (re_init re)) app" using st(1) Inr by simp
    have okt: "session_ok (ie_gateways (re_init re)) (snd ?t)"
      using ok session_ok_part [OF tryConnect_part(1)] by blast
    have okr: "session_ok (ie_gateways (re_init re)) (snd ?r)"
      using okt session_ok_part [OF runCLI_part] by blast
    have reg: "ms_sessions (register_room opt re a (snd ?st)) = ms_sessions ms" for a
      using st(2) by (simp add: register_room_def)
    show ?thesis
      using False okt okr d st(2) reg
      by (simp add: main_round_def Inr Let_def main_clean_end_session split: main_next.split)
  qed
qed

lemma NewServer_port: "NewServer q t om osm g cm = Inr s \<Longrightarrow> q = Some (serverPort s)"
  by (auto simp: NewServer_def cm_state.defs server.defs split: option.splits if_splits)

lemma start_server_port:
  assumes "ie_quic_port E = Some port" and "ie_tcp_ok E"
  shows "\<exists>s. fst (start_server C E opt sel n fs) = Inr s \<and> serverPort s = port"
proof -
  define cm where "cm = (case ie_known_peers E of
      None \<Rightarrow> fst (start_manager C (ie_os E) (ie_device_rnd E) (ie_alias E) n 0 (sel_roomName sel)
                (o_useTCP opt) (sel_roomPassword sel) [] fs)
    | Some (path, content) \<Rightarrow> snd (LoadKnownPeers path content
        (fst (start_manager C (ie_os E) (ie_device_rnd E) (ie_alias E) n 0 (sel_roomName sel)
                (o_useTCP opt) (sel_roomPassword sel) [] fs))))"
  obtain s0 where s0: "NewServer (ie_quic_port E) (ie_tcp_ok E) True True True cm = Inr s0"
    using assms by (simp add: NewServer_def)
  have p: "serverPort s0 = port" using NewServer_port [OF s0] assms(1) by simp
  show ?thesis
    using s0 p by (simp add: start_server_def cm_def [symmetric] Let_def CreateRoom_def UpdateRoomKeys_def)
qed

lemma initializeApp_no_race:
  assumes "fst (initializeApp C E opt sel isRelay n fs ls) = Inr app"
  shows "\<not> raceTransports (a_srv app)"
proof -
  have nm: "\<not> raceTransports (fst (start_manager C os rd al n p rm t pw ea fs))" for os rd al n p rm t pw ea fs
    by (simp add: start_manager_def NewConnectionManager_def Let_def)
  have lk: "raceTransports (snd (LoadKnownPeers path content cm)) = raceTransports cm" for path content and cm :: cm_state
    by (simp add: LoadKnownPeers_def Let_def split: file_read.split)
  have ns: "NewServer q t om osm g cm = Inr s \<Longrightarrow> raceTransports s = raceTransports cm" for q t om osm g cm s
    by (auto simp: NewServer_def cm_state.defs server.defs split: option.splits if_splits)
  have cr: "raceTransports (CreateRoom C rnd nm rk g pw s) = raceTransports s" for rnd nm rk g pw s
    by (simp add: CreateRoom_def UpdateRoomKeys_def Let_def split: option.split)
  have "fst (start_server C E opt sel n fs) = Inr s \<Longrightarrow> \<not> raceTransports s" for s
    using nm lk ns cr by (fastforce simp: start_server_def Let_def split: sum.splits option.splits if_splits)
  then show ?thesis
    using assms by (auto simp: initializeApp_def Let_def split: sum.splits if_splits option.splits)
qed

lemma no_input [simp]:
  "snd (fst (retry_loop C net k peers [] app)) = []" "snd (fst (tryConnect C net lookup [] peers app)) = []"
  by (simp_all add: tryConnect_def Let_def)

lemma promptRoomSelection_no_input:
  "snd (promptRoomSelection found []) = []" "\<not> sel_quit (fst (promptRoomSelection found []))"
proof -
  have q: "\<not> equal_fold [] ''quit''" "sscanf_d [] = None" by code_simp+
  show "snd (promptRoomSelection found []) = []" "\<not> sel_quit (fst (promptRoomSelection found []))"
    using q by (simp_all add: promptRoomSelection_def select_from_def ask_password_def no_selection_def Let_def)
qed

lemma start_session_exit: "fst (start_session C opt re sel ms) = Inr app \<Longrightarrow> \<not> a_exit app"
  by (auto simp: start_session_def initializeApp_def Let_def split: sum.splits if_splits option.splits)

lemma main_round_no_input:
  assumes "\<not> re_signal re"
  shows "fst (main_round C opt re [] ms) = (False, [])"
  using assms promptRoomSelection_no_input [of "re_found re"] start_session_exit
  by (auto simp: main_round_def Let_def split: sum.split main_next.split)



text \<open>A round for the witnesses: no rooms on the LAN, a NAT-PMP gateway, all sockets available.\<close>

definition demo_init :: init_env where
  "demo_init =
     \<lparr>ie_os = demo_env, ie_device_rnd = Some (replicate 32 (CHR ''x'')), ie_alias = ''SwiftFox1'',
      ie_quic_port = Some 9000, ie_tcp_ok = True, ie_known_peers = None, ie_gateways = demo_gateways,
      ie_listening = True, ie_ifaces = [], ie_rnd = replicate 32 (CHR ''s'')\<rparr>"

definition demo_round :: round_env where
  "demo_round =
     \<lparr>re_signal = False, re_found = [], re_get = (\<lambda>_. NoResponse), re_parse = (\<lambda>_. None),
      re_init = demo_init, re_net = (\<lambda>_ _. demo_script), re_lookup = [], re_public_ip = [],
      re_cli = (\<lambda>_. \<lparr>ce_send = (\<lambda>_. \<lparr>se_script = demo_script, se_ctx_ok = True, se_gcm_nonce = [],
          se_nonce = []\<rparr>), ce_lookup_peers = None, ce_lookup_relays = None, ce_os = demo_env,
          ce_device = [], ce_rnd = [], ce_stun = None\<rparr>),
      re_between = (\<lambda>_ s. s), re_end = 9\<rparr>"

definition demo_start :: main_state where
  "demo_start =
     \<lparr>ms_net = demo_net, ms_files = (\<lambda>_. None), ms_leases = [], ms_racePrinted = False,
      ms_registrations = [], ms_sessions = []\<rparr>"

lemma deletes_work_demo [simp]: "deletes_work demo_gateways"
  by (simp add: deletes_work_def demo_gateways_def)


text \<open>
  When the discovery port cannot be bound, the session fails after the port mapping was made
  and nothing removes it: a relay's mapping stays on the gateway.
\<close>

theorem failed_discovery_leaves_mapping:
  assumes "\<not> re_signal re" and "promptRoomSelection (re_found re) inputs = (sel, rest)"
    and "\<not> sel_quit sel" and "sel_isCreatingRoom sel" and "\<not> sel_isPrivate sel"
    and "o_isRelay opt" and "o_upnp opt" and "\<not> ie_listening (re_init re)"
    and "ie_quic_port (re_init re) = Some port" and "ie_tcp_ok (re_init re)"
    and "fst (TryPortMapping (ie_gateways (re_init re)) port (ms_leases ms)) = Some (addr, l)"
  shows "fst (main_round C opt re inputs ms) = (False, rest) \<and>
    l \<in> set (ms_leases (snd (main_round C opt re inputs ms))) \<and>
    ms_sessions (snd (main_round C opt re inputs ms)) = ms_sessions ms"
proof -
  obtain s where s: "fst (start_server C (re_init re) opt sel (ms_net ms) (ms_files ms)) = Inr s"
    "serverPort s = port"
    using start_server_port [OF assms(9,10)] by blast
  have "fst (start_session C opt re sel ms) = Inl DiscoveryStartFailed"
    "ms_leases (snd (start_session C opt re sel ms)) =
       snd (TryPortMapping (ie_gateways (re_init re)) port (ms_leases ms))"
    "ms_sessions (snd (start_session C opt re sel ms)) = ms_sessions ms"
    using assms(4-8) s
    by (simp_all add: start_session_def initializeApp_def request_mapping_def NewDiscoveryService_def Let_def)
  then show ?thesis
    using assms(1-3) TryPortMapping_holds [OF assms(11)] by (simp add: main_round_def Let_def)
qed

theorem failed_discovery_leaves_mapping_witness:
  "NatPmpLease \<in> set (ms_leases (snd (main_round toy
     (default_options\<lparr>o_isRelay := True, o_upnp := True\<rparr>)
     (demo_round\<lparr>re_init := demo_init\<lparr>ie_listening := False\<rparr>\<rparr>) [''lobby'', []] demo_start)))"
proof -
  let ?re = "demo_round\<lparr>re_init := demo_init\<lparr>ie_listening := False\<rparr>\<rparr>"
  let ?opt = "default_options\<lparr>o_isRelay := True, o_upnp := True\<rparr>"
  obtain sel rest where p: "promptRoomSelection (re_found ?re) [''lobby'', []] = (sel, rest)"
    by (cases "promptRoomSelection (re_found ?re) [''lobby'', []]")
  moreover have "\<not> sel_quit (fst (promptRoomSelection [] [''lobby'', []]))"
    "sel_isCreatingRoom (fst (promptRoomSelection [] [''lobby'', []]))"
    "\<not> sel_isPrivate (fst (promptRoomSelection [] [''lobby'', []]))"
    by code_simp+
  moreover have "\<exists>addr. fst (TryPortMapping demo_gateways 9000 []) = Some (addr, NatPmpLease)"
    by (simp add: demo_gateways_def TryPortMapping_def tryUPnP_def tryNATPMP_def Let_def)
  ultimately show ?thesis
    using failed_discovery_leaves_mapping [of ?re "[''lobby'', []]" sel rest ?opt 9000 demo_start _ NatPmpLease]
    by (auto simp: demo_round_def demo_init_def demo_start_def)
qed


section \<open>The race flag and the end of the input\<close>

text \<open>
  The \<open>--race\<close> option reaches the first session only: a session races QUIC and TCP exactly
  when the option was given and no earlier session was started with it.
\<close>

theorem race_option_first_session_only:
  assumes "start_session C opt re sel ms = (Inr app, ms1)"
  shows "raceTransports (a_srv app) = (o_race opt \<and> \<not> ms_racePrinted ms) \<and>
    ms_racePrinted ms1 = (ms_racePrinted ms \<or> o_race opt)"
proof -
  let ?i = "initializeApp C (re_init re) opt sel (o_isRelay opt \<and> sel_isCreatingRoom sel)
      (ms_net ms) (ms_files ms) (ms_leases ms)"
  obtain app0 where a: "fst ?i = Inr app0"
    using assms by (cases "fst ?i") (simp_all add: start_session_def Let_def)
  then have "\<not> raceTransports (a_srv app0)" by (rule initializeApp_no_race)
  then show ?thesis using assms a by (auto simp: start_session_def Let_def split: if_splits)
qed

theorem race_option_first_session_only_witness:
  "\<exists>app. fst (start_session toy (default_options\<lparr>o_race := True\<rparr>) demo_round no_selection
      (demo_start\<lparr>ms_racePrinted := True\<rparr>)) = Inr app \<and> \<not> raceTransports (a_srv app)"
proof -
  let ?s = "start_session toy (default_options\<lparr>o_race := True\<rparr>) demo_round no_selection
      (demo_start\<lparr>ms_racePrinted := True\<rparr>)"
  obtain s where "fst (start_server toy demo_init (default_options\<lparr>o_race := True\<rparr>) no_selection demo_net
      (\<lambda>_. None)) = Inr s"
    using start_server_port [of demo_init 9000 toy "default_options\<lparr>o_race := True\<rparr>" no_selection
        demo_net "\<lambda>_. None"] by (auto simp: demo_init_def)
  then have "\<exists>app. fst ?s = Inr app"
    by (simp add: start_session_def initializeApp_def demo_round_def demo_start_def no_selection_def
        NewDiscoveryService_def demo_init_def Let_def)
  then obtain app where "?s = (Inr app, snd ?s)" by (metis prod.collapse)
  from race_option_first_session_only [OF this] show ?thesis
    using \<open>?s = (Inr app, snd ?s)\<close> by (metis fst_conv main_state.select_convs(4) main_state.surjective main_state.update_convs(4))
qed

text \<open>
  The end of the input does not end the program: with nothing left to read no round ends it,
  whatever rooms are found and whatever the network does, unless a signal came.
\<close>

theorem closed_input_never_exits:
  assumes "\<forall>re \<in> set res. \<not> re_signal re"
  shows "fst (main_loop C opt res [] ms) = (False, [])"
  using assms
proof (induction res arbitrary: ms)
  case Nil
  then show ?case by simp
next
  case (Cons re res)
  then show ?case by (simp add: main_round_no_input Let_def)
qed

theorem closed_input_never_exits_witness:
  "fst (main_loop toy default_options (replicate 100 demo_round) [] demo_start) = (False, [])"
  by (rule closed_input_never_exits) (simp add: demo_round_def)

end
