(* ===== verification/Group_Chat.thy ===== *)
theory Group_Chat
  imports Relay_Properties Client_Properties
begin

text \<open>
  The relay as a group chat.  The abstract chat of a room gives each member the text addressed to
  it so far, and knows one action, posting a line: everybody but its author gets it appended.
  The relay implements it: whatever the interleaving of readers, writers and the cache sweep,
  sent and queued text of a member together are the abstract chat's.
\<close>

section \<open>The abstract chat\<close>

type_synonym chat = "string \<Rightarrow> string option"

datatype chat_act = Post string string | Quiet

fun chat_step :: "chat_act \<Rightarrow> chat \<Rightarrow> chat" where
  "chat_step (Post a line) c = (\<lambda>b. if b = a then c b else map_option (\<lambda>t. t @ line) (c b))"
| "chat_step Quiet c = c"

fun posts :: "chat_act list \<Rightarrow> (string \<times> string) list" where
  "posts [] = []"
| "posts (Post a line # acts) = (a, line) # posts acts"
| "posts (Quiet # acts) = posts acts"

lemma chat_run:
  "fold chat_step acts c b =
     map_option (\<lambda>t. t @ concat (map snd (filter (\<lambda>(a, l). a \<noteq> b) (posts acts)))) (c b)"
proof (induction acts arbitrary: c)
  case Nil
  then show ?case by (simp add: option.map_ident)
next
  case (Cons act acts)
  then show ?case by (cases act; cases "c b") auto
qed


section \<open>The relay's side\<close>

text \<open>The line of a client's message: four fields, an author, and a signature that verifies.\<close>

definition signed_line :: "crypto \<Rightarrow> room_keys \<Rightarrow> string \<Rightarrow> bool" where
  "signed_line C rk raw \<longleftrightarrow>
     (let u = trim_space raw
      in has_prefix u ''FROM:'' \<and> raw = u @ [newline] \<and>
         (case split_on pipe (trim_prefix u ''FROM:'') of
            [a, pl, n, h] \<Rightarrow> a \<noteq> [] \<and> Verify C rk (unsigned_text a pl n) h
          | _ \<Rightarrow> False))"

definition chat_of :: "nat \<Rightarrow> server \<Rightarrow> chat" where
  "chat_of r s =
     (\<lambda>b. if mapped (r_peers (roomHeap s r)) b
          then map_option (accepted_text s) (map_of (connections s) b) else None)"

fun chat_act_of :: "(nat \<Rightarrow> string) \<Rightarrow> relay_event \<Rightarrow> chat_act" where
  "chat_act_of adr (Line p rnd t raw) = Post (adr p) raw"
| "chat_act_of adr e = Quiet"

text \<open>
  The room in its steady state: every member is in it and registered, every registered connection
  has a working transport of its own.  \<open>adr\<close> names the addresses of the peers.
\<close>

definition group_ok :: "crypto \<Rightarrow> nat \<Rightarrow> (nat \<Rightarrow> string) \<Rightarrow> server \<Rightarrow> bool" where
  "group_ok C r adr s \<longleftrightarrow>
     srv_ok C s \<and> kdf_length C \<and> hasConnManager s \<and> r < nextRoom s \<and>
     (\<forall>p. p_addr (peerHeap s p) = adr p) \<and>
     (\<forall>p \<in> set (room_members r s). p_room (peerHeap s p) = Some r \<and> mapped (connections s) (adr p)) \<and>
     inj_on (\<lambda>i. mc_conn (mcs s i)) (snd ` set (connections s)) \<and>
     (\<forall>i \<in> snd ` set (connections s). writable (mc_conn (mcs s i)) s)"

text \<open>
  The events of a chat: a member's signed line while no member's queue is full, the turn of a
  writer, a sweep of the duplicate cache.
\<close>

definition queues_have_room :: "nat \<Rightarrow> server \<Rightarrow> bool" where
  "queues_have_room r s \<longleftrightarrow>
     list_all (\<lambda>p. case map_of (connections s) (p_addr (peerHeap s p)) of
                     None \<Rightarrow> True | Some i \<Rightarrow> length (mc_out (mcs s i)) < 1024) (room_members r s)"

fun chat_event :: "crypto \<Rightarrow> nat \<Rightarrow> relay_event \<Rightarrow> server \<Rightarrow> bool" where
  "chat_event C r (Line p rnd t raw) s =
     (p \<in> set (room_members r s) \<and> length rnd = 32 \<and> signed_line C (r_keys (roomHeap s r)) raw \<and>
      queues_have_room r s)"
| "chat_event C r (WriterTurn i) s = (i \<in> snd ` set (connections s))"
| "chat_event C r (SweepTick t) s = True"
| "chat_event C r e s = False"


section \<open>A signed line\<close>

lemma signed_lineE:
  assumes "signed_line C rk raw"
  obtains a pl n h where "trim_space raw = ''FROM:'' @ a @ pipe # pl @ pipe # n @ pipe # h"
    "raw = ''FROM:'' @ a @ [pipe] @ (pl @ pipe # n @ pipe # h) @ [newline]"
    "pipe \<notin> set a" "pipe \<notin> set pl" "pipe \<notin> set n" "a \<noteq> []" "Verify C rk (unsigned_text a pl n) h"
proof -
  let ?u = "trim_space raw"
  let ?f = "split_on pipe (trim_prefix ?u ''FROM:'')"
  have p: "has_prefix ?u ''FROM:''" and r: "raw = ?u @ [newline]"
    and c: "case ?f of [a, pl, n, h] \<Rightarrow> a \<noteq> [] \<and> Verify C rk (unsigned_text a pl n) h | _ \<Rightarrow> False"
    using assms by (simp_all add: signed_line_def Let_def)
  obtain a pl n h where f: "?f = [a, pl, n, h]" and v: "a \<noteq> []" "Verify C rk (unsigned_text a pl n) h"
    using c by (auto split: list.splits)
  have j: "trim_prefix ?u ''FROM:'' = a @ pipe # pl @ pipe # n @ pipe # h"
    using join_split_on [of pipe "trim_prefix ?u ''FROM:''"] by (simp add: f)
  have np: "pipe \<notin> set a" "pipe \<notin> set pl" "pipe \<notin> set n"
    using split_on_parts [of _ pipe "trim_prefix ?u ''FROM:''"] by (simp_all add: f)
  have u: "?u = ''FROM:'' @ a @ pipe # pl @ pipe # n @ pipe # h"
    using p j by (metis has_prefix_iff trim_prefix_append)
  show ?thesis using that [OF u _ np v] r u by simp
qed



text \<open>The sender's line as the relay's reader takes it apart.\<close>

lemma message_line_at_relay:
  assumes "message_line C rk alias message nonce rnd = Inr line"
  obtains payload h where
    "trim_space line = ''FROM:'' @ sanitiseField alias @ pipe # payload @ pipe #
       generateReplayNonce rnd @ pipe # h"
    "line = ''FROM:'' @ sanitiseField alias @ [pipe] @
       (payload @ pipe # generateReplayNonce rnd @ pipe # h) @ [newline]"
    "Verify C rk (unsigned_text (sanitiseField alias) payload (generateReplayNonce rnd)) h"
    "pipe \<notin> set payload" "pipe \<notin> set h"
proof -
  obtain payload where e: "Encrypt C rk nonce (sanitiseField message) = Inr payload"
    and l: "line = unsigned_text (sanitiseField alias) payload (generateReplayNonce rnd) @ [pipe] @
       Sign C rk (unsigned_text (sanitiseField alias) payload (generateReplayNonce rnd)) @ [newline]"
    using message_line_fields [OF assms] by blast
  let ?u = "unsigned_text (sanitiseField alias) payload (generateReplayNonce rnd)"
  have "trim_space line = ?u @ [pipe] @ Sign C rk ?u"
    using trim_signed_line [of "Sign C rk ?u"] Sign_solid by (simp add: l)
  then show ?thesis
    using Encrypt_no_pipe [OF e] Sign_no_pipe by (intro that [of payload "Sign C rk ?u"])
      (simp_all add: l unsigned_text_def [of _ payload])
qed

text \<open>What a client sends is a signed line.\<close>

lemma message_line_signed:
  assumes "message_line C rk alias message nonce rnd = Inr line" and "sanitiseField alias \<noteq> []"
  shows "signed_line C rk line"
proof -
  obtain payload h where u: "trim_space line = ''FROM:'' @ sanitiseField alias @ pipe # payload @ pipe #
       generateReplayNonce rnd @ pipe # h"
    and l: "line = ''FROM:'' @ sanitiseField alias @ [pipe] @
       (payload @ pipe # generateReplayNonce rnd @ pipe # h) @ [newline]"
    and v: "Verify C rk (unsigned_text (sanitiseField alias) payload (generateReplayNonce rnd)) h"
    and p: "pipe \<notin> set payload" "pipe \<notin> set h"
    using assms(1) by (rule message_line_at_relay)
  have np: "pipe \<notin> set (sanitiseField alias)" "pipe \<notin> set (generateReplayNonce rnd)"
    by (simp_all add: sanitiseField_def generateReplayNonce_no_pipe)
  have "split_on pipe (sanitiseField alias @ pipe # payload @ pipe # generateReplayNonce rnd @ pipe # h) =
      [sanitiseField alias, payload, generateReplayNonce rnd, h]"
    using np p by (simp add: split_on_sep)
  moreover have "trim_prefix (trim_space line) ''FROM:'' =
      sanitiseField alias @ pipe # payload @ pipe # generateReplayNonce rnd @ pipe # h"
    unfolding u by (rule trim_prefix_append)
  moreover have "line = trim_space line @ [newline]" using u l by simp
  moreover have "has_prefix (trim_space line) ''FROM:''" unfolding u by (rule has_prefix_append)
  ultimately show ?thesis using v assms(2) by (simp add: signed_line_def Let_def)
qed


section \<open>One line\<close>

text \<open>A broadcast to registered members only fills queues.\<close>

definition same_links :: "server \<Rightarrow> server \<Rightarrow> bool" where
  "same_links t s \<longleftrightarrow> conns t = conns s \<and> connections t = connections s \<and>
     hasConnManager t = hasConnManager s \<and> peerHeap t = peerHeap s \<and>
     (\<forall>i. mc_conn (mcs t i) = mc_conn (mcs s i))"

lemma same_links_refl: "same_links s s"
  by (simp add: same_links_def)

lemma same_links_deliver:
  assumes "same_links t s" and "hasConnManager s" and "mapped (connections s) (p_addr (peerHeap s p))"
  shows "same_links (deliver m p t) s"
  using assms
  by (auto simp: same_links_def deliver_def enqueue_at_def Let_def mc_enqueue_def split: option.split)

lemma same_links_broadcast:
  assumes "hasConnManager s" and "\<forall>p \<in> set (room_members r s). mapped (connections s) (p_addr (peerHeap s p))"
  shows "same_links (broadcastToRoom r a m s) s"
  unfolding broadcastToRoom_def
  by (rule fold_preserves [where I = "\<lambda>t. same_links t s"])
    (use assms in \<open>auto simp: same_links_refl recipients_def intro: same_links_deliver\<close>)


lemma group_okD:
  assumes "group_ok C r adr s"
  shows "srv_ok C s" "kdf_length C" "hasConnManager s" "r < nextRoom s" "cm_ok s"
    "room_ok C s (roomHeap s r)" "p_addr (peerHeap s p) = adr p"
    "p \<in> set (room_members r s) \<Longrightarrow> p_room (peerHeap s p) = Some r"
    "p \<in> set (room_members r s) \<Longrightarrow> mapped (connections s) (adr p)"
    "inj_on (\<lambda>i. mc_conn (mcs s i)) (snd ` set (connections s))"
    "i \<in> snd ` set (connections s) \<Longrightarrow> writable (mc_conn (mcs s i)) s"
  using assms by (auto simp: group_ok_def srv_ok_def rooms_ok_def)

lemma queues_have_roomD:
  assumes "queues_have_room r s" and "room_ok C s (roomHeap s r)"
    and "map_of (connections s) b = Some i" and "mapped (r_peers (roomHeap s r)) b"
  shows "length (mc_out (mcs s i)) < 1024"
proof -
  obtain p where "map_of (r_peers (roomHeap s r)) b = Some p" using assms(4) by auto
  then have "p \<in> set (room_members r s)" "p_addr (peerHeap s p) = b"
    unfolding room_ok_lookup [OF assms(2)] by simp_all
  then show ?thesis using assms(1,3) by (auto simp: queues_have_room_def list_all_iff)
qed

lemma signed_line_served:
  assumes g: "group_ok C r adr s" and p: "p \<in> set (room_members r s)"
    and sl: "signed_line C (r_keys (roomHeap s r)) raw" and room: "queues_have_room r s"
    and s': "s' = serve_line C p (rnd, t, raw) s"
  shows "conns s' = conns s" "connections s' = connections s" "hasConnManager s' = hasConnManager s"
    "mc_conn (mcs s' i) = mc_conn (mcs s i)" "roomHeap s' = roomHeap s" "nextRoom s' = nextRoom s"
    "p_addr (peerHeap s' q) = p_addr (peerHeap s q)" "p_room (peerHeap s' q) = p_room (peerHeap s q)"
    "map_of (connections s) b = Some i \<Longrightarrow> mc_out (mcs s' i) =
       (if b \<noteq> adr p \<and> mapped (r_peers (roomHeap s r)) b then mc_out (mcs s i) @ [raw]
        else mc_out (mcs s i))"
proof -
  note ok = group_okD [OF g]
  from sl obtain a pl n h where u: "trim_space raw = ''FROM:'' @ a @ pipe # pl @ pipe # n @ pipe # h"
    and raw: "raw = ''FROM:'' @ a @ [pipe] @ (pl @ pipe # n @ pipe # h) @ [newline]"
    and np: "pipe \<notin> set a" "pipe \<notin> set pl" "pipe \<notin> set n" and a: "a \<noteq> []"
    and v: "Verify C (r_keys (roomHeap s r)) (unsigned_text a pl n) h"
    by (rule signed_lineE)
  let ?c = "pl @ pipe # n @ pipe # h"
  define u1 where "u1 = update_peer p (\<lambda>pr. pr\<lparr>p_alias := a\<rparr>) s"
  define w where "w = broadcastToRoom r (adr p) ?c u1"
  have addr: "p_addr (peerHeap u1 x) = adr x" for x using ok(7) by (simp add: u1_def)
  have same1: "conns u1 = conns s" "connections u1 = connections s" "mcs u1 = mcs s"
    "hasConnManager u1 = hasConnManager s" "roomHeap u1 = roomHeap s" "nextRoom u1 = nextRoom s"
    "room_members r u1 = room_members r s" "p_room (peerHeap u1 x) = p_room (peerHeap s x)" for x
    by (simp_all add: u1_def room_members_def)
  have "serve_line C p (rnd, t, raw) s = relay_encrypted C t p r a ?c [pl, n, h] s"
    unfolding serve_line_dispatch [OF u] by (rule handle_from_fields [OF ok(8) [OF p] np])
  then obtain nm where s'w: "s' = notify_message C t nm (r_name (roomHeap w r))
      (case Decrypt C (r_keys (roomHeap w r)) pl of Inr pt \<Rightarrow> pt | Inl e \<Rightarrow> ?c) w"
    using v addr by (simp add: s' relay_encrypted_def Let_def u1_def [symmetric] w_def)
  have "same_links w u1"
    unfolding w_def by (rule same_links_broadcast) (use ok(3,9) addr in \<open>auto simp: same1\<close>)
  then have w: "conns w = conns s" "connections w = connections s" "hasConnManager w = hasConnManager s"
    "mc_conn (mcs w j) = mc_conn (mcs s j)" "peerHeap w = peerHeap u1" for j
    by (simp_all add: same_links_def same1)
  have rw: "roomHeap w = roomHeap s" "nextRoom w = nextRoom s" by (simp_all add: w_def same1)
  have nm: "conns s' = conns w" "connections s' = connections w" "hasConnManager s' = hasConnManager w"
    "mcs s' = mcs w" "roomHeap s' = roomHeap w" "nextRoom s' = nextRoom w" "peerHeap s' = peerHeap w"
    by (simp_all add: s'w notify_message_def Let_def show_ui_def)
  show "conns s' = conns s" "connections s' = connections s" "hasConnManager s' = hasConnManager s"
    "mc_conn (mcs s' i) = mc_conn (mcs s i)" "roomHeap s' = roomHeap s" "nextRoom s' = nextRoom s"
    "p_addr (peerHeap s' q) = p_addr (peerHeap s q)" "p_room (peerHeap s' q) = p_room (peerHeap s q)"
    using ok(7) by (simp_all add: nm w rw addr same1)
  have srv1: "srv_ok C u1" using ok(1) by (auto simp: u1_def srv_ok_def intro: rooms_ok_update_peer)
  have rm1: "room_ok C u1 (roomHeap u1 r)" using srv1 ok(4) by (simp add: srv_ok_def rooms_ok_def same1)
  have "p_alias (peerHeap u1 p) = a" by (simp add: u1_def)
  then have line: "broadcast_text r (adr p) ?c u1 = raw"
    using broadcast_text_member [OF rm1, of p ?c] p a by (simp add: same1 addr raw)
  show "mc_out (mcs s' i) =
       (if b \<noteq> adr p \<and> mapped (r_peers (roomHeap s r)) b then mc_out (mcs s i) @ [raw]
        else mc_out (mcs s i))" if m: "map_of (connections s) b = Some i"
    using broadcast_queue [OF srv1, of r b i "adr p" ?c] queues_have_roomD [OF room ok(6) m] ok(3,4) m
    by (auto simp: nm w_def [symmetric] same1 line)
qed



section \<open>The turn of a writer\<close>

lemma writer_turn:
  assumes g: "group_ok C r adr s" and i: "i \<in> snd ` set (connections s)"
    and s': "s' = snd (write_batch i s)"
  shows "connections s' = connections s" "mc_conn (mcs s' j) = mc_conn (mcs s j)"
    "writable c s' = writable c s" "relay_part s' = relay_part s"
    "j \<in> snd ` set (connections s) \<Longrightarrow> accepted_text s' j = accepted_text s j"
proof -
  note ok = group_okD [OF g]
  have w: "writable (mc_conn (mcs s i)) s" by (rule ok(11) [OF i])
  have s'e: "s' = conn_put (mc_conn (mcs s i)) (concat (mc_out (mcs s i)))
      (set_mc i ((mcs s i)\<lparr>mc_out := []\<rparr>) s)"
    using w by (simp add: s' write_batch_def Let_def mc_drain_def)
  show "connections s' = connections s" "mc_conn (mcs s' j) = mc_conn (mcs s j)"
    "writable c s' = writable c s" "relay_part s' = relay_part s"
    by (simp_all add: s'e writable_def)
  show "accepted_text s' j = accepted_text s j" if j: "j \<in> snd ` set (connections s)"
  proof (cases "j = i")
    case True
    then show ?thesis using write_batch_text(1) [OF w] by (simp add: s')
  next
    case False
    then have "mc_conn (mcs s j) \<noteq> mc_conn (mcs s i)"
      using inj_onD [OF ok(10)] i j by metis
    then show ?thesis using False by (simp add: s'e accepted_text_def conn_put_sent)
  qed
qed


section \<open>The refinement\<close>

lemma group_ok_step:
  assumes g: "group_ok C r adr s" and e: "chat_event C r e s"
  shows "group_ok C r adr (relay_step C e s)"
proof -
  note ok = group_okD [OF g]
  have srv: "srv_ok C (relay_step C e s)" using ok(1,2) by (rule srv_ok_relay_step)
  show ?thesis
    using e
  proof (cases e)
    case (Line p rnd t raw)
    then have c: "p \<in> set (room_members r s)" "signed_line C (r_keys (roomHeap s r)) raw"
      "queues_have_room r s" "length rnd = 32" using e by simp_all
    have "p < nextPeer s" using room_ok_members(2) [OF ok(6) c(1)] .
    then have st: "relay_step C e s = serve_line C p (rnd, t, raw) s"
      using c(4) by (simp add: relay_step_def Line)
    note l = signed_line_served [OF g c(1-3) st]
    show ?thesis
      using srv g unfolding group_ok_def l(2,3) room_members_def writable_def
      by (simp add: l(1,3-8))
  next
    case (WriterTurn i)
    then have st: "relay_step C e s = snd (write_batch i s)" by (simp add: relay_step_def)
    have i: "i \<in> snd ` set (connections s)" using e WriterTurn by simp
    note w = writer_turn [OF g i st]
    show ?thesis
      using srv g relay_partD [OF w(4)] unfolding group_ok_def by (simp add: w(1-3) room_members_def)
  next
    case (SweepTick t)
    then have "relay_step C e s = cleanupSeenMsgs t s" by (simp add: relay_step_def)
    then show ?thesis
      using srv g by (simp add: group_ok_def cleanupSeenMsgs_def Let_def writable_def room_members_def)
  qed simp_all
qed

lemma chat_of_step:
  assumes g: "group_ok C r adr s" and e: "chat_event C r e s"
  shows "chat_of r (relay_step C e s) = chat_step (chat_act_of adr e) (chat_of r s)"
proof -
  note ok = group_okD [OF g]
  show ?thesis
    using e
  proof (cases e)
    case (Line p rnd t raw)
    then have c: "p \<in> set (room_members r s)" "signed_line C (r_keys (roomHeap s r)) raw"
      "queues_have_room r s" "length rnd = 32" using e by simp_all
    have "p < nextPeer s" using room_ok_members(2) [OF ok(6) c(1)] .
    then have st: "relay_step C e s = serve_line C p (rnd, t, raw) s"
      using c(4) by (simp add: relay_step_def Line)
    note l = signed_line_served [OF g c(1-3) st]
    have "accepted_text (relay_step C e s) i =
        (if b \<noteq> adr p \<and> mapped (r_peers (roomHeap s r)) b then accepted_text s i @ raw else accepted_text s i)"
      if "map_of (connections s) b = Some i" for b i
      using l(9) [OF that] by (simp add: accepted_text_def l(1,4))
    then have "chat_of r (relay_step C e s) b = chat_step (Post (adr p) raw) (chat_of r s) b" for b
      unfolding chat_of_def l(2,5) by (cases "map_of (connections s) b") auto
    then show ?thesis unfolding Line chat_act_of.simps by blast
  next
    case (WriterTurn i)
    then have st: "relay_step C e s = snd (write_batch i s)" by (simp add: relay_step_def)
    have i: "i \<in> snd ` set (connections s)" using e WriterTurn by simp
    note w = writer_turn [OF g i st]
    have "map_option (accepted_text (relay_step C e s)) (map_of (connections s) b) =
        map_option (accepted_text s) (map_of (connections s) b)" for b
    proof (cases "map_of (connections s) b")
      case (Some i)
      then have "i \<in> snd ` set (connections s)" by (force dest: map_of_SomeD)
      then show ?thesis by (simp add: Some w(5))
    qed simp
    then have "chat_of r (relay_step C e s) b = chat_of r s b" for b
      unfolding chat_of_def w(1) relay_partD(2) [OF w(4)] by presburger
    then show ?thesis by (simp add: WriterTurn fun_eq_iff)
  next
    case (SweepTick t)
    then have "relay_step C e s = cleanupSeenMsgs t s" by (simp add: relay_step_def)
    moreover have "accepted_text (cleanupSeenMsgs t s) = accepted_text s"
      by (simp add: fun_eq_iff accepted_text_def cleanupSeenMsgs_def Let_def)
    moreover have "connections (cleanupSeenMsgs t s) = connections s"
      by (simp add: cleanupSeenMsgs_def Let_def)
    ultimately show ?thesis
      using relay_partD(2) [OF relay_part_cleanupSeenMsgs] by (simp add: chat_of_def SweepTick cong: if_cong)
  qed simp_all
qed

interpretation chat: refining "group_ok C r adr" "chat_event C r" "relay_step C" "chat_of r"
    "chat_act_of adr" chat_step for C r adr
  by unfold_locales (rule group_ok_step chat_of_step; assumption)+


text \<open>A chat at the concrete relay: a line of the first member, and the second one's writer.\<close>

lemma demo_group_ok: "group_ok toy 0 (\<lambda>p. p_addr (peerHeap demo p)) demo"
  using demo_srv_ok toy_kdf_length
  by (auto simp: group_ok_def demo_defs room_members_def writable_def inj_on_def)

lemma demo_chat:
  assumes "message_line toy (r_keys (roomHeap demo 0)) ''ann'' ''hi'' demo_nonce ''12345678'' = Inr line"
  shows "admitted_run (chat_event toy 0) (relay_step toy) [Line 0 (replicate 32 (CHR ''x'')) 5 line] demo"
proof -
  have "signed_line toy (r_keys (roomHeap demo 0)) line"
    using message_line_signed [OF assms] by (simp add: sanitiseField_def)
  moreover have "0 \<in> set (room_members 0 demo)" "queues_have_room 0 demo"
    by (simp_all add: demo_defs room_members_def queues_have_room_def)
  ultimately show ?thesis by simp
qed

lemma demo_chat_line:
  obtains line where "message_line toy (r_keys (roomHeap demo 0)) ''ann'' ''hi'' demo_nonce ''12345678'' = Inr line"
proof -
  have "roomKeys demo_client = r_keys (roomHeap demo 0)" by (simp add: demo_client_def demo_defs)
  then show ?thesis
    using that demo_client_keys by (simp add: message_line_def Encrypt_ok Let_def)
qed



end
