(* ===== verification/Relay_Wire.thy ===== *)
theory Relay_Wire
  imports Relay_Accept
begin

text \<open>
  The type of what the relay writes.  A queued message is one chat line, \<open>FROM:\<close> or \<open>SYSTEM:\<close>, with
  its only line break at the end; a transport is given such lines and the relay's own control
  lines.  No peer can break a line in two, whatever it sends or calls itself, so none can make
  the relay send a \<open>SECRET:\<close> or \<open>AUTH:FAILED\<close> line of its making to another one.
\<close>

section \<open>Lines\<close>

abbreviation clean :: "string \<Rightarrow> bool" where
  "clean t \<equiv> newline \<notin> set t"

definition chat_text :: "string \<Rightarrow> bool" where
  "chat_text u \<longleftrightarrow> has_prefix u ''FROM:'' \<or> has_prefix u ''SYSTEM:''"

definition control_text :: "string \<Rightarrow> bool" where
  "control_text u \<longleftrightarrow> has_prefix u ''SECRET:'' \<or> has_prefix u ''AUTH:FAILED|'' \<or> u = ''PING'' \<or> u = ''PONG''"

definition chat_line :: "string \<Rightarrow> bool" where
  "chat_line m \<longleftrightarrow> (case split_on newline m of [u, e] \<Rightarrow> e = [] \<and> chat_text u | _ \<Rightarrow> False)"

definition wire_text :: "string \<Rightarrow> bool" where
  "wire_text m \<longleftrightarrow>
     (let ps = split_on newline m
      in last ps = [] \<and> list_all (\<lambda>u. chat_text u \<or> control_text u) (butlast ps))"

lemma chat_line_iff: "chat_line m \<longleftrightarrow> (\<exists>u. m = u @ [newline] \<and> clean u \<and> chat_text u)"
proof
  assume "chat_line m"
  then obtain u where u: "split_on newline m = [u, []]" "chat_text u"
    by (auto simp: chat_line_def split: list.splits)
  then have "m = u @ [newline]" using join_split_on [of newline m] by simp
  moreover have "clean u" using split_on_parts [of u newline m] u(1) by simp
  ultimately show "\<exists>u. m = u @ [newline] \<and> clean u \<and> chat_text u" using u(2) by blast
qed (auto simp: chat_line_def split_on_sep)

lemma wire_text_line:
  "clean u \<Longrightarrow> wire_text ((u @ [newline]) @ m) = ((chat_text u \<or> control_text u) \<and> wire_text m)"
  by (auto simp: wire_text_def split_on_sep Let_def)

lemma wire_text_Nil [simp]: "wire_text []"
  by (simp add: wire_text_def)

lemma wire_text_control: "clean u \<Longrightarrow> control_text u \<Longrightarrow> wire_text (u @ [newline])"
  using wire_text_line [of u "[]"] by simp

lemma wire_text_chat: "chat_line m \<Longrightarrow> wire_text m"
  using wire_text_line [of _ "[]"] by (auto simp: chat_line_iff)

lemma wire_text_append: "chat_line m \<Longrightarrow> wire_text ms \<Longrightarrow> wire_text (m @ ms)"
  by (auto simp: chat_line_iff wire_text_line simp del: append_assoc)

lemma wire_text_batch: "list_all chat_line ms \<Longrightarrow> wire_text (concat ms)"
  by (induction ms) (auto simp: wire_text_append)

lemma chat_line_from: "clean a \<Longrightarrow> clean m \<Longrightarrow> chat_line (''FROM:'' @ a @ [pipe] @ m @ [newline])"
  unfolding chat_line_iff by (rule exI [of _ "''FROM:'' @ a @ [pipe] @ m"]) (simp add: chat_text_def)

lemma chat_line_system: "clean m \<Longrightarrow> chat_line (''SYSTEM:'' @ m @ [newline])"
  unfolding chat_line_iff by (rule exI [of _ "''SYSTEM:'' @ m"]) (simp add: chat_text_def)

text \<open>Parts of a clean text are clean.\<close>

lemma clean_split_on: "clean s \<Longrightarrow> w \<in> set (split_on c s) \<Longrightarrow> clean w"
proof (induction s arbitrary: w)
  case (Cons x s)
  then show ?case by (auto split: if_splits list.splits)
qed simp

lemma clean_split_n: "clean s \<Longrightarrow> w \<in> set (split_n n c s) \<Longrightarrow> clean w"
proof (induction n c s arbitrary: w rule: split_n.induct)
  case (3 n c s)
  obtain a r where b: "break_on c s = (a, r)" by (cases "break_on c s")
  show ?case
  proof (cases r)
    case None
    with 3 b show ?thesis by simp
  next
    case (Some t)
    with b have s: "s = a @ c # t" using break_on_SomeD by auto
    then have "clean a" "clean t" using "3.prems"(1) by auto
    then show ?thesis using "3.prems"(2) "3.IH" [OF b [symmetric] Some] b Some by auto
  qed
qed simp_all

lemma clean_trim_prefix [simp]: "clean s \<Longrightarrow> clean (trim_prefix s p)"
  by (auto simp: trim_prefix_def dest: in_set_dropD)

lemma set_trim_left: "set (trim_left s) \<subseteq> set s"
  by (induction s rule: trim_left.induct) auto

lemma set_trim_right_rev: "set (trim_right_rev s) \<subseteq> set s"
  by (induction s rule: trim_right_rev.induct) auto

lemma set_trim_space: "set (trim_space s) \<subseteq> set s"
  using set_trim_left [of s] set_trim_right_rev [of "rev (trim_left s)"]
  by (auto simp: trim_space_def)

lemma clean_trim_space [simp]: "clean s \<Longrightarrow> clean (trim_space s)"
  using set_trim_space by blast

lemma ascii_space_newline [simp]: "ascii_space newline"
  by (simp add: ascii_space_def)

lemma not_rune_newline [simp]: "\<not> space2 a newline" "\<not> space2 newline a" "\<not> space3 a b newline"
  by (auto simp: space2_def space3_def)

lemma trim_left_snoc:
  "trim_left (u @ [newline]) = [] \<or> (\<exists>v. trim_left (u @ [newline]) = v @ [newline] \<and> set v \<subseteq> set u)"
proof (induction u rule: trim_left.induct)
  case (3 a b)
  then show ?case by (cases "ascii_space a") (auto split: if_splits)
next
  case (4 a b c s)
  consider "ascii_space a" | "\<not> ascii_space a" "space2 a b"
    | "\<not> ascii_space a" "\<not> space2 a b" "space3 a b c"
    | "\<not> ascii_space a" "\<not> space2 a b" "\<not> space3 a b c" by blast
  then show ?case
  proof cases
    case 1
    then show ?thesis using "4.IH"(1) by auto
  next
    case 2
    then show ?thesis using "4.IH"(2) by auto
  next
    case 3
    then show ?thesis using "4.IH"(3) by auto
  next
    case 4
    then show ?thesis by simp
  qed
qed auto

text \<open>A line as a reader gets it loses its line break when it is trimmed.\<close>

lemma trim_line_clean:
  assumes "clean u"
  shows "clean (trim_space (u @ [newline]))"
proof -
  have l: "trim_left (u @ [newline]) = [] \<or> (\<exists>v. trim_left (u @ [newline]) = v @ [newline] \<and> set v \<subseteq> set u)"
    by (rule trim_left_snoc)
  then show ?thesis
  proof
    assume "trim_left (u @ [newline]) = []"
    then show ?thesis by (simp add: trim_space_def)
  next
    assume "\<exists>v. trim_left (u @ [newline]) = v @ [newline] \<and> set v \<subseteq> set u"
    then obtain v where v: "trim_left (u @ [newline]) = v @ [newline]" "set v \<subseteq> set u" by blast
    have "trim_right_rev (newline # rev v) = trim_right_rev (rev v)" by (rule trim_right_rev_space) simp
    then show ?thesis
      using set_trim_right_rev [of "rev v"] v assms by (auto simp: trim_space_def)
  qed
qed


section \<open>What is on its way\<close>

definition links_ok :: "'a cm_state_scheme \<Rightarrow> bool" where
  "links_ok s \<longleftrightarrow>
     (\<forall>i. list_all chat_line (mc_out (mcs s i))) \<and> (\<forall>c. list_all wire_text (c_sent (conns s c)))"

lemma links_ok_cong:
  assumes "\<And>i. mc_out (mcs s' i) = mc_out (mcs s i)" and "\<And>c. c_sent (conns s' c) = c_sent (conns s c)"
  shows "links_ok s' = links_ok s"
  using assms by (simp add: links_ok_def)

lemma links_ok_conn_put [simp]: "links_ok s \<Longrightarrow> wire_text m \<Longrightarrow> links_ok (conn_put i m s)"
  by (simp add: links_ok_def conn_put_sent)

lemma links_ok_set_mc:
  "links_ok s \<Longrightarrow> list_all chat_line (mc_out mc) \<Longrightarrow> links_ok (set_mc i mc s)"
  by (simp add: links_ok_def)

lemma links_ok_enqueue_at [simp]: "links_ok s \<Longrightarrow> chat_line m \<Longrightarrow> links_ok (snd (enqueue_at i m s))"
  unfolding enqueue_at_def Let_def snd_conv
  by (rule links_ok_set_mc) (simp_all add: links_ok_def mc_enqueue_def)

lemma mc_out_signalClosed [simp]: "mc_out (signalClosed mc) = mc_out mc"
  by (simp add: signalClosed_def)

lemma removeConnection_out [simp]: "mc_out (mcs (snd (removeConnection a s)) i) = mc_out (mcs s i)"
  by (simp add: removeConnection_def shut_mc_def crash_def Let_def split: option.split)

lemma links_ok_frame [simp]:
  "links_ok (conn_close i s) = links_ok s" "links_ok (show_ui e s) = links_ok s"
  "links_ok (print_line x s) = links_ok s" "links_ok (crash s) = links_ok s"
  "links_ok (ClearPing a s) = links_ok s" "links_ok (snd (removeConnection a s)) = links_ok s"
  "links_ok (snd (IsDuplicate C a m t s)) = links_ok s"
  "links_ok (snd (UpdateRoomKeys C r pw h s)) = links_ok s"
  "links_ok (cleanupSeenMsgs t s) = links_ok s" "links_ok (break_conn i s) = links_ok s"
  by (rule links_ok_cong;
      simp add: crash_def ClearPing_def cleanupSeenMsgs_def break_conn_def Let_def show_ui_def)+

lemma links_ok_relay_fields [simp]:
  "links_ok (s\<lparr>pendingPings := pp\<rparr>) = links_ok s" "links_ok ((t :: server)\<lparr>rooms := rs\<rparr>) = links_ok t"
  "links_ok (t\<lparr>roomHeap := rh\<rparr>) = links_ok t" "links_ok (t\<lparr>nextRoom := n\<rparr>) = links_ok t"
  "links_ok (t\<lparr>peerHeap := ph\<rparr>) = links_ok t" "links_ok (t\<lparr>nextPeer := n\<rparr>) = links_ok t"
  "links_ok (t\<lparr>banList := b\<rparr>) = links_ok t" "links_ok (t\<lparr>aliasToDeviceID := d\<rparr>) = links_ok t"
  by (rule links_ok_cong; simp)+

lemma links_ok_RegisterIncoming [simp]: "links_ok s \<Longrightarrow> links_ok (RegisterIncoming a c t s)"
  by (simp add: links_ok_def RegisterIncoming_def register_mc_def newManagedConnection_def Let_def)

lemma links_ok_write_batch [simp]:
  assumes "links_ok s"
  shows "links_ok (snd (write_batch i s))"
proof -
  let ?s = "set_mc i (snd (mc_drain (mcs s i))) s"
  have "wire_text (concat (mc_out (mcs s i)))"
    using assms by (intro wire_text_batch) (simp add: links_ok_def)
  moreover have "links_ok ?s" using assms by (simp add: links_ok_set_mc mc_drain_def)
  ultimately have "links_ok (conn_put (mc_conn (mcs s i)) (concat (mc_out (mcs s i))) ?s)"
    by simp
  then show ?thesis by (simp add: write_batch_def Let_def mc_drain_def)
qed

lemma wire_text_ping: "wire_text (''PING'' @ [newline])" "wire_text (''PONG'' @ [newline])"
  by (rule wire_text_control; simp add: control_text_def)+

lemma links_ok_healthCheck [simp]:
  assumes "links_ok s"
  shows "links_ok (healthCheck t s)"
proof -
  have ping: "links_ok u \<Longrightarrow> links_ok (send_ping a u)" for a u
    using wire_text_ping(1) by (simp add: send_ping_def Let_def split: option.split)
  have dead: "links_ok (drop_dead a u) = links_ok u" for a u
    by (simp add: drop_dead_def Let_def)
  obtain d p q where "scan_pings t (keys (connections s)) (pendingPings s) = (d, p, q)"
    by (metis prod_cases3)
  then have "healthCheck t s = fold send_ping p (fold drop_dead d (s\<lparr>pendingPings := q\<rparr>))"
    by (simp add: healthCheck_def)
  moreover have "links_ok (fold drop_dead d (s\<lparr>pendingPings := q\<rparr>))"
    by (rule fold_preserves) (use assms in \<open>simp_all add: dead\<close>)
  ultimately show ?thesis by (auto intro: fold_preserves ping)
qed


section \<open>Names\<close>

text \<open>The names that go into the relay's lines have no line break.\<close>

definition names_ok :: "server \<Rightarrow> bool" where
  "names_ok s \<longleftrightarrow>
     (\<forall>p < nextPeer s. clean (p_addr (peerHeap s p)) \<and> clean (p_alias (peerHeap s p))) \<and>
     (\<forall>r < nextRoom s. clean (r_name (roomHeap s r)))"

lemma names_ok_cong: "relay_part s' = relay_part s \<Longrightarrow> names_ok s' = names_ok s"
  using relay_partD [of s' s] by (simp add: names_ok_def)

lemma names_ok_frame [simp]:
  "names_ok (conn_put i m s) = names_ok s" "names_ok (conn_close i s) = names_ok s"
  "names_ok (show_ui e s) = names_ok s" "names_ok (broadcastToRoom r a m s) = names_ok s"
  "names_ok (notify_system C t m s) = names_ok s"
  "names_ok (notify_message C t a rn m s) = names_ok s"
  "names_ok (ClearPing a s) = names_ok s" "names_ok (snd (removeConnection a s)) = names_ok s"
  "names_ok (RegisterIncoming a c t s) = names_ok s"
  "names_ok (snd (UpdateRoomKeys C rn pw h s)) = names_ok s"
  "names_ok (snd (write_batch i s)) = names_ok s" "names_ok (cleanupSeenMsgs t s) = names_ok s"
  "names_ok (healthCheck t s) = names_ok s" "names_ok (drop_transport a p s) = names_ok s"
  "names_ok (fold (\<lambda>p. conn_put (f p) m) ps s) = names_ok s" "names_ok (break_conn i s) = names_ok s"
  by (rule names_ok_cong; simp)+

lemma names_ok_tables [simp]:
  "names_ok (s\<lparr>rooms := rs\<rparr>) = names_ok s" "names_ok (s\<lparr>banList := b\<rparr>) = names_ok s"
  "names_ok (s\<lparr>aliasToDeviceID := d\<rparr>) = names_ok s" "names_ok (crash s) = names_ok s"
  by (simp_all add: names_ok_def crash_def)

lemma names_ok_update_room:
  "(\<And>rm. r_name (f rm) = r_name rm) \<Longrightarrow> names_ok (update_room r f s) = names_ok s"
  by (auto simp: names_ok_def)

lemma names_ok_update_peer:
  assumes "names_ok s" and "p < nextPeer s \<Longrightarrow>
      clean (p_addr (f (peerHeap s p))) \<and> clean (p_alias (f (peerHeap s p)))"
  shows "names_ok (update_peer p f s)"
  using assms by (simp add: names_ok_def)

lemma names_okD:
  assumes "names_ok s"
  shows "p < nextPeer s \<Longrightarrow> clean (p_addr (peerHeap s p))"
    "p < nextPeer s \<Longrightarrow> clean (p_alias (peerHeap s p))"
    "r < nextRoom s \<Longrightarrow> clean (r_name (roomHeap s r))"
  using assms by (simp_all add: names_ok_def)


lemma names_ok_drop_empty_room [simp]: "names_ok (drop_empty_room r s) = names_ok s"
  by (simp add: drop_empty_room_def Let_def split: option.split)

lemma names_ok_rotateRoomSecret [simp]: "names_ok (rotateRoomSecret C rnd r s) = names_ok s"
  by (simp add: rotateRoomSecret_def Let_def names_ok_update_room)

lemma names_ok_members [simp]:
  "names_ok (leave_room p r s) = names_ok s" "names_ok (delete_member r a s) = names_ok s"
  by (simp_all add: leave_room_def delete_member_def names_ok_update_room Let_def)

lemma names_ok_enter_room [simp]: "names_ok s \<Longrightarrow> names_ok (enter_room p r s)"
  unfolding enter_room_eq
  by (rule names_ok_update_peer) (simp_all add: names_ok_update_room with_member_def names_okD)

lemma names_ok_new_room:
  "names_ok s \<Longrightarrow> clean (r_name rm) \<Longrightarrow>
     names_ok (s\<lparr>roomHeap := (roomHeap s)(nextRoom s := rm), nextRoom := Suc (nextRoom s)\<rparr>)"
  by (simp add: names_ok_def less_Suc_eq)

lemma names_ok_CreateRoom [simp]:
  "names_ok s \<Longrightarrow> clean n \<Longrightarrow> names_ok (CreateRoom C rnd n rk b pw s)"
  by (simp add: CreateRoom_def Let_def names_ok_new_room)

lemma names_ok_find_or_create_room [simp]:
  "names_ok s \<Longrightarrow> clean n \<Longrightarrow> names_ok (snd (find_or_create_room C rnd a n rk h s))"
  by (simp add: find_or_create_room_def Let_def names_ok_new_room split: option.split)

lemma names_ok_note_identity [simp]:
  "names_ok s \<Longrightarrow> clean al \<Longrightarrow> names_ok (note_identity p al d s)"
  unfolding note_identity_def by (rule names_ok_update_peer) (auto simp: names_okD)


section \<open>Each operation sends lines\<close>

lemma links_ok_deliver [simp]: "links_ok s \<Longrightarrow> chat_line m \<Longrightarrow> links_ok (deliver m p s)"
  by (simp add: deliver_def wire_text_chat split: option.split)

lemma clean_sender_alias:
  assumes "names_ok s" and "room_ok C s (roomHeap s r)"
  shows "clean (sender_alias r a s)"
proof -
  have "clean (p_alias (peerHeap s p))" if "p \<in> set (room_members r s)" for p
    using names_okD(2) [OF assms(1)] room_ok_members(2) [OF assms(2) that] by blast
  moreover have "clean (fold (\<lambda>p x. if P p then f p else x) ps x0)"
    if "\<forall>p \<in> set ps. clean (f p)" "clean x0" for P and f :: "nat \<Rightarrow> string" and ps x0
    by (rule fold_preserves [where I = clean]) (use that in auto)
  ultimately show ?thesis by (simp add: sender_alias_def)
qed

lemma chat_line_broadcast_text:
  assumes "names_ok s" and "rooms_ok C s" and "r < nextRoom s" and "clean a" and "clean m"
  shows "chat_line (broadcast_text r a m s)"
  using clean_sender_alias [OF assms(1) rooms_okD(2) [OF assms(2,3)]] assms(4,5)
    chat_line_from [of _ m] chat_line_system [of m]
  by (auto simp: broadcast_text_def Let_def)

lemma links_ok_broadcast [simp]:
  assumes "links_ok s" and "names_ok s" and "rooms_ok C s" and "r < nextRoom s" and "clean a"
    and "clean m"
  shows "links_ok (broadcastToRoom r a m s)"
  unfolding broadcastToRoom_def
  by (rule fold_preserves [where I = links_ok])
    (use chat_line_broadcast_text [OF assms(2-6)] assms(1) in auto)

lemma links_ok_notify [simp]:
  "links_ok (notify_system C t m s) = links_ok s" "links_ok (notify_message C t a r m s) = links_ok s"
  by (simp_all add: notify_system_def notify_message_def Let_def)

lemma hex_clean [simp]: "clean (hex_encode b)"
  using hex_encode_wire [of newline b] by (auto simp: wire_char_def solid_def)

lemma wire_text_secret [simp]: "wire_text (secret_message sec)"
  unfolding secret_message_def using wire_text_control [of "''SECRET:'' @ hex_encode sec"]
  by (simp add: control_text_def)

lemma links_ok_update [simp]:
  "links_ok (update_room r f s) = links_ok s" "links_ok (update_peer p g s) = links_ok s"
  by (simp_all add: update_room_def update_peer_def)

lemma links_ok_fold_put:
  "links_ok s \<Longrightarrow> wire_text m \<Longrightarrow> links_ok (fold (\<lambda>p. conn_put (f p) m) ps s)"
  by (rule fold_preserves [where I = links_ok]) auto

lemma links_ok_rotateRoomSecret [simp]: "links_ok s \<Longrightarrow> links_ok (rotateRoomSecret C rnd r s)"
  by (simp add: rotateRoomSecret_def Let_def links_ok_fold_put)

lemma links_ok_disconnect_peer [simp]: "links_ok (disconnect_peer p s) = links_ok s"
  by (simp add: disconnect_peer_def Let_def)

lemma links_ok_drop [simp]:
  "links_ok (drop_empty_room r s) = links_ok s" "links_ok (drop_transport a p s) = links_ok s"
  by (simp_all add: drop_empty_room_def drop_transport_def Let_def split: option.split)


lemma peer_room:
  "rooms_ok C s \<Longrightarrow> p < nextPeer s \<Longrightarrow> p_room (peerHeap s p) = Some r \<Longrightarrow> r < nextRoom s"
  using rooms_okD(3) by (fastforce simp: peer_ok_def)

lemma clean_notices:
  "clean (p_alias pr) \<Longrightarrow> clean (p_addr pr) \<Longrightarrow> clean (join_notice pr)"
  "clean (p_alias pr) \<Longrightarrow> clean (p_addr pr) \<Longrightarrow> clean (leave_notice pr)"
  by (simp_all add: join_notice_def leave_notice_def)

lemma wire_text_kick_notice: "clean n \<Longrightarrow> wire_text (kick_notice n)"
  using wire_text_chat [OF chat_line_system [of "''You were kicked from room '' @ [CHR 0x27] @ n @ [CHR 0x27] @ '' by the owner''"]]
  by (simp add: kick_notice_def)

lemma wire_text_ban_notice: "clean n \<Longrightarrow> wire_text (ban_notice n)"
  using wire_text_chat [OF chat_line_system [of "''You were banned from room '' @ [CHR 0x27] @ n @ [CHR 0x27] @ '' by the owner''"]]
  by (simp add: ban_notice_def)

lemma wire_text_refusal: "clean m \<Longrightarrow> wire_text (''AUTH:FAILED|'' @ m @ [newline])"
  using wire_text_control [of "''AUTH:FAILED|'' @ m"] by (simp add: control_text_def)

lemma links_ok_removePeer:
  assumes "links_ok s" and "names_ok s" and "rooms_ok C s" and "p < nextPeer s"
  shows "links_ok (removePeer C t p s)"
proof (cases "p_room (peerHeap s p)")
  case None
  then show ?thesis using assms(1) by (simp add: removePeer_def)
next
  case (Some r)
  let ?s = "drop_empty_room r (leave_room p r s)"
  have h: "peerHeap ?s = peerHeap s" "nextRoom ?s = nextRoom s"
    by (simp_all add: drop_empty_room_def leave_room_def Let_def split: option.split)
  have "clean (leave_notice (peerHeap ?s p))"
    using assms(2,4) by (simp add: h clean_notices names_okD)
  then have "links_ok (broadcastToRoom r [] (leave_notice (peerHeap ?s p)) ?s)"
    using assms peer_room [OF assms(3,4) Some]
    by (intro links_ok_broadcast [where C = C]) (simp_all add: h, simp add: leave_room_def)
  then show ?thesis by (simp add: removePeer_def Some Let_def)
qed

lemma links_ok_kick_evict [simp]:
  assumes "links_ok s" and "names_ok s" and "\<And>r. p_room rq = Some r \<Longrightarrow> r < nextRoom s"
  shows "links_ok (kick_evict rq al s)"
  using assms evict_targetD(1) names_okD(3) [OF assms(2)]
  by (fastforce simp: kick_evict_def delete_member_def wire_text_kick_notice split: option.split)

lemma links_ok_ban_evict [simp]:
  assumes "links_ok s" and "names_ok s" and "\<And>r. p_room rq = Some r \<Longrightarrow> r < nextRoom s"
  shows "links_ok (ban_evict rq al s)"
  using assms evict_targetD(1) names_okD(3) [OF assms(2)]
  by (fastforce simp: ban_evict_def add_ban_def delete_member_def wire_text_ban_notice Let_def
      split: option.split)

lemma names_ok_evict [simp]:
  "names_ok (kick_evict rq al s) = names_ok s" "names_ok (ban_evict rq al s) = names_ok s"
  by (simp_all add: kick_evict_def ban_evict_def add_ban_def Let_def split: option.split)

lemma names_ok_finish [simp]:
  "names_ok (evict_finish C rnd r a p m s) = names_ok s" "names_ok (handleUnban rq t s) = names_ok s"
  "names_ok (disconnect_peer p s) = names_ok s"
  by (simp_all add: evict_finish_def handleUnban_def disconnect_peer_def Let_def split: option.split)

lemma names_ok_removePeer [simp]: "names_ok (removePeer C t p s) = names_ok s"
  by (simp add: removePeer_def Let_def split: option.split)

lemma links_ok_evict_finish [simp]:
  assumes "links_ok s" and "names_ok s" and "rooms_ok C s" and "r < nextRoom s" and "clean m"
  shows "links_ok (evict_finish C rnd r a p m s)"
proof -
  let ?s = "drop_transport a p (rotateRoomSecret C rnd r s)"
  have "nextRoom ?s = nextRoom s" by (simp add: rotateRoomSecret_def Let_def)
  then have "links_ok (broadcastToRoom r [] m ?s)"
    using assms by (intro links_ok_broadcast [where C = C]) simp_all
  then show ?thesis by (simp add: evict_finish_def Let_def)
qed

lemma links_ok_handleUnban [simp]: "links_ok (handleUnban rq t s) = links_ok s"
  by (simp add: handleUnban_def Let_def split: option.split)


lemma nextRoom_evict [simp]:
  "nextRoom (kick_evict rq al s) = nextRoom s" "nextRoom (ban_evict rq al s) = nextRoom s"
  by (simp_all add: kick_evict_def ban_evict_def delete_member_def add_ban_def crash_def Let_def
      split: option.split)

lemma evict_target_room:
  "evict_target rq al s = Some (r, a, p) \<Longrightarrow> p_room rq = Some r"
  by (rule evict_targetD(1))

lemma links_ok_handleKick [simp]:
  assumes "links_ok s" and "names_ok s" and "rooms_ok C s"
    and "\<And>r. p_room rq = Some r \<Longrightarrow> r < nextRoom s" and "clean al"
  shows "links_ok (handleKick C rnd rq al s)"
  using assms evict_target_room
  by (fastforce simp: handleKick_def Let_def kick_leave_def split: option.split
      intro!: links_ok_evict_finish [where C = C])

lemma links_ok_handleBan [simp]:
  assumes "links_ok s" and "names_ok s" and "rooms_ok C s"
    and "\<And>r. p_room rq = Some r \<Longrightarrow> r < nextRoom s" and "clean al"
  shows "links_ok (handleBan C rnd rq al s)"
  using assms evict_target_room
  by (fastforce simp: handleBan_def Let_def ban_leave_def split: option.split
      intro!: links_ok_evict_finish [where C = C])

lemma names_ok_handleKickBan [simp]:
  "names_ok (handleKick C rnd rq al s) = names_ok s" "names_ok (handleBan C rnd rq al s) = names_ok s"
  by (simp_all add: handleKick_def handleBan_def Let_def split: option.split)


section \<open>JOIN\<close>

lemma clean_join_fields:
  assumes "\<forall>w \<in> set ws. clean w" and "join_fields ws = (n, a, p, d)"
  shows "clean n" "clean a"
  using assms by (cases ws rule: join_fields.cases; auto split: if_splits)+

lemma clean_parse_join:
  assumes "clean m" and "parse_join m = (n, a, p, d)"
  shows "clean n" "clean a"
proof -
  have "\<forall>w \<in> set (if m = [] then [] else split_on pipe m). clean w"
    using clean_split_on [OF assms(1)] by simp
  from clean_join_fields [OF this] assms(2) show "clean n" "clean a"
    by (simp_all add: parse_join_def)
qed

lemma enter_room_sel [simp]:
  "nextRoom (enter_room p r s) = nextRoom s" "nextPeer (enter_room p r s) = nextPeer s"
  "links_ok (enter_room p r s) = links_ok s"
  by (simp_all add: enter_room_eq)

lemma links_ok_find_or_create_room [simp]:
  "links_ok (snd (find_or_create_room C rnd a n rk h s)) = links_ok s"
  by (rule links_ok_cong) simp_all

lemma links_ok_joinRoom:
  assumes "links_ok s" and "names_ok s" and "rooms_ok C s" and "p < nextPeer s"
    and "length rnd = 32" and "h \<Longrightarrow> AuthKey rk \<noteq> []" and "clean n"
  shows "links_ok (joinRoom C rnd t p n rk h s)"
proof -
  let ?f = "find_or_create_room C rnd (p_addr (peerHeap s p)) n rk h s"
  let ?s = "enter_room p (fst ?f) (snd ?f)"
  let ?t = "conn_put (p_conn (peerHeap ?s p)) (secret_message (r_roomSecret (roomHeap ?s (fst ?f)))) ?s"
  have ok: "rooms_ok C ?s" and r: "fst ?f < nextRoom ?s"
    using find_or_create_room_ok [OF assms(3,5,6)] assms(4) by (simp_all add: rooms_ok_enter_room)
  have names: "names_ok ?s" using assms(2,7) by simp
  have p: "p < nextPeer ?t" using assms(4) by simp
  have t: "rooms_ok C ?t" "names_ok ?t" "links_ok ?t" "fst ?f < nextRoom ?t"
    using ok names r assms(1) by simp_all
  have "links_ok (broadcastToRoom (fst ?f) (p_addr (peerHeap ?t p)) (join_notice (peerHeap ?t p)) ?t)"
    using names_okD(1,2) [OF t(2) p]
    by (intro links_ok_broadcast [OF t(3,2,1,4)] clean_notices)
  then show ?thesis by (simp add: joinRoom_def Let_def)
qed

lemma names_ok_joinRoom [simp]:
  "names_ok s \<Longrightarrow> clean n \<Longrightarrow> names_ok (joinRoom C rnd t p n rk h s)"
  by (simp add: joinRoom_def Let_def)

lemma links_ok_reject_join [simp]: "links_ok s \<Longrightarrow> clean m \<Longrightarrow> links_ok (reject_join p m s)"
  using wire_text_refusal [of m] by (simp add: reject_join_def)

lemma names_ok_reject_join [simp]: "names_ok (reject_join p m s) = names_ok s"
  by (simp add: reject_join_def)

lemma links_ok_note_identity [simp]: "links_ok (note_identity p a d s) = links_ok s"
  by (simp add: note_identity_def)

lemma join_refusal_clean: "join_refusal p r pw rk s = Some m \<Longrightarrow> clean m"
  by (auto simp: join_refusal_def Let_def split: if_splits)

lemma handle_join_lines:
  assumes "links_ok s" and "names_ok s" and "rooms_ok C s" and "p < nextPeer s"
    and "length rnd = 32" and "kdf_length C" and "clean m"
  shows "links_ok (handle_join C rnd t p m s)" and "names_ok (handle_join C rnd t p m s)"
proof -
  obtain n al pw d where f: "parse_join m = (n, al, pw, d)" by (metis prod_cases4)
  note c = clean_parse_join [OF assms(7) f]
  let ?s = "note_identity p al d s"
  have s: "links_ok ?s" "names_ok ?s" "rooms_ok C ?s" "p < nextPeer ?s"
    using assms c by simp_all
  have join: "links_ok (joinRoom C rnd t p n (DeriveRoomKeys C n pw x) (pw \<noteq> []) ?s)" for x
    by (rule links_ok_joinRoom [OF s assms(5)])
      (use c room_auth_key_nonempty [OF assms(6)] in simp_all)
  show "links_ok (handle_join C rnd t p m s)"
    using join s c by (auto simp: handle_join_def f Let_def split: option.split dest: join_refusal_clean)
  show "names_ok (handle_join C rnd t p m s)"
    using s c by (auto simp: handle_join_def f Let_def split: option.split)
qed


section \<open>The other lines\<close>

lemma relay_encrypted_lines:
  assumes "links_ok s" and "names_ok s" and "rooms_ok C s" and "p < nextPeer s" and "r < nextRoom s"
    and "clean a" and "clean c"
  shows "links_ok (relay_encrypted C t p r a c ps s)" and "names_ok (relay_encrypted C t p r a c ps s)"
proof -
  let ?s = "update_peer p (\<lambda>pr. pr\<lparr>p_alias := a\<rparr>) s"
  have s: "names_ok ?s" "rooms_ok C ?s"
    using assms names_okD(1) [OF assms(2,4)] by (auto intro: names_ok_update_peer rooms_ok_update_peer)
  have "links_ok (broadcastToRoom r (p_addr (peerHeap ?s p)) c ?s)"
    using assms names_okD(1) [OF s(1), of p] by (intro links_ok_broadcast [OF _ s]) simp_all
  then show "links_ok (relay_encrypted C t p r a c ps s)"
    using assms(1) by (simp add: relay_encrypted_def Let_def split: list.split)
  show "names_ok (relay_encrypted C t p r a c ps s)"
    using s(1) assms(2) by (simp add: relay_encrypted_def Let_def split: list.split)
qed

lemma handle_from_lines:
  assumes "links_ok s" and "names_ok s" and "rooms_ok C s" and "p < nextPeer s" and "clean b"
  shows "links_ok (handle_from C t p b s)" and "names_ok (handle_from C t p b s)"
proof -
  have "clean w" if "w \<in> set (split_n 2 pipe b)" for w
    using clean_split_n [OF assms(5) that] .
  then show "links_ok (handle_from C t p b s)" "names_ok (handle_from C t p b s)"
    using relay_encrypted_lines [OF assms(1-4)] peer_room [OF assms(3,4)] assms(1,2)
    by (auto simp: handle_from_def split: list.split option.split)
qed

lemma handle_system_lines:
  assumes "links_ok s" and "names_ok s" and "rooms_ok C s" and "p < nextPeer s" and "clean m"
  shows "links_ok (handle_system C t p m s)" and "names_ok (handle_system C t p m s)"
  using links_ok_broadcast [OF assms(1-3)] peer_room [OF assms(3,4)] assms
  by (auto simp: handle_system_def Let_def split: option.split)

lemma handle_text_lines:
  assumes "links_ok s" and "names_ok s" and "rooms_ok C s" and "p < nextPeer s" and "clean m"
  shows "links_ok (handle_text C t p m s)" and "names_ok (handle_text C t p m s)"
  using links_ok_broadcast [OF assms(1-3)] peer_room [OF assms(3,4)] names_okD(1) [OF assms(2,4)] assms
  by (auto simp: handle_text_def Let_def split: option.split)

lemma clean_command_arg: "clean m \<Longrightarrow> clean (command_arg cmd m)"
  by (simp add: command_arg_def)

lemma handleMessage_lines:
  assumes "links_ok s" and "names_ok s" and "rooms_ok C s" and "p < nextPeer s"
    and "length rnd = 32" and "kdf_length C" and "clean m"
  shows "links_ok (handleMessage C rnd t p m s)" and "names_ok (handleMessage C rnd t p m s)"
proof -
  have r: "p_room (peerHeap s p) = Some r \<Longrightarrow> r < nextRoom s" for r
    by (rule peer_room [OF assms(3,4)])
  note lines = handle_join_lines [OF assms(1-6)] handle_from_lines [OF assms(1-4)]
    handle_system_lines [OF assms(1-4)] handle_text_lines [OF assms(1-4)]
    links_ok_handleKick [OF assms(1-3) r] links_ok_handleBan [OF assms(1-3) r]
  show "links_ok (handleMessage C rnd t p m s)"
    using lines wire_text_ping(2) assms(1,7) by (simp add: handleMessage_def clean_command_arg)
  show "names_ok (handleMessage C rnd t p m s)"
    using lines assms(2,7) by (simp add: handleMessage_def)
qed


section \<open>Every event\<close>

text \<open>
  What the readers and the host guarantee of an event: a line is read up to its line break, an
  address and a generated alias have none, nor has the room name of the host or the notice that
  \<open>handleKick\<close> or \<open>handleBan\<close> has prepared.
\<close>

fun one_line :: "relay_event \<Rightarrow> bool" where
  "one_line (Line p rnd t raw) = (case split_on newline raw of [u, e] \<Rightarrow> e = [] | _ \<Rightarrow> False)"
| "one_line (Accept c a al t) = (clean a \<and> clean al)"
| "one_line (HostCreate rnd n pw) = clean n"
| "one_line (FinishEviction rnd r a p m) = clean m"
| "one_line e = True"

lemma one_line_Line: "one_line (Line p rnd t raw) \<Longrightarrow> clean (trim_space raw)"
proof -
  assume "one_line (Line p rnd t raw)"
  then obtain u where u: "split_on newline raw = [u, []]" by (auto split: list.splits)
  then have "raw = u @ [newline]" using join_split_on [of newline raw] by simp
  moreover have "clean u" using split_on_parts [of u newline raw] u by simp
  ultimately show "clean (trim_space raw)" using trim_line_clean by simp
qed

lemma accept_peer_lines:
  assumes "clean a" and "clean al"
  shows "links_ok s \<Longrightarrow> links_ok (snd (accept_peer c a al t s))"
    and "names_ok s \<Longrightarrow> names_ok (snd (accept_peer c a al t s))"
  using assms by (simp_all add: accept_peer_def Let_def)
    (simp add: names_ok_def less_Suc_eq)

lemma links_ok_CreateRoom [simp]: "links_ok (CreateRoom C rnd n rk b pw s) = links_ok s"
  by (simp add: CreateRoom_def Let_def)

lemma links_ok_host:
  "links_ok s \<Longrightarrow> names_ok s \<Longrightarrow> r < nextRoom s \<Longrightarrow> links_ok (kick_evict (creator a (Some r)) al s)"
  "links_ok s \<Longrightarrow> names_ok s \<Longrightarrow> r < nextRoom s \<Longrightarrow> links_ok (ban_evict (creator a (Some r)) al s)"
  by (rule links_ok_kick_evict, simp_all) (rule links_ok_ban_evict, simp_all)

lemma relay_op_lines:
  assumes ok: "links_ok s" "names_ok s" "rooms_ok C s" and "enabled e s" and "kdf_length C"
    and "one_line e"
  shows "links_ok (relay_op C e s)" and "names_ok (relay_op C e s)"
proof -
  have room: "p < nextPeer s \<Longrightarrow> p_room (peerHeap s p) = Some r \<Longrightarrow> r < nextRoom s" for p r
    by (rule peer_room [OF ok(3)])
  show "links_ok (relay_op C e s)"
    using assms one_line_Line room
    by (cases e) (auto simp: serve_line_def Let_def handleMessage_lines links_ok_removePeer
        accept_peer_lines links_ok_host simp del: one_line.simps(1) intro: links_ok_evict_finish)
  show "names_ok (relay_op C e s)"
    using assms one_line_Line
    by (cases e) (auto simp: serve_line_def Let_def handleMessage_lines accept_peer_lines
        simp del: one_line.simps(1))
qed


lemma relay_step_lines:
  assumes "srv_ok C s \<and> links_ok s \<and> names_ok s" and "kdf_length C" and "one_line e"
  shows "srv_ok C (relay_step C e s) \<and> links_ok (relay_step C e s) \<and> names_ok (relay_step C e s)"
  using assms srv_ok_relay_step [of C s e] relay_op_lines [of s C e]
  by (auto simp: relay_step_def srv_ok_def)

lemma relay_run_lines:
  assumes "srv_ok C s \<and> links_ok s \<and> names_ok s" and "kdf_length C" and "list_all one_line es"
  shows "links_ok (fold (relay_step C) es s)"
  using assms
proof (induction es arbitrary: s)
  case (Cons e es)
  then show ?case using Cons.IH [OF relay_step_lines] by simp
qed simp

text \<open>
  C5. From a fresh relay, after any interleaving of connections, lines, moderation, writer turns
  and failures, every queued message is one chat line and every write is a sequence of chat lines
  and control lines: no peer can smuggle a line of its own, a forged \<open>SECRET:\<close> say, into what
  another one reads.
\<close>

theorem relay_speaks_lines:
  assumes "NewServer port tcp om osm cmg cm = Inr s0" and "cm_ok cm" and "links_ok cm"
    and "om \<longrightarrow> cmg" and "kdf_length C" and "list_all one_line es"
  shows "list_all chat_line (mc_out (mcs (fold (relay_step C) es s0) i)) \<and>
    list_all wire_text (c_sent (conns (fold (relay_step C) es s0) c))"
proof -
  have "links_ok s0" "names_ok s0"
    using assms(3) NewServer_sel [OF assms(1)] by (simp_all add: links_ok_def names_ok_def)
  moreover have "srv_ok C s0"
    using NewServer_srv_ok [OF assms(1,2,4)] .
  ultimately show ?thesis
    using relay_run_lines [of C s0 es] assms(5,6) by (simp add: links_ok_def)
qed

theorem relay_speaks_lines_witness:
  "\<exists>s0. NewServer (Some 9000) True True True True demo_cm = Inr s0 \<and>
     list_all wire_text (c_sent (conns (fold (relay_step toy)
       [Accept 1 ''a:1'' ''x'' 5,
        Line 0 (replicate 32 (CHR ''s'')) 6 (''JOIN:lobby|ann'' @ [newline])] s0) 1))"
proof -
  obtain s0 where s0: "NewServer (Some 9000) True True True True demo_cm = Inr s0"
    by (simp add: NewServer_def)
  have "links_ok demo_cm"
    by (simp add: demo_cm_def NewConnectionManager_def newManagedConnection_def links_ok_def)
  moreover have "list_all one_line
      [Accept 1 ''a:1'' ''x'' 5, Line 0 (replicate 32 (CHR ''s'')) 6 (''JOIN:lobby|ann'' @ [newline])]"
    by simp
  ultimately show ?thesis
    using relay_speaks_lines [OF s0 demo_cm_ok' _ _ toy_kdf_length] s0 by blast
qed

end
