(* ===== verification/Load_Test.thy ===== *)
theory Load_Test
  imports Complex_Main Relay_Delivery "HOL-Library.Word" "HOL-Library.Multiset"
begin

text \<open>
  The benchmark client \<open>loadtest/main.go\<close>, without its peers (those are in \<open>Load_Peer\<close>): the
  options and their checks, the classes of errors, dialling with retries, the payload and the
  statistics.

  An error is its text.  Every duration the program measures is a whole number of milliseconds
  stored in a \<open>float64\<close>, so samples are integers here, and a mean is the exact quotient, which the
  code rounds to a \<open>float64\<close>; a division by zero, which gives no number in \<open>float64\<close>, is \<open>None\<close>.
\<close>

section \<open>Options\<close>

record config =
  cfg_n :: int
  cfg_target :: string
  cfg_room :: string
  cfg_password :: string
  cfg_rate :: int
  cfg_duration :: int
  cfg_proto :: string
  cfg_size :: int
  cfg_aliasPrefix :: string
  cfg_output :: string
  cfg_csv :: bool
  cfg_mode :: string
  cfg_sizes :: string
  cfg_rates :: string
  cfg_dialStagger :: time
  cfg_dialRetries :: int

text \<open>\<open>parseIntList\<close>: \<open>None\<close> is an error of \<open>Atoi\<close>.\<close>

fun int_fields :: "string list \<Rightarrow> int list option" where
  "int_fields [] = Some []"
| "int_fields (p # ps) =
     (let t = trim_space p
      in if t = [] then int_fields ps
         else (case atoi t of
                 None \<Rightarrow> None
               | Some v \<Rightarrow> map_option (\<lambda>vs. v # vs) (int_fields ps)))"

definition parseIntList :: "string \<Rightarrow> int list option" where
  "parseIntList s = (if s = [] then Some [] else int_fields (split_on (CHR '','') s))"

text \<open>The modes of \<open>main\<close>, once the options have passed its checks.\<close>

datatype load_mode = DialMode | LatencyMode | ThroughputMode | ScaleMode

definition load_main :: "config \<Rightarrow> load_mode option" where
  "load_main cfg =
     (if cfg_target cfg = [] \<or> cfg_target cfg = ''127.0.0.1:0'' then None
      else if cfg_proto cfg \<noteq> ''quic'' \<and> cfg_proto cfg \<noteq> ''tcp'' \<and> cfg_proto cfg \<noteq> ''race'' then None
      else if cfg_mode cfg = ''dial'' then Some DialMode
      else if cfg_mode cfg = ''latency'' then Some LatencyMode
      else if cfg_mode cfg = ''throughput'' then Some ThroughputMode
      else if cfg_mode cfg = ''scale'' then Some ScaleMode
      else None)"

definition effectiveStagger :: "time \<Rightarrow> int \<Rightarrow> time" where
  "effectiveStagger explicit n =
     (if 0 < explicit then explicit else if 500 \<le> n then milliseconds 5 else 0)"


section \<open>Errors\<close>

datatype errorClass = errBenign | errTransient | errReal

definition benignErrorSubstrings :: "string list" where
  "benignErrorSubstrings =
     [''Application error 0x0'', ''use of closed network connection'', ''context canceled'',
      ''server closed'', ''EOF'']"

definition transientErrorSubstrings :: "string list" where
  "transientErrorSubstrings =
     [''connection refused'', ''CONNECTION_REFUSED'', ''i/o timeout'', ''timeout'',
      ''connection reset by peer'', ''reset by peer'', ''no route to host'',
      ''can'' @ [CHR 0x27] @ ''t assign requested address'']"

text \<open>\<open>None\<close> is the nil error; \<open>io.EOF\<close> is the error whose text is \<open>EOF\<close>.\<close>

definition classifyError :: "string option \<Rightarrow> errorClass" where
  "classifyError err =
     (case err of
        None \<Rightarrow> errBenign
      | Some s \<Rightarrow>
          if s = ''EOF'' then errBenign
          else if list_ex (contains_str s) transientErrorSubstrings then errTransient
          else if list_ex (contains_str s) benignErrorSubstrings then errBenign
          else errReal)"

definition isTransientDialError :: "string \<Rightarrow> bool" where
  "isTransientDialError err \<longleftrightarrow> classifyError (Some err) = errTransient"

text \<open>The counters start at zero, as reads of a Go map do.\<close>

record errorStats =
  es_counts :: "errorClass \<Rightarrow> nat"
  es_samples :: "errorClass \<Rightarrow> string option"

definition newErrorStats :: errorStats where
  "newErrorStats = \<lparr>es_counts = (\<lambda>_. 0), es_samples = (\<lambda>_. None)\<rparr>"

definition es_record :: "string option \<Rightarrow> errorStats \<Rightarrow> errorStats" where
  "es_record err e =
     (case err of
        None \<Rightarrow> e
      | Some s \<Rightarrow>
          (let c = classifyError err;
               e1 = e\<lparr>es_counts := (es_counts e)(c := es_counts e c + 1)\<rparr>
           in if es_samples e1 c = None then e1\<lparr>es_samples := (es_samples e1)(c := Some s)\<rparr> else e1))"

definition realCount :: "errorStats \<Rightarrow> nat" where
  "realCount e = es_counts e errTransient + es_counts e errReal"

definition total_count :: "errorStats \<Rightarrow> nat" where
  "total_count e = es_counts e errBenign + es_counts e errTransient + es_counts e errReal"

text \<open>The lines \<open>report\<close> writes to the standard error stream.\<close>

definition sample_line :: "string \<Rightarrow> string option \<Rightarrow> string list" where
  "sample_line kind sample =
     (case sample of None \<Rightarrow> [] | Some s \<Rightarrow> [''  e.g. ('' @ kind @ ''): '' @ s @ [newline]])"

definition es_report :: "string \<Rightarrow> errorStats \<Rightarrow> string list" where
  "es_report label e =
     (if total_count e = 0 then []
      else [''['' @ label @ ''] errors: benign='' @ nat_str (es_counts e errBenign)
             @ '' transient='' @ nat_str (es_counts e errTransient)
             @ '' real='' @ nat_str (es_counts e errReal) @ [newline]]
           @ sample_line ''transient'' (es_samples e errTransient)
           @ sample_line ''real'' (es_samples e errReal))"

lemma es_record_total: "total_count (es_record (Some s) e) = Suc (total_count e)"
  by (cases "classifyError (Some s)") (simp_all add: es_record_def total_count_def Let_def)

text \<open>A transient error stays transient whatever context is wrapped around it.\<close>

lemma contains_str_trans: "contains_str s t \<Longrightarrow> contains_str t u \<Longrightarrow> contains_str s u"
  unfolding contains_str_iff by (metis append.assoc)

lemma transient_iff:
  "classifyError (Some s) = errTransient \<longleftrightarrow> list_ex (contains_str s) transientErrorSubstrings"
  by (auto simp: classifyError_def) (simp add: transientErrorSubstrings_def)

lemma wrapped_transient:
  assumes "isTransientDialError s"
  shows "isTransientDialError (w @ s)"
proof -
  have "contains_str (w @ s) s" using contains_str_append [of w s "[]"] by simp
  then show ?thesis
    using assms contains_str_trans
    by (auto simp: isTransientDialError_def transient_iff list_ex_iff)
qed


section \<open>Dialling\<close>

text \<open>
  What the network answers to one attempt: the QUIC connection and its stream, the TCP connection
  and its TLS handshake, which of the two ends first in a race, and whether the context is
  cancelled during the pause that follows.  Connections are numbers.
\<close>

record attempt_env =
  at_quic :: "string + nat"
  at_stream :: "string option"
  at_tcp :: "string + nat"
  at_tls :: "string option"
  at_quic_first :: bool
  at_cancelled :: "string option"

text \<open>
  The outcome of a dial: its result, the connections it opened and those it closed (the loser of a
  race when it arrives), and the goroutines left waiting for a result that never comes.
\<close>

record dial_out =
  do_result :: "string + nat"
  do_opened :: "nat list"
  do_closed :: "nat list"
  do_stuck :: nat

definition dialQUIC :: "attempt_env \<Rightarrow> dial_out" where
  "dialQUIC a =
     (case at_quic a of
        Inl e \<Rightarrow> \<lparr>do_result = Inl (''dialQUIC: '' @ e), do_opened = [], do_closed = [], do_stuck = 0\<rparr>
      | Inr c \<Rightarrow>
          (case at_stream a of
             Some e \<Rightarrow> \<lparr>do_result = Inl (''dialQUIC stream open: '' @ e), do_opened = [c],
                        do_closed = [c], do_stuck = 0\<rparr>
           | None \<Rightarrow> \<lparr>do_result = Inr c, do_opened = [c], do_closed = [], do_stuck = 0\<rparr>))"

definition dialTCP :: "attempt_env \<Rightarrow> dial_out" where
  "dialTCP a =
     (case at_tcp a of
        Inl e \<Rightarrow> \<lparr>do_result = Inl (''dialTCP: '' @ e), do_opened = [], do_closed = [], do_stuck = 0\<rparr>
      | Inr c \<Rightarrow>
          (case at_tls a of
             Some e \<Rightarrow> \<lparr>do_result = Inl (''dialTCP handshake: '' @ e), do_opened = [c],
                        do_closed = [c], do_stuck = 0\<rparr>
           | None \<Rightarrow> \<lparr>do_result = Inr c, do_opened = [c], do_closed = [], do_stuck = 0\<rparr>))"

text \<open>
  The race over the two results in the order they arrive.  After a success a goroutine waits for
  the other result and closes its connection; when the other result was read before, it waits for
  ever.
\<close>

definition race_outcome :: "dial_out \<Rightarrow> dial_out \<Rightarrow> dial_out" where
  "race_outcome first second =
     \<lparr>do_result = (case do_result first of
                     Inr c \<Rightarrow> Inr c
                   | Inl e \<Rightarrow> do_result second),
      do_opened = do_opened first @ do_opened second,
      do_closed = do_closed first @ do_closed second
        @ (case (do_result first, do_result second) of (Inr c, Inr d) \<Rightarrow> [d] | _ \<Rightarrow> []),
      do_stuck = (case (do_result first, do_result second) of (Inl e, Inr d) \<Rightarrow> 1 | _ \<Rightarrow> 0)\<rparr>"

definition dialRace :: "attempt_env \<Rightarrow> dial_out" where
  "dialRace a =
     (if at_quic_first a then race_outcome (dialQUIC a) (dialTCP a)
      else race_outcome (dialTCP a) (dialQUIC a))"

definition dialOnce :: "attempt_env \<Rightarrow> config \<Rightarrow> dial_out" where
  "dialOnce a cfg =
     (if cfg_proto cfg = ''quic'' then dialQUIC a
      else if cfg_proto cfg = ''tcp'' then dialTCP a
      else if cfg_proto cfg = ''race'' then dialRace a
      else dialTCP a)"

text \<open>
  The retry loop.  \<open>backoff\<close> is a \<open>time.Duration\<close>, a 64-bit integer that doubling may overflow;
  \<open>rt_waits\<close> are the pauses begun, \<open>rt_dials\<close> counts the dials.
\<close>

record retry_out =
  rt_result :: "string + nat"
  rt_dials :: nat
  rt_waits :: "time list"
  rt_opened :: "nat list"
  rt_closed :: "nat list"

definition retry_stop :: "string + nat \<Rightarrow> dial_out \<Rightarrow> time list \<Rightarrow> retry_out" where
  "retry_stop r d waits =
     \<lparr>rt_result = r, rt_dials = 1, rt_waits = waits, rt_opened = do_opened d, rt_closed = do_closed d\<rparr>"

definition retry_after :: "dial_out \<Rightarrow> time \<Rightarrow> retry_out \<Rightarrow> retry_out" where
  "retry_after d wait r =
     \<lparr>rt_result = rt_result r, rt_dials = Suc (rt_dials r), rt_waits = wait # rt_waits r,
      rt_opened = do_opened d @ rt_opened r, rt_closed = do_closed d @ rt_closed r\<rparr>"

definition give_up :: "nat \<Rightarrow> string \<Rightarrow> string" where
  "give_up attempts lastErr =
     ''dialWithRetry: failed after '' @ nat_str attempts @ '' attempts: '' @ lastErr"

function dial_loop ::
    "config \<Rightarrow> (nat \<Rightarrow> attempt_env) \<Rightarrow> nat \<Rightarrow> nat \<Rightarrow> 64 word \<Rightarrow> string \<Rightarrow> retry_out" where
  "dial_loop cfg env attempts attempt backoff lastErr =
     (if attempt < attempts
      then (let d = dialOnce (env attempt) cfg
            in case do_result d of
                 Inr c \<Rightarrow> retry_stop (Inr c) d []
               | Inl e \<Rightarrow>
                   if \<not> isTransientDialError e then retry_stop (Inl e) d []
                   else if attempt = attempts - 1 then retry_stop (Inl (give_up attempts e)) d []
                   else (case at_cancelled (env attempt) of
                           Some ce \<Rightarrow> retry_stop (Inl (''dialWithRetry: '' @ ce)) d [sint backoff]
                         | None \<Rightarrow> retry_after d (sint backoff)
                             (dial_loop cfg env attempts (Suc attempt) (backoff * 2) e)))
      else \<lparr>rt_result = Inl (give_up attempts lastErr), rt_dials = 0, rt_waits = [],
            rt_opened = [], rt_closed = []\<rparr>)"
  by pat_completeness auto
termination
  by (relation "measure (\<lambda>(cfg, env, attempts, attempt, backoff, lastErr). attempts - attempt)") auto

declare dial_loop.simps [simp del]

definition dialWithRetry :: "(nat \<Rightarrow> attempt_env) \<Rightarrow> config \<Rightarrow> retry_out" where
  "dialWithRetry env cfg =
     dial_loop cfg env (nat (max 1 (cfg_dialRetries cfg))) 0 100000000 []"

text \<open>One attempt fails in a way that is tried again.\<close>

definition retried :: "config \<Rightarrow> attempt_env \<Rightarrow> bool" where
  "retried cfg a \<longleftrightarrow>
     (case do_result (dialOnce a cfg) of Inr c \<Rightarrow> False | Inl e \<Rightarrow> isTransientDialError e) \<and>
     at_cancelled a = None"

text \<open>The loop from an attempt on: what it does with each outcome.\<close>

lemma dial_loop_again:
  assumes "attempt + 1 < attempts" and "retried cfg (env attempt)"
  shows "\<exists>e. dial_loop cfg env attempts attempt b l =
     retry_after (dialOnce (env attempt) cfg) (sint b)
       (dial_loop cfg env attempts (Suc attempt) (b * 2) e)"
  using assms by (subst dial_loop.simps) (auto simp: retried_def Let_def split: sum.splits)

lemma dial_loop_ends:
  assumes "attempt < attempts" and "attempt + 1 = attempts \<or> \<not> retried cfg (env attempt)"
  shows "\<exists>r ws. dial_loop cfg env attempts attempt b l =
      retry_stop r (dialOnce (env attempt) cfg) ws \<and>
    (case do_result (dialOnce (env attempt) cfg) of Inr c \<Rightarrow> r = Inr c | Inl e \<Rightarrow> \<exists>e'. r = Inl e') \<and>
    (ws = [] \<or> attempt + 1 < attempts \<and> ws = [sint b])"
proof (cases "do_result (dialOnce (env attempt) cfg)")
  case (Inr c)
  with assms(1) show ?thesis by (subst dial_loop.simps) auto
next
  case (Inl e)
  show ?thesis
  proof (cases "isTransientDialError e \<and> attempt + 1 < attempts")
    case True
    with assms Inl obtain ce where "at_cancelled (env attempt) = Some ce"
      by (auto simp: retried_def)
    moreover have "attempt \<noteq> attempts - 1" using True by arith
    ultimately show ?thesis using True Inl by (subst dial_loop.simps) (auto simp: Let_def)
  next
    case False
    with assms(1) have "\<not> isTransientDialError e \<or> attempt = attempts - 1" by auto
    with assms(1) Inl have "\<exists>e'. dial_loop cfg env attempts attempt b l =
        retry_stop (Inl e') (dialOnce (env attempt) cfg) []"
      by (subst dial_loop.simps) (simp add: Let_def, blast)
    with Inl show ?thesis by auto
  qed
qed

text \<open>The pauses double, until the 64-bit duration overflows.\<close>

fun doublings :: "64 word \<Rightarrow> nat \<Rightarrow> time list" where
  "doublings b 0 = []"
| "doublings b (Suc n) = sint b # doublings (b * 2) n"

text \<open>Induction over the attempts: the loop stops at this one, or pauses and goes on.\<close>

definition stops :: "config \<Rightarrow> (nat \<Rightarrow> attempt_env) \<Rightarrow> nat \<Rightarrow> nat \<Rightarrow> string + nat \<Rightarrow> bool" where
  "stops cfg env attempts attempt r \<longleftrightarrow>
     (attempt + 1 = attempts \<or> \<not> retried cfg (env attempt)) \<and>
     (case do_result (dialOnce (env attempt) cfg) of Inr c \<Rightarrow> r = Inr c | Inl e \<Rightarrow> \<exists>e'. r = Inl e')"

lemma dial_loop_rule [consumes 1, case_names stop again]:
  assumes "attempt < attempts"
    and stop: "\<And>attempt b r ws. attempt < attempts \<Longrightarrow> stops cfg env attempts attempt r \<Longrightarrow>
        ws = [] \<or> attempt + 1 < attempts \<and> ws = [sint b] \<Longrightarrow>
        P attempt b (retry_stop r (dialOnce (env attempt) cfg) ws)"
    and again: "\<And>attempt b r. attempt + 1 < attempts \<Longrightarrow> retried cfg (env attempt) \<Longrightarrow>
        P (Suc attempt) (b * 2) r \<Longrightarrow> P attempt b (retry_after (dialOnce (env attempt) cfg) (sint b) r)"
  shows "P attempt b (dial_loop cfg env attempts attempt b l)"
  using assms(1)
proof (induction "attempts - attempt" arbitrary: attempt b l rule: less_induct)
  case less
  show ?case
  proof (cases "attempt + 1 = attempts \<or> \<not> retried cfg (env attempt)")
    case True
    obtain r ws where r: "dial_loop cfg env attempts attempt b l =
        retry_stop r (dialOnce (env attempt) cfg) ws"
      "case do_result (dialOnce (env attempt) cfg) of Inr c \<Rightarrow> r = Inr c | Inl e \<Rightarrow> \<exists>e'. r = Inl e'"
      "ws = [] \<or> attempt + 1 < attempts \<and> ws = [sint b]"
      using dial_loop_ends [where env = env, OF less.prems True, of b l] by blast
    then have "stops cfg env attempts attempt r" using True by (simp add: stops_def)
    then show ?thesis using stop [OF less.prems] r(1,3) by simp
  next
    case False
    then have lt: "attempt + 1 < attempts" and re: "retried cfg (env attempt)" using less.prems by auto
    from dial_loop_again [of attempt attempts cfg env b l] lt re obtain e where
      "dial_loop cfg env attempts attempt b l = retry_after (dialOnce (env attempt) cfg) (sint b)
         (dial_loop cfg env attempts (Suc attempt) (b * 2) e)" by blast
    moreover have "P (Suc attempt) (b * 2) (dial_loop cfg env attempts (Suc attempt) (b * 2) e)"
      using lt by (intro less.hyps) auto
    ultimately show ?thesis using again lt re by simp
  qed
qed

lemma dial_loop_dials:
  assumes "attempt < attempts"
  shows "0 < rt_dials (dial_loop cfg env attempts attempt b l) \<and>
    attempt + rt_dials (dial_loop cfg env attempts attempt b l) \<le> attempts \<and>
    (\<exists>n. rt_waits (dial_loop cfg env attempts attempt b l) = doublings b n \<and> attempt + n < attempts)"
  using assms
proof (induction rule: dial_loop_rule)
  case (stop attempt b r ws)
  then have "\<exists>n. ws = doublings b n \<and> attempt + n < attempts"
    by (auto intro: exI [of _ 0] exI [of _ 1])
  with stop show ?case by (simp add: retry_stop_def)
next
  case (again attempt b r)
  then obtain n where "rt_waits r = doublings (b * 2) n" "Suc attempt + n < attempts" by blast
  then have "sint b # rt_waits r = doublings b (Suc n)" "attempt + Suc n < attempts" by simp_all
  then have "\<exists>n. sint b # rt_waits r = doublings b n \<and> attempt + n < attempts" by blast
  with again(3) show ?case by (simp add: retry_after_def)
qed

lemma dial_loop_result:
  assumes "attempt < attempts"
  shows "\<exists>k. attempt \<le> k \<and> k < attempts \<and> (\<forall>j. attempt \<le> j \<and> j < k \<longrightarrow> retried cfg (env j)) \<and>
    stops cfg env attempts k (rt_result (dial_loop cfg env attempts attempt b l))"
  using assms
proof (induction rule: dial_loop_rule)
  case (stop attempt b r ws)
  then show ?case by (intro exI [of _ attempt]) (auto simp: retry_stop_def)
next
  case (again attempt b r)
  then obtain k where k: "Suc attempt \<le> k" "k < attempts"
      "\<forall>j. Suc attempt \<le> j \<and> j < k \<longrightarrow> retried cfg (env j)"
      "stops cfg env attempts k (rt_result r)" by blast
  have "retried cfg (env j)" if "attempt \<le> j" "j < k" for j
    using k(3) again(2) that by (cases "j = attempt") auto
  then show ?case using k by (intro exI [of _ k]) (simp add: retry_after_def)
qed

text \<open>The connections a dial leaves open: the one it returns.\<close>

definition kept :: "string + nat \<Rightarrow> nat multiset" where
  "kept r = (case r of Inr c \<Rightarrow> {#c#} | Inl e \<Rightarrow> {#})"

lemma dial_closes:
  "mset (do_opened (dialQUIC a)) = mset (do_closed (dialQUIC a)) + kept (do_result (dialQUIC a))"
  "mset (do_opened (dialTCP a)) = mset (do_closed (dialTCP a)) + kept (do_result (dialTCP a))"
  by (simp_all add: dialQUIC_def dialTCP_def kept_def split: sum.split option.split)

lemma race_closes:
  assumes "mset (do_opened x) = mset (do_closed x) + kept (do_result x)"
    and "mset (do_opened y) = mset (do_closed y) + kept (do_result y)"
  shows "mset (do_opened (race_outcome x y)) =
    mset (do_closed (race_outcome x y)) + kept (do_result (race_outcome x y))"
  using assms by (auto simp: race_outcome_def kept_def split: sum.splits)

lemma dialOnce_closes:
  "mset (do_opened (dialOnce a cfg)) = mset (do_closed (dialOnce a cfg)) + kept (do_result (dialOnce a cfg))"
  by (simp add: dialOnce_def dialRace_def dial_closes race_closes)

lemma dial_loop_closes:
  assumes "attempt < attempts"
  shows "mset (rt_opened (dial_loop cfg env attempts attempt b l)) =
    mset (rt_closed (dial_loop cfg env attempts attempt b l)) +
    kept (rt_result (dial_loop cfg env attempts attempt b l))"
  using assms
proof (induction rule: dial_loop_rule)
  case (stop attempt b r ws)
  then have "kept r = kept (do_result (dialOnce (env attempt) cfg))"
    by (auto simp: stops_def kept_def split: sum.splits)
  then show ?case by (simp add: retry_stop_def dialOnce_closes)
next
  case (again attempt b r)
  then have "kept (do_result (dialOnce (env attempt) cfg)) = {#}"
    by (auto simp: retried_def kept_def split: sum.splits)
  then show ?case using again(3) by (simp add: retry_after_def dialOnce_closes)
qed

text \<open>The pauses are exactly 100 ms times the powers of two as long as they fit in 64 bits.\<close>

lemma sint_small: "0 \<le> m \<Longrightarrow> m < 2 ^ 63 \<Longrightarrow> sint (word_of_int m :: 64 word) = m"
  by (simp add: sint_sbintrunc' signed_take_bit_int_eq_self)

lemma doublings_exact:
  assumes "0 \<le> m" and "m * 2 ^ n < 2 ^ 64"
  shows "doublings (word_of_int m) n = map (\<lambda>k. m * 2 ^ k) [0..<n]"
  using assms
proof (induction n arbitrary: m)
  case 0
  then show ?case by simp
next
  case (Suc n)
  have "m * 2 \<le> m * 2 ^ Suc n" using Suc.prems(1) by (intro mult_left_mono) simp_all
  then have "m < 2 ^ 63" using Suc.prems by simp
  then have "sint (word_of_int m :: 64 word) = m" using Suc.prems(1) by (rule sint_small [rotated])
  moreover have "doublings (word_of_int (2 * m)) n = map (\<lambda>k. 2 * m * 2 ^ k) [0..<n]"
    using Suc.prems by (intro Suc.IH) simp_all
  moreover have "word_of_int m * 2 = (word_of_int (2 * m) :: 64 word)" by simp
  moreover have "map (\<lambda>k. m * 2 ^ k) [0..<Suc n] = m # map (\<lambda>k. 2 * m * 2 ^ k) [0..<n]"
    by (simp add: upt_conv_Cons map_Suc_upt [symmetric] comp_def ac_simps del: upt_Suc)
  ultimately show ?case by (simp only: doublings.simps)
qed

text \<open>
  C31. Dialling ends: it makes at least one and at most \<open>max 1 dialRetries\<close> dials, and returns a
  connection exactly when some dial succeeds after only transient failures.  Up to 38 attempts the
  pauses are 100 ms, 200 ms, 400 ms and so on; from then on the duration would overflow.
\<close>

theorem dialWithRetry_terminates:
  assumes "attempts = nat (max 1 (cfg_dialRetries cfg))"
  shows "0 < rt_dials (dialWithRetry env cfg) \<and> rt_dials (dialWithRetry env cfg) \<le> attempts \<and>
    ((\<exists>c. rt_result (dialWithRetry env cfg) = Inr c) \<longleftrightarrow>
       (\<exists>k < attempts. (\<exists>c. do_result (dialOnce (env k) cfg) = Inr c) \<and>
          (\<forall>j < k. retried cfg (env j)))) \<and>
    (cfg_dialRetries cfg \<le> 38 \<longrightarrow>
       rt_waits (dialWithRetry env cfg) =
         map (\<lambda>k. milliseconds 100 * 2 ^ k) [0..<length (rt_waits (dialWithRetry env cfg))])"
proof -
  let ?r = "dialWithRetry env cfg"
  have pos: "0 < attempts" by (simp add: assms)
  obtain n where n: "rt_waits ?r = doublings 100000000 n" "n < attempts"
    and d: "0 < rt_dials ?r" "rt_dials ?r \<le> attempts"
    using dial_loop_dials [OF pos, of cfg env 100000000 "[]"] by (auto simp: dialWithRetry_def assms)
  obtain k where k: "k < attempts" "\<forall>j < k. retried cfg (env j)"
      "stops cfg env attempts k (rt_result ?r)"
    using dial_loop_result [OF pos, of cfg env 100000000 "[]"] by (auto simp: dialWithRetry_def assms)
  have "(\<exists>c. rt_result ?r = Inr c) \<longleftrightarrow> (\<exists>k < attempts. (\<exists>c. do_result (dialOnce (env k) cfg) = Inr c) \<and>
          (\<forall>j < k. retried cfg (env j)))" (is "?L \<longleftrightarrow> ?R")
  proof
    assume ?L
    then show ?R using k by (auto simp: stops_def split: sum.splits)
  next
    assume ?R
    then obtain i c where i: "i < attempts" "do_result (dialOnce (env i) cfg) = Inr c"
      "\<forall>j < i. retried cfg (env j)" by blast
    then have "\<not> retried cfg (env i)" by (simp add: retried_def)
    then have "k \<le> i" using k(2) by (meson not_le)
    moreover have "\<not> k < i" using k(3) i by (auto simp: stops_def)
    ultimately have "k = i" by simp
    then show ?L using k(3) i(2) by (auto simp: stops_def)
  qed
  moreover have "rt_waits ?r = map (\<lambda>k. milliseconds 100 * 2 ^ k) [0..<length (rt_waits ?r)]"
    if "cfg_dialRetries cfg \<le> 38"
  proof -
    have "n \<le> 37" using n(2) that by (simp add: assms)
    then have "(2 :: int) ^ n \<le> 2 ^ 37" by (intro power_increasing) simp_all
    then have "doublings (word_of_int 100000000) n = map (\<lambda>k. 100000000 * 2 ^ k) [0..<n]"
      by (intro doublings_exact) simp_all
    then show ?thesis by (simp add: n)
  qed
  ultimately show ?thesis using d by blast
qed


definition demo_config :: config where
  "demo_config =
     \<lparr>cfg_n = 2, cfg_target = ''127.0.0.1:9'', cfg_room = ''bench-room'', cfg_password = [],
      cfg_rate = 1, cfg_duration = 30, cfg_proto = ''race'', cfg_size = 100,
      cfg_aliasPrefix = ''peer'', cfg_output = [], cfg_csv = True, cfg_mode = ''scale'',
      cfg_sizes = ''64,256'', cfg_rates = ''1,5'', cfg_dialStagger = 0, cfg_dialRetries = 3\<rparr>"

text \<open>A relay that refuses the first dial and answers the second one over TCP only.\<close>

definition demo_attempts :: "nat \<Rightarrow> attempt_env" where
  "demo_attempts k =
     \<lparr>at_quic = Inl ''timeout: no recent network activity'', at_stream = None,
      at_tcp = (if k = 0 then Inl ''connect: connection refused'' else Inr k), at_tls = None,
      at_quic_first = True, at_cancelled = None\<rparr>"

theorem dialWithRetry_terminates_witness:
  "rt_dials (dialWithRetry demo_attempts demo_config) \<le> 3 \<and>
   (\<exists>c. rt_result (dialWithRetry demo_attempts demo_config) = Inr c) \<and>
   rt_waits (dialWithRetry demo_attempts demo_config) =
     map (\<lambda>k. milliseconds 100 * 2 ^ k)
       [0..<length (rt_waits (dialWithRetry demo_attempts demo_config))]"
proof -
  have a: "3 = nat (max 1 (cfg_dialRetries demo_config))" by (simp add: demo_config_def)
  have "do_result (dialOnce (demo_attempts 1) demo_config) = Inr 1" by code_simp
  moreover have "retried demo_config (demo_attempts 0)" by code_simp
  ultimately have "\<exists>k < 3. (\<exists>c. do_result (dialOnce (demo_attempts k) demo_config) = Inr c) \<and>
      (\<forall>j < k. retried demo_config (demo_attempts j))"
    by (intro exI [of _ 1]) auto
  then show ?thesis
    using dialWithRetry_terminates [OF a, of demo_attempts] by (simp add: demo_config_def)
qed

text \<open>
  C32. Dialling leaks no connection: whatever the network answers, over either transport or both
  at once, every connection opened has been closed again except the one returned.
\<close>

theorem dial_leaks_nothing:
  "mset (rt_opened (dialWithRetry env cfg)) =
     mset (rt_closed (dialWithRetry env cfg)) + kept (rt_result (dialWithRetry env cfg))"
  unfolding dialWithRetry_def by (rule dial_loop_closes) simp

text \<open>A race whose first result is a failure and whose second is a success leaves a goroutine.\<close>

lemma race_goroutine_stuck:
  "do_stuck (race_outcome first second) = 1 \<longleftrightarrow>
     (\<exists>e c. do_result first = Inl e \<and> do_result second = Inr c)"
  by (auto simp: race_outcome_def split: sum.splits)


section \<open>Payload and statistics\<close>

text \<open>A slice up to a bound: \<open>msgID[:size]\<close> is only taken when it is in range.\<close>

definition buildPayload :: "string \<Rightarrow> int \<Rightarrow> string" where
  "buildPayload msgID sz =
     (let pre = msgID @ [pipe]
      in if sz \<le> int (length pre)
         then (if sz \<le> 0 then [] else if int (length msgID) < sz then msgID
               else take (nat sz) msgID)
         else pre @ replicate (nat (sz - int (length pre))) (CHR ''A''))"

text \<open>
  \<open>percentile\<close> on a sorted list.  The code computes the rank \<open>ceil(n * p / 100)\<close> in \<open>float64\<close>, which
  is exact for the whole percentages it is called with.
\<close>

definition percentile :: "int list \<Rightarrow> nat \<Rightarrow> int" where
  "percentile xs p =
     (if xs = [] then 0
      else (let idx = int ((length xs * p + 99) div 100) - 1;
                i1 = (if idx < 0 then 0 else idx);
                i2 = (if int (length xs) \<le> i1 then int (length xs) - 1 else i1)
            in xs ! nat i2))"

definition mean :: "int list \<Rightarrow> rat" where
  "mean xs = rat_of_int (sum_list xs) / rat_of_nat (length xs)"

definition load_stats :: "int list \<Rightarrow> rat \<times> int" where
  "load_stats values =
     (if values = [] then (0, 0) else (mean (sort values), percentile (sort values) 95))"

section \<open>Results of the peers\<close>

text \<open>\<open>pr_disconnected\<close> is the counter that is only ever set to 1.\<close>

record peerResult =
  pr_peerID :: nat
  pr_dialMs :: int
  pr_joinMs :: int
  pr_msgsSent :: nat
  pr_msgsRecv :: nat
  pr_rtts :: "int list"
  pr_errors :: nat
  pr_disconnected :: nat

definition new_peerResult :: peerResult where
  "new_peerResult =
     \<lparr>pr_peerID = 0, pr_dialMs = 0, pr_joinMs = 0, pr_msgsSent = 0, pr_msgsRecv = 0, pr_rtts = [],
      pr_errors = 0, pr_disconnected = 0\<rparr>"

text \<open>One dial of the dial mode; the time a failed dial took is a sample too.\<close>

record dialResult =
  dr_peerID :: nat
  dr_dialMs :: int
  dr_err :: "string option"

definition runDialPeer ::
    "(nat \<Rightarrow> attempt_env) \<Rightarrow> int \<Rightarrow> config \<Rightarrow> nat \<Rightarrow> errorStats \<Rightarrow> dialResult \<times> errorStats" where
  "runDialPeer env elapsed cfg peerID es =
     (case rt_result (dialWithRetry env cfg) of
        Inl e \<Rightarrow> (\<lparr>dr_peerID = peerID, dr_dialMs = elapsed, dr_err = Some e\<rparr>, es_record (Some e) es)
      | Inr c \<Rightarrow> (\<lparr>dr_peerID = peerID, dr_dialMs = elapsed, dr_err = None\<rparr>, es))"

record dialAggregate =
  da_timestamp :: string
  da_proto :: string
  da_n :: int
  da_target :: string
  da_min :: int
  da_p50 :: int
  da_p95 :: int
  da_p99 :: int
  da_max :: int
  da_avg :: rat
  da_errorsTotal :: nat

definition spread :: "int list \<Rightarrow> int list" where
  "spread xs =
     (if xs = [] then [0, 0, 0, 0, 0]
      else (let s = sort xs in [s ! 0, percentile s 50, percentile s 95, percentile s 99,
                                s ! (length s - 1)]))"

definition aggregateDialResults :: "string \<Rightarrow> dialResult list \<Rightarrow> config \<Rightarrow> dialAggregate" where
  "aggregateDialResults now results cfg =
     (let ms = map dr_dialMs results; sp = spread ms
      in \<lparr>da_timestamp = now, da_proto = cfg_proto cfg, da_n = cfg_n cfg, da_target = cfg_target cfg,
          da_min = sp ! 0, da_p50 = sp ! 1, da_p95 = sp ! 2, da_p99 = sp ! 3, da_max = sp ! 4,
          da_avg = (if ms = [] then 0 else mean (sort ms)),
          da_errorsTotal = length (filter (\<lambda>r. dr_err r \<noteq> None) results)\<rparr>)"

record latencyAggregate =
  la_timestamp :: string
  la_proto :: string
  la_n :: int
  la_size :: int
  la_target :: string
  la_dialMs :: "rat \<times> int"
  la_joinMs :: "rat \<times> int"
  la_msgsSent :: nat
  la_msgsRecv :: nat
  la_rtt :: "int list"
  la_errorsTotal :: nat

definition aggregateLatencyResults ::
    "string \<Rightarrow> peerResult list \<Rightarrow> config \<Rightarrow> int \<Rightarrow> latencyAggregate" where
  "aggregateLatencyResults now results cfg sz =
     \<lparr>la_timestamp = now, la_proto = cfg_proto cfg, la_n = cfg_n cfg, la_size = sz,
      la_target = cfg_target cfg, la_dialMs = load_stats (map pr_dialMs results),
      la_joinMs = load_stats (map pr_joinMs results),
      la_msgsSent = sum_list (map pr_msgsSent results),
      la_msgsRecv = sum_list (map pr_msgsRecv results),
      la_rtt = spread (concat (map pr_rtts results)),
      la_errorsTotal = sum_list (map pr_errors results)\<rparr>"

text \<open>
  The two throughput figures: messages and kilobytes per second and peer, no number when the run
  has no peers or no duration.  The number of bytes is a product of 64-bit integers.
\<close>

definition per_peer_second :: "rat \<Rightarrow> config \<Rightarrow> rat option" where
  "per_peer_second x cfg =
     (if cfg_n cfg = 0 \<or> cfg_duration cfg = 0 then None
      else Some (x / rat_of_int (cfg_n cfg) / rat_of_int (cfg_duration cfg)))"

definition sent_bytes :: "nat \<Rightarrow> int \<Rightarrow> int" where
  "sent_bytes sent sz = sint (word_of_int (int sent) * word_of_int sz :: 64 word)"

record throughputAggregate =
  ta_timestamp :: string
  ta_proto :: string
  ta_n :: int
  ta_rate :: int
  ta_duration :: int
  ta_size :: int
  ta_target :: string
  ta_msgsSent :: nat
  ta_msgsRecv :: nat
  ta_msgsPerSec :: "rat option"
  ta_KBPerSec :: "rat option"
  ta_errorsTotal :: nat
  ta_disconnectsTotal :: nat

definition aggregateThroughputResults ::
    "string \<Rightarrow> peerResult list \<Rightarrow> config \<Rightarrow> throughputAggregate" where
  "aggregateThroughputResults now results cfg =
     (let sent = sum_list (map pr_msgsSent results)
      in \<lparr>ta_timestamp = now, ta_proto = cfg_proto cfg, ta_n = cfg_n cfg, ta_rate = cfg_rate cfg,
          ta_duration = cfg_duration cfg, ta_size = cfg_size cfg, ta_target = cfg_target cfg,
          ta_msgsSent = sent, ta_msgsRecv = sum_list (map pr_msgsRecv results),
          ta_msgsPerSec = per_peer_second (rat_of_nat sent) cfg,
          ta_KBPerSec = per_peer_second (rat_of_int (sent_bytes sent (cfg_size cfg)) / 1024) cfg,
          ta_errorsTotal = sum_list (map pr_errors results),
          ta_disconnectsTotal = sum_list (map pr_disconnected results)\<rparr>)"

text \<open>The scale mode reports the throughput figures together with the dial, join and RTT ones.\<close>

record aggregateResult = throughputAggregate +
  ag_dialMs :: "rat \<times> int"
  ag_joinMs :: "rat \<times> int"
  ag_rtt :: "int list"

definition aggregateResults :: "string \<Rightarrow> peerResult list \<Rightarrow> config \<Rightarrow> aggregateResult" where
  "aggregateResults now results cfg =
     throughputAggregate.extend (aggregateThroughputResults now results cfg)
       (aggregateResult.fields (load_stats (map pr_dialMs results))
          (load_stats (map pr_joinMs results)) (spread (concat (map pr_rtts results))))"

section \<open>What the payload and the figures mean\<close>

text \<open>
  A payload has the requested length, one byte less when the separator alone would not fit,
  and a receiver reads the whole message ID from it exactly when the size leaves room for it.
\<close>

theorem buildPayload_correct:
  assumes "pipe \<notin> set m" and "m \<noteq> []"
  shows "int (length (buildPayload m sz)) =
      (if sz \<le> 0 then 0 else if sz = int (length m) + 1 then sz - 1 else sz) \<and>
    (hd (split_n 2 pipe (buildPayload m sz)) = m \<longleftrightarrow> int (length m) \<le> sz)"
proof -
  consider "sz \<le> 0" | "0 < sz" "sz < int (length m)" | "sz = int (length m)"
    | "sz = int (length m) + 1" | "int (length m) + 1 < sz" by linarith
  then show ?thesis
  proof cases
    case 1
    then show ?thesis using assms(2) by (cases m) (auto simp: buildPayload_def Let_def numeral_2_eq_2)
  next
    case 2
    then have b: "buildPayload m sz = take (nat sz) m" by (simp add: buildPayload_def Let_def)
    have "pipe \<notin> set (take (nat sz) m)" using assms(1) by (auto dest: in_set_takeD)
    then have "split_n 2 pipe (take (nat sz) m) = [take (nat sz) m]" by (simp add: split_n_singleton)
    moreover have "take (nat sz) m \<noteq> m" using 2 by (auto simp: take_all_iff)
    ultimately show ?thesis using 2 by (simp add: b)
  next
    case 3
    then show ?thesis using assms
      by (cases "m = []") (simp_all add: buildPayload_def Let_def split_n_singleton)
  next
    case 4
    then show ?thesis using assms by (simp add: buildPayload_def Let_def split_n_singleton)
  next
    case 5
    then have "buildPayload m sz = m @ pipe # replicate (nat (sz - int (length m) - 1)) (CHR ''A'')"
      by (simp add: buildPayload_def Let_def algebra_simps)
    then show ?thesis using assms(1) 5 by (simp add: split_n_2)
  qed
qed

theorem buildPayload_correct_witness:
  "int (length (buildPayload ''peer-0-7'' 64)) = 64 \<and>
   hd (split_n 2 pipe (buildPayload ''peer-0-7'' 64)) = ''peer-0-7''"
  using buildPayload_correct [of "''peer-0-7''" 64] by simp

text \<open>Counting the samples around an element of a sorted list.\<close>

lemma count_upto:
  assumes "sorted xs" and "i < length xs"
  shows "Suc i \<le> length (filter (\<lambda>x. x \<le> xs ! i) xs)"
proof -
  have "\<forall>x \<in> set (take (Suc i) xs). x \<le> xs ! i"
    using assms by (auto simp: in_set_conv_nth intro!: sorted_nth_mono)
  then have "filter (\<lambda>x. x \<le> xs ! i) (take (Suc i) xs) = take (Suc i) xs" by simp
  then have "length (filter (\<lambda>x. x \<le> xs ! i) (take (Suc i) xs)) = Suc i" using assms(2) by simp
  moreover have "length (filter (\<lambda>x. x \<le> xs ! i) (take (Suc i) xs)) \<le>
      length (filter (\<lambda>x. x \<le> xs ! i) (take (Suc i) xs @ drop (Suc i) xs))"
    unfolding filter_append length_append by simp
  ultimately show ?thesis by simp
qed

lemma count_below:
  assumes "sorted xs" and "i < length xs"
  shows "length (filter (\<lambda>x. x < xs ! i) xs) \<le> i"
proof -
  have "\<forall>x \<in> set (drop i xs). \<not> x < xs ! i"
    using assms by (auto simp: in_set_conv_nth not_less intro!: sorted_nth_mono)
  then have "filter (\<lambda>x. x < xs ! i) (drop i xs) = []" by (simp add: filter_empty_conv)
  moreover have "length (filter (\<lambda>x. x < xs ! i) (take i xs)) \<le> i"
    using length_filter_le [of "\<lambda>x. x < xs ! i" "take i xs"] by simp
  ultimately have "length (filter (\<lambda>x. x < xs ! i) (take i xs @ drop i xs)) \<le> i"
    unfolding filter_append by simp
  then show ?thesis by simp
qed

text \<open>The index of a percentile.\<close>

definition rank :: "nat \<Rightarrow> nat \<Rightarrow> nat" where
  "rank n p = (n * p + 99) div 100 - 1"

lemma rank_bounds:
  assumes "0 < n" and "0 < p" and "p \<le> 100"
  shows "n * p \<le> 100 * Suc (rank n p)" "100 * rank n p < n * p" "rank n p < n"
proof -
  have round: "0 < N \<Longrightarrow> N \<le> 100 * Suc ((N + 99) div 100 - 1) \<and> 100 * ((N + 99) div 100 - 1) < N" for N :: nat
  proof -
    assume "0 < N"
    define q where "q = (N + 99) div 100"
    have "N + 99 = 100 * q + (N + 99) mod 100" "(N + 99) mod 100 < 100" by (simp_all add: q_def)
    with \<open>0 < N\<close> have "1 \<le> q" "N \<le> 100 * q" "100 * q < N + 100" by linarith+
    then have "N \<le> 100 * Suc (q - 1) \<and> 100 * (q - 1) < N" by (cases q) auto
    then show ?thesis by (simp only: q_def)
  qed
  have np: "0 < n * p" "n * p \<le> 100 * n" using assms by simp_all
  show "n * p \<le> 100 * Suc (rank n p)" using round [OF np(1)] by (simp only: rank_def)
  show low: "100 * rank n p < n * p" using round [OF np(1)] by (simp only: rank_def)
  from less_le_trans [OF low np(2)] show "rank n p < n" by simp
qed

lemma percentile_rank_eq:
  assumes "xs \<noteq> []" and "0 < p" and "p \<le> 100"
  shows "percentile xs p = xs ! rank (length xs) p"
proof -
  have n: "0 < length xs" using assms(1) by simp
  then have "1 \<le> (length xs * p + 99) div 100" using assms(2) by (simp add: div_greater_zero_iff Suc_le_eq)
  then have "int ((length xs * p + 99) div 100) - 1 = int (rank (length xs) p)"
    by (simp add: rank_def)
  then show ?thesis using rank_bounds(3) [OF n assms(2,3)] assms(1) by (simp add: percentile_def Let_def)
qed

text \<open>
  A percentile is the nearest rank: a sample such that at least \<open>p\<close> per cent of the samples
  are at most it, and fewer than \<open>p\<close> per cent are below it.
\<close>

theorem percentile_nearest_rank:
  assumes "sorted xs" and "xs \<noteq> []" and "0 < p" and "p \<le> 100"
  shows "percentile xs p \<in> set xs \<and>
    length xs * p \<le> 100 * length (filter (\<lambda>x. x \<le> percentile xs p) xs) \<and>
    100 * length (filter (\<lambda>x. x < percentile xs p) xs) < length xs * p"
proof -
  let ?i = "rank (length xs) p"
  have n: "0 < length xs" using assms(2) by simp
  note r = rank_bounds [OF n assms(3,4)]
  have "length xs * p \<le> 100 * length (filter (\<lambda>x. x \<le> xs ! ?i) xs)"
    by (rule le_trans [OF r(1) mult_le_mono2 [OF count_upto [OF assms(1) r(3)]]])
  moreover have "100 * length (filter (\<lambda>x. x < xs ! ?i) xs) < length xs * p"
    by (rule le_less_trans [OF mult_le_mono2 [OF count_below [OF assms(1) r(3)]] r(2)])
  ultimately show ?thesis using r(3) by (simp add: percentile_rank_eq [OF assms(2-4)])
qed

theorem percentile_nearest_rank_witness:
  "percentile [1, 2, 3, 4] 50 \<in> set [1, 2, 3, 4 :: int] \<and>
   100 * length (filter (\<lambda>x. x < percentile [1, 2, 3, 4] 50) [1, 2, 3, 4 :: int]) < 4 * 50"
  using percentile_nearest_rank [of "[1, 2, 3, 4]" 50] by simp

lemma rank_mono: "p \<le> q \<Longrightarrow> rank n p \<le> rank n q"
  unfolding rank_def by (intro diff_le_mono div_le_mono add_le_mono mult_le_mono) simp_all

text \<open>The five figures of a summary are in order.\<close>

lemma spread_sorted: "sorted (spread xs)"
proof (cases "xs = []")
  case False
  let ?s = "sort xs" and ?n = "length (sort xs)"
  have s: "0 < ?n" using False by simp
  then have s': "?s \<noteq> []" by (metis length_0_conv less_irrefl)
  have le: "i \<le> j \<Longrightarrow> j < ?n \<Longrightarrow> ?s ! i \<le> ?s ! j" for i j
    by (rule sorted_nth_mono) simp_all
  have r: "rank ?n p < ?n" if "0 < p" "p \<le> 100" for p
    by (rule rank_bounds(3) [OF s that])
  have "?s ! 0 \<le> ?s ! rank ?n 50" "?s ! rank ?n 50 \<le> ?s ! rank ?n 95"
    "?s ! rank ?n 95 \<le> ?s ! rank ?n 99"
    using r [of 50] r [of 95] r [of 99] by (intro le rank_mono; simp)+
  moreover have "?s ! rank ?n 99 \<le> ?s ! (?n - 1)" using r [of 99] s by (intro le) simp_all
  ultimately show ?thesis
    using False by (simp add: spread_def Let_def percentile_rank_eq [OF s'])
qed (simp add: spread_def)

lemma spread_length: "length (spread xs) = 5"
  by (simp add: spread_def Let_def)

end
