(* ===== verification/Load_Peer.thy ===== *)
theory Load_Peer
  imports Load_Test Relay_Properties
begin

text \<open>
  The peers of the benchmark client (\<open>runPeer\<close> and \<open>runLatencyPeer\<close> of \<open>loadtest/main.go\<close>): each
  one dials, joins the room, sends messages and has a reader that answers pings and takes the
  round-trip times from the table of send times that all peers share.

  A peer is its goroutine, its reader and its result; what it reads, when it reads it and how its
  writes end are the inputs of a step.  The peers of a run are interleaved in any order.
\<close>

section \<open>State\<close>

datatype load_phase = NotDialled | Connected | Sending | Draining | Ended

text \<open>\<open>lp_finished\<close> is \<open>senderFinished\<close>; \<open>lp_out\<close> holds the lines whose write succeeded.\<close>

record load_peer =
  lp_res :: peerResult
  lp_phase :: load_phase
  lp_reading :: bool
  lp_finished :: bool
  lp_msgIndex :: nat
  lp_deadline :: time
  lp_out :: "string list"

text \<open>The shared part: \<open>globalTracker\<close>, the error counts, and whether the process has panicked.\<close>

record load_run =
  lr_sendTimes :: "(string, time) gomap"
  lr_stats :: errorStats
  lr_peers :: "nat \<Rightarrow> load_peer"
  lr_panicked :: bool

definition load_start :: load_run where
  "load_start =
     \<lparr>lr_sendTimes = [], lr_stats = newErrorStats,
      lr_peers = (\<lambda>_. \<lparr>lp_res = new_peerResult, lp_phase = NotDialled, lp_reading = False,
        lp_finished = False, lp_msgIndex = 0, lp_deadline = 0, lp_out = []\<rparr>),
      lr_panicked = False\<rparr>"

definition on_peer :: "nat \<Rightarrow> (load_peer \<Rightarrow> load_peer) \<Rightarrow> load_run \<Rightarrow> load_run" where
  "on_peer i f st = st\<lparr>lr_peers := (lr_peers st)(i := f (lr_peers st i))\<rparr>"

definition on_result :: "nat \<Rightarrow> (peerResult \<Rightarrow> peerResult) \<Rightarrow> load_run \<Rightarrow> load_run" where
  "on_result i f st = on_peer i (\<lambda>p. p\<lparr>lp_res := f (lp_res p)\<rparr>) st"

definition set_lphase :: "nat \<Rightarrow> load_phase \<Rightarrow> load_run \<Rightarrow> load_run" where
  "set_lphase i ph st = on_peer i (\<lambda>p. p\<lparr>lp_phase := ph\<rparr>) st"

text \<open>\<open>res.errors.Add(1)\<close> and \<open>es.record(err)\<close>.\<close>

definition note_error :: "nat \<Rightarrow> string \<Rightarrow> load_run \<Rightarrow> load_run" where
  "note_error i err st =
     (let s1 = on_result i (\<lambda>r. r\<lparr>pr_errors := pr_errors r + 1\<rparr>) st
      in s1\<lparr>lr_stats := es_record (Some err) (lr_stats s1)\<rparr>)"

definition note_real_error :: "nat \<Rightarrow> string \<Rightarrow> load_run \<Rightarrow> load_run" where
  "note_real_error i err st =
     (if classifyError (Some err) \<noteq> errBenign then note_error i err st else st)"

definition sent_line :: "nat \<Rightarrow> string \<Rightarrow> load_run \<Rightarrow> load_run" where
  "sent_line i line st = on_peer i (\<lambda>p. p\<lparr>lp_out := lp_out p @ [line]\<rparr>) st"


section \<open>The reader\<close>

definition set_disconnected :: "nat \<Rightarrow> load_run \<Rightarrow> load_run" where
  "set_disconnected i st = on_result i (\<lambda>r. r\<lparr>pr_disconnected := 1\<rparr>) st"

definition load_read_error :: "nat \<Rightarrow> string \<Rightarrow> load_run \<Rightarrow> load_run" where
  "load_read_error i err st =
     (let s1 = on_peer i (\<lambda>p. p\<lparr>lp_reading := False\<rparr>) st
      in if lp_finished (lr_peers st i) then s1
         else set_disconnected i (note_real_error i err s1))"

text \<open>The message ID a \<open>FROM:\<close> line carries, if it is one in the table.\<close>

definition message_id :: "(string, time) gomap \<Rightarrow> string \<Rightarrow> string option" where
  "message_id sends line =
     (let parts = split_n 3 pipe (trim_prefix line ''FROM:'');
          id1 = (if 2 \<le> length parts then parts ! 1 else [])
      in if mapped sends id1 then Some id1
         else if 3 \<le> length parts
           then (let id2 = hd (split_n 2 pipe (parts ! 2))
                 in if mapped sends id2 then Some id2 else None)
         else None)"

text \<open>\<open>Duration.Milliseconds\<close>, which truncates towards zero.\<close>

definition ms_of :: "time \<Rightarrow> int" where
  "ms_of d = (if d < 0 then - ((- d) div 1000000) else d div 1000000)"

definition take_rtt :: "nat \<Rightarrow> time \<Rightarrow> string \<Rightarrow> load_run \<Rightarrow> load_run" where
  "take_rtt i now line st =
     (case message_id (lr_sendTimes st) line of
        None \<Rightarrow> st
      | Some m \<Rightarrow>
          (case map_of (lr_sendTimes st) m of
             None \<Rightarrow> st
           | Some sent \<Rightarrow>
               on_result i
                 (\<lambda>r. r\<lparr>pr_rtts := pr_rtts r @ [ms_of (now - sent)], pr_msgsRecv := pr_msgsRecv r + 1\<rparr>)
                 (st\<lparr>lr_sendTimes := AList.delete m (lr_sendTimes st)\<rparr>)))"

definition load_read_line :: "nat \<Rightarrow> time \<Rightarrow> string \<Rightarrow> string option \<Rightarrow> load_run \<Rightarrow> load_run" where
  "load_read_line i now raw werr st =
     (let line = trim_space raw
      in if line = [] then st
         else if line = ''PING'' then
           (case werr of
              None \<Rightarrow> sent_line i (''PONG'' @ [newline]) st
            | Some e \<Rightarrow> note_real_error i e st)
         else if has_prefix line ''AUTH:FAILED'' then note_error i (''auth failed: '' @ line) st
         else if has_prefix line ''FROM:'' then take_rtt i now line st
         else st)"


section \<open>The sender\<close>

definition load_alias :: "config \<Rightarrow> nat \<Rightarrow> string" where
  "load_alias cfg i = cfg_aliasPrefix cfg @ ''-'' @ nat_str i"

definition load_dial :: "config \<Rightarrow> nat \<Rightarrow> (nat \<Rightarrow> attempt_env) \<Rightarrow> int \<Rightarrow> load_run \<Rightarrow> load_run" where
  "load_dial cfg i env elapsed st =
     (let s1 = on_result i (\<lambda>r. r\<lparr>pr_peerID := i\<rparr>) st
      in case rt_result (dialWithRetry env cfg) of
           Inl e \<Rightarrow> set_lphase i Ended (note_error i e s1)
         | Inr c \<Rightarrow>
             on_peer i (\<lambda>p. p\<lparr>lp_phase := Connected, lp_reading := True\<rparr>)
               (on_result i (\<lambda>r. r\<lparr>pr_dialMs := elapsed\<rparr>) s1))"

definition load_join_line :: "config \<Rightarrow> nat \<Rightarrow> string" where
  "load_join_line cfg i =
     (if cfg_password cfg \<noteq> []
      then ''JOIN:'' @ cfg_room cfg @ [pipe] @ load_alias cfg i @ [pipe] @ cfg_password cfg @ [newline]
      else ''JOIN:'' @ cfg_room cfg @ [pipe] @ load_alias cfg i @ [newline])"

text \<open>The write of the JOIN line; \<open>go_on\<close> is what follows a success.\<close>

definition load_join ::
    "config \<Rightarrow> nat \<Rightarrow> int \<Rightarrow> string option \<Rightarrow> (load_run \<Rightarrow> load_run) \<Rightarrow> load_run \<Rightarrow> load_run" where
  "load_join cfg i elapsed werr go_on st =
     (case werr of
        Some e \<Rightarrow> set_lphase i Ended (note_error i e st)
      | None \<Rightarrow>
          go_on (on_result i (\<lambda>r. r\<lparr>pr_joinMs := elapsed\<rparr>)
            (sent_line i (load_join_line cfg i) st)))"

text \<open>
  The interval \<open>time.Second / time.Duration(cfg.rate)\<close> of the ticker: a rate of zero is a division
  by zero, and \<open>NewTicker\<close> panics for an interval that is not positive.
\<close>

definition ticker_interval :: "int \<Rightarrow> time option" where
  "ticker_interval rate =
     (if rate \<le> 0 then None
      else (let d = seconds 1 div rate in if d \<le> 0 then None else Some d))"

definition load_msgID :: "config \<Rightarrow> nat \<Rightarrow> nat \<Rightarrow> string" where
  "load_msgID cfg i k = load_alias cfg i @ ''-'' @ nat_str k"

definition load_message :: "config \<Rightarrow> nat \<Rightarrow> nat \<Rightarrow> int \<Rightarrow> string" where
  "load_message cfg i k sz =
     ''FROM:'' @ load_alias cfg i @ [pipe] @ buildPayload (load_msgID cfg i k) sz @ [newline]"

text \<open>The next message: its send time is noted before the write.\<close>

definition load_send ::
    "config \<Rightarrow> nat \<Rightarrow> int \<Rightarrow> time \<Rightarrow> string option \<Rightarrow> load_run \<Rightarrow> load_run" where
  "load_send cfg i sz now werr st =
     (let k = lp_msgIndex (lr_peers st i);
          s1 = on_peer i (\<lambda>p. p\<lparr>lp_msgIndex := Suc k\<rparr>) st;
          s2 = s1\<lparr>lr_sendTimes := AList.update (load_msgID cfg i k) now (lr_sendTimes s1)\<rparr>
      in case werr of
           Some e \<Rightarrow> s2
         | None \<Rightarrow> on_result i (\<lambda>r. r\<lparr>pr_msgsSent := pr_msgsSent r + 1\<rparr>)
                     (sent_line i (load_message cfg i k sz) s2))"

text \<open>The label \<open>done\<close>: the sender has finished, the connection is still open.\<close>

definition load_done :: "nat \<Rightarrow> load_run \<Rightarrow> load_run" where
  "load_done i st = on_peer i (\<lambda>p. p\<lparr>lp_phase := Draining, lp_finished := True\<rparr>) st"


section \<open>The two kinds of peer\<close>

text \<open>
  One input of a peer: the outcome of its dial; of its join (the time it took, the clock after it,
  the error of the write); one turn of the message loop (the clock of the loop test, whether the
  context is cancelled, the clock of the send, the error of the write); the end of the wait for an
  answer; the end of the pause before the connection is closed; a line and the error of the answer
  to it; the end of the stream.
\<close>

datatype load_input =
    Dial "nat \<Rightarrow> attempt_env" int
  | Join int time "string option"
  | Turn time bool time "string option"
  | WaitOver
  | PauseOver
  | ReadLine time string "string option"
  | ReadError string

definition runPeer :: "config \<Rightarrow> nat \<Rightarrow> load_input \<Rightarrow> load_run \<Rightarrow> load_run" where
  "runPeer cfg i inp st =
     (let p = lr_peers st i
      in if lr_panicked st then st
         else case inp of
           Dial env elapsed \<Rightarrow>
             if lp_phase p = NotDialled then load_dial cfg i env elapsed st else st
         | Join elapsed clock werr \<Rightarrow>
             if lp_phase p = Connected
             then load_join cfg i elapsed werr
               (\<lambda>s. case ticker_interval (cfg_rate cfg) of
                      None \<Rightarrow> s\<lparr>lr_panicked := True\<rparr>
                    | Some d \<Rightarrow> on_peer i
                        (\<lambda>q. q\<lparr>lp_phase := Sending, lp_deadline := clock + seconds (cfg_duration cfg)\<rparr>) s) st
             else st
         | Turn clock cancelled now werr \<Rightarrow>
             if lp_phase p \<noteq> Sending then st
             else if \<not> clock < lp_deadline p \<or> cancelled then load_done i st
             else (case werr of
                     None \<Rightarrow> load_send cfg i (cfg_size cfg) now None st
                   | Some e \<Rightarrow> load_done i
                       (note_real_error i e (load_send cfg i (cfg_size cfg) now (Some e) st)))
         | WaitOver \<Rightarrow> st
         | PauseOver \<Rightarrow> if lp_phase p = Draining then set_lphase i Ended st else st
         | ReadLine now raw werr \<Rightarrow> if lp_reading p then load_read_line i now raw werr st else st
         | ReadError err \<Rightarrow> if lp_reading p then load_read_error i err st else st)"

text \<open>
  \<open>runLatencyPeer\<close> sends one message of the given size right after the join (a turn), and waits
  until its answer has come or the duration is over.
\<close>

definition runLatencyPeer :: "config \<Rightarrow> int \<Rightarrow> nat \<Rightarrow> load_input \<Rightarrow> load_run \<Rightarrow> load_run" where
  "runLatencyPeer cfg sz i inp st =
     (let p = lr_peers st i
      in case inp of
           Dial env elapsed \<Rightarrow>
             if lp_phase p = NotDialled then load_dial cfg i env elapsed st else st
         | Join elapsed clock werr \<Rightarrow>
             if lp_phase p = Connected
             then load_join cfg i elapsed werr (set_lphase i Sending) st else st
         | Turn clock cancelled now werr \<Rightarrow>
             if lp_phase p = Sending \<and> lp_msgIndex p = 0
             then (case werr of
                     None \<Rightarrow> load_send cfg i sz now None st
                   | Some e \<Rightarrow> note_error i e (load_send cfg i sz now (Some e) st))
             else st
         | WaitOver \<Rightarrow>
             if lp_phase p = Sending \<and> lp_msgIndex p = 1 then load_done i st else st
         | PauseOver \<Rightarrow> if lp_phase p = Draining then set_lphase i Ended st else st
         | ReadLine now raw werr \<Rightarrow> if lp_reading p then load_read_line i now raw werr st else st
         | ReadError err \<Rightarrow> if lp_reading p then load_read_error i err st else st)"


section \<open>The modes\<close>

text \<open>
  A run of the first \<open>n\<close> peers, each input with the peer it belongs to, in the order they happen.
  The pauses between the launches only delay inputs.
\<close>

definition run_peers ::
    "(nat \<Rightarrow> load_input \<Rightarrow> load_run \<Rightarrow> load_run) \<Rightarrow> nat \<Rightarrow> (nat \<times> load_input) list \<Rightarrow> load_run" where
  "run_peers peer n inputs = fold (\<lambda>(i, inp). peer i inp) (filter (\<lambda>e. fst e < n) inputs) load_start"

definition peer_results :: "nat \<Rightarrow> load_run \<Rightarrow> peerResult list" where
  "peer_results n st = map (\<lambda>i. lp_res (lr_peers st i)) [0..<n]"

text \<open>
  The report of a mode: the error lines and the summary.  \<open>None\<close> is a panic: a negative number of
  peers (the length of a slice), or one in a peer's goroutine.
\<close>

definition runDialMode ::
    "string \<Rightarrow> config \<Rightarrow> ((nat \<Rightarrow> attempt_env) \<times> int) list \<Rightarrow> (string list \<times> dialAggregate) option" where
  "runDialMode now cfg dials =
     (if cfg_n cfg < 0 then None
      else (let outs = fold (\<lambda>(i, env, ms) (rs, es).
                  (let r = runDialPeer env ms cfg i es in (rs @ [fst r], snd r)))
                (enumerate 0 (take (nat (cfg_n cfg)) dials)) ([], newErrorStats);
                label = ''dial '' @ cfg_proto cfg @ '' n='' @ int_str (cfg_n cfg)
            in Some (es_report label (snd outs), aggregateDialResults now (fst outs) cfg)))"

definition runScaleMode ::
    "string \<Rightarrow> config \<Rightarrow> (nat \<times> load_input) list \<Rightarrow> (string list \<times> aggregateResult) option" where
  "runScaleMode now cfg inputs =
     (if cfg_n cfg < 0 then None
      else (let n = nat (cfg_n cfg); st = run_peers (runPeer cfg) n inputs;
                label = ''scale '' @ cfg_proto cfg @ '' n='' @ int_str (cfg_n cfg)
            in if lr_panicked st then None
               else Some (es_report label (lr_stats st), aggregateResults now (peer_results n st) cfg)))"

text \<open>One round per rate or per size, each with fresh peers and a fresh table.\<close>

definition throughput_round ::
    "string \<Rightarrow> config \<Rightarrow> int \<Rightarrow> (nat \<times> load_input) list \<Rightarrow> (string list \<times> throughputAggregate) option" where
  "throughput_round now cfg rate inputs =
     (if cfg_n cfg < 0 then None
      else (let n = nat (cfg_n cfg); local = cfg\<lparr>cfg_rate := rate\<rparr>; st = run_peers (runPeer local) n inputs;
                label = ''throughput '' @ cfg_proto cfg @ '' n='' @ int_str (cfg_n cfg)
                          @ '' rate='' @ int_str rate
            in if lr_panicked st then None
               else Some (es_report label (lr_stats st),
                          aggregateThroughputResults now (peer_results n st) local)))"

definition latency_round ::
    "string \<Rightarrow> config \<Rightarrow> int \<Rightarrow> (nat \<times> load_input) list \<Rightarrow> (string list \<times> latencyAggregate) option" where
  "latency_round now cfg sz inputs =
     (if cfg_n cfg < 0 then None
      else (let n = nat (cfg_n cfg); st = run_peers (runLatencyPeer cfg sz) n inputs;
                label = ''latency '' @ cfg_proto cfg @ '' n='' @ int_str (cfg_n cfg)
                          @ '' size='' @ int_str sz
            in if lr_panicked st then None
               else Some (es_report label (lr_stats st),
                          aggregateLatencyResults now (peer_results n st) cfg sz)))"

text \<open>The rounds up to the first panic; the outer \<open>None\<close> is a list of numbers that does not parse.\<close>

fun rounds :: "(int \<Rightarrow> 'i \<Rightarrow> 'a option) \<Rightarrow> int list \<Rightarrow> 'i list \<Rightarrow> 'a option list" where
  "rounds f (v # vs) (inp # inps) =
     (case f v inp of None \<Rightarrow> [None] | Some a \<Rightarrow> Some a # rounds f vs inps)"
| "rounds f vs inps = []"

definition runThroughputMode ::
    "string \<Rightarrow> config \<Rightarrow> (nat \<times> load_input) list list
     \<Rightarrow> (string list \<times> throughputAggregate) option list option" where
  "runThroughputMode now cfg inputs =
     map_option (\<lambda>rates. rounds (throughput_round now cfg) rates inputs) (parseIntList (cfg_rates cfg))"

definition runLatencyMode ::
    "string \<Rightarrow> config \<Rightarrow> (nat \<times> load_input) list list
     \<Rightarrow> (string list \<times> latencyAggregate) option list option" where
  "runLatencyMode now cfg inputs =
     map_option (\<lambda>sizes. rounds (latency_round now cfg) sizes inputs) (parseIntList (cfg_sizes cfg))"


section \<open>What the counters mean\<close>

text \<open>
  The invariant of a run of \<open>n\<close> peers: the errors of the peers are those in the breakdown, a
  received message has a round-trip time, and a message is received at most once.
\<close>

definition counts_ok :: "nat \<Rightarrow> load_run \<Rightarrow> bool" where
  "counts_ok n st \<longleftrightarrow>
     (\<Sum>i < n. pr_errors (lp_res (lr_peers st i))) = total_count (lr_stats st) \<and>
     (\<forall>i < n. pr_msgsRecv (lp_res (lr_peers st i)) = length (pr_rtts (lp_res (lr_peers st i))) \<and>
        pr_msgsSent (lp_res (lr_peers st i)) \<le> lp_msgIndex (lr_peers st i) \<and>
        pr_disconnected (lp_res (lr_peers st i)) \<le> 1) \<and>
     (\<Sum>i < n. pr_msgsRecv (lp_res (lr_peers st i))) + length (lr_sendTimes st)
       \<le> (\<Sum>i < n. lp_msgIndex (lr_peers st i))"

lemma counts_okD:
  assumes "counts_ok n st"
  shows "(\<Sum>i < n. pr_errors (lp_res (lr_peers st i))) = total_count (lr_stats st)"
    "i < n \<Longrightarrow> pr_msgsRecv (lp_res (lr_peers st i)) = length (pr_rtts (lp_res (lr_peers st i)))"
    "i < n \<Longrightarrow> pr_msgsSent (lp_res (lr_peers st i)) \<le> lp_msgIndex (lr_peers st i)"
    "i < n \<Longrightarrow> pr_disconnected (lp_res (lr_peers st i)) \<le> 1"
    "(\<Sum>i < n. pr_msgsRecv (lp_res (lr_peers st i))) + length (lr_sendTimes st)
       \<le> (\<Sum>i < n. lp_msgIndex (lr_peers st i))"
  using assms unfolding counts_ok_def by blast+

lemma sum_upd:
  fixes f :: "'a \<Rightarrow> nat" and i n :: nat
  assumes "i < n"
  shows "(\<Sum>j < n. f ((P(i := x)) j)) + f (P i) = (\<Sum>j < n. f (P j)) + f x"
proof -
  have i: "i \<in> {..<n}" using assms by simp
  have "(\<Sum>j \<in> {..<n} - {i}. f ((P(i := x)) j)) = (\<Sum>j \<in> {..<n} - {i}. f (P j))"
    by (rule sum.cong) auto
  then show ?thesis
    using sum.remove [OF finite_lessThan i, of "\<lambda>j. f ((P(i := x)) j)"]
      sum.remove [OF finite_lessThan i, of "\<lambda>j. f (P j)"] by simp
qed

text \<open>One step that changes one peer, the table and the breakdown by matching amounts.\<close>

lemma counts_ok_step:
  assumes "counts_ok n st" and "i < n"
    and "lr_peers st' = (lr_peers st)(i := q)"
    and "pr_errors (lp_res q) + total_count (lr_stats st) =
           pr_errors (lp_res (lr_peers st i)) + total_count (lr_stats st')"
    and "pr_msgsRecv (lp_res q) = length (pr_rtts (lp_res q))"
    and "pr_msgsSent (lp_res q) \<le> lp_msgIndex q" and "pr_disconnected (lp_res q) \<le> 1"
    and "pr_msgsRecv (lp_res q) + length (lr_sendTimes st') + lp_msgIndex (lr_peers st i) \<le>
           pr_msgsRecv (lp_res (lr_peers st i)) + length (lr_sendTimes st) + lp_msgIndex q"
  shows "counts_ok n st'"
proof -
  note d = counts_okD [OF assms(1)]
  note u = sum_upd [OF assms(2), where P = "lr_peers st" and x = q]
  have "(\<Sum>j < n. pr_errors (lp_res (lr_peers st' j))) = total_count (lr_stats st')"
    using u [of "\<lambda>p. pr_errors (lp_res p)"] d(1) assms(4) unfolding assms(3) by linarith
  moreover have "(\<Sum>j < n. pr_msgsRecv (lp_res (lr_peers st' j))) + length (lr_sendTimes st')
       \<le> (\<Sum>j < n. lp_msgIndex (lr_peers st' j))"
    using u [of "\<lambda>p. pr_msgsRecv (lp_res p)"] u [of lp_msgIndex] d(5) assms(8)
    unfolding assms(3) by linarith
  ultimately show ?thesis
    using d(2-4) assms(5-7) unfolding counts_ok_def by (simp add: assms(3))
qed

lemma counts_ok_on_peer:
  assumes "counts_ok n st" and "i < n" and "lp_res (f (lr_peers st i)) = lp_res (lr_peers st i)"
    and "lp_msgIndex (f (lr_peers st i)) = lp_msgIndex (lr_peers st i)"
  shows "counts_ok n (on_peer i f st)"
  by (rule counts_ok_step [OF assms(1,2), where q = "f (lr_peers st i)"])
    (use counts_okD [OF assms(1)] assms(2-4) in \<open>simp_all add: on_peer_def\<close>)

lemma counts_ok_note_error:
  assumes "counts_ok n st" and "i < n"
  shows "counts_ok n (note_error i e st)"
  by (rule counts_ok_step [OF assms, where q = "(lr_peers st i)
        \<lparr>lp_res := (lp_res (lr_peers st i))\<lparr>pr_errors := pr_errors (lp_res (lr_peers st i)) + 1\<rparr>\<rparr>"])
    (use counts_okD [OF assms(1)] assms(2) in
      \<open>simp_all add: note_error_def on_result_def on_peer_def es_record_total Let_def\<close>)

lemma counts_ok_note_real_error:
  "counts_ok n st \<Longrightarrow> i < n \<Longrightarrow> counts_ok n (note_real_error i e st)"
  by (simp add: note_real_error_def counts_ok_note_error)

lemma counts_ok_on_result:
  assumes "counts_ok n st" and "i < n"
    and "\<And>r. pr_errors (f r) = pr_errors r" and "\<And>r. pr_msgsRecv (f r) = pr_msgsRecv r"
    and "\<And>r. pr_rtts (f r) = pr_rtts r" and "\<And>r. pr_msgsSent (f r) = pr_msgsSent r"
    and "\<And>r. pr_disconnected r \<le> 1 \<Longrightarrow> pr_disconnected (f r) \<le> 1"
  shows "counts_ok n (on_result i f st)"
  using assms(7) [OF counts_okD(4) [OF assms(1,2)]]
  by (intro counts_ok_step [OF assms(1,2),
        where q = "(lr_peers st i)\<lparr>lp_res := f (lp_res (lr_peers st i))\<rparr>"])
    (use counts_okD [OF assms(1)] assms(2) in \<open>simp_all add: on_result_def on_peer_def assms(3-6)\<close>)

lemmas counts_ok_ops = counts_ok_on_peer counts_ok_note_error counts_ok_note_real_error
  counts_ok_on_result

lemma length_update_le: "length (AList.update k v m) \<le> Suc (length m)"
  by (induction m) auto

lemma length_delete_less: "mapped m k \<Longrightarrow> Suc (length (AList.delete k m)) \<le> length m"
proof (induction m)
  case (Cons e m)
  show ?case
  proof (cases "fst e = k")
    case True
    then show ?thesis by (cases e) (simp add: AList.delete_eq)
  next
    case False
    with Cons show ?thesis by (cases e) (simp add: AList.delete_eq)
  qed
qed simp

lemma counts_ok_take_rtt:
  assumes "counts_ok n st" and "i < n"
  shows "counts_ok n (take_rtt i now line st)"
proof (cases "message_id (lr_sendTimes st) line")
  case None
  then show ?thesis using assms by (simp add: take_rtt_def)
next
  case (Some m)
  show ?thesis
  proof (cases "map_of (lr_sendTimes st) m")
    case None
    then show ?thesis using assms Some by (simp add: take_rtt_def)
  next
    case (Some sent)
    let ?r = "lp_res (lr_peers st i)"
    have "Suc (length (AList.delete m (lr_sendTimes st))) \<le> length (lr_sendTimes st)"
      using Some by (intro length_delete_less) simp
    then show ?thesis
      using \<open>message_id (lr_sendTimes st) line = Some m\<close> Some counts_okD [OF assms(1)] assms(2)
      by (intro counts_ok_step [OF assms, where q = "(lr_peers st i)\<lparr>lp_res :=
            ?r\<lparr>pr_rtts := pr_rtts ?r @ [ms_of (now - sent)], pr_msgsRecv := pr_msgsRecv ?r + 1\<rparr>\<rparr>"])
        (simp_all add: take_rtt_def on_result_def on_peer_def)
  qed
qed

lemma counts_ok_load_send:
  assumes "counts_ok n st" and "i < n"
  shows "counts_ok n (load_send cfg i sz now werr st)"
proof -
  let ?p = "lr_peers st i"
  let ?ok = "?p\<lparr>lp_msgIndex := Suc (lp_msgIndex ?p), lp_out := lp_out ?p @ [load_message cfg i (lp_msgIndex ?p) sz],
      lp_res := (lp_res ?p)\<lparr>pr_msgsSent := pr_msgsSent (lp_res ?p) + 1\<rparr>\<rparr>"
  let ?q = "case werr of Some e \<Rightarrow> ?p\<lparr>lp_msgIndex := Suc (lp_msgIndex ?p)\<rparr> | None \<Rightarrow> ?ok"
  have "length (AList.update (load_msgID cfg i (lp_msgIndex ?p)) now (lr_sendTimes st))
      \<le> Suc (length (lr_sendTimes st))" by (rule length_update_le)
  then show ?thesis
    using counts_okD [OF assms(1)] assms(2)
    by (intro counts_ok_step [OF assms, where q = ?q])
      (cases werr; simp add: load_send_def on_result_def on_peer_def sent_line_def Let_def le_SucI)+
qed

lemma counts_ok_panic [simp]: "counts_ok n (st\<lparr>lr_panicked := b\<rparr>) = counts_ok n st"
  by (simp add: counts_ok_def)

lemma counts_ok_read:
  assumes "counts_ok n st" and "i < n"
  shows "counts_ok n (load_read_line i now raw werr st)" "counts_ok n (load_read_error i err st)"
  using assms
  by (auto simp: load_read_line_def load_read_error_def set_disconnected_def sent_line_def Let_def
      counts_ok_take_rtt split: option.split intro!: counts_ok_ops)

lemma counts_ok_load_dial:
  assumes "counts_ok n st" and "i < n"
  shows "counts_ok n (load_dial cfg i env ms st)"
  using assms
  by (auto simp: load_dial_def set_lphase_def Let_def split: sum.split intro!: counts_ok_ops)

lemma counts_ok_load_join:
  assumes "counts_ok n st" and "i < n" and "\<And>s. counts_ok n s \<Longrightarrow> counts_ok n (go_on s)"
  shows "counts_ok n (load_join cfg i ms werr go_on st)"
proof (cases werr)
  case None
  have "counts_ok n (on_result i (\<lambda>r. r\<lparr>pr_joinMs := ms\<rparr>) (sent_line i (load_join_line cfg i) st))"
    using assms(1,2) by (auto simp: sent_line_def intro!: counts_ok_ops)
  from assms(3) [OF this] None show ?thesis by (simp add: load_join_def)
next
  case (Some e)
  then show ?thesis using assms(1,2) by (auto simp: load_join_def set_lphase_def intro!: counts_ok_ops)
qed

lemma counts_ok_runPeer:
  assumes "counts_ok n st" and "i < n"
  shows "counts_ok n (runPeer cfg i inp st)"
proof (cases inp)
  case (Join ms clock werr)
  show ?thesis unfolding runPeer_def Join Let_def
    using assms by (auto split: option.split intro!: counts_ok_load_join counts_ok_ops)
qed (use assms in \<open>auto simp: runPeer_def Let_def load_done_def set_lphase_def counts_ok_load_dial
      counts_ok_load_send counts_ok_read split: option.split intro!: counts_ok_ops\<close>)

lemma counts_ok_runLatencyPeer:
  assumes "counts_ok n st" and "i < n"
  shows "counts_ok n (runLatencyPeer cfg sz i inp st)"
proof (cases inp)
  case (Join ms clock werr)
  show ?thesis unfolding runLatencyPeer_def Join Let_def
    using assms by (auto simp: set_lphase_def intro!: counts_ok_load_join counts_ok_ops)
qed (use assms in \<open>auto simp: runLatencyPeer_def Let_def load_done_def set_lphase_def counts_ok_load_dial
      counts_ok_load_send counts_ok_read split: option.split intro!: counts_ok_ops\<close>)

lemma counts_ok_start: "counts_ok n load_start"
  by (simp add: counts_ok_def load_start_def new_peerResult_def newErrorStats_def total_count_def)

text \<open>Both kinds of run as instances of the invariant interface, for inputs of the \<open>n\<close> peers.\<close>

interpretation scale: preserving "counts_ok n"
    "\<lambda>e st. if fst e < n then runPeer cfg (fst e) (snd e) st else st" for n cfg
  by unfold_locales (simp add: counts_ok_runPeer)

interpretation latency: preserving "counts_ok n"
    "\<lambda>e st. if fst e < n then runLatencyPeer cfg sz (fst e) (snd e) st else st" for n cfg sz
  by unfold_locales (simp add: counts_ok_runLatencyPeer)

lemma fold_filter: "fold f (filter P xs) s = fold (\<lambda>x s. if P x then f x s else s) xs s"
  by (induction xs arbitrary: s) auto

lemma run_peers_eq:
  "run_peers peer n inputs =
     fold (\<lambda>e st. if fst e < n then peer (fst e) (snd e) st else st) inputs load_start"
  by (auto simp: run_peers_def fold_filter case_prod_beta intro!: fold_cong)

text \<open>
  C33. In every interleaving of a run the figures agree: the errors of the peers add up to those in
  the error breakdown, every received message has exactly one round-trip time, and no message
  counts as received twice, however many peers get it, so at most as many are received as sends
  were begun.
\<close>

theorem load_counts_consistent:
  assumes "st = run_peers (runPeer cfg) n inputs \<or> st = run_peers (runLatencyPeer cfg sz) n inputs"
  shows "(\<Sum>i < n. pr_errors (lp_res (lr_peers st i))) = total_count (lr_stats st) \<and>
    (\<Sum>i < n. pr_msgsRecv (lp_res (lr_peers st i))) =
      length (concat (map pr_rtts (peer_results n st))) \<and>
    (\<Sum>i < n. pr_msgsRecv (lp_res (lr_peers st i))) \<le> (\<Sum>i < n. lp_msgIndex (lr_peers st i))"
proof -
  have ok: "counts_ok n st"
    using assms scale.run_inv [OF counts_ok_start] latency.run_inv [OF counts_ok_start]
    by (auto simp: run_peers_eq)
  note d = counts_okD [OF ok]
  have "length (concat (map pr_rtts (peer_results n st))) =
      (\<Sum>i < n. length (pr_rtts (lp_res (lr_peers st i))))"
    by (simp add: peer_results_def length_concat comp_def interv_sum_list_conv_sum_set_nat lessThan_atLeast0)
  also have "\<dots> = (\<Sum>i < n. pr_msgsRecv (lp_res (lr_peers st i)))"
    using d(2) by (intro sum.cong) auto
  finally show ?thesis using d(1,5) by simp
qed

definition demo_inputs :: "(nat \<times> load_input) list" where
  "demo_inputs =
     [(0, Dial demo_attempts 120), (1, Dial demo_attempts 130), (0, Join 1 0 None), (1, Join 1 0 None),
      (0, Turn (seconds 1) False (seconds 1) None),
      (1, ReadLine (seconds 2) (''FROM:peer-0|peer-0-0|AAAA'' @ [newline]) None)]"

theorem load_counts_consistent_witness:
  "(\<Sum>i < 2. pr_msgsRecv (lp_res (lr_peers (run_peers (runPeer demo_config) 2 demo_inputs) i))) \<le>
   (\<Sum>i < 2. lp_msgIndex (lr_peers (run_peers (runPeer demo_config) 2 demo_inputs) i))"
  using load_counts_consistent [of _ demo_config 2 demo_inputs, OF disjI1 [OF refl]] by blast


section \<open>The rate\<close>

text \<open>
  The checks of \<open>main\<close> let every rate through, but a peer with a rate that is not positive, or
  above a thousand million, makes the process panic as soon as it has joined.
\<close>

theorem bad_rate_panics:
  assumes "lp_phase (lr_peers st i) = Connected" and "\<not> lr_panicked st"
  shows "lr_panicked (runPeer cfg i (Join ms clock None) st) \<longleftrightarrow>
    cfg_rate cfg \<le> 0 \<or> 1000000000 < cfg_rate cfg"
proof -
  have "ticker_interval (cfg_rate cfg) = None \<longleftrightarrow> cfg_rate cfg \<le> 0 \<or> 1000000000 < cfg_rate cfg"
    using pos_imp_zdiv_pos_iff [of "cfg_rate cfg" 1000000000]
    by (auto simp: ticker_interval_def Let_def)
  then show ?thesis
    using assms
    by (auto simp: runPeer_def Let_def load_join_def on_result_def sent_line_def on_peer_def
        split: option.split)
qed

theorem bad_rate_panics_witness:
  "load_main (demo_config\<lparr>cfg_rate := 0\<rparr>) = Some ScaleMode \<and>
   lr_panicked (runPeer (demo_config\<lparr>cfg_rate := 0\<rparr>) 0 (Join 1 0 None)
     (set_lphase 0 Connected load_start))"
  using bad_rate_panics [of "set_lphase 0 Connected load_start" 0 "demo_config\<lparr>cfg_rate := 0\<rparr>"]
  by (simp add: set_lphase_def on_peer_def load_start_def load_main_def demo_config_def)


section \<open>Failed dials in the averages\<close>

text \<open>A peer whose dial failed keeps its initial sample, and a sample of 0 ms lowers the average.\<close>

lemma failed_dial_keeps_zero:
  assumes "rt_result (dialWithRetry env cfg) = Inl e"
  shows "pr_dialMs (lp_res (lr_peers (load_dial cfg i env ms load_start) i)) = 0"
  using assms by (simp add: load_dial_def set_lphase_def note_error_def on_result_def on_peer_def
      load_start_def new_peerResult_def Let_def)

lemma sum_list_sort: "sum_list (sort xs) = sum_list (xs :: int list)"
  by (metis mset_sort sum_mset_sum_list)

lemma zero_sample_average:
  "fst (load_stats (xs @ [0])) = rat_of_int (sum_list xs) / rat_of_nat (Suc (length xs))"
  by (simp add: load_stats_def mean_def sum_list_sort del: of_nat_Suc sort_key_simps)


section \<open>The load test against the relay\<close>

lemma solid_middle: "solid c \<Longrightarrow> \<not> space3 a c b"
  by (auto simp: solid_def space3_def)

text \<open>Trimming a line keeps everything up to its last solid byte.\<close>

lemma trim_right_rev_stops:
  "s = w @ c # v \<Longrightarrow> solid c \<Longrightarrow> \<exists>w1 w2. w = w1 @ w2 \<and> trim_right_rev s = w2 @ c # v"
proof (induction s arbitrary: w rule: trim_right_rev.induct)
  case (4 a b d s)
  show ?case
  proof (cases w)
    case Nil
    then show ?thesis using 4 trim_right_rev_solid by auto
  next
    case (Cons x w')
    then have s: "b # d # s = w' @ c # v" and x: "x = a" using "4.prems"(1) by auto
    consider "ascii_space a" | "\<not> ascii_space a" "space2 b a"
      | "\<not> ascii_space a" "\<not> space2 b a" "space3 d b a"
      | "\<not> ascii_space a" "\<not> space2 b a" "\<not> space3 d b a" by blast
    then show ?thesis
    proof cases
      case 1
      from "4.IH"(1) [OF 1 s "4.prems"(2)] obtain w1 w2 where
        "w' = w1 @ w2" "trim_right_rev (b # d # s) = w2 @ c # v" by blast
      with 1 x Cons show ?thesis by (intro exI [of _ "a # w1"] exI [of _ w2]) simp
    next
      case 2
      then have "w' \<noteq> []" using s solid_not_space(2) [OF "4.prems"(2)] by auto
      then obtain w'' where w': "w' = b # w''" "d # s = w'' @ c # v" using s by (cases w') auto
      from "4.IH"(2) [OF 2 w'(2) "4.prems"(2)] obtain w1 w2 where
        "w'' = w1 @ w2" "trim_right_rev (d # s) = w2 @ c # v" by blast
      with 2 x Cons w'(1) show ?thesis by (intro exI [of _ "a # b # w1"] exI [of _ w2]) simp
    next
      case 3
      then have "w' \<noteq> []" using s solid_middle [OF "4.prems"(2)] by auto
      then obtain w'' where w': "w' = b # w''" "d # s = w'' @ c # v" using s by (cases w') auto
      then have "w'' \<noteq> []" using 3 solid_not_space(4) [OF "4.prems"(2)] by auto
      then obtain z where z: "w'' = d # z" "s = z @ c # v" using w' by (cases w'') auto
      from "4.IH"(3) [OF 3 z(2) "4.prems"(2)] obtain w1 w2 where
        "z = w1 @ w2" "trim_right_rev s = w2 @ c # v" by blast
      with 3 x Cons w'(1) z(1) show ?thesis by (intro exI [of _ "a # b # d # w1"] exI [of _ w2]) simp
    next
      case 4
      then have "trim_right_rev (a # b # d # s) = a # b # d # s" by simp
      also have "\<dots> = w @ c # v" using x Cons s by simp
      finally show ?thesis by blast
    qed
  qed
qed (auto simp: solid_not_space append_eq_Cons_conv Cons_eq_append_conv)

lemma trim_space_from:
  obtains y z where "trim_space (''FROM:'' @ x) = ''FROM:'' @ y" and "x = y @ z"
proof -
  have F: "solid (CHR ''F'')" and c: "solid (CHR '':'')" by (simp_all add: solid_def ascii_space_def)
  have l: "trim_left (''FROM:'' @ x) = ''FROM:'' @ x" by (simp add: trim_left_solid [OF F] del: trim_left.simps)
  obtain w1 w2 where w: "rev x = w1 @ w2"
      "trim_right_rev (rev x @ CHR '':'' # ''MORF'') = w2 @ CHR '':'' # ''MORF''"
    using trim_right_rev_stops [OF refl c] by blast
  then have x: "x = rev w2 @ rev w1" by (metis rev_append rev_rev_ident)
  moreover have "trim_space (''FROM:'' @ x) = ''FROM:'' @ rev w2"
    unfolding trim_space_def l using w(2) by simp
  ultimately show thesis using that by blast
qed

text \<open>A body with at most two separators has no room for payload, nonce and signature.\<close>

lemma handle_from_short:
  assumes "count_list body pipe \<le> 2"
  shows "handle_from C t p body s = s"
proof -
  have "relay_encrypted C t p r a c (split_n 3 pipe c) s = s"
    if "split_n 2 pipe body = [a, c]" for r a c
  proof -
    have "body = a @ pipe # c \<and> pipe \<notin> set a" using that by (rule split_n_2D)
    then have "count_list c pipe \<le> 1" using assms by simp
    then have "\<not> (\<exists>x y z. split_n 3 pipe c = [x, y, z])" by (auto dest!: split_n_3D)
    then show ?thesis unfolding relay_encrypted_def by (auto split: list.split)
  qed
  then show ?thesis by (auto simp: handle_from_def split: list.split option.split)
qed

lemma nat_str_no_pipe: "pipe \<notin> set (nat_str n)"
  using nat_str_digits [of n] by (auto simp: is_digit_def)

lemma count_buildPayload: "pipe \<notin> set m \<Longrightarrow> count_list (buildPayload m sz) pipe \<le> 1"
  using set_take_subset [of "nat sz" m] count_list_0_iff [of "take (nat sz) m" pipe]
  by (auto simp: buildPayload_def Let_def count_list_0_iff [THEN iffD2])

text \<open>
  C30. No message of the load test gets through the relay of this program: its lines carry neither
  a nonce nor a signature, and the relay drops them without any effect, in every state and for
  every message size.
\<close>

theorem relay_drops_load_messages:
  assumes "pipe \<notin> set (cfg_aliasPrefix cfg)"
  shows "serve_line C p (rnd, t, load_message cfg i k sz) s = s"
proof -
  let ?a = "load_alias cfg i" and ?b = "buildPayload (load_msgID cfg i k) sz"
  let ?x = "?a @ [pipe] @ ?b @ [newline]"
  have a: "pipe \<notin> set ?a" and m: "pipe \<notin> set (load_msgID cfg i k)"
    using assms nat_str_no_pipe by (auto simp: load_alias_def load_msgID_def)
  obtain y z where y: "trim_space (''FROM:'' @ ?x) = ''FROM:'' @ y" "?x = y @ z"
    by (rule trim_space_from)
  have "count_list ?x pipe \<le> 2"
    using count_buildPayload [OF m, of sz] a by (simp add: count_list_append)
  moreover have "count_list y pipe \<le> count_list ?x pipe" unfolding y(2) by (simp add: count_list_append)
  ultimately have "count_list y pipe \<le> 2" by simp
  from handle_from_short [OF this] show ?thesis
    using serve_line_dispatch [of "load_message cfg i k sz" y] y(1) by (simp add: load_message_def)
qed

theorem relay_drops_load_messages_witness:
  "serve_line toy 0 (replicate 32 (CHR ''s''), 5, load_message demo_config 0 0 64) demo = demo"
  by (rule relay_drops_load_messages) (simp add: demo_config_def)

end
