(* ===== verification/Load_Report.thy ===== *)
theory Load_Report
  imports Load_Peer
begin

text \<open>
  What the load tester prints at the end of a mode (\<open>loadtest/main.go\<close>): the CSV records of the four
  modes and the summaries.

  A record is written by Go's \<open>encoding/csv\<close>, whose quoting is modelled here, together with a reader
  of the format.  A figure is printed with three decimals; means are exact rational numbers.
\<close>

section \<open>Comma-separated values\<close>

abbreviation comma :: char where
  "comma \<equiv> CHR '',''"

abbreviation dquote :: char where
  "dquote \<equiv> CHR 0x22"

text \<open>\<open>fieldNeedsQuotes\<close> and \<open>Write\<close> of \<open>csv.Writer\<close>.\<close>

definition needs_quotes :: "string \<Rightarrow> bool" where
  "needs_quotes f \<longleftrightarrow>
     f \<noteq> [] \<and> (f = [CHR 0x5C, CHR ''.''] \<or> comma \<in> set f \<or> dquote \<in> set f \<or> carriage_return \<in> set f \<or>
       newline \<in> set f \<or> trim_left f \<noteq> f)"

definition double_quotes :: "string \<Rightarrow> string" where
  "double_quotes f = concat (map (\<lambda>c. if c = dquote then [dquote, dquote] else [c]) f)"

definition csv_field :: "string \<Rightarrow> string" where
  "csv_field f = (if needs_quotes f then dquote # double_quotes f @ [dquote] else f)"

definition csv_record :: "string list \<Rightarrow> string" where
  "csv_record fs = join_with comma (map csv_field fs) @ [newline]"

text \<open>A reader: a quoted field up to its closing quote, any other up to a comma or the end of the line.\<close>

fun read_quoted :: "string \<Rightarrow> string \<times> string" where
  "read_quoted [] = ([], [])"
| "read_quoted (c # s) =
     (if c = dquote
      then (case s of
              [] \<Rightarrow> ([], [])
            | d # s' \<Rightarrow> if d = dquote then (case read_quoted s' of (f, r) \<Rightarrow> (dquote # f, r)) else ([], s))
      else (case read_quoted s of (f, r) \<Rightarrow> (c # f, r)))"

definition plain_char :: "char \<Rightarrow> bool" where
  "plain_char c \<longleftrightarrow> c \<noteq> comma \<and> c \<noteq> newline"

definition read_field :: "string \<Rightarrow> string \<times> string" where
  "read_field s =
     (if s \<noteq> [] \<and> hd s = dquote then read_quoted (tl s) else (takeWhile plain_char s, dropWhile plain_char s))"

lemma read_quoted_length: "length (snd (read_quoted s)) \<le> length s"
proof (induction s rule: read_quoted.induct)
  case 1
  then show ?case by simp
next
  case (2 c s)
  show ?case
  proof (cases "c = dquote")
    case True
    show ?thesis
    proof (cases s)
      case Nil
      then show ?thesis using True by simp
    next
      case (Cons d s')
      then show ?thesis
        using 2(1) [OF True Cons] True by (cases "d = dquote"; cases "read_quoted s'") simp_all
    qed
  next
    case False
    then show ?thesis using 2(2) by (cases "read_quoted s") simp
  qed
qed

declare read_quoted.simps [simp del]

lemma read_field_length: "length (snd (read_field s)) \<le> length s"
proof (cases "s \<noteq> [] \<and> hd s = dquote")
  case True
  then show ?thesis
    using read_quoted_length [of "tl s"] by (simp add: read_field_def)
next
  case False
  then show ?thesis using length_dropWhile_le [of plain_char s] by (simp only: read_field_def if_False snd_conv)
qed

text \<open>A record is its fields and what follows its line break; a text is read record by record.\<close>

function read_record :: "string \<Rightarrow> string list \<times> string" where
  "read_record s =
     (case read_field s of
        (f, r) \<Rightarrow>
          (case r of
             [] \<Rightarrow> ([f], [])
           | c # r' \<Rightarrow> if c = comma then (case read_record r' of (fs, r'') \<Rightarrow> (f # fs, r'')) else ([f], r')))"
  by pat_completeness auto
termination
proof (relation "measure length")
  fix s f r c r'
  assume "(f, r) = read_field s" and "r = c # r'"
  then show "(r', s) \<in> measure length"
    using read_field_length [of s] by (metis in_measure length_Cons less_Suc_eq_le less_le_trans lessI not_less snd_conv)
qed simp

declare read_record.simps [simp del]

lemma read_record_shorter: "s \<noteq> [] \<Longrightarrow> length (snd (read_record s)) < length s"
proof (induction s rule: read_record.induct)
  case (1 s)
  obtain f r where f: "read_field s = (f, r)" by (cases "read_field s")
  have le: "length r \<le> length s" using read_field_length [of s] f by simp
  show ?case
  proof (cases r)
    case Nil
    then show ?thesis using 1(2) f by (subst read_record.simps) simp
  next
    case (Cons c r')
    show ?thesis
    proof (cases "c = comma")
      case True
      have "length (snd (read_record r')) \<le> length r'"
      proof (cases "r' = []")
        case True
        then show ?thesis by (subst read_record.simps) (simp add: read_field_def)
      next
        case False
        then show ?thesis using 1(1) [OF f [symmetric] Cons True] by simp
      qed
      then show ?thesis
        using f Cons True le by (cases "read_record r'", subst read_record.simps) simp
    next
      case False
      then show ?thesis using f Cons le by (subst read_record.simps) simp
    qed
  qed
qed

function read_records :: "string \<Rightarrow> string list list" where
  "read_records s = (if s = [] then [] else (case read_record s of (fs, r) \<Rightarrow> fs # read_records r))"
  by pat_completeness auto
termination
  using read_record_shorter by (relation "measure length") (auto, metis snd_conv)

declare read_records.simps [simp del]

lemma read_double_quotes:
  "r = [] \<or> hd r \<noteq> dquote \<Longrightarrow> read_quoted (double_quotes f @ dquote # r) = (f, r)"
proof (induction f)
  case Nil
  then show ?case by (cases r) (simp_all add: double_quotes_def read_quoted.simps)
next
  case (Cons c f)
  then show ?case
    by (cases "c = dquote") (simp_all add: double_quotes_def read_quoted.simps(2) [of c] read_quoted.simps(2) [of dquote])
qed

lemma unquoted_plain:
  assumes "\<not> needs_quotes f"
  shows "\<forall>c \<in> set f. plain_char c" and "f \<noteq> [] \<Longrightarrow> hd f \<noteq> dquote"
proof -
  show "\<forall>c \<in> set f. plain_char c" using assms by (auto simp: needs_quotes_def plain_char_def)
  show "f \<noteq> [] \<Longrightarrow> hd f \<noteq> dquote" using assms by (metis hd_in_set needs_quotes_def)
qed

lemma read_csv_field:
  assumes "r \<noteq> []" and "hd r = comma \<or> hd r = newline"
  shows "read_field (csv_field f @ r) = (f, r)"
proof (cases "needs_quotes f")
  case True
  have "r = [] \<or> hd r \<noteq> dquote" using assms(2) by auto
  from read_double_quotes [OF this, of f] show ?thesis
    using True by (simp add: csv_field_def read_field_def)
next
  case False
  obtain c r' where r: "r = c # r'" "\<not> plain_char c" using assms by (cases r) (auto simp: plain_char_def)
  note p = unquoted_plain [OF False]
  have "takeWhile plain_char (f @ r) = f" "dropWhile plain_char (f @ r) = r"
    using p(1) r by (simp_all add: takeWhile_append dropWhile_append)
  moreover have "\<not> (f @ r \<noteq> [] \<and> hd (f @ r) = dquote)"
    using p(2) assms(2) by (cases "f = []") auto
  ultimately have "read_field (f @ r) = (f, r)" by (simp only: read_field_def if_False)
  then show ?thesis using False by (simp add: csv_field_def)
qed

lemma read_csv_record: "fs \<noteq> [] \<Longrightarrow> read_record (csv_record fs @ rest) = (fs, rest)"
proof (induction fs rule: list_nonempty_induct)
  case (single f)
  then show ?case
    using read_csv_field [of "newline # rest" f] by (subst read_record.simps) (simp add: csv_record_def)
next
  case (cons f fs)
  have "csv_record (f # fs) @ rest = csv_field f @ comma # (csv_record fs @ rest)"
    using cons.hyps by (cases fs) (simp_all add: csv_record_def)
  then show ?case
    using cons.IH read_csv_field [of "comma # (csv_record fs @ rest)" f] by (subst read_record.simps) simp
qed

lemma read_csv_records: "[] \<notin> set rows \<Longrightarrow> read_records (concat (map csv_record rows)) = rows"
proof (induction rows)
  case Nil
  then show ?case by (subst read_records.simps) simp
next
  case (Cons fs rows)
  have "csv_record fs \<noteq> []" by (simp add: csv_record_def)
  then show ?case
    using Cons read_csv_record [of fs "concat (map csv_record rows)"] by (subst read_records.simps) auto
qed


section \<open>Figures\<close>

text \<open>The verb \<open>%.3f\<close>: rounded to three decimals, ties to even.\<close>

definition round_half_even :: "rat \<Rightarrow> int" where
  "round_half_even q =
     (let f = \<lfloor>q\<rfloor>; d = q - rat_of_int f
      in if d < 1 / 2 then f else if 1 / 2 < d then f + 1 else if even f then f else f + 1)"

definition fixed3 :: "rat \<Rightarrow> string" where
  "fixed3 q =
     (let a = nat (round_half_even (1000 * \<bar>q\<bar>))
      in (if q < 0 then ''-'' else []) @ nat_str (a div 1000) @ ''.'' @ three_digits (a mod 1000))"

text \<open>A figure of a run without peers or duration: the sign of what is divided by zero.\<close>

definition figure :: "int \<Rightarrow> rat option \<Rightarrow> string" where
  "figure x q =
     (case q of Some r \<Rightarrow> fixed3 r | None \<Rightarrow> if x = 0 then ''NaN'' else if 0 < x then ''+Inf'' else ''-Inf'')"

abbreviation whole_ms :: "int \<Rightarrow> string" where
  "whole_ms i \<equiv> fixed3 (rat_of_int i)"


section \<open>The records\<close>

definition dial_headers :: "string list" where
  "dial_headers =
     [''timestamp'', ''proto'', ''n'', ''target'', ''dial_ms_min'', ''dial_ms_p50'', ''dial_ms_p95'', ''dial_ms_p99'',
      ''dial_ms_max'', ''dial_ms_avg'', ''errors_total'']"

definition dial_record :: "dialAggregate \<Rightarrow> string list" where
  "dial_record a =
     [da_timestamp a, da_proto a, int_str (da_n a), da_target a, whole_ms (da_min a), whole_ms (da_p50 a),
      whole_ms (da_p95 a), whole_ms (da_p99 a), whole_ms (da_max a), fixed3 (da_avg a), nat_str (da_errorsTotal a)]"

definition latency_headers :: "string list" where
  "latency_headers =
     [''timestamp'', ''proto'', ''n'', ''size'', ''target'', ''dial_ms_avg'', ''dial_ms_p95'', ''join_ms_avg'',
      ''join_ms_p95'', ''msgs_sent'', ''msgs_recv'', ''rtt_min'', ''rtt_p50'', ''rtt_p95'', ''rtt_p99'', ''rtt_max'',
      ''errors_total'']"

definition latency_record :: "latencyAggregate \<Rightarrow> string list" where
  "latency_record a =
     [la_timestamp a, la_proto a, int_str (la_n a), int_str (la_size a), la_target a,
      fixed3 (fst (la_dialMs a)), whole_ms (snd (la_dialMs a)), fixed3 (fst (la_joinMs a)), whole_ms (snd (la_joinMs a)),
      nat_str (la_msgsSent a), nat_str (la_msgsRecv a), whole_ms (la_rtt a ! 0), whole_ms (la_rtt a ! 1),
      whole_ms (la_rtt a ! 2), whole_ms (la_rtt a ! 3), whole_ms (la_rtt a ! 4), nat_str (la_errorsTotal a)]"

definition throughput_headers :: "string list" where
  "throughput_headers =
     [''timestamp'', ''proto'', ''n'', ''rate'', ''duration'', ''size'', ''target'', ''msgs_sent'', ''msgs_recv'',
      ''avg_throughput_msgs_per_sec'', ''avg_throughput_kb_per_sec'', ''errors_total'', ''disconnects_total'']"

definition msgs_figure :: "'a throughputAggregate_scheme \<Rightarrow> string" where
  "msgs_figure a = figure (int (ta_msgsSent a)) (ta_msgsPerSec a)"

definition kb_figure :: "'a throughputAggregate_scheme \<Rightarrow> string" where
  "kb_figure a = figure (sent_bytes (ta_msgsSent a) (ta_size a)) (ta_KBPerSec a)"

definition throughput_record :: "throughputAggregate \<Rightarrow> string list" where
  "throughput_record a =
     [ta_timestamp a, ta_proto a, int_str (ta_n a), int_str (ta_rate a), int_str (ta_duration a), int_str (ta_size a),
      ta_target a, nat_str (ta_msgsSent a), nat_str (ta_msgsRecv a), msgs_figure a, kb_figure a,
      nat_str (ta_errorsTotal a), nat_str (ta_disconnectsTotal a)]"

definition scale_headers :: "string list" where
  "scale_headers =
     [''timestamp'', ''proto'', ''n'', ''rate'', ''duration'', ''size'', ''target'', ''dial_ms_avg'', ''dial_ms_p95'',
      ''join_ms_avg'', ''join_ms_p95'', ''total_msgs_sent'', ''total_msgs_recv'', ''avg_throughput_msgs_per_sec'',
      ''avg_throughput_kb_per_sec'', ''min_rtt_ms'', ''p50_rtt_ms'', ''p95_rtt_ms'', ''p99_rtt_ms'', ''max_rtt_ms'',
      ''errors_total'', ''disconnects_total'']"

definition scale_record :: "aggregateResult \<Rightarrow> string list" where
  "scale_record a =
     [ta_timestamp a, ta_proto a, int_str (ta_n a), int_str (ta_rate a), int_str (ta_duration a), int_str (ta_size a),
      ta_target a, fixed3 (fst (ag_dialMs a)), whole_ms (snd (ag_dialMs a)), fixed3 (fst (ag_joinMs a)),
      whole_ms (snd (ag_joinMs a)), nat_str (ta_msgsSent a), nat_str (ta_msgsRecv a), msgs_figure a, kb_figure a,
      whole_ms (ag_rtt a ! 0), whole_ms (ag_rtt a ! 1), whole_ms (ag_rtt a ! 2), whole_ms (ag_rtt a ! 3),
      whole_ms (ag_rtt a ! 4), nat_str (ta_errorsTotal a), nat_str (ta_disconnectsTotal a)]"


section \<open>The summaries\<close>

definition summary_line :: "string \<Rightarrow> string \<Rightarrow> string" where
  "summary_line label v = ''  '' @ label @ v @ [newline]"

definition printDialSummary :: "dialAggregate \<Rightarrow> string list" where
  "printDialSummary a =
     [''Dial benchmark complete'' @ [newline], summary_line ''Target:      '' (da_target a),
      summary_line ''Protocol:    '' (da_proto a), summary_line ''Peers:       '' (int_str (da_n a)),
      summary_line ''Dial min:    '' (whole_ms (da_min a) @ '' ms''), summary_line ''Dial p50:    '' (whole_ms (da_p50 a) @ '' ms''),
      summary_line ''Dial p95:    '' (whole_ms (da_p95 a) @ '' ms''), summary_line ''Dial p99:    '' (whole_ms (da_p99 a) @ '' ms''),
      summary_line ''Dial max:    '' (whole_ms (da_max a) @ '' ms''), summary_line ''Dial avg:    '' (fixed3 (da_avg a) @ '' ms''),
      summary_line ''Errors:      '' (nat_str (da_errorsTotal a))]"

definition stats_text :: "rat \<times> int \<Rightarrow> string" where
  "stats_text s = fixed3 (fst s) @ '' ms (p95 '' @ whole_ms (snd s) @ '' ms)''"

definition rtt_text :: "int list \<Rightarrow> string" where
  "rtt_text r =
     ''min '' @ whole_ms (r ! 0) @ '' / p50 '' @ whole_ms (r ! 1) @ '' / p95 '' @ whole_ms (r ! 2)
     @ '' / p99 '' @ whole_ms (r ! 3) @ '' / max '' @ whole_ms (r ! 4) @ '' ms''"

definition printLatencySummary :: "latencyAggregate \<Rightarrow> string list" where
  "printLatencySummary a =
     [''Latency benchmark complete (size='' @ int_str (la_size a) @ '')'' @ [newline],
      summary_line ''Target:      '' (la_target a), summary_line ''Protocol:    '' (la_proto a),
      summary_line ''Peers:       '' (int_str (la_n a)), summary_line ''Size:        '' (int_str (la_size a) @ '' bytes''),
      summary_line ''Dial avg:    '' (stats_text (la_dialMs a)), summary_line ''Join avg:    '' (stats_text (la_joinMs a)),
      summary_line ''Msgs sent:   '' (nat_str (la_msgsSent a)), summary_line ''Msgs recv:   '' (nat_str (la_msgsRecv a)),
      summary_line ''RTT:         '' (rtt_text (la_rtt a)), summary_line ''Errors:      '' (nat_str (la_errorsTotal a))]"

definition throughput_text :: "'a throughputAggregate_scheme \<Rightarrow> string" where
  "throughput_text a = msgs_figure a @ '' msg/s/peer ('' @ kb_figure a @ '' KB/s/peer)''"

definition printThroughputSummary :: "throughputAggregate \<Rightarrow> string list" where
  "printThroughputSummary a =
     [''Throughput benchmark complete (rate='' @ int_str (ta_rate a) @ '' msg/s)'' @ [newline],
      summary_line ''Target:      '' (ta_target a), summary_line ''Protocol:    '' (ta_proto a),
      summary_line ''Peers:       '' (int_str (ta_n a)), summary_line ''Rate:        '' (int_str (ta_rate a) @ '' msg/s/peer''),
      summary_line ''Duration:    '' (int_str (ta_duration a) @ ''s''),
      summary_line ''Msgs sent:   '' (nat_str (ta_msgsSent a)), summary_line ''Msgs recv:   '' (nat_str (ta_msgsRecv a)),
      summary_line ''Throughput:  '' (throughput_text a), summary_line ''Errors:      '' (nat_str (ta_errorsTotal a)),
      summary_line ''Disconnects: '' (nat_str (ta_disconnectsTotal a))]"

definition printSummary :: "aggregateResult \<Rightarrow> string list" where
  "printSummary a =
     [''Load test complete'' @ [newline], summary_line ''Target:      '' (ta_target a),
      summary_line ''Protocol:    '' (ta_proto a), summary_line ''Peers:       '' (int_str (ta_n a)),
      summary_line ''Duration:    '' (int_str (ta_duration a) @ ''s''),
      summary_line ''Rate/peer:   '' (int_str (ta_rate a) @ '' msg/s''),
      summary_line ''Payload:     '' (int_str (ta_size a) @ '' bytes''),
      summary_line ''Dial avg:    '' (stats_text (ag_dialMs a)), summary_line ''Join avg:    '' (stats_text (ag_joinMs a)),
      summary_line ''Msgs sent:   '' (nat_str (ta_msgsSent a)), summary_line ''Msgs recv:   '' (nat_str (ta_msgsRecv a)),
      summary_line ''Throughput:  '' (throughput_text a), summary_line ''RTT:         '' (rtt_text (ag_rtt a)),
      summary_line ''Errors:      '' (nat_str (ta_errorsTotal a)),
      summary_line ''Disconnects: '' (nat_str (ta_disconnectsTotal a))]"



section \<open>Where the report goes\<close>

text \<open>
  The end of a mode: an exit with an error, text for the output file (or standard output, \<open>None\<close>) and
  text printed besides, or a crash after some text.
\<close>

datatype load_output =
    ExitWithError string
  | Output "string option" string string
  | CrashAfter "string option" string string

definition output_file :: "config \<Rightarrow> string option" where
  "output_file cfg = (if cfg_output cfg = [] then None else Some (cfg_output cfg))"

text \<open>\<open>cannot_create\<close>: the answer of \<open>os.Create\<close>, which is only asked when a file is named.\<close>

definition cannot_create :: "config \<Rightarrow> (string \<Rightarrow> string option) \<Rightarrow> string option" where
  "cannot_create cfg create =
     (case output_file cfg of
        None \<Rightarrow> None
      | Some path \<Rightarrow> map_option (\<lambda>e. ''Error creating output file: '' @ e) (create path))"

text \<open>
  The message of a failing write tells the header row from the others; \<open>rows\<close> are the rows before it.
\<close>

definition csv_error :: "string \<Rightarrow> string list \<Rightarrow> string \<Rightarrow> string" where
  "csv_error label rows e = label @ (if rows = [] then ''headers: '' else ''record: '') @ e"

text \<open>
  The dial mode and the scale mode: the file is only created for CSV output.  The flush at the end is
  not checked by the program and taken to succeed here.
\<close>

definition single_report ::
  "config \<Rightarrow> (string \<Rightarrow> string option) \<Rightarrow> (nat \<Rightarrow> string option) \<Rightarrow> string \<Rightarrow> string list \<Rightarrow> string list \<Rightarrow>
   string list \<Rightarrow> load_output" where
  "single_report cfg create werr label headers record summary =
     (if \<not> cfg_csv cfg then Output None [] (concat summary)
      else (case cannot_create cfg create of
              Some e \<Rightarrow> ExitWithError e
            | None \<Rightarrow>
                (case write_rows werr 0 [csv_record headers, csv_record record] of
                   (Some e, rows) \<Rightarrow> ExitWithError (csv_error label rows e)
                 | (None, rows) \<Rightarrow> Output (output_file cfg) (concat rows) [])))"

definition dial_report ::
  "string \<Rightarrow> config \<Rightarrow> (string \<Rightarrow> string option) \<Rightarrow> (nat \<Rightarrow> string option) \<Rightarrow>
   ((nat \<Rightarrow> attempt_env) \<times> int) list \<Rightarrow> load_output" where
  "dial_report now cfg create werr dials =
     (case runDialMode now cfg dials of
        None \<Rightarrow> CrashAfter None [] []
      | Some (_, agg) \<Rightarrow>
          single_report cfg create werr ''Error writing CSV '' dial_headers (dial_record agg) (printDialSummary agg))"

definition scale_report ::
  "string \<Rightarrow> config \<Rightarrow> (string \<Rightarrow> string option) \<Rightarrow> (nat \<Rightarrow> string option) \<Rightarrow>
   (nat \<times> load_input) list \<Rightarrow> load_output" where
  "scale_report now cfg create werr inputs =
     (case runScaleMode now cfg inputs of
        None \<Rightarrow> CrashAfter None [] []
      | Some (_, agg) \<Rightarrow>
          single_report cfg create werr ''Error writing CSV: writeCSV '' scale_headers (scale_record agg)
            (printSummary agg))"

text \<open>
  The writer is buffered: of a text only full blocks of 4096 bytes reach the file before the flush at
  the end, which a crash of a goroutine leaves out.
\<close>

definition flushed :: "string \<Rightarrow> string" where
  "flushed t = take (4096 * ((length t - 1) div 4096)) t"

text \<open>The rounds that were completed, and whether a round crashed.\<close>

fun completed :: "'a option list \<Rightarrow> 'a list \<times> bool" where
  "completed [] = ([], False)"
| "completed (None # rs) = ([], True)"
| "completed (Some a # rs) = (case completed rs of (as, c) \<Rightarrow> (a # as, c))"

text \<open>
  The latency and the throughput mode: the file is created before the first round, whatever the kind
  of output, and filled at the end; summaries are printed after each round.  The text of a bad list's
  error is left out.
\<close>

definition multi_report ::
  "config \<Rightarrow> (string \<Rightarrow> string option) \<Rightarrow> (nat \<Rightarrow> string option) \<Rightarrow> string list \<Rightarrow>
   ('a \<Rightarrow> string list) \<Rightarrow> ('a \<Rightarrow> string list) \<Rightarrow> (string list \<times> 'a) option list \<Rightarrow> load_output" where
  "multi_report cfg create werr headers record summary rs =
     (case cannot_create cfg create of
        Some e \<Rightarrow> ExitWithError e
      | None \<Rightarrow>
          (case completed rs of
             (outs, broke) \<Rightarrow>
               if cfg_csv cfg
               then (case write_rows werr 0 (map csv_record (headers # map (\<lambda>a. record (snd a)) outs)) of
                       (Some e, rows) \<Rightarrow> ExitWithError (csv_error ''Error writing CSV '' rows e)
                     | (None, rows) \<Rightarrow>
                         if broke then CrashAfter (output_file cfg) (flushed (concat rows)) []
                         else Output (output_file cfg) (concat rows) [])
               else (let text = concat (map (\<lambda>a. concat (summary (snd a))) outs)
                     in if broke then CrashAfter (output_file cfg) [] text
                        else Output (output_file cfg) [] text)))"

definition latency_report ::
  "string \<Rightarrow> config \<Rightarrow> (string \<Rightarrow> string option) \<Rightarrow> (nat \<Rightarrow> string option) \<Rightarrow>
   (nat \<times> load_input) list list \<Rightarrow> load_output" where
  "latency_report now cfg create werr inputs =
     (case runLatencyMode now cfg inputs of
        None \<Rightarrow> ExitWithError ''Error parsing -sizes''
      | Some rs \<Rightarrow> multi_report cfg create werr latency_headers latency_record printLatencySummary rs)"

definition throughput_report ::
  "string \<Rightarrow> config \<Rightarrow> (string \<Rightarrow> string option) \<Rightarrow> (nat \<Rightarrow> string option) \<Rightarrow>
   (nat \<times> load_input) list list \<Rightarrow> load_output" where
  "throughput_report now cfg create werr inputs =
     (case runThroughputMode now cfg inputs of
        None \<Rightarrow> ExitWithError ''Error parsing -rates''
      | Some rs \<Rightarrow> multi_report cfg create werr throughput_headers throughput_record printThroughputSummary rs)"


section \<open>What can be read back\<close>

lemma write_rows_None: "write_rows werr k rs = (None, out) \<Longrightarrow> out = rs"
  by (induction rs arbitrary: k out) (auto split: option.splits prod.splits)

lemma completed_all: "completed rs = (outs, False) \<Longrightarrow> rs = map Some outs"
  by (induction rs arbitrary: outs rule: completed.induct) (auto split: prod.splits)

lemma single_report_reads_back:
  assumes "cfg_csv cfg" and "headers \<noteq> []" and "record \<noteq> []"
    and "single_report cfg create werr label headers record summary = Output f t u"
  shows "f = output_file cfg \<and> read_records t = [headers, record]"
proof -
  have n: "cannot_create cfg create = None" using assms(1,4) by (auto simp: single_report_def split: option.splits)
  obtain e rows where w: "write_rows werr 0 [csv_record headers, csv_record record] = (e, rows)"
    by (cases "write_rows werr 0 [csv_record headers, csv_record record]")
  have "e = None" and t: "f = output_file cfg" "t = concat rows"
    using assms(1,4) n w by (auto simp: single_report_def split: option.splits)
  then have "rows = map csv_record [headers, record]" using w write_rows_None by fastforce
  then show ?thesis using t assms(2,3) read_csv_records [of "[headers, record]"] by simp
qed

lemma multi_report_reads_back:
  assumes "cfg_csv cfg" and "headers \<noteq> []" and "\<And>a. record a \<noteq> []"
    and "multi_report cfg create werr headers record summary rs = Output f t u"
  shows "f = output_file cfg \<and> (\<exists>outs. rs = map Some outs \<and> read_records t = headers # map (\<lambda>a. record (snd a)) outs)"
proof -
  have n: "cannot_create cfg create = None" using assms(1,4) by (auto simp: multi_report_def split: option.splits)
  obtain outs broke where c: "completed rs = (outs, broke)" by (cases "completed rs")
  let ?rows = "headers # map (\<lambda>a. record (snd a)) outs"
  obtain e rows where w: "write_rows werr 0 (map csv_record ?rows) = (e, rows)"
    by (cases "write_rows werr 0 (map csv_record ?rows)")
  have "e = None" and b: "\<not> broke" and t: "f = output_file cfg" "t = concat rows"
    using assms(1,4) n c w
    by (simp_all add: multi_report_def del: list.map split: option.splits if_splits)
  have r: "rows = map csv_record ?rows" by (rule write_rows_None) (use w \<open>e = None\<close> in simp)
  have ne: "[] \<notin> set ?rows" using assms(2,3) by (metis (no_types, lifting) ex_map_conv set_ConsD)
  have "read_records t = ?rows" unfolding t(2) r by (rule read_csv_records) (rule ne)
  moreover have "rs = map Some outs" by (rule completed_all) (use c b in simp)
  ultimately show ?thesis using t(1) by (intro conjI exI [of _ outs])
qed

lemmas columns =
  dial_headers_def latency_headers_def throughput_headers_def scale_headers_def
  dial_record_def latency_record_def throughput_record_def scale_record_def

lemma columns_match:
  "length (dial_record d) = length dial_headers" "length (latency_record l) = length latency_headers"
  "length (throughput_record t) = length throughput_headers" "length (scale_record a) = length scale_headers"
  by (simp_all add: columns)

text \<open>
  C40. A CSV report is complete and can be read back: when a mode of the load tester ends with a
  report, the file named by the option (or standard output) holds, for a reader of the format, exactly
  the header and one record for the run, or one for each round in order, with one field per column,
  whatever the target contains (commas, quotes and line breaks included).
\<close>

theorem load_reports_read_back:
  assumes "cfg_csv cfg"
  shows "(dial_report now cfg create werr dials = Output f t u \<longrightarrow>
       f = output_file cfg \<and> (\<exists>es agg. runDialMode now cfg dials = Some (es, agg) \<and>
         read_records t = [dial_headers, dial_record agg])) \<and>
     (scale_report now cfg create werr inputs = Output f t u \<longrightarrow>
       f = output_file cfg \<and> (\<exists>es agg. runScaleMode now cfg inputs = Some (es, agg) \<and>
         read_records t = [scale_headers, scale_record agg])) \<and>
     (latency_report now cfg create werr rins = Output f t u \<longrightarrow>
       f = output_file cfg \<and> (\<exists>outs. runLatencyMode now cfg rins = Some (map Some outs) \<and>
         read_records t = latency_headers # map (\<lambda>a. latency_record (snd a)) outs)) \<and>
     (throughput_report now cfg create werr rins = Output f t u \<longrightarrow>
       f = output_file cfg \<and> (\<exists>outs. runThroughputMode now cfg rins = Some (map Some outs) \<and>
         read_records t = throughput_headers # map (\<lambda>a. throughput_record (snd a)) outs)) \<and>
     length (dial_record d) = length dial_headers \<and> length (latency_record l) = length latency_headers \<and>
     length (throughput_record tp) = length throughput_headers \<and> length (scale_record a) = length scale_headers"
  (is "(?A \<longrightarrow> ?A') \<and> (?B \<longrightarrow> ?B') \<and> (?C \<longrightarrow> ?C') \<and> (?D \<longrightarrow> ?D') \<and> _")
proof (intro conjI impI columns_match)
  assume ?A
  then show "f = output_file cfg"
    and "\<exists>es agg. runDialMode now cfg dials = Some (es, agg) \<and> read_records t = [dial_headers, dial_record agg]"
    using single_report_reads_back [OF assms, of dial_headers] unfolding dial_report_def
    by (fastforce simp: columns split: option.splits prod.splits)+
next
  assume ?B
  then show "f = output_file cfg"
    and "\<exists>es agg. runScaleMode now cfg inputs = Some (es, agg) \<and> read_records t = [scale_headers, scale_record agg]"
    using single_report_reads_back [OF assms, of scale_headers] unfolding scale_report_def
    by (fastforce simp: columns split: option.splits prod.splits)+
next
  assume ?C
  then show "f = output_file cfg" and "\<exists>outs. runLatencyMode now cfg rins = Some (map Some outs) \<and>
      read_records t = latency_headers # map (\<lambda>a. latency_record (snd a)) outs"
    using multi_report_reads_back [OF assms, of latency_headers latency_record] unfolding latency_report_def
    by (fastforce simp: columns split: option.splits)+
next
  assume ?D
  then show "f = output_file cfg" and "\<exists>outs. runThroughputMode now cfg rins = Some (map Some outs) \<and>
      read_records t = throughput_headers # map (\<lambda>a. throughput_record (snd a)) outs"
    using multi_report_reads_back [OF assms, of throughput_headers throughput_record] unfolding throughput_report_def
    by (fastforce simp: columns split: option.splits)+
qed

theorem load_reports_read_back_witness:
  "\<exists>cfg env t. cfg_target cfg = ''a,b'' \<and>
     dial_report ''now'' cfg (\<lambda>p. None) (\<lambda>k. None) [(env, 7)] = Output None t [] \<and>
     (\<exists>agg. read_records t = [dial_headers, dial_record agg] \<and> da_target agg = ''a,b'')"
proof -
  let ?cfg = "\<lparr>cfg_n = 1, cfg_target = ''a,b'', cfg_room = ''r'', cfg_password = [], cfg_rate = 1, cfg_duration = 1,
      cfg_proto = ''tcp'', cfg_size = 0, cfg_aliasPrefix = ''p'', cfg_output = [], cfg_csv = True, cfg_mode = ''dial'',
      cfg_sizes = [], cfg_rates = [], cfg_dialStagger = 0, cfg_dialRetries = 1\<rparr>"
  let ?env = "\<lambda>k :: nat. \<lparr>at_quic = Inr 0, at_stream = None, at_tcp = Inr 0, at_tls = None, at_quic_first = False,
      at_cancelled = None\<rparr>"
  obtain es agg where agg: "runDialMode ''now'' ?cfg [(?env, 7)] = Some (es, agg)" "da_target agg = ''a,b''"
    by (simp add: runDialMode_def Let_def aggregateDialResults_def)
  have "write_rows (\<lambda>k. None) 0 [csv_record dial_headers, csv_record (dial_record agg)] =
      (None, [csv_record dial_headers, csv_record (dial_record agg)])"
    by (rule write_rows_all) simp
  then obtain t where t: "dial_report ''now'' ?cfg (\<lambda>p. None) (\<lambda>k. None) [(?env, 7)] = Output None t []"
    by (simp add: dial_report_def agg(1) single_report_def cannot_create_def output_file_def)
  have csv: "cfg_csv ?cfg" by simp
  from load_reports_read_back [THEN conjunct1, OF csv, THEN mp, OF t]
  have "read_records t = [dial_headers, dial_record agg]" using agg(1) by auto
  then show ?thesis using t agg(2) by (intro exI [of _ ?cfg] exI [of _ ?env] exI [of _ t]) auto
qed

text \<open>
  A crash in a later round loses the rows of the rounds before it, as long as they fit into the
  buffer; without CSV output the summaries have been printed.
\<close>

lemma crash_loses_rows:
  assumes "cfg_csv cfg" and "cannot_create cfg create = None" and "\<And>k. werr k = None"
    and "completed rs = (outs, True)"
    and "length (concat (map csv_record (headers # map (\<lambda>a. record (snd a)) outs))) \<le> 4096"
  shows "multi_report cfg create werr headers record summary rs = CrashAfter (output_file cfg) [] []"
proof -
  let ?text = "concat (map csv_record (headers # map (\<lambda>a. record (snd a)) outs))"
  have "(length ?text - 1) div 4096 = 0" using assms(5) by simp
  then have "flushed ?text = []" unfolding flushed_def by simp
  moreover have "write_rows werr 0 (map csv_record (headers # map (\<lambda>a. record (snd a)) outs)) =
      (None, map csv_record (headers # map (\<lambda>a. record (snd a)) outs))"
    by (rule write_rows_all) (rule assms(3))
  ultimately show ?thesis
    using assms(1,2,4) unfolding multi_report_def by (simp only: option.case prod.case if_True)
qed

lemma half_even_close: "\<bar>rat_of_int (round_half_even q) - q\<bar> \<le> 1 / 2"
proof -
  have "rat_of_int \<lfloor>q\<rfloor> \<le> q" "q < rat_of_int \<lfloor>q\<rfloor> + 1" by linarith+
  then show ?thesis by (auto simp: round_half_even_def Let_def abs_le_iff)
qed

end
