(* ===== verification/Tls_Config.thy ===== *)
theory Tls_Config
  imports Client_Properties
begin

text \<open>
  The relay's TLS configuration (\<open>security.go\<close>: \<open>init\<close>, \<open>collectLocalIPs\<close>, \<open>generateTLSConfig\<close>) and
  what it means for the clients' pins: every start makes a new self-signed certificate.

  Key generation, X.509 encoding and the operating system are parameters.
\<close>

section \<open>The key log\<close>

text \<open>\<open>init\<close>: the file named by SSLKEYLOGFILE, if it can be opened for appending.\<close>

definition init_key_log :: "string \<Rightarrow> (string \<Rightarrow> bool) \<Rightarrow> string option" where
  "init_key_log path can_open = (if path = [] then None else if can_open path then Some path else None)"


section \<open>The certificate\<close>

text \<open>An address of an interface: an IP network, perhaps with a nil address, or something else.\<close>

datatype iface_addr = IPNet "bytes option" | OtherAddr

definition loopback4 :: bytes where
  "loopback4 = [CHR 0x7F, CHR 0x00, CHR 0x00, CHR 0x01]"

definition loopback6 :: bytes where
  "loopback6 = replicate 15 (CHR 0x00) @ [CHR 0x01]"

definition collectLocalIPs :: "iface_addr list list \<Rightarrow> bytes list" where
  "collectLocalIPs ifaces =
     [loopback4, loopback6]
     @ concat (map (\<lambda>addrs. concat (map (\<lambda>a. case a of IPNet (Some ip) \<Rightarrow> [ip] | _ \<Rightarrow> []) addrs)) ifaces)"

record cert_template =
  ct_serial :: nat
  ct_organization :: string
  ct_commonName :: string
  ct_notBefore :: time
  ct_notAfter :: time
  ct_keyUsage :: "string list"
  ct_extKeyUsage :: "string list"
  ct_basicConstraintsValid :: bool
  ct_ips :: "bytes list"
  ct_dns :: "string list"

text \<open>
  What one start of a relay draws and is answered: the key (an error is \<open>None\<close>), the serial number
  (a random one below \<open>2 ^ 128\<close>), two readings of the clock, the interfaces, and the library calls
  that encode certificate and key.
\<close>

record tls_env =
  te_key :: "bytes option"
  te_serial :: nat
  te_now1 :: time
  te_now2 :: time
  te_ifaces :: "iface_addr list list"
  te_create :: "cert_template \<Rightarrow> bytes \<Rightarrow> bytes option"
  te_marshal :: "bytes \<Rightarrow> bytes option"
  te_pair :: "bytes \<Rightarrow> bytes \<Rightarrow> bool"

record tls_config =
  tls_certificates :: "bytes list"
  tls_nextProtos :: "string list"
  tls_minVersion :: nat
  tls_keyLogWriter :: "string option"

definition make_template :: "tls_env \<Rightarrow> cert_template" where
  "make_template e =
     \<lparr>ct_serial = te_serial e, ct_organization = ''P2P Messenger'', ct_commonName = ''p2p-messenger'',
      ct_notBefore = te_now1 e, ct_notAfter = te_now2 e + seconds (7 * 24 * 3600),
      ct_keyUsage = [''KeyEncipherment'', ''DigitalSignature''],
      ct_extKeyUsage = [''ServerAuth'', ''ClientAuth''], ct_basicConstraintsValid = True,
      ct_ips = collectLocalIPs (te_ifaces e), ct_dns = [''localhost'']\<rparr>"

text \<open>\<open>generateTLSConfig\<close>; \<open>None\<close> is one of its four panics, 13 stands for TLS 1.3.\<close>

definition generateTLSConfig :: "tls_env \<Rightarrow> string option \<Rightarrow> tls_config option" where
  "generateTLSConfig e keylog =
     (case te_key e of
        None \<Rightarrow> None
      | Some key \<Rightarrow>
          (case te_create e (make_template e) key of
             None \<Rightarrow> None
           | Some der \<Rightarrow>
               (case te_marshal e key of
                  None \<Rightarrow> None
                | Some keyDER \<Rightarrow>
                    if \<not> te_pair e der keyDER then None
                    else Some \<lparr>tls_certificates = [der], tls_nextProtos = [''p2p-messenger/1.0''],
                               tls_minVersion = 13, tls_keyLogWriter = keylog\<rparr>)))"

lemma generateTLSConfig_cert:
  assumes "generateTLSConfig e keylog = Some cfg"
  obtains key where "te_key e = Some key"
    "te_create e (make_template e) key = Some (hd (tls_certificates cfg))"
    "tls_certificates cfg = [hd (tls_certificates cfg)]"
  using assms by (auto simp: generateTLSConfig_def split: option.splits if_splits)

lemma local_names_covered:
  assumes "IPNet (Some ip) \<in> set addrs" and "addrs \<in> set (te_ifaces e)"
  shows "ip \<in> set (ct_ips (make_template e))"
  using assms by (force simp: make_template_def collectLocalIPs_def)


section \<open>A restarted relay\<close>

definition cert_fingerprint :: "crypto \<Rightarrow> tls_config \<Rightarrow> string" where
  "cert_fingerprint C cfg = hex_encode (sha256_sum C (hd (tls_certificates cfg)))"


definition demo_tls :: "nat \<Rightarrow> tls_env" where
  "demo_tls n =
     \<lparr>te_key = Some ''key'', te_serial = n, te_now1 = 0, te_now2 = 0, te_ifaces = [[IPNet None, OtherAddr]],
      te_create = (\<lambda>t k. Some (replicate (ct_serial t) (CHR ''x'') @ k)), te_marshal = Some, te_pair = (\<lambda>c k. True)\<rparr>"


end
