(* ===== verification/Bench_Frame.thy ===== *)
theory Bench_Frame
  imports Complex_Main Prelude "HOL-Library.Word"
begin

unbundle bit_operations_syntax

text \<open>
  The length-prefixed messages of the transport benchmarks (\<open>raw_mini\<close>): \<open>writeMsg\<close> and \<open>readMsg\<close> as
  \<open>tcp_raw.go\<close>, \<open>quic_diagnostic.go\<close>, \<open>multiplex_bench.go\<close> and \<open>parallel_bench.go\<close> have them, and the
  variant of \<open>speed_bench.go\<close> with its pooled buffers.  The locale \<open>framing\<close> is what the clients and
  servers rely on.

  The receiving end of a stream is the bytes that arrive until it ends and the error it then
  reports.  A write is one call with the whole frame; whether it succeeds is up to the caller's
  script.
\<close>

section \<open>The length prefix\<close>

text \<open>\<open>binary.BigEndian.PutUint32\<close>: each byte is a conversion \<open>byte(v >> k)\<close>, which drops the high bits.\<close>

definition PutUint32 :: "32 word \<Rightarrow> bytes" where
  "PutUint32 v =
     [char_of (unat (drop_bit 24 v)), char_of (unat (drop_bit 16 v)),
      char_of (unat (drop_bit 8 v)), char_of (unat v)]"

definition byte32 :: "char \<Rightarrow> 32 word" where
  "byte32 c = word_of_nat (of_char c)"

definition Uint32 :: "bytes \<Rightarrow> 32 word" where
  "Uint32 b =
     byte32 (b ! 3) OR push_bit 8 (byte32 (b ! 2)) OR push_bit 16 (byte32 (b ! 1))
     OR push_bit 24 (byte32 (b ! 0))"

lemma length_PutUint32 [simp]: "length (PutUint32 v) = 4"
  by (simp add: PutUint32_def)

lemma byte32_char_of: "byte32 (char_of (unat v)) = take_bit 8 v"
proof -
  have "word_of_nat (take_bit 8 (unat v)) = (take_bit 8 v :: 32 word)"
    by (simp flip: take_bit_of_nat)
  then show ?thesis by (simp add: byte32_def take_bit_eq_mod)
qed

lemma Uint32_PutUint32 [simp]: "Uint32 (PutUint32 v) = v"
proof (rule bit_eqI)
  fix n
  assume "possible_bit TYPE(32 word) n"
  then have n: "n < 32" by (simp add: possible_bit_def)
  have "bit (Uint32 (PutUint32 v)) n \<longleftrightarrow>
     n < 8 \<and> bit v n \<or> 8 \<le> n \<and> n < 16 \<and> bit v n \<or> 16 \<le> n \<and> n < 24 \<and> bit v n \<or> 24 \<le> n \<and> bit v n"
    using n unfolding Uint32_def PutUint32_def
    by (auto simp: byte32_char_of bit_simps)
  then show "bit (Uint32 (PutUint32 v)) n \<longleftrightarrow> bit v n" by (auto simp: not_le)
qed



section \<open>Reading and writing messages\<close>

datatype read_err = EOF | UnexpectedEOF | NetErr string

text \<open>
  \<open>io.ReadFull\<close> on a stream of which \<open>s\<close> is left before it ends with \<open>e\<close>: an end before the first byte
  is passed on, an end of file in the middle becomes \<open>io.ErrUnexpectedEOF\<close>.
\<close>

definition readFull :: "nat \<Rightarrow> bytes \<Rightarrow> read_err \<Rightarrow> (read_err + bytes) \<times> bytes" where
  "readFull n s e =
     (if n \<le> length s then (Inr (take n s), drop n s)
      else (Inl (if s \<noteq> [] \<and> e = EOF then UnexpectedEOF else e), []))"

text \<open>The buffer of \<open>writeMsg\<close>, which is given to one call of \<open>Write\<close>.\<close>

definition writeMsg :: "bytes \<Rightarrow> bytes" where
  "writeMsg msg = PutUint32 (word_of_nat (length msg)) @ msg"

text \<open>The buffer that goes with an error is dropped: no caller looks at it.\<close>

definition readMsg :: "bytes \<Rightarrow> read_err \<Rightarrow> (read_err + bytes) \<times> bytes" where
  "readMsg s e =
     (case readFull 4 s e of
        (Inl er, r) \<Rightarrow> (Inl er, r)
      | (Inr hdr, r) \<Rightarrow> readFull (unat (Uint32 hdr)) r e)"

text \<open>
  \<open>speed_bench.go\<close>: \<open>writeMsg\<close> slices a pooled buffer of \<open>4 + 5000\<close> bytes, and slicing beyond its
  capacity is a panic (\<open>None\<close>).
\<close>

definition pool_size :: nat where
  "pool_size = 4 + 5000"

definition speed_writeMsg :: "bytes \<Rightarrow> bytes option" where
  "speed_writeMsg msg =
     (if 4 + length msg \<le> pool_size then Some (PutUint32 (word_of_nat (length msg)) @ msg) else None)"

text \<open>\<open>readMsg\<close> fills \<open>dst\<close>, of capacity \<open>cap\<close>, or a larger one; the last result is the new capacity.\<close>

definition speed_readMsg :: "bytes \<Rightarrow> read_err \<Rightarrow> nat \<Rightarrow> (read_err + bytes) \<times> bytes \<times> nat" where
  "speed_readMsg s e cap =
     (case readFull 4 s e of
        (Inl er, r) \<Rightarrow> (Inl er, r, 0)
      | (Inr hdr, r) \<Rightarrow>
          (let sz = unat (Uint32 hdr); cap' = (if cap < sz then sz else cap); (res, r') = readFull sz r e
           in (res, r', cap')))"

lemma readFull_append [simp]: "readFull (length m) (m @ rest) e = (Inr m, rest)"
  by (simp add: readFull_def)

lemma readFull_exact: "length m = n \<Longrightarrow> readFull n (m @ rest) e = (Inr m, rest)"
  by auto

lemma readFull_shrinks: "readFull n s e = (Inr m, r) \<Longrightarrow> length r + n = length s \<and> length m = n"
  by (auto simp: readFull_def split: if_splits)

lemma readMsg_shrinks [termination_simp]: "readMsg s e = (Inr m, r) \<Longrightarrow> length r < length s"
  by (auto simp: readMsg_def split: prod.splits sum.splits dest!: readFull_shrinks)

lemma readMsg_Nil [simp]: "readMsg [] e = (Inl e, [])"
  by (simp add: readMsg_def readFull_def)

text \<open>
  What a reader gets from a frame in general: the prefix wraps at \<open>2 ^ 32\<close>, so of a longer message
  only the remainder is read and the other bytes stay in the stream.
\<close>

lemma readMsg_writeMsg:
  "readMsg (writeMsg m @ rest) e = (Inr (take (length m mod 2 ^ 32) m), drop (length m mod 2 ^ 32) m @ rest)"
proof -
  have "readFull 4 (writeMsg m @ rest) e = (Inr (PutUint32 (word_of_nat (length m))), m @ rest)"
    unfolding writeMsg_def append_assoc by (rule readFull_exact) simp
  moreover have "unat (word_of_nat (length m) :: 32 word) = length m mod 2 ^ 32"
    by (simp add: unat_of_nat)
  ultimately show ?thesis
    by (simp add: readMsg_def readFull_def)
qed

lemma readMsg_frame: "length m < 2 ^ 32 \<Longrightarrow> readMsg (writeMsg m @ rest) e = (Inr m, rest)"
  by (simp add: readMsg_writeMsg)

lemma speed_readMsg_eq: "(fst (speed_readMsg s e cap), fst (snd (speed_readMsg s e cap))) = readMsg s e"
  by (auto simp: speed_readMsg_def readMsg_def Let_def split: prod.splits sum.splits)

lemma speed_readMsg_fst: "speed_readMsg s e cap = (res, r, cap') \<Longrightarrow> readMsg s e = (res, r)"
  using speed_readMsg_eq [of s e cap] by simp

lemma speed_writeMsg_fits: "length m \<le> 5000 \<Longrightarrow> speed_writeMsg m = Some (writeMsg m)"
  by (simp add: speed_writeMsg_def writeMsg_def pool_size_def)

lemma speed_writeMsg_panics: "5000 < length m \<Longrightarrow> speed_writeMsg m = None"
  by (simp add: speed_writeMsg_def pool_size_def)


section \<open>What clients and servers rely on\<close>

text \<open>
  A framing: an encoder that may refuse a message, a decoder that takes one message off a stream,
  and the messages that survive the way.
\<close>

definition frames :: "(bytes \<Rightarrow> bytes option) \<Rightarrow> bytes list \<Rightarrow> bytes" where
  "frames enc ms = concat (map (\<lambda>m. the (enc m)) ms)"

lemma frames_Nil [simp]: "frames enc [] = []"
  by (simp add: frames_def)

lemma frames_Cons [simp]: "frames enc (m # ms) = the (enc m) @ frames enc ms"
  by (simp add: frames_def)

locale framing =
  fixes enc :: "bytes \<Rightarrow> bytes option"
    and dec :: "bytes \<Rightarrow> read_err \<Rightarrow> (read_err + bytes) \<times> bytes"
    and fits :: "bytes \<Rightarrow> bool"
  assumes enc_fits: "fits m \<Longrightarrow> enc m \<noteq> None"
    and dec_enc: "fits m \<Longrightarrow> enc m = Some f \<Longrightarrow> dec (f @ rest) e = (Inr m, rest)"
begin

lemma enc_the: "fits m \<Longrightarrow> enc m = Some (the (enc m))"
  using enc_fits by auto

lemma dec_frames: "fits m \<Longrightarrow> dec (frames enc (m # ms) @ rest) e = (Inr m, frames enc ms @ rest)"
  using dec_enc [OF _ enc_the] by simp

end

definition plain_writeMsg :: "bytes \<Rightarrow> bytes option" where
  "plain_writeMsg m = Some (writeMsg m)"

interpretation plain: framing plain_writeMsg readMsg "\<lambda>m. length m < 2 ^ 32"
  by unfold_locales (auto simp: plain_writeMsg_def readMsg_frame)

interpretation pooled: framing speed_writeMsg "\<lambda>s e. (fst (speed_readMsg s e cap), fst (snd (speed_readMsg s e cap)))"
    "\<lambda>m. length m \<le> 5000" for cap
  by unfold_locales (auto simp: speed_readMsg_eq speed_writeMsg_fits readMsg_frame)

lemma plain_frames: "frames plain_writeMsg ms = concat (map writeMsg ms)"
  by (simp add: frames_def plain_writeMsg_def)

lemma pooled_frames: "\<forall>m \<in> set ms. length m \<le> 5000 \<Longrightarrow> frames speed_writeMsg ms = concat (map writeMsg ms)"
  by (induction ms) (simp_all add: speed_writeMsg_fits)


section \<open>Frames cut short\<close>

lemma readMsg_cut:
  assumes "length m < 2 ^ 32" and "k < length (writeMsg m)"
  shows "readMsg (take k (writeMsg m)) e =
    (Inl (if k = 0 \<or> k = 4 \<or> e \<noteq> EOF then e else UnexpectedEOF), [])"
proof (cases "k < 4")
  case True
  then have "length (take k (writeMsg m)) < 4" using assms(2) by simp
  then show ?thesis using True assms(2) by (auto simp: readMsg_def readFull_def)
next
  case False
  have "take k (writeMsg m) = PutUint32 (word_of_nat (length m)) @ take (k - 4) m"
    using False by (simp add: writeMsg_def)
  moreover have "k - 4 < length m" using assms(2) False by (simp add: writeMsg_def)
  moreover have "unat (word_of_nat (length m) :: 32 word) = length m"
    using assms(1) by (simp add: unat_of_nat)
  moreover have "readFull 4 (PutUint32 v @ r) e = (Inr (PutUint32 v), r)" for v r
    by (rule readFull_exact) simp
  ultimately show ?thesis
    using False by (auto simp: readMsg_def readFull_def)
qed

end
