(* ===== verification/Bench_Echo.thy ===== *)
theory Bench_Echo
  imports Bench_Frame Go_Strings
begin

text \<open>
  The payloads and the echo servers of the transport benchmarks: \<open>makePayload\<close> and the connection
  handlers of \<open>tcp_raw.go\<close>, \<open>quic_diagnostic.go\<close>, \<open>speed_bench.go\<close> and \<open>parallel_bench.go\<close>.  The
  locale \<open>echo_server\<close> is the contract of the four handlers.
\<close>

section \<open>Payloads\<close>

text \<open>A header cut or padded to a size; slicing with a negative size is a panic.\<close>

definition pad_payload :: "string \<Rightarrow> int \<Rightarrow> bytes option" where
  "pad_payload header sz =
     (if sz \<le> int (length header) then (if sz < 0 then None else Some (take (nat sz) header))
      else Some (header @ replicate (nat sz - length header) (CHR ''A'')))"

text \<open>The same with a loop that fills the buffer byte by byte.\<close>

definition fill_payload :: "string \<Rightarrow> int \<Rightarrow> bytes option" where
  "fill_payload header sz =
     (if sz \<le> int (length header) then (if sz < 0 then None else Some (take (nat sz) header))
      else Some (fold (\<lambda>i buf. buf[i := CHR ''A'']) [length header ..< nat sz]
             (header @ replicate (nat sz - length header) (CHR 0x00))))"

definition tcp_makePayload :: "nat \<Rightarrow> int \<Rightarrow> bytes option" where
  "tcp_makePayload msgNum sz =
     pad_payload (''MSG'' @ nat_str msgNum @ '':TCP:SIZE='' @ int_str sz @ '':'') sz"

definition quic_makePayload :: "nat \<Rightarrow> int \<Rightarrow> bytes option" where
  "quic_makePayload msgNum sz =
     pad_payload (''MSG'' @ nat_str msgNum @ '':QUIC:SIZE='' @ int_str sz @ '':'') sz"

definition multiplex_makePayload :: "nat \<Rightarrow> int \<Rightarrow> bytes option" where
  "multiplex_makePayload idx sz = pad_payload (''MPLEX'' @ nat_str idx @ '':SIZE='' @ int_str sz @ '':'') sz"

definition speed_makePayload :: "nat \<Rightarrow> int \<Rightarrow> bytes option" where
  "speed_makePayload msgNum sz = fill_payload (''MSG'' @ nat_str msgNum @ '':SIZE='' @ int_str sz @ '':'') sz"

definition parallel_makePayload :: "nat \<Rightarrow> int \<Rightarrow> bytes option" where
  "parallel_makePayload idx sz = fill_payload (''P'' @ nat_str idx @ '':'') sz"

lemma fill_replicate:
  "fold (\<lambda>i buf. buf[i := c]) [length h ..< length h + n] (h @ replicate n d) = h @ replicate n c"
proof (induction n arbitrary: h)
  case 0
  then show ?case by simp
next
  case (Suc n)
  have "[length h ..< length h + Suc n] = length h # [length (h @ [c]) ..< length (h @ [c]) + n]"
    by (simp add: upt_conv_Cons)
  moreover have "(h @ replicate (Suc n) d)[length h := c] = (h @ [c]) @ replicate n d"
    by (simp add: list_update_append)
  ultimately show ?case
    using Suc.IH [of "h @ [c]"] by simp
qed

lemma fill_payload_eq: "fill_payload header sz = pad_payload header sz"
proof (cases "sz \<le> int (length header)")
  case True
  then show ?thesis by (simp add: fill_payload_def pad_payload_def)
next
  case False
  then have "nat sz = length header + (nat sz - length header)" by simp
  then show ?thesis
    using False fill_replicate [of "CHR ''A''" header "nat sz - length header" "CHR 0x00"]
    by (simp add: fill_payload_def pad_payload_def)
qed

lemma pad_payload_length:
  "pad_payload header sz = Some p \<longleftrightarrow> 0 \<le> sz \<and> length p = nat sz \<and>
     p = take (nat sz) header @ replicate (nat sz - length header) (CHR ''A'')"
  by (auto simp: pad_payload_def)

lemmas makePayload_defs = tcp_makePayload_def quic_makePayload_def multiplex_makePayload_def
  speed_makePayload_def parallel_makePayload_def fill_payload_eq


lemma pad_payload_ex: "0 \<le> sz \<Longrightarrow> \<exists>p. pad_payload header sz = Some p \<and> length p = nat sz"
  by (auto simp: pad_payload_def)

lemma makePayload_ex:
  assumes "0 \<le> sz"
  shows "\<exists>p. tcp_makePayload i sz = Some p \<and> length p = nat sz"
    and "\<exists>p. quic_makePayload i sz = Some p \<and> length p = nat sz"
    and "\<exists>p. multiplex_makePayload i sz = Some p \<and> length p = nat sz"
    and "\<exists>p. speed_makePayload i sz = Some p \<and> length p = nat sz"
    and "\<exists>p. parallel_makePayload i sz = Some p \<and> length p = nat sz"
  unfolding makePayload_defs by (rule pad_payload_ex [OF assms])+

lemma makePayload_negative:
  assumes "sz < 0"
  shows "tcp_makePayload i sz = None" "quic_makePayload i sz = None" "multiplex_makePayload i sz = None"
    "speed_makePayload i sz = None" "parallel_makePayload i sz = None"
  unfolding makePayload_defs using assms by (simp_all add: pad_payload_def)


section \<open>The handlers of the echo servers\<close>

fun read_err_text :: "read_err \<Rightarrow> string" where
  "read_err_text EOF = ''EOF''"
| "read_err_text UnexpectedEOF = ''unexpected EOF''"
| "read_err_text (NetErr e) = e"

datatype serve_end = ReadStop read_err | WriteStop string | ServePanic

text \<open>What a handler writes to its stream, what it prints, and how it ends.\<close>

record echo_run =
  er_out :: bytes
  er_printed :: "string list"
  er_end :: serve_end

definition echo_stop :: "string list \<Rightarrow> serve_end \<Rightarrow> echo_run" where
  "echo_stop printed en = \<lparr>er_out = [], er_printed = printed, er_end = en\<rparr>"

definition echo_more :: "bytes \<Rightarrow> string list \<Rightarrow> echo_run \<Rightarrow> echo_run" where
  "echo_more out printed r = r\<lparr>er_out := out @ er_out r, er_printed := printed @ er_printed r\<rparr>"

lemma echo_more_simps [simp]:
  "er_out (echo_more out printed r) = out @ er_out r"
  "er_printed (echo_more out printed r) = printed @ er_printed r"
  "er_end (echo_more out printed r) = er_end r"
  by (simp_all add: echo_more_def)

lemma echo_stop_simps [simp]:
  "er_out (echo_stop printed en) = []" "er_printed (echo_stop printed en) = printed"
  "er_end (echo_stop printed en) = en"
  by (simp_all add: echo_stop_def)

text \<open>The line about a received message, with a preview of at most 50 bytes.\<close>

definition received_line :: "bytes \<Rightarrow> string" where
  "received_line msg =
     ''[Received] '' @ nat_str (length msg) @ '' bytes: '' @ take (min 50 (length msg)) msg @ [newline]"

definition write_error_line :: "string \<Rightarrow> string" where
  "write_error_line e = ''Write error: '' @ e @ [newline]"

definition read_error_line :: "read_err \<Rightarrow> string" where
  "read_error_line e = ''Read error: '' @ read_err_text e @ [newline]"

text \<open>
  The handlers read from a stream of which \<open>s\<close> is left before it ends with \<open>e\<close>; the answer to write
  number \<open>k\<close> is \<open>wr k\<close>, and of a write that fails nothing counts as written.

  \<open>tcp_raw.go\<close>: \<open>handleConnection\<close>.
\<close>

function tcp_handleConnection :: "(nat \<Rightarrow> string option) \<Rightarrow> nat \<Rightarrow> bytes \<Rightarrow> read_err \<Rightarrow> echo_run" where
  "tcp_handleConnection wr k s e =
     (case readMsg s e of
        (Inl er, r) \<Rightarrow> echo_stop (if er \<noteq> EOF then [read_error_line er] else []) (ReadStop er)
      | (Inr msg, r) \<Rightarrow>
          (case wr k of
             Some we \<Rightarrow> echo_stop [received_line msg, write_error_line we] (WriteStop we)
           | None \<Rightarrow>
               echo_more (writeMsg (''ACK_TLS:'' @ msg)) [received_line msg]
                 (tcp_handleConnection wr (Suc k) r e)))"
  by pat_completeness auto
termination
  by (relation "measure (\<lambda>(_, _, s, _). length s)") (auto dest!: readMsg_shrinks [OF sym])

text \<open>\<open>quic_diagnostic.go\<close>: one goroutine per stream, and the loop that accepts streams.\<close>

function quic_handleStream :: "(nat \<Rightarrow> string option) \<Rightarrow> nat \<Rightarrow> bytes \<Rightarrow> read_err \<Rightarrow> echo_run" where
  "quic_handleStream wr k s e =
     (case readMsg s e of
        (Inl er, r) \<Rightarrow> echo_stop [] (ReadStop er)
      | (Inr msg, r) \<Rightarrow>
          (case wr k of
             Some we \<Rightarrow> echo_stop [received_line msg, write_error_line we] (WriteStop we)
           | None \<Rightarrow>
               echo_more (writeMsg (''ACK_QUIC:'' @ msg)) [received_line msg]
                 (quic_handleStream wr (Suc k) r e)))"
  by pat_completeness auto
termination
  by (relation "measure (\<lambda>(_, _, s, _). length s)") (auto dest!: readMsg_shrinks [OF sym])

text \<open>\<open>parallel_bench.go\<close>: the result of \<open>writeMsg\<close> is ignored, over QUIC and over TCP.\<close>

function parallel_serve :: "(nat \<Rightarrow> string option) \<Rightarrow> nat \<Rightarrow> bytes \<Rightarrow> read_err \<Rightarrow> echo_run" where
  "parallel_serve wr k s e =
     (case readMsg s e of
        (Inl er, r) \<Rightarrow> echo_stop [] (ReadStop er)
      | (Inr msg, r) \<Rightarrow>
          echo_more (case wr k of Some we \<Rightarrow> [] | None \<Rightarrow> writeMsg (''ACK:'' @ msg)) []
            (parallel_serve wr (Suc k) r e))"
  by pat_completeness auto
termination
  by (relation "measure (\<lambda>(_, _, s, _). length s)") (auto dest!: readMsg_shrinks [OF sym])

text \<open>
  \<open>speed_bench.go\<close>: \<open>handleQUICStream\<close> and \<open>handleTCPConn\<close>, which are the same loop; \<open>cap\<close> is the
  capacity of the buffer that is read into, 5000 at first.
\<close>

function speed_serve :: "(nat \<Rightarrow> string option) \<Rightarrow> nat \<Rightarrow> nat \<Rightarrow> bytes \<Rightarrow> read_err \<Rightarrow> echo_run" where
  "speed_serve wr k cap s e =
     (case speed_readMsg s e cap of
        (Inl er, r, cap') \<Rightarrow> echo_stop [] (ReadStop er)
      | (Inr msg, r, cap') \<Rightarrow>
          (case speed_writeMsg (''ACK:'' @ msg) of
             None \<Rightarrow> echo_stop [] ServePanic
           | Some f \<Rightarrow>
               (case wr k of
                  Some we \<Rightarrow> echo_stop [] (WriteStop we)
                | None \<Rightarrow> echo_more f [] (speed_serve wr (Suc k) cap' r e))))"
  by pat_completeness auto
termination
  by (relation "measure (\<lambda>(_, _, _, s, _). length s)")
    (auto dest!: speed_readMsg_fst [OF sym] readMsg_shrinks)

declare tcp_handleConnection.simps [simp del] quic_handleStream.simps [simp del]
  parallel_serve.simps [simp del] speed_serve.simps [simp del]

definition speed_handleStream :: "(nat \<Rightarrow> string option) \<Rightarrow> bytes \<Rightarrow> read_err \<Rightarrow> echo_run" where
  "speed_handleStream wr s e = speed_serve wr 0 5000 s e"

definition speed_handleTCPConn :: "(nat \<Rightarrow> string option) \<Rightarrow> bytes \<Rightarrow> read_err \<Rightarrow> echo_run" where
  "speed_handleTCPConn wr s e = speed_serve wr 0 5000 s e"


section \<open>The contract of an echo server\<close>

text \<open>
  \<open>serve\<close> answers every message that fits with the prefix and the message, one frame per frame, and
  ends when the stream ends.
\<close>

locale echo_server =
  fixes serve :: "'c \<Rightarrow> (nat \<Rightarrow> string option) \<Rightarrow> nat \<Rightarrow> bytes \<Rightarrow> read_err \<Rightarrow> echo_run"
    and prefix :: string
    and fits :: "bytes \<Rightarrow> bool"
  assumes serve_end: "serve c wr k [] e = echo_stop (er_printed (serve c wr k [] e)) (ReadStop e)"
    and serve_step: "fits m \<Longrightarrow> wr k = None \<Longrightarrow>
      \<exists>c' p. serve c wr k (writeMsg m @ rest) e = echo_more (writeMsg (prefix @ m)) p (serve c' wr (Suc k) rest e)"
begin

lemma serve_requests:
  assumes "\<forall>m \<in> set ms. fits m" and "\<forall>n. wr n = None"
  shows "er_out (serve c wr k (concat (map writeMsg ms)) e) = concat (map (\<lambda>m. writeMsg (prefix @ m)) ms)"
    and "er_end (serve c wr k (concat (map writeMsg ms)) e) = ReadStop e"
proof -
  have "er_out (serve c wr k (concat (map writeMsg ms)) e) = concat (map (\<lambda>m. writeMsg (prefix @ m)) ms) \<and>
      er_end (serve c wr k (concat (map writeMsg ms)) e) = ReadStop e"
    using assms
  proof (induction ms arbitrary: c k)
    case Nil
    then show ?case using serve_end [of c wr k e] by (metis concat.simps(1) echo_stop_simps(1,3) list.simps(8))
  next
    case (Cons m ms)
    have "fits m" "wr k = None" using Cons.prems by simp_all
    from serve_step [of m wr k c "concat (map writeMsg ms)" e, OF this] obtain c' p where "serve c wr k (writeMsg m @ concat (map writeMsg ms)) e =
        echo_more (writeMsg (prefix @ m)) p (serve c' wr (Suc k) (concat (map writeMsg ms)) e)"
      by blast
    moreover have "er_out (serve c' wr (Suc k) (concat (map writeMsg ms)) e) = concat (map (\<lambda>m. writeMsg (prefix @ m)) ms) \<and>
        er_end (serve c' wr (Suc k) (concat (map writeMsg ms)) e) = ReadStop e"
      by (rule Cons.IH) (use Cons.prems in simp_all)
    ultimately show ?case by simp
  qed
  then show "er_out (serve c wr k (concat (map writeMsg ms)) e) = concat (map (\<lambda>m. writeMsg (prefix @ m)) ms)"
    and "er_end (serve c wr k (concat (map writeMsg ms)) e) = ReadStop e" by auto
qed

end


interpretation tcp_echo: echo_server "\<lambda>_ :: unit. tcp_handleConnection" "''ACK_TLS:''" "\<lambda>m. length m < 2 ^ 32"
proof unfold_locales
  show "tcp_handleConnection wr k [] e =
      echo_stop (er_printed (tcp_handleConnection wr k [] e)) (ReadStop e)" for wr k e
    by (subst (1 2) tcp_handleConnection.simps) simp
  show "\<exists>c' p. tcp_handleConnection wr k (writeMsg m @ rest) e =
      echo_more (writeMsg (''ACK_TLS:'' @ m)) p (tcp_handleConnection wr (Suc k) rest e)"
    if "length m < 2 ^ 32" "wr k = None" for m wr k rest e
    using that by (subst tcp_handleConnection.simps) (auto simp: readMsg_frame)
qed

interpretation quic_echo: echo_server "\<lambda>_ :: unit. quic_handleStream" "''ACK_QUIC:''" "\<lambda>m. length m < 2 ^ 32"
proof unfold_locales
  show "quic_handleStream wr k [] e =
      echo_stop (er_printed (quic_handleStream wr k [] e)) (ReadStop e)" for wr k e
    by (subst (1 2) quic_handleStream.simps) simp
  show "\<exists>c' p. quic_handleStream wr k (writeMsg m @ rest) e =
      echo_more (writeMsg (''ACK_QUIC:'' @ m)) p (quic_handleStream wr (Suc k) rest e)"
    if "length m < 2 ^ 32" "wr k = None" for m wr k rest e
    using that by (subst quic_handleStream.simps) (auto simp: readMsg_frame)
qed

interpretation parallel_echo: echo_server "\<lambda>_ :: unit. parallel_serve" "''ACK:''" "\<lambda>m. length m < 2 ^ 32"
proof unfold_locales
  show "parallel_serve wr k [] e =
      echo_stop (er_printed (parallel_serve wr k [] e)) (ReadStop e)" for wr k e
    by (subst (1 2) parallel_serve.simps) simp
  show "\<exists>c' p. parallel_serve wr k (writeMsg m @ rest) e =
      echo_more (writeMsg (''ACK:'' @ m)) p (parallel_serve wr (Suc k) rest e)"
    if "length m < 2 ^ 32" "wr k = None" for m wr k rest e
    using that by (subst parallel_serve.simps) (auto simp: readMsg_frame)
qed

lemma speed_readMsg_frame:
  assumes "length m < 2 ^ 32"
  obtains cap' where "speed_readMsg (writeMsg m @ rest) e cap = (Inr m, rest, cap')"
  using speed_readMsg_eq [of "writeMsg m @ rest" e cap] readMsg_frame [OF assms, of rest e]
  by (cases "speed_readMsg (writeMsg m @ rest) e cap") auto

text \<open>The pooled server only answers messages that fit into its buffer with the prefix.\<close>

interpretation speed_echo: echo_server "\<lambda>cap wr k. speed_serve wr k cap" "''ACK:''" "\<lambda>m. length m \<le> 4996"
proof unfold_locales
  show "speed_serve wr k cap [] e =
      echo_stop (er_printed (speed_serve wr k cap [] e)) (ReadStop e)" for wr k cap e
    by (subst (1 2) speed_serve.simps) (simp add: speed_readMsg_def readFull_def)
  show "\<exists>c' p. speed_serve wr k cap (writeMsg m @ rest) e =
      echo_more (writeMsg (''ACK:'' @ m)) p (speed_serve wr (Suc k) c' rest e)"
    if "length m \<le> 4996" "wr k = None" for m wr k cap rest e
  proof -
    have "length m < 2 ^ 32" using that(1) by simp
    from speed_readMsg_frame [OF this] obtain cap' where
      "speed_readMsg (writeMsg m @ rest) e cap = (Inr m, rest, cap')" .
    moreover have "speed_writeMsg (''ACK:'' @ m) = Some (writeMsg (''ACK:'' @ m))"
      by (rule speed_writeMsg_fits) (use that(1) in simp)
    ultimately show ?thesis
      using that(2) by (subst speed_serve.simps) auto
  qed
qed

lemma speed_serve_panics:
  assumes "4996 < length m" and "length m < 2 ^ 32"
  shows "speed_serve wr k cap (writeMsg m @ rest) e = echo_stop [] ServePanic"
proof -
  from speed_readMsg_frame [OF assms(2)] obtain cap' where
    "speed_readMsg (writeMsg m @ rest) e cap = (Inr m, rest, cap')" .
  moreover have "speed_writeMsg (''ACK:'' @ m) = None"
    by (rule speed_writeMsg_panics) (use assms(1) in simp)
  ultimately show ?thesis by (subst speed_serve.simps) auto
qed

end
