(* ===== verification/Bench_Client.thy ===== *)
theory Bench_Client
  imports Bench_Echo
begin

text \<open>
  The echo clients of the transport benchmarks: \<open>tcp_raw.go\<close> and \<open>quic_diagnostic.go\<close>.

  A client is a function of its environment (the key log file, the answers to its dials, the clock)
  to the sequence of what it does: dials, streams, writes, reads, closes and printed lines, and
  \<open>Crashed\<close> for a panic.  The
  answer to a dial is an error or a link: what opening a stream, each write and the reads on it
  give.  Durations are differences of readings of the clock, in nanoseconds; the printed decimals
  are left out.
\<close>

section \<open>The environment and the trace\<close>

record link =
  lk_open :: "string option"
  lk_write :: "nat \<Rightarrow> string option"
  lk_in :: bytes
  lk_end :: read_err

record bench_net =
  bn_keyEnv :: string
  bn_openFile :: "string \<Rightarrow> string option"
  bn_dial :: "nat \<Rightarrow> string + link"
  bn_clock :: "nat \<Rightarrow> time"

text \<open>A TCP connection, or a stream of a QUIC connection, by their numbers.\<close>

datatype endpoint = Tcp nat | Quic nat nat

datatype bench_event =
    KeyLogOpened string
  | KeyLogWarning string string
  | KeyLogClosed
  | Heading string string "int list"
  | Said string
  | Dialled nat bool
  | StreamOpened nat nat
  | SentOn endpoint bytes
  | GotFrom endpoint bytes
  | StreamClosed nat nat
  | ConnClosed nat
  | RttRow nat nat nat time
  | WanRow time time time nat
  | BurstRow nat string time time time
  | SumRow int nat
  | Crashed

record bench =
  b_events :: "bench_event list"
  b_clock :: nat

definition emit :: "bench_event \<Rightarrow> bench \<Rightarrow> bench" where
  "emit e st = st\<lparr>b_events := b_events st @ [e]\<rparr>"

definition read_clock :: "bench_net \<Rightarrow> bench \<Rightarrow> time \<times> bench" where
  "read_clock N st = (bn_clock N (b_clock st), st\<lparr>b_clock := Suc (b_clock st)\<rparr>)"

definition bench_start :: bench where
  "bench_start = \<lparr>b_events = [], b_clock = 0\<rparr>"

lemma emit_simps [simp]:
  "b_events (emit e st) = b_events st @ [e]" "b_clock (emit e st) = b_clock st"
  by (simp_all add: emit_def)

lemma read_clock_events [simp]: "b_events (snd (read_clock N st)) = b_events st"
  by (simp add: read_clock_def)

text \<open>\<open>openKeyLog\<close> of \<open>tcp_raw.go\<close> and \<open>quic_diagnostic.go\<close>, with its fallback, and the deferred close.\<close>

definition openKeyLog :: "bench_net \<Rightarrow> bench \<Rightarrow> bool \<times> bench" where
  "openKeyLog N st =
     (let path = (if bn_keyEnv N = [] then ''tls_keys.txt'' else bn_keyEnv N)
      in case bn_openFile N path of
           Some e \<Rightarrow> (False, emit (KeyLogWarning path e) st)
         | None \<Rightarrow> (True, emit (KeyLogOpened path) st))"

text \<open>\<open>multiplex_bench.go\<close> has no fallback.\<close>

definition multiplex_openKeyLog :: "bench_net \<Rightarrow> bench \<Rightarrow> bool \<times> bench" where
  "multiplex_openKeyLog N st =
     (if bn_keyEnv N = [] then (False, st)
      else case bn_openFile N (bn_keyEnv N) of
             Some e \<Rightarrow> (False, emit (KeyLogWarning (bn_keyEnv N) e) st)
           | None \<Rightarrow> (True, emit (KeyLogOpened (bn_keyEnv N)) st))"

definition with_keylog ::
  "(bench_net \<Rightarrow> bench \<Rightarrow> bool \<times> bench) \<Rightarrow> bench_net \<Rightarrow> (bench \<Rightarrow> bench) \<Rightarrow> bench" where
  "with_keylog open_log N body =
     (case open_log N bench_start of (opened, st) \<Rightarrow>
        (if opened then emit KeyLogClosed (body st) else body st))"

text \<open>\<open>net.JoinHostPort\<close>.\<close>

definition JoinHostPort :: "string \<Rightarrow> string \<Rightarrow> string" where
  "JoinHostPort host port =
     (if CHR '':'' \<in> set host then ''['' @ host @ '']:'' @ port else host @ '':'' @ port)"

definition sweepSizes :: "int list" where
  "sweepSizes = [64, 100, 5000]"

definition labelled :: "string \<Rightarrow> string \<Rightarrow> bench_event" where
  "labelled label e = Said (label @ '': '' @ e @ [newline])"


section \<open>The loop over messages\<close>

datatype stop = Done | Failed | Panicked

text \<open>
  \<open>for i := 1; i <= msgs; i++\<close>: a payload, a write, a read, one line with the sizes and the time.
  The state is the number of writes so far on the link, the bytes still to arrive, and the trace.
\<close>

type_synonym wire = "nat \<times> bytes \<times> bench"

fun ping_loop ::
  "bench_net \<Rightarrow> link \<Rightarrow> endpoint \<Rightarrow> (nat \<Rightarrow> bytes option) \<Rightarrow> nat list \<Rightarrow> wire \<Rightarrow> stop \<times> wire" where
  "ping_loop N l ep mk [] w = (Done, w)"
| "ping_loop N l ep mk (i # is) (k, s, st) =
     (case mk i of
        None \<Rightarrow> (Panicked, k, s, emit Crashed st)
      | Some payload \<Rightarrow>
          (let (start, st1) = read_clock N st
           in case lk_write l k of
                Some e \<Rightarrow> (Failed, Suc k, s, emit (Said (write_error_line e)) st1)
              | None \<Rightarrow>
                  (let st2 = emit (SentOn ep (writeMsg payload)) st1
                   in case readMsg s (lk_end l) of
                        (Inl e, r) \<Rightarrow> (Failed, Suc k, r, emit (Said (read_error_line e)) st2)
                      | (Inr resp, r) \<Rightarrow>
                          (let (stop, st3) = read_clock N (emit (GotFrom ep resp) st2)
                           in ping_loop N l ep mk is
                                (Suc k, r, emit (RttRow i (length payload) (length resp) (stop - start)) st3)))))"

abbreviation wire_trace :: "stop \<times> wire \<Rightarrow> bench" where
  "wire_trace r \<equiv> snd (snd (snd r))"

definition first_wire :: "link \<Rightarrow> bench \<Rightarrow> wire" where
  "first_wire l st = (0, lk_in l, st)"


section \<open>tcp_raw.go\<close>

definition tcp_runClient :: "bench_net \<Rightarrow> string \<Rightarrow> string \<Rightarrow> int \<Rightarrow> nat \<Rightarrow> bench" where
  "tcp_runClient N addr port sz msgs =
     with_keylog openKeyLog N (\<lambda>st.
       let st1 = emit (Heading ''[TCP+TLS Client]'' (JoinHostPort addr port) [sz]) st
       in case bn_dial N 0 of
            Inl e \<Rightarrow> emit (labelled ''Connect error'' e) st1
          | Inr l \<Rightarrow>
              emit (ConnClosed 0)
                (wire_trace (ping_loop N l (Tcp 0) (\<lambda>i. tcp_makePayload i sz) [1..<Suc msgs]
                   (first_wire l (emit (Dialled 0 False) st1)))))"

text \<open>
  \<open>runClientWAN\<close>: the time starts before the dial.  \<open>wan_message\<close> is the part after the dial, which
  both programs share: one message, then the three times.
\<close>

definition wan_message :: "bench_net \<Rightarrow> link \<Rightarrow> endpoint \<Rightarrow> bytes option \<Rightarrow> time \<Rightarrow> time \<Rightarrow> bench \<Rightarrow> bench" where
  "wan_message N l ep mk dialStart dialTime st =
     (case mk of
        None \<Rightarrow> emit Crashed st
      | Some payload \<Rightarrow>
          (let (msgStart, st1) = read_clock N st
           in case lk_write l 0 of
                Some e \<Rightarrow> emit (Said (write_error_line e)) st1
              | None \<Rightarrow>
                  (let st2 = emit (SentOn ep (writeMsg payload)) st1
                   in case readMsg (lk_in l) (lk_end l) of
                        (Inl e, _) \<Rightarrow> emit (Said (read_error_line e)) st2
                      | (Inr resp, _) \<Rightarrow>
                          (let (t1, st3) = read_clock N (emit (GotFrom ep resp) st2);
                               (t2, st4) = read_clock N st3
                           in emit (WanRow dialTime (t1 - msgStart) (t2 - dialStart) (length resp)) st4))))"

definition tcp_runClientWAN :: "bench_net \<Rightarrow> string \<Rightarrow> string \<Rightarrow> int \<Rightarrow> bench" where
  "tcp_runClientWAN N addr port sz =
     with_keylog openKeyLog N (\<lambda>st.
       let st1 = emit (Heading ''[TCP WAN]'' (JoinHostPort addr port) [sz]) st;
           (dialStart, st2) = read_clock N st1
       in case bn_dial N 0 of
            Inl e \<Rightarrow> emit (labelled ''Connect error'' e) st2
          | Inr l \<Rightarrow>
              (let (t, st3) = read_clock N (emit (Dialled 0 False) st2)
               in emit (ConnClosed 0)
                    (wan_message N l (Tcp 0) (tcp_makePayload 1 sz) dialStart (t - dialStart) st3)))"

text \<open>\<open>runClientBurst\<close>: a fresh connection per message; the first failure ends the run without the sum.\<close>

fun tcp_burst_loop :: "bench_net \<Rightarrow> int \<Rightarrow> nat list \<Rightarrow> int \<Rightarrow> bench \<Rightarrow> (int option) \<times> bench" where
  "tcp_burst_loop N sz [] sumUs st = (Some sumUs, st)"
| "tcp_burst_loop N sz (i # is) sumUs st =
     (let (dialStart, st1) = read_clock N st
      in case bn_dial N i of
           Inl e \<Rightarrow> (None, emit (labelled ''Connect error'' e) st1)
         | Inr l \<Rightarrow>
             (let (t, st2) = read_clock N (emit (Dialled i False) st1)
              in case tcp_makePayload i sz of
                   None \<Rightarrow> (None, emit Crashed st2)
                 | Some payload \<Rightarrow>
                     (let (msgStart, st3) = read_clock N st2
                      in case lk_write l 0 of
                           Some e \<Rightarrow> (None, emit (ConnClosed i) (emit (Said (write_error_line e)) st3))
                         | None \<Rightarrow>
                             (let st4 = emit (SentOn (Tcp i) (writeMsg payload)) st3
                              in case readMsg (lk_in l) (lk_end l) of
                                   (Inl e, _) \<Rightarrow>
                                     (None, emit (ConnClosed i) (emit (Said (read_error_line e)) st4))
                                 | (Inr resp, _) \<Rightarrow>
                                     (let (t1, st5) = read_clock N (emit (GotFrom (Tcp i) resp) st4);
                                          (t2, st6) = read_clock N st5;
                                          st7 = emit (BurstRow i [] (t - dialStart) (t1 - msgStart) (t2 - dialStart)) st6
                                      in tcp_burst_loop N sz is (sumUs + (t2 - dialStart) div 1000)
                                           (emit (ConnClosed i) st7))))))"

definition tcp_runClientBurst :: "bench_net \<Rightarrow> string \<Rightarrow> string \<Rightarrow> int \<Rightarrow> nat \<Rightarrow> bench" where
  "tcp_runClientBurst N addr port sz n =
     with_keylog openKeyLog N (\<lambda>st.
       case tcp_burst_loop N sz [1..<Suc n] 0
              (emit (Heading ''[TCP BURST]'' (JoinHostPort addr port) [int n, sz]) st) of
         (None, st1) \<Rightarrow> st1
       | (Some sumUs, st1) \<Rightarrow> emit (SumRow sumUs n) st1)"

text \<open>\<open>runClientOpt\<close>: a connection per size of the sweep.\<close>

fun tcp_opt_loop :: "bench_net \<Rightarrow> string \<Rightarrow> nat \<Rightarrow> nat \<Rightarrow> int list \<Rightarrow> bench \<Rightarrow> bench" where
  "tcp_opt_loop N target msgs c [] st = st"
| "tcp_opt_loop N target msgs c (sz # szs) st =
     (let st1 = emit (Heading ''[TCP+TLS Client OPT]'' target [sz]) (emit (Heading ''SIZE'' [] [sz]) st)
      in case bn_dial N c of
           Inl e \<Rightarrow> emit (labelled ''Connect error'' e) st1
         | Inr l \<Rightarrow>
             (case ping_loop N l (Tcp c) (\<lambda>i. tcp_makePayload i sz) [1..<Suc msgs]
                     (first_wire l (emit (Dialled c False) st1)) of
                (Done, _, _, st2) \<Rightarrow> tcp_opt_loop N target msgs (Suc c) szs (emit (ConnClosed c) st2)
              | (Failed, _, _, st2) \<Rightarrow> emit (ConnClosed c) st2
              | (Panicked, _, _, st2) \<Rightarrow> st2))"

definition tcp_runClientOpt :: "bench_net \<Rightarrow> string \<Rightarrow> string \<Rightarrow> nat \<Rightarrow> bench" where
  "tcp_runClientOpt N addr port msgs =
     with_keylog openKeyLog N (tcp_opt_loop N (JoinHostPort addr port) msgs 0 sweepSizes)"

text \<open>\<open>runClientReuse\<close>: one connection for all sizes.\<close>

fun reuse_loop ::
  "bench_net \<Rightarrow> link \<Rightarrow> endpoint \<Rightarrow> (nat \<Rightarrow> int \<Rightarrow> bytes option) \<Rightarrow> nat \<Rightarrow> int list \<Rightarrow> wire \<Rightarrow> stop \<times> wire" where
  "reuse_loop N l ep mk msgs [] w = (Done, w)"
| "reuse_loop N l ep mk msgs (sz # szs) (k, s, st) =
     (case ping_loop N l ep (\<lambda>i. mk i sz) [1..<Suc msgs] (k, s, emit (Heading ''SIZE'' [] [sz]) st) of
        (Done, w) \<Rightarrow> reuse_loop N l ep mk msgs szs w
      | (x, w) \<Rightarrow> (x, w))"

definition tcp_runClientReuse :: "bench_net \<Rightarrow> string \<Rightarrow> string \<Rightarrow> bool \<Rightarrow> nat \<Rightarrow> bench" where
  "tcp_runClientReuse N addr port opt msgs =
     with_keylog openKeyLog N (\<lambda>st.
       let st1 = emit (Heading ''[TCP+TLS Client REUSE]'' (JoinHostPort addr port) [of_bool opt]) st
       in case bn_dial N 0 of
            Inl e \<Rightarrow> emit (labelled ''Connect error'' e) st1
          | Inr l \<Rightarrow>
              emit (ConnClosed 0)
                (wire_trace (reuse_loop N l (Tcp 0) tcp_makePayload msgs sweepSizes
                   (first_wire l (emit (Dialled 0 False) st1)))))"


section \<open>quic_diagnostic.go\<close>

text \<open>\<open>OpenStreamSync\<close> and the deferred closes around a body, as \<open>runClient\<close>, \<open>runClientWAN\<close> and
  \<open>runClientReuse\<close> have them: the stream is closed before the connection.\<close>

definition quic_session :: "nat \<Rightarrow> link \<Rightarrow> (bench \<Rightarrow> bench) \<Rightarrow> bench \<Rightarrow> bench" where
  "quic_session c l body st =
     emit (ConnClosed c)
       (case lk_open l of
          Some e \<Rightarrow> emit (labelled ''Stream error'' e) st
        | None \<Rightarrow> emit (StreamClosed c 0) (body (emit (StreamOpened c 0) st)))"

definition quic_runClient :: "bench_net \<Rightarrow> string \<Rightarrow> string \<Rightarrow> int \<Rightarrow> bench" where
  "quic_runClient N addr port sz =
     with_keylog openKeyLog N (\<lambda>st.
       let st1 = emit (Heading ''[QUIC Client]'' (JoinHostPort addr port) [sz]) st
       in case bn_dial N 0 of
            Inl e \<Rightarrow> emit (labelled ''Connect error'' e) st1
          | Inr l \<Rightarrow>
              quic_session 0 l
                (\<lambda>st2. wire_trace (ping_loop N l (Quic 0 0) (\<lambda>i. quic_makePayload i sz) [1..<11] (first_wire l st2)))
                (emit (Dialled 0 False) st1))"

text \<open>\<open>runClientWAN\<close>: a warm-up connection for the session ticket, closed at once, then an early dial.\<close>

definition quic_runClientWAN :: "bench_net \<Rightarrow> string \<Rightarrow> string \<Rightarrow> int \<Rightarrow> bench" where
  "quic_runClientWAN N addr port sz =
     with_keylog openKeyLog N (\<lambda>st.
       let st1 = emit (Heading ''[QUIC WAN]'' (JoinHostPort addr port) [sz]) st
       in case bn_dial N 0 of
            Inl e \<Rightarrow> emit (labelled ''Warmup error'' e) st1
          | Inr _ \<Rightarrow>
              (let (dialStart, st2) = read_clock N (emit (ConnClosed 0) (emit (Dialled 0 False) st1))
               in case bn_dial N 1 of
                    Inl e \<Rightarrow> emit (labelled ''Connect error'' e) st2
                  | Inr l \<Rightarrow>
                      (let (t, st3) = read_clock N (emit (Dialled 1 True) st2)
                       in quic_session 1 l
                            (wan_message N l (Quic 1 0) (quic_makePayload 1 sz) dialStart (t - dialStart)) st3)))"

text \<open>\<open>runClientBurst\<close>: the first connection is dialled normally, the others early.\<close>

definition conn_error_event :: "string \<Rightarrow> nat \<Rightarrow> string \<Rightarrow> bench_event" where
  "conn_error_event what i e = labelled (what @ '' (conn '' @ nat_str i @ '')'') e"

fun quic_burst_loop :: "bench_net \<Rightarrow> int \<Rightarrow> nat list \<Rightarrow> int \<Rightarrow> bench \<Rightarrow> (int option) \<times> bench" where
  "quic_burst_loop N sz [] sumUs st = (Some sumUs, st)"
| "quic_burst_loop N sz (i # is) sumUs st =
     (let (dialStart, st1) = read_clock N st; label = (if i = 1 then ''1-RTT'' else ''0-RTT'')
      in case bn_dial N i of
           Inl e \<Rightarrow> (None, emit (conn_error_event ''Connect error'' i e) st1)
         | Inr l \<Rightarrow>
             (let (t, st2) = read_clock N (emit (Dialled i (i \<noteq> 1)) st1)
              in case lk_open l of
                   Some e \<Rightarrow> (None, emit (ConnClosed i) (emit (conn_error_event ''Stream error'' i e) st2))
                 | None \<Rightarrow>
                     (let st3 = emit (StreamOpened i 0) st2
                      in case quic_makePayload i sz of
                           None \<Rightarrow> (None, emit Crashed st3)
                         | Some payload \<Rightarrow>
                             (let (msgStart, st4) = read_clock N st3
                              in case lk_write l 0 of
                                   Some e \<Rightarrow>
                                     (None, emit (ConnClosed i) (emit (StreamClosed i 0)
                                        (emit (conn_error_event ''Write error'' i e) st4)))
                                 | None \<Rightarrow>
                                     (let st5 = emit (SentOn (Quic i 0) (writeMsg payload)) st4
                                      in case readMsg (lk_in l) (lk_end l) of
                                           (Inl e, _) \<Rightarrow>
                                             (None, emit (ConnClosed i) (emit (StreamClosed i 0)
                                                (emit (conn_error_event ''Read error'' i (read_err_text e)) st5)))
                                         | (Inr resp, _) \<Rightarrow>
                                             (let (t1, st6) = read_clock N (emit (GotFrom (Quic i 0) resp) st5);
                                                  (t2, st7) = read_clock N st6;
                                                  st8 = emit (BurstRow i label (t - dialStart) (t1 - msgStart) (t2 - dialStart)) st7
                                              in quic_burst_loop N sz is (sumUs + (t2 - dialStart) div 1000)
                                                   (emit (ConnClosed i) (emit (StreamClosed i 0) st8))))))))"

definition quic_runClientBurst :: "bench_net \<Rightarrow> string \<Rightarrow> string \<Rightarrow> int \<Rightarrow> nat \<Rightarrow> bench" where
  "quic_runClientBurst N addr port sz n =
     with_keylog openKeyLog N (\<lambda>st.
       case quic_burst_loop N sz [1..<Suc n] 0
              (emit (Heading ''[QUIC BURST]'' (JoinHostPort addr port) [int n, sz]) st) of
         (None, st1) \<Rightarrow> st1
       | (Some sumUs, st1) \<Rightarrow> emit (SumRow sumUs n) st1)"

fun quic_opt_loop :: "bench_net \<Rightarrow> string \<Rightarrow> nat \<Rightarrow> int list \<Rightarrow> bench \<Rightarrow> bench" where
  "quic_opt_loop N target c [] st = st"
| "quic_opt_loop N target c (sz # szs) st =
     (let st1 = emit (Heading ''[QUIC Client OPT]'' target [sz]) (emit (Heading ''SIZE'' [] [sz]) st)
      in case bn_dial N c of
           Inl e \<Rightarrow> emit (labelled ''Connect error'' e) st1
         | Inr l \<Rightarrow>
             (let st2 = emit (Dialled c False) st1
              in case lk_open l of
                   Some e \<Rightarrow> emit (ConnClosed c) (emit (labelled ''Stream error'' e) st2)
                 | None \<Rightarrow>
                     (case ping_loop N l (Quic c 0) (\<lambda>i. quic_makePayload i sz) [1..<11]
                             (first_wire l (emit (StreamOpened c 0) st2)) of
                        (Done, _, _, st3) \<Rightarrow>
                          quic_opt_loop N target (Suc c) szs (emit (ConnClosed c) (emit (StreamClosed c 0) st3))
                      | (Failed, _, _, st3) \<Rightarrow> emit (ConnClosed c) (emit (StreamClosed c 0) st3)
                      | (Panicked, _, _, st3) \<Rightarrow> st3)))"

definition quic_runClientOpt :: "bench_net \<Rightarrow> string \<Rightarrow> string \<Rightarrow> bench" where
  "quic_runClientOpt N addr port =
     with_keylog openKeyLog N (quic_opt_loop N (JoinHostPort addr port) 0 sweepSizes)"

definition quic_runClientReuse :: "bench_net \<Rightarrow> string \<Rightarrow> string \<Rightarrow> bool \<Rightarrow> bench" where
  "quic_runClientReuse N addr port opt =
     with_keylog openKeyLog N (\<lambda>st.
       let st1 = emit (Heading ''[QUIC Client REUSE]'' (JoinHostPort addr port) [of_bool opt]) st
       in case bn_dial N 0 of
            Inl e \<Rightarrow> emit (labelled ''Connect error'' e) st1
          | Inr l \<Rightarrow>
              quic_session 0 l
                (\<lambda>st2. wire_trace (reuse_loop N l (Quic 0 0) quic_makePayload 10 sweepSizes (first_wire l st2)))
                (emit (Dialled 0 False) st1))"


section \<open>What is open\<close>

text \<open>
  The files, connections and streams a trace leaves open; \<open>None\<close> when it uses or closes something
  that is not open, opens something twice, closes a connection before its streams, or panics.
\<close>

type_synonym open_set = "bool \<times> nat list \<times> (nat \<times> nat) list"

fun endpoint_open :: "endpoint \<Rightarrow> open_set \<Rightarrow> bool" where
  "endpoint_open (Tcp c) (_, cs, _) = (c \<in> set cs)"
| "endpoint_open (Quic c n) (_, _, ss) = ((c, n) \<in> set ss)"

fun track :: "bench_event \<Rightarrow> open_set option \<Rightarrow> open_set option" where
  "track e None = None"
| "track (KeyLogOpened p) (Some (f, cs, ss)) = (if f then None else Some (True, cs, ss))"
| "track KeyLogClosed (Some (f, cs, ss)) = (if f then Some (False, cs, ss) else None)"
| "track (Dialled c early) (Some (f, cs, ss)) = (if c \<in> set cs then None else Some (f, c # cs, ss))"
| "track (StreamOpened c n) (Some (f, cs, ss)) =
     (if c \<in> set cs \<and> (c, n) \<notin> set ss then Some (f, cs, (c, n) # ss) else None)"
| "track (StreamClosed c n) (Some (f, cs, ss)) =
     (if (c, n) \<in> set ss then Some (f, cs, removeAll (c, n) ss) else None)"
| "track (ConnClosed c) (Some (f, cs, ss)) =
     (if c \<in> set cs \<and> c \<notin> fst ` set ss then Some (f, removeAll c cs, ss) else None)"
| "track (SentOn ep b) (Some os) = (if endpoint_open ep os then Some os else None)"
| "track (GotFrom ep b) (Some os) = (if endpoint_open ep os then Some os else None)"
| "track Crashed (Some os) = None"
| "track _ (Some os) = Some os"

definition left_open :: "bench \<Rightarrow> open_set option" where
  "left_open st = fold track (b_events st) (Some (False, [], []))"

lemma left_open_emit [simp]: "left_open (emit e st) = track e (left_open st)"
  by (simp add: left_open_def)

lemma left_open_clock [simp]: "left_open (st\<lparr>b_clock := t\<rparr>) = left_open st"
  by (simp add: left_open_def)

lemma left_open_read_clock [simp]: "left_open (snd (read_clock N st)) = left_open st"
  by (simp add: read_clock_def)

lemma left_open_start [simp]: "left_open bench_start = Some (False, [], [])"
  by (simp add: left_open_def bench_start_def)


lemma track_labelled [simp]: "track (labelled w e) (Some os) = Some os" "track (conn_error_event w i e) (Some os) = Some os"
  by (simp_all add: labelled_def conn_error_event_def)

lemma ping_loop_open:
  assumes "\<And>i. \<exists>p. mk i = Some p"
  shows "left_open st = Some os \<Longrightarrow> endpoint_open ep os \<Longrightarrow>
    left_open (wire_trace (ping_loop N l ep mk is (k, s, st))) = Some os"
proof (induction "is" arbitrary: k s st)
  case Nil
  then show ?case by simp
next
  case (Cons i "is")
  obtain p where "mk i = Some p" using assms by blast
  then show ?case
    using Cons by (simp add: read_clock_def Let_def split: option.split prod.split sum.split)
qed

lemma ping_loop_case:
  assumes "\<And>i. \<exists>p. mk i = Some p" and "left_open st = Some os" and "endpoint_open ep os"
    and "ping_loop N l ep mk is (k, s, st) = (x, k', s', st')"
  shows "left_open st' = Some os"
proof -
  have "left_open (wire_trace (ping_loop N l ep mk is (k, s, st))) = Some os"
    by (rule ping_loop_open) (use assms in simp_all)
  then show ?thesis using assms(4) by simp
qed

lemma reuse_loop_open:
  assumes "\<And>i sz. sz \<in> set szs \<Longrightarrow> \<exists>p. mk i sz = Some p"
  shows "left_open st = Some os \<Longrightarrow> endpoint_open ep os \<Longrightarrow>
    left_open (wire_trace (reuse_loop N l ep mk msgs szs (k, s, st))) = Some os"
  using assms
proof (induction szs arbitrary: k s st)
  case Nil
  then show ?case by simp
next
  case (Cons sz szs)
  obtain x k' s' st' where p: "ping_loop N l ep (\<lambda>i. mk i sz) [1..<Suc msgs]
      (k, s, emit (Heading ''SIZE'' [] [sz]) st) = (x, k', s', st')"
    using prod_cases4 by blast
  have "left_open st' = Some os"
    by (rule ping_loop_case [OF _ _ Cons.prems(2) p]) (simp_all add: Cons.prems(1,3))
  then show ?case
    using Cons.IH [of st' k' s'] Cons.prems(2,3) p by (cases x) auto
qed

lemma wan_message_open:
  "mk = Some p \<Longrightarrow> left_open st = Some os \<Longrightarrow> endpoint_open ep os \<Longrightarrow>
   left_open (wan_message N l ep mk t0 t st) = Some os"
  by (simp add: wan_message_def read_clock_def Let_def split: option.split prod.split sum.split)

lemma with_keylog_open:
  assumes "\<And>st f. left_open st = Some (f, [], []) \<Longrightarrow> left_open (body st) = Some (f, [], [])"
  shows "left_open (with_keylog openKeyLog N body) = Some (False, [], [])"
    and "left_open (with_keylog multiplex_openKeyLog N body) = Some (False, [], [])"
  using assms
  by (auto simp: with_keylog_def openKeyLog_def multiplex_openKeyLog_def Let_def split: option.split)

lemma quic_session_open:
  assumes "left_open st = Some (f, [c], [])"
    and "\<And>st'. left_open st' = Some (f, [c], [(c, 0)]) \<Longrightarrow> left_open (body st') = Some (f, [c], [(c, 0)])"
  shows "left_open (quic_session c l body st) = Some (f, [], [])"
proof -
  have "left_open (body (emit (StreamOpened c 0) st)) = Some (f, [c], [(c, 0)])"
    by (rule assms(2)) (simp add: assms(1))
  then show ?thesis
    by (simp add: quic_session_def assms(1) split: option.split)
qed

lemma tcp_burst_open:
  assumes "0 \<le> sz"
  shows "left_open st = Some (f, [], []) \<Longrightarrow> left_open (snd (tcp_burst_loop N sz is u st)) = Some (f, [], [])"
proof (induction "is" arbitrary: u st)
  case Nil
  then show ?case by simp
next
  case (Cons i "is")
  obtain p where p: "tcp_makePayload i sz = Some p"
    using makePayload_ex(1) [OF assms] by blast
  show ?case
  proof (cases "bn_dial N i")
    case (Inl e)
    then show ?thesis using Cons.prems by (simp add: read_clock_def)
  next
    case (Inr l)
    then show ?thesis
      using Cons p
      by (cases "lk_open l"; cases "lk_write l 0"; cases "readMsg (lk_in l) (lk_end l)"; cases "fst (readMsg (lk_in l) (lk_end l))")
        (simp_all add: read_clock_def)
  qed
qed

lemma quic_burst_open:
  assumes "0 \<le> sz"
  shows "left_open st = Some (f, [], []) \<Longrightarrow> left_open (snd (quic_burst_loop N sz is u st)) = Some (f, [], [])"
proof (induction "is" arbitrary: u st)
  case Nil
  then show ?case by simp
next
  case (Cons i "is")
  obtain p where p: "quic_makePayload i sz = Some p"
    using makePayload_ex(2) [OF assms] by blast
  show ?case
  proof (cases "bn_dial N i")
    case (Inl e)
    then show ?thesis using Cons.prems by (simp add: read_clock_def)
  next
    case (Inr l)
    then show ?thesis
      using Cons p
      by (cases "lk_open l"; cases "lk_write l 0"; cases "readMsg (lk_in l) (lk_end l)"; cases "fst (readMsg (lk_in l) (lk_end l))")
        (simp_all add: read_clock_def)
  qed
qed

lemma ping_loop_no_panic:
  "(\<And>i. mk i \<noteq> None) \<Longrightarrow> fst (ping_loop N l ep mk is w) \<noteq> Panicked"
proof (induction "is" arbitrary: w)
  case Nil
  then show ?case by simp
next
  case (Cons i "is")
  obtain k s st where "w = (k, s, st)" using prod_cases3 by blast
  then show ?case
    using Cons by (auto simp: read_clock_def Let_def split: option.split prod.split sum.split)
qed

end
