(* ===== verification/Bench_Sessions.thy ===== *)
theory Bench_Sessions
  imports Bench_Client
begin

text \<open>
  What the echo clients of \<open>tcp_raw.go\<close> and \<open>quic_diagnostic.go\<close> guarantee: nothing stays open on any
  path, and a session with the program's own server transfers every message.
\<close>

section \<open>Nothing stays open\<close>

lemma tcp_opt_open:
  assumes "\<forall>sz \<in> set szs. 0 \<le> sz"
  shows "left_open st = Some (f, [], []) \<Longrightarrow>
    left_open (tcp_opt_loop N target msgs c szs st) = Some (f, [], [])"
  using assms
proof (induction szs arbitrary: c st)
  case Nil
  then show ?case by simp
next
  case (Cons sz szs)
  show ?case
  proof (cases "bn_dial N c")
    case (Inl e)
    then show ?thesis using Cons.prems by simp
  next
    case (Inr l)
    let ?st = "emit (Dialled c False) (emit (Heading ''[TCP+TLS Client OPT]'' target [sz]) (emit (Heading ''SIZE'' [] [sz]) st))"
    obtain x k s st' where p: "ping_loop N l (Tcp c) (\<lambda>i. tcp_makePayload i sz) [1..<Suc msgs] (0, lk_in l, ?st) = (x, k, s, st')"
      using prod_cases4 by blast
    have ex: "\<exists>p. tcp_makePayload i sz = Some p" for i
      using makePayload_ex(1) [of sz] Cons.prems(2) by force
    have "x \<noteq> Panicked"
      using ping_loop_no_panic [of "\<lambda>i. tcp_makePayload i sz" N l "Tcp c" "[1..<Suc msgs]" "(0, lk_in l, ?st)"]
        makePayload_ex(1) [of sz] Cons.prems(2) p by force
    moreover have "left_open st' = Some (f, [c], [])"
      by (rule ping_loop_case [OF ex _ _ p]) (simp_all add: Cons.prems(1))
    ultimately show ?thesis
      using Cons Inr p by (cases x) (simp_all add: first_wire_def del: upt_Suc)
  qed
qed

lemma quic_opt_open:
  assumes "\<forall>sz \<in> set szs. 0 \<le> sz"
  shows "left_open st = Some (f, [], []) \<Longrightarrow>
    left_open (quic_opt_loop N target c szs st) = Some (f, [], [])"
  using assms
proof (induction szs arbitrary: c st)
  case Nil
  then show ?case by simp
next
  case (Cons sz szs)
  show ?case
  proof (cases "bn_dial N c")
    case (Inl e)
    then show ?thesis using Cons.prems by simp
  next
    case (Inr l)
    let ?st = "emit (StreamOpened c 0) (emit (Dialled c False)
      (emit (Heading ''[QUIC Client OPT]'' target [sz]) (emit (Heading ''SIZE'' [] [sz]) st)))"
    obtain x k s st' where p: "ping_loop N l (Quic c 0) (\<lambda>i. quic_makePayload i sz) [1..<11] (0, lk_in l, ?st) = (x, k, s, st')"
      using prod_cases4 by blast
    have ex: "\<exists>p. quic_makePayload i sz = Some p" for i
      using makePayload_ex(2) [of sz] Cons.prems(2) by force
    have "x \<noteq> Panicked"
      using ping_loop_no_panic [of "\<lambda>i. quic_makePayload i sz" N l "Quic c 0" "[1..<11]" "(0, lk_in l, ?st)"]
        makePayload_ex(2) [of sz] Cons.prems(2) p by force
    moreover have "left_open st' = Some (f, [c], [(c, 0)])"
      by (rule ping_loop_case [OF ex _ _ p]) (simp_all add: Cons.prems(1))
    ultimately show ?thesis
      using Cons Inr p by (cases "lk_open l"; cases x) (simp_all add: first_wire_def del: upt_rec_numeral)
  qed
qed


lemma sweep_payloads:
  "sz \<in> set sweepSizes \<Longrightarrow> \<exists>p. tcp_makePayload i sz = Some p"
  "sz \<in> set sweepSizes \<Longrightarrow> \<exists>p. quic_makePayload i sz = Some p"
  using makePayload_ex(1,2) [of sz i] by (auto simp: sweepSizes_def)

lemma payload_exists:
  assumes "0 \<le> sz"
  shows "\<exists>p. tcp_makePayload i sz = Some p" and "\<exists>p. quic_makePayload i sz = Some p"
  using makePayload_ex(1,2) [OF assms, of i] by auto

lemma tcp_runClient_open:
  assumes "0 \<le> sz"
  shows "left_open (tcp_runClient N addr port sz msgs) = Some (False, [], [])"
  unfolding tcp_runClient_def
  by (rule with_keylog_open)
    (simp add: Let_def first_wire_def ping_loop_open [OF payload_exists(1) [OF assms], where os = "(f, [0], [])" for f]
      del: upt_Suc split: sum.split)

lemma tcp_runClientWAN_open:
  assumes "0 \<le> sz"
  shows "left_open (tcp_runClientWAN N addr port sz) = Some (False, [], [])"
proof -
  obtain p where p: "tcp_makePayload 1 sz = Some p" using payload_exists(1) [OF assms] by blast
  show ?thesis
    unfolding tcp_runClientWAN_def p
    by (rule with_keylog_open)
      (simp add: Let_def read_clock_def wan_message_open [OF refl, where os = "(f, [0], [])" for f] split: sum.split)
qed

lemma tcp_runClientBurst_open:
  assumes "0 \<le> sz"
  shows "left_open (tcp_runClientBurst N addr port sz n) = Some (False, [], [])"
  unfolding tcp_runClientBurst_def
proof (rule with_keylog_open)
  fix st f
  assume st: "left_open st = Some (f, [], [])"
  let ?st = "emit (Heading ''[TCP BURST]'' (JoinHostPort addr port) [int n, sz]) st"
  have "left_open (snd (tcp_burst_loop N sz [1..<Suc n] 0 ?st)) = Some (f, [], [])"
    by (rule tcp_burst_open [OF assms]) (simp add: st)
  then show "left_open (case tcp_burst_loop N sz [1..<Suc n] 0 ?st of
      (None, st1) \<Rightarrow> st1 | (Some sumUs, st1) \<Rightarrow> emit (SumRow sumUs n) st1) = Some (f, [], [])"
    by (auto split: prod.split option.split)
qed

lemma tcp_runClientOpt_open: "left_open (tcp_runClientOpt N addr port msgs) = Some (False, [], [])"
  unfolding tcp_runClientOpt_def by (rule with_keylog_open, rule tcp_opt_open) (simp_all add: sweepSizes_def)

lemma tcp_runClientReuse_open: "left_open (tcp_runClientReuse N addr port opt msgs) = Some (False, [], [])"
  unfolding tcp_runClientReuse_def
  by (rule with_keylog_open)
    (simp add: Let_def first_wire_def reuse_loop_open [OF sweep_payloads(1), where os = "(f, [0], [])" for f] split: sum.split)

lemma quic_runClient_open:
  assumes "0 \<le> sz"
  shows "left_open (quic_runClient N addr port sz) = Some (False, [], [])"
  unfolding quic_runClient_def
proof (rule with_keylog_open)
  fix st f
  assume st: "left_open st = Some (f, [], [])"
  show "left_open (let st1 = emit (Heading ''[QUIC Client]'' (JoinHostPort addr port) [sz]) st
       in case bn_dial N 0 of
            Inl e \<Rightarrow> emit (labelled ''Connect error'' e) st1
          | Inr l \<Rightarrow> quic_session 0 l
              (\<lambda>st2. wire_trace (ping_loop N l (Quic 0 0) (\<lambda>i. quic_makePayload i sz) [1..<11] (first_wire l st2)))
              (emit (Dialled 0 False) st1)) = Some (f, [], [])"
    by (cases "bn_dial N 0")
      (simp_all add: st Let_def, rule quic_session_open,
       simp_all add: st first_wire_def ping_loop_open [OF payload_exists(2) [OF assms], where os = "(f, [0], [(0, 0)])"]
         del: upt_rec_numeral)
qed

lemma quic_runClientReuse_open: "left_open (quic_runClientReuse N addr port opt) = Some (False, [], [])"
  unfolding quic_runClientReuse_def
proof (rule with_keylog_open)
  fix st f
  assume st: "left_open st = Some (f, [], [])"
  show "left_open (let st1 = emit (Heading ''[QUIC Client REUSE]'' (JoinHostPort addr port) [of_bool opt]) st
       in case bn_dial N 0 of
            Inl e \<Rightarrow> emit (labelled ''Connect error'' e) st1
          | Inr l \<Rightarrow> quic_session 0 l
              (\<lambda>st2. wire_trace (reuse_loop N l (Quic 0 0) quic_makePayload 10 sweepSizes (first_wire l st2)))
              (emit (Dialled 0 False) st1)) = Some (f, [], [])"
  proof (cases "bn_dial N 0")
    case (Inl e)
    then show ?thesis by (simp add: st)
  next
    case (Inr l)
    show ?thesis
      unfolding Let_def Inr sum.case
      by (rule quic_session_open)
        (simp_all add: st first_wire_def reuse_loop_open [OF sweep_payloads(2), where os = "(f, [0], [(0, 0)])"])
  qed
qed

lemma quic_runClientWAN_open:
  assumes "0 \<le> sz"
  shows "left_open (quic_runClientWAN N addr port sz) = Some (False, [], [])"
proof -
  obtain p where p: "quic_makePayload 1 sz = Some p" using payload_exists(2) [OF assms] by blast
  show ?thesis
    unfolding quic_runClientWAN_def p
  proof (rule with_keylog_open)
    fix st f
    assume st: "left_open st = Some (f, [], [])"
    show "left_open (let st1 = emit (Heading ''[QUIC WAN]'' (JoinHostPort addr port) [sz]) st
       in case bn_dial N 0 of
            Inl e \<Rightarrow> emit (labelled ''Warmup error'' e) st1
          | Inr _ \<Rightarrow>
              (let (dialStart, st2) = read_clock N (emit (ConnClosed 0) (emit (Dialled 0 False) st1))
               in case bn_dial N 1 of
                    Inl e \<Rightarrow> emit (labelled ''Connect error'' e) st2
                  | Inr l \<Rightarrow>
                      (let (t, st3) = read_clock N (emit (Dialled 1 True) st2)
                       in quic_session 1 l
                            (wan_message N l (Quic 1 0) (Some p) dialStart (t - dialStart)) st3))) =
      Some (f, [], [])"
      by (cases "bn_dial N 0"; cases "bn_dial N 1")
        (simp_all add: st Let_def read_clock_def, rule quic_session_open,
         simp_all add: st wan_message_open [OF refl, where os = "(f, [1], [(1, 0)])"])
  qed
qed

lemma quic_runClientBurst_open:
  assumes "0 \<le> sz"
  shows "left_open (quic_runClientBurst N addr port sz n) = Some (False, [], [])"
  unfolding quic_runClientBurst_def
proof (rule with_keylog_open)
  fix st f
  assume st: "left_open st = Some (f, [], [])"
  let ?st = "emit (Heading ''[QUIC BURST]'' (JoinHostPort addr port) [int n, sz]) st"
  have "left_open (snd (quic_burst_loop N sz [1..<Suc n] 0 ?st)) = Some (f, [], [])"
    by (rule quic_burst_open [OF assms]) (simp add: st)
  then show "left_open (case quic_burst_loop N sz [1..<Suc n] 0 ?st of
      (None, st1) \<Rightarrow> st1 | (Some sumUs, st1) \<Rightarrow> emit (SumRow sumUs n) st1) = Some (f, [], [])"
    by (auto split: prod.split option.split)
qed

lemma quic_runClientOpt_open: "left_open (quic_runClientOpt N addr port) = Some (False, [], [])"
  unfolding quic_runClientOpt_def by (rule with_keylog_open, rule quic_opt_open) (simp_all add: sweepSizes_def)


lemmas clients_open = tcp_runClient_open tcp_runClientWAN_open tcp_runClientBurst_open tcp_runClientOpt_open
  tcp_runClientReuse_open quic_runClient_open quic_runClientWAN_open quic_runClientBurst_open
  quic_runClientOpt_open quic_runClientReuse_open


section \<open>A session with the echo server\<close>

definition demo_link :: link where
  "demo_link = \<lparr>lk_open = None, lk_write = (\<lambda>k. if k = 0 then None else Some ''broken pipe''), lk_in = [], lk_end = EOF\<rparr>"

definition bench_demo_net :: bench_net where
  "bench_demo_net = \<lparr>bn_keyEnv = [], bn_openFile = (\<lambda>_. None), bn_dial = (\<lambda>_. Inr demo_link), bn_clock = int\<rparr>"

fun rtt_row :: "bench_event \<Rightarrow> (nat \<times> nat \<times> nat) option" where
  "rtt_row (RttRow i m n t) = Some (i, m, n)"
| "rtt_row _ = None"

definition rtt_rows :: "bench \<Rightarrow> (nat \<times> nat \<times> nat) list" where
  "rtt_rows st = List.map_filter rtt_row (b_events st)"

fun sent_part :: "endpoint \<Rightarrow> bench_event \<Rightarrow> bytes" where
  "sent_part ep (SentOn ep' b) = (if ep' = ep then b else [])"
| "sent_part ep _ = []"

definition sent_on :: "endpoint \<Rightarrow> bench \<Rightarrow> bytes" where
  "sent_on ep st = concat (map (sent_part ep) (b_events st))"

lemma map_filter_append: "List.map_filter f (xs @ ys) = List.map_filter f xs @ List.map_filter f ys"
  by (simp add: List.map_filter_def)

lemma rtt_rows_emit [simp]:
  "rtt_rows (emit e st) = rtt_rows st @ (case rtt_row e of None \<Rightarrow> [] | Some r \<Rightarrow> [r])"
  by (simp add: rtt_rows_def map_filter_append List.map_filter_def split: option.split)

lemma sent_on_emit [simp]: "sent_on ep (emit e st) = sent_on ep st @ sent_part ep e"
  by (simp add: sent_on_def)

lemma projections_clock [simp]:
  "rtt_rows (st\<lparr>b_clock := t\<rparr>) = rtt_rows st" "sent_on ep (st\<lparr>b_clock := t\<rparr>) = sent_on ep st"
  by (simp_all add: rtt_rows_def sent_on_def)

lemma projections_start [simp]: "rtt_rows bench_start = []" "sent_on ep bench_start = []"
  by (simp_all add: rtt_rows_def sent_on_def bench_start_def List.map_filter_def)

lemma ping_loop_answered:
  assumes "\<forall>k. lk_write l k = None"
    and "\<forall>i \<in> set is. mk i = Some (pay i) \<and> length prefix + length (pay i) < 2 ^ 32"
  shows "\<exists>st'. ping_loop N l ep mk is
      (k, concat (map (\<lambda>i. writeMsg (prefix @ pay i)) is) @ rest, st) = (Done, k + length is, rest, st') \<and>
    sent_on ep st' = sent_on ep st @ concat (map (\<lambda>i. writeMsg (pay i)) is) \<and>
    rtt_rows st' = rtt_rows st @ map (\<lambda>i. (i, length (pay i), length prefix + length (pay i))) is"
  using assms
proof (induction "is" arbitrary: k st)
  case Nil
  then show ?case by simp
next
  case (Cons i "is")
  have mk: "mk i = Some (pay i)" and len: "length (prefix @ pay i) < 2 ^ 32"
    using Cons.prems(2) by simp_all
  note read = readMsg_frame [OF len, of "concat (map (\<lambda>i. writeMsg (prefix @ pay i)) is) @ rest" "lk_end l"]
  have "\<forall>i \<in> set is. mk i = Some (pay i) \<and> length prefix + length (pay i) < 2 ^ 32"
    using Cons.prems(2) by simp
  note IH = Cons.IH [OF Cons.prems(1) this]
  let ?st = "emit (RttRow i (length (pay i)) (length prefix + length (pay i))
        (bn_clock N (Suc (b_clock st)) - bn_clock N (b_clock st)))
      (emit (GotFrom ep (prefix @ pay i)) (emit (SentOn ep (writeMsg (pay i))) (st\<lparr>b_clock := Suc (b_clock st)\<rparr>))
        \<lparr>b_clock := Suc (Suc (b_clock st))\<rparr>)"
  show ?case
    using IH [of "Suc k" ?st] Cons.prems(1) mk read
    by (simp add: read_clock_def Let_def)
qed

lemma payloads_fit:
  assumes "0 \<le> sz" and "sz + int (length prefix) < 2 ^ 32"
    and "\<And>i. \<exists>p. mk i = Some p \<and> length p = nat sz"
  shows "\<forall>i \<in> set is. mk i = Some (the (mk i)) \<and> length prefix + length (the (mk i)) < 2 ^ 32"
proof -
  have l: "mk i = Some (the (mk i)) \<and> length (the (mk i)) = nat sz" for i
    using assms(3) [of i] by auto
  have "int (length prefix + nat sz) < int (2 ^ 32)" using assms(1,2) by simp
  then have "length prefix + nat sz < 2 ^ 32" by (simp only: of_nat_less_iff)
  then show "\<forall>i \<in> set is. mk i = Some (the (mk i)) \<and> length prefix + length (the (mk i)) < 2 ^ 32"
    using l by simp
qed

lemma ping_loop_session:
  assumes "0 \<le> sz" and "sz + int (length prefix) < 2 ^ 32"
    and "\<And>i. \<exists>p. mk i = Some p \<and> length p = nat sz" and "\<forall>k. lk_write l k = None"
    and "lk_in l = concat (map (\<lambda>i. writeMsg (prefix @ the (mk i))) is)"
  shows "sent_on ep (wire_trace (ping_loop N l ep mk is (first_wire l st))) =
      sent_on ep st @ concat (map (\<lambda>i. writeMsg (the (mk i))) is)"
    and "rtt_rows (wire_trace (ping_loop N l ep mk is (first_wire l st))) =
      rtt_rows st @ map (\<lambda>i. (i, nat sz, length prefix + nat sz)) is"
proof -
  have len: "length (the (mk i)) = nat sz" for i using assms(3) [of i] by auto
  have fit: "\<forall>i \<in> set is. mk i = Some (the (mk i)) \<and> length prefix + length (the (mk i)) < 2 ^ 32"
    by (rule payloads_fit [OF assms(1-3)])
  from ping_loop_answered [of l "is" mk "\<lambda>i. the (mk i)" prefix N ep 0 "[]" st, OF assms(4) fit]
  obtain st' where "ping_loop N l ep mk is (first_wire l st) = (Done, 0 + length is, [], st')"
    "sent_on ep st' = sent_on ep st @ concat (map (\<lambda>i. writeMsg (the (mk i))) is)"
    "rtt_rows st' = rtt_rows st @ map (\<lambda>i. (i, length (the (mk i)), length prefix + length (the (mk i)))) is"
    unfolding first_wire_def assms(5) append_Nil2 by blast
  then show "sent_on ep (wire_trace (ping_loop N l ep mk is (first_wire l st))) =
      sent_on ep st @ concat (map (\<lambda>i. writeMsg (the (mk i))) is)"
    and "rtt_rows (wire_trace (ping_loop N l ep mk is (first_wire l st))) =
      rtt_rows st @ map (\<lambda>i. (i, nat sz, length prefix + nat sz)) is"
    by (simp_all add: len)
qed

lemma with_keylog_projections:
  assumes "\<And>st. rtt_rows st = [] \<Longrightarrow> sent_on ep st = [] \<Longrightarrow> sent_on ep (body st) = b \<and> rtt_rows (body st) = rs"
  shows "sent_on ep (with_keylog openKeyLog N body) = b \<and> rtt_rows (with_keylog openKeyLog N body) = rs"
  using assms by (simp_all add: with_keylog_def openKeyLog_def Let_def split: option.split)

text \<open>The frames of all payloads of a run, and what the program's server answers to them.\<close>

definition all_requests :: "(nat \<Rightarrow> bytes option) \<Rightarrow> nat list \<Rightarrow> bytes" where
  "all_requests mk is = concat (map (\<lambda>i. writeMsg (the (mk i))) is)"

lemma all_requests_frames: "all_requests mk is = concat (map writeMsg (map (\<lambda>i. the (mk i)) is))"
  by (simp add: all_requests_def comp_def)

lemma server_answers:
  assumes "0 \<le> sz" and "sz + 9 < 2 ^ 32" and "\<And>i. \<exists>p. mk i = Some p \<and> length p = nat sz" and "\<forall>k. wr k = None"
  shows "er_out (tcp_handleConnection wr 0 (all_requests mk is) EOF) =
      concat (map (\<lambda>i. writeMsg (''ACK_TLS:'' @ the (mk i))) is)"
    and "er_out (quic_handleStream wr 0 (all_requests mk is) EOF) =
      concat (map (\<lambda>i. writeMsg (''ACK_QUIC:'' @ the (mk i))) is)"
proof -
  have "\<forall>m \<in> set (map (\<lambda>i. the (mk i)) is). length m < 2 ^ 32"
  proof
    fix m
    assume "m \<in> set (map (\<lambda>i. the (mk i)) is)"
    then obtain i where "m = the (mk i)" by auto
    then have "length m = nat sz" using assms(3) [of i] by auto
    then show "length m < 2 ^ 32" using assms(2) by simp
  qed
  note fits = this assms(4)
  show "er_out (tcp_handleConnection wr 0 (all_requests mk is) EOF) =
      concat (map (\<lambda>i. writeMsg (''ACK_TLS:'' @ the (mk i))) is)"
    unfolding all_requests_frames tcp_echo.serve_requests(1) [OF fits] by (simp add: comp_def)
  show "er_out (quic_handleStream wr 0 (all_requests mk is) EOF) =
      concat (map (\<lambda>i. writeMsg (''ACK_QUIC:'' @ the (mk i))) is)"
    unfolding all_requests_frames quic_echo.serve_requests(1) [OF fits] by (simp add: comp_def)
qed

lemma tcp_session:
  assumes "0 \<le> sz" and "sz + 9 < 2 ^ 32" and "bn_dial N 0 = Inr l" and "\<forall>k. lk_write l k = None"
    and "\<forall>k. wr k = None"
    and "lk_in l = er_out (tcp_handleConnection wr 0 (all_requests (\<lambda>i. tcp_makePayload i sz) [1..<Suc n]) EOF)"
  shows "sent_on (Tcp 0) (tcp_runClient N addr port sz n) = all_requests (\<lambda>i. tcp_makePayload i sz) [1..<Suc n]"
    and "rtt_rows (tcp_runClient N addr port sz n) = map (\<lambda>i. (i, nat sz, 8 + nat sz)) [1..<Suc n]"
proof -
  have fit: "sz + int (length ''ACK_TLS:'') < 2 ^ 32" using assms(2) by simp
  note loop = ping_loop_session [OF assms(1) fit makePayload_ex(1) [OF assms(1)] assms(4)
    assms(6) [unfolded server_answers(1) [OF assms(1,2) makePayload_ex(1) [OF assms(1)] assms(5)]]]
  have "sent_on (Tcp 0) (tcp_runClient N addr port sz n) = all_requests (\<lambda>i. tcp_makePayload i sz) [1..<Suc n] \<and>
     rtt_rows (tcp_runClient N addr port sz n) = map (\<lambda>i. (i, nat sz, 8 + nat sz)) [1..<Suc n]"
    unfolding tcp_runClient_def Let_def assms(3) sum.case
    by (rule with_keylog_projections)
      (simp_all add: loop all_requests_def del: upt_Suc One_nat_def)
  then show "sent_on (Tcp 0) (tcp_runClient N addr port sz n) = all_requests (\<lambda>i. tcp_makePayload i sz) [1..<Suc n]"
    and "rtt_rows (tcp_runClient N addr port sz n) = map (\<lambda>i. (i, nat sz, 8 + nat sz)) [1..<Suc n]" by simp_all
qed

lemma quic_session:
  assumes "0 \<le> sz" and "sz + 9 < 2 ^ 32" and "bn_dial N 0 = Inr l" and "\<forall>k. lk_write l k = None"
    and "lk_open l = None" and "\<forall>k. wr k = None"
    and "lk_in l = er_out (quic_handleStream wr 0 (all_requests (\<lambda>i. quic_makePayload i sz) [1..<11]) EOF)"
  shows "sent_on (Quic 0 0) (quic_runClient N addr port sz) = all_requests (\<lambda>i. quic_makePayload i sz) [1..<11]"
    and "rtt_rows (quic_runClient N addr port sz) = map (\<lambda>i. (i, nat sz, 9 + nat sz)) [1..<11]"
proof -
  have fit: "sz + int (length ''ACK_QUIC:'') < 2 ^ 32" using assms(2) by simp
  note loop = ping_loop_session [OF assms(1) fit makePayload_ex(2) [OF assms(1)] assms(4)
    assms(7) [unfolded server_answers(2) [OF assms(1,2) makePayload_ex(2) [OF assms(1)] assms(6)]]]
  have "sent_on (Quic 0 0) (quic_runClient N addr port sz) = all_requests (\<lambda>i. quic_makePayload i sz) [1..<11] \<and>
     rtt_rows (quic_runClient N addr port sz) = map (\<lambda>i. (i, nat sz, 9 + nat sz)) [1..<11]"
    unfolding quic_runClient_def Let_def assms(3) sum.case
    by (rule with_keylog_projections)
      (simp_all add: loop all_requests_def quic_session_def assms(5) del: upt_rec_numeral One_nat_def)
  then show "sent_on (Quic 0 0) (quic_runClient N addr port sz) = all_requests (\<lambda>i. quic_makePayload i sz) [1..<11]"
    and "rtt_rows (quic_runClient N addr port sz) = map (\<lambda>i. (i, nat sz, 9 + nat sz)) [1..<11]" by simp_all
qed



definition answering_link :: "bytes \<Rightarrow> link" where
  "answering_link b = \<lparr>lk_open = None, lk_write = (\<lambda>_. None), lk_in = b, lk_end = EOF\<rparr>"

definition tcp_demo_net :: bench_net where
  "tcp_demo_net = bench_demo_net\<lparr>bn_dial := (\<lambda>_. Inr (answering_link
     (er_out (tcp_handleConnection (\<lambda>_. None) 0 (all_requests (\<lambda>i. tcp_makePayload i 64) [1..<Suc 2]) EOF))))\<rparr>"

definition quic_demo_net :: bench_net where
  "quic_demo_net = bench_demo_net\<lparr>bn_dial := (\<lambda>_. Inr (answering_link
     (er_out (quic_handleStream (\<lambda>_. None) 0 (all_requests (\<lambda>i. quic_makePayload i 64) [1..<11]) EOF))))\<rparr>"


end
