(* ===== verification/Bench_Programs.thy ===== *)
theory Bench_Programs
  imports Bench_Sessions
begin

text \<open>
  The servers and the command lines of \<open>tcp_raw.go\<close> and \<open>quic_diagnostic.go\<close>: \<open>runServer\<close>, the accept
  loops and \<open>main\<close>.
\<close>

section \<open>The accept loops\<close>

text \<open>
  What a listener gives: an error of \<open>Accept\<close>, or a connection.  A TCP connection is the answers to
  its writes and the bytes it delivers; a QUIC connection is the list of the streams the peer opens
  before \<open>AcceptStream\<close> fails.
\<close>

type_synonym inbound = "(nat \<Rightarrow> string option) \<times> bytes \<times> read_err"

record server_run =
  sv_printed :: "string list"
  sv_runs :: "echo_run list"
  sv_crashed :: bool

definition accept_error_line :: "string \<Rightarrow> string" where
  "accept_error_line e = ''Accept error: '' @ e @ [newline]"

definition not_listening :: "string \<Rightarrow> server_run" where
  "not_listening e = \<lparr>sv_printed = [''Listen error: '' @ e @ [newline]], sv_runs = [], sv_crashed = False\<rparr>"

text \<open>\<open>tcp_raw.go\<close>: an accept error is printed and the loop goes on; each connection has its own goroutine.\<close>

fun tcp_accept_loop :: "(string + inbound) list \<Rightarrow> server_run" where
  "tcp_accept_loop [] = \<lparr>sv_printed = [], sv_runs = [], sv_crashed = False\<rparr>"
| "tcp_accept_loop (Inl e # as) =
     (let r = tcp_accept_loop as in r\<lparr>sv_printed := accept_error_line e # sv_printed r\<rparr>)"
| "tcp_accept_loop (Inr (wr, s, e) # as) =
     (let r = tcp_accept_loop as in r\<lparr>sv_runs := tcp_handleConnection wr 0 s e # sv_runs r\<rparr>)"

definition tcp_runServer :: "string option \<Rightarrow> (string + inbound) list \<Rightarrow> server_run" where
  "tcp_runServer listenErr as =
     (case listenErr of Some e \<Rightarrow> not_listening e | None \<Rightarrow> tcp_accept_loop as)"

text \<open>\<open>quic_diagnostic.go\<close>: \<open>handleConnection\<close> serves every stream of the connection.\<close>

definition quic_handleConnection :: "inbound list \<Rightarrow> echo_run list" where
  "quic_handleConnection streams = map (\<lambda>(wr, s, e). quic_handleStream wr 0 s e) streams"

fun quic_accept_loop :: "(string + inbound list) list \<Rightarrow> server_run" where
  "quic_accept_loop [] = \<lparr>sv_printed = [], sv_runs = [], sv_crashed = False\<rparr>"
| "quic_accept_loop (Inl e # as) =
     (let r = quic_accept_loop as in r\<lparr>sv_printed := accept_error_line e # sv_printed r\<rparr>)"
| "quic_accept_loop (Inr streams # as) =
     (let r = quic_accept_loop as in r\<lparr>sv_runs := quic_handleConnection streams @ sv_runs r\<rparr>)"

definition quic_runServer :: "string option \<Rightarrow> (string + inbound list) list \<Rightarrow> server_run" where
  "quic_runServer listenErr as =
     (case listenErr of Some e \<Rightarrow> not_listening e | None \<Rightarrow> quic_accept_loop as)"

text \<open>\<open>speed_bench.go\<close>: errors of \<open>Accept\<close> are skipped silently; a panic of one stream ends the process.\<close>

definition speed_runServer :: "string option \<Rightarrow> (string + inbound list) list \<Rightarrow> server_run" where
  "speed_runServer listenErr as =
     (case listenErr of
        Some e \<Rightarrow> not_listening e
      | None \<Rightarrow>
          (let runs = concat (map (\<lambda>a. case a of Inl _ \<Rightarrow> []
                 | Inr streams \<Rightarrow> map (\<lambda>(wr, s, e). speed_handleStream wr s e) streams) as)
           in \<lparr>sv_printed = [], sv_runs = runs, sv_crashed = (\<exists>r \<in> set runs. er_end r = ServePanic)\<rparr>))"

definition speed_runTCPServer :: "string option \<Rightarrow> (string + inbound) list \<Rightarrow> server_run" where
  "speed_runTCPServer listenErr as =
     (case listenErr of
        Some e \<Rightarrow> not_listening e
      | None \<Rightarrow>
          (let runs = concat (map (\<lambda>a. case a of Inl _ \<Rightarrow> [] | Inr (wr, s, e) \<Rightarrow> [speed_handleTCPConn wr s e]) as)
           in \<lparr>sv_printed = [], sv_runs = runs, sv_crashed = (\<exists>r \<in> set runs. er_end r = ServePanic)\<rparr>))"

text \<open>
  \<open>parallel_bench.go\<close> ignores the errors of \<open>Listen\<close> and \<open>Accept\<close>: the nil listener or connection is
  dereferenced, which ends the process.
\<close>

definition parallel_runServer :: "string option \<Rightarrow> (string + inbound list) list \<Rightarrow> server_run" where
  "parallel_runServer listenErr as =
     (if listenErr \<noteq> None then \<lparr>sv_printed = [], sv_runs = [], sv_crashed = True\<rparr>
      else \<lparr>sv_printed = [],
            sv_runs = concat (map (\<lambda>a. case a of Inl _ \<Rightarrow> []
              | Inr streams \<Rightarrow> map (\<lambda>(wr, s, e). parallel_serve wr 0 s e) streams) as),
            sv_crashed = (\<exists>a \<in> set as. isl a)\<rparr>)"

definition parallel_runTCPServer :: "string option \<Rightarrow> (string + inbound) list \<Rightarrow> server_run" where
  "parallel_runTCPServer listenErr as =
     (if listenErr \<noteq> None then \<lparr>sv_printed = [], sv_runs = [], sv_crashed = True\<rparr>
      else \<lparr>sv_printed = [],
            sv_runs = concat (map (\<lambda>a. case a of Inl _ \<Rightarrow> [] | Inr (wr, s, e) \<Rightarrow> [parallel_serve wr 0 s e]) as),
            sv_crashed = (\<exists>a \<in> set as. isl a)\<rparr>)"

lemma tcp_server_stays_up: "\<not> sv_crashed (tcp_runServer le as)"
proof -
  have "\<not> sv_crashed (tcp_accept_loop as)"
    by (induction "as" rule: tcp_accept_loop.induct) (simp_all add: Let_def)
  then show ?thesis by (simp add: tcp_runServer_def not_listening_def split: option.split)
qed

lemma quic_server_stays_up: "\<not> sv_crashed (quic_runServer le as)"
proof -
  have "\<not> sv_crashed (quic_accept_loop as)"
    by (induction "as" rule: quic_accept_loop.induct) (simp_all add: Let_def)
  then show ?thesis by (simp add: quic_runServer_def not_listening_def split: option.split)
qed

lemma parallel_server_crashes:
  "sv_crashed (parallel_runServer le as) \<longleftrightarrow> le \<noteq> None \<or> (\<exists>a \<in> set as. isl a)"
  "sv_crashed (parallel_runTCPServer le bs) \<longleftrightarrow> le \<noteq> None \<or> (\<exists>b \<in> set bs. isl b)"
  by (simp_all add: parallel_runServer_def parallel_runTCPServer_def)


section \<open>The pooled server and its largest messages\<close>

lemma speed_server_answers:
  assumes "\<forall>m \<in> set ms. length m \<le> 4996" and "\<forall>k. wr k = None"
  shows "er_out (speed_handleStream wr (concat (map writeMsg ms)) e) = concat (map (\<lambda>m. writeMsg (''ACK:'' @ m)) ms)"
    and "er_end (speed_handleStream wr (concat (map writeMsg ms)) e) = ReadStop e"
  unfolding speed_handleStream_def by (rule speed_echo.serve_requests [OF assms])+




section \<open>Command lines\<close>

record bench_flags =
  bf_opt :: bool
  bf_reuse :: bool
  bf_wan :: bool
  bf_burst :: int

datatype bench_action =
    Usage
  | InvalidSize string
  | InvalidMsgs string
  | UnknownMode string
  | ServeOn string
  | Burst string string int nat
  | Wan string string int
  | Reuse string string bool nat
  | Opt string string nat
  | Single string string int nat

definition arg_or :: "string list \<Rightarrow> nat \<Rightarrow> string \<Rightarrow> string" where
  "arg_or args i dflt = (if i < length args then args ! i else dflt)"

text \<open>A count on the command line: \<open>None\<close> is the error exit.\<close>

definition positive_arg :: "string list \<Rightarrow> nat \<Rightarrow> int \<Rightarrow> int option" where
  "positive_arg args i dflt =
     (if i < length args
      then (case atoi (args ! i) of None \<Rightarrow> None | Some n \<Rightarrow> if n < 1 then None else Some n)
      else Some dflt)"

definition client_action :: "bench_flags \<Rightarrow> string \<Rightarrow> string \<Rightarrow> int \<Rightarrow> nat \<Rightarrow> bench_action" where
  "client_action f addr port sz msgs =
     (if 0 < bf_burst f then Burst addr port sz (nat (bf_burst f))
      else if bf_wan f then Wan addr port sz
      else if bf_reuse f then Reuse addr port (bf_opt f) msgs
      else if bf_opt f then Opt addr port msgs
      else Single addr port sz msgs)"

definition tcp_main :: "bench_flags \<Rightarrow> string list \<Rightarrow> bench_action" where
  "tcp_main f args =
     (if args = [] then Usage
      else if args ! 0 = ''server'' then ServeOn (arg_or args 1 ''9000'')
      else if args ! 0 = ''client''
      then (case positive_arg args 3 64 of
              None \<Rightarrow> InvalidSize (args ! 3)
            | Some sz \<Rightarrow>
                (case positive_arg args 4 10 of
                   None \<Rightarrow> InvalidMsgs (args ! 4)
                 | Some msgs \<Rightarrow>
                     client_action f (arg_or args 1 ''127.0.0.1'') (arg_or args 2 ''9000'') sz (nat msgs)))
      else UnknownMode (args ! 0))"

text \<open>\<open>quic_diagnostic.go\<close> has no count of messages: always ten.\<close>

definition quic_main :: "bench_flags \<Rightarrow> string list \<Rightarrow> bench_action" where
  "quic_main f args =
     (if args = [] then Usage
      else if args ! 0 = ''server'' then ServeOn (arg_or args 1 ''9001'')
      else if args ! 0 = ''client''
      then (case positive_arg args 3 64 of
              None \<Rightarrow> InvalidSize (args ! 3)
            | Some sz \<Rightarrow> client_action f (arg_or args 1 ''127.0.0.1'') (arg_or args 2 ''9001'') sz 10)
      else UnknownMode (args ! 0))"

text \<open>The client a command line runs, in either program; the other actions open nothing.\<close>

fun tcp_run_action :: "bench_net \<Rightarrow> bench_action \<Rightarrow> bench option" where
  "tcp_run_action N (Burst addr port sz n) = Some (tcp_runClientBurst N addr port sz n)"
| "tcp_run_action N (Wan addr port sz) = Some (tcp_runClientWAN N addr port sz)"
| "tcp_run_action N (Reuse addr port opt msgs) = Some (tcp_runClientReuse N addr port opt msgs)"
| "tcp_run_action N (Opt addr port msgs) = Some (tcp_runClientOpt N addr port msgs)"
| "tcp_run_action N (Single addr port sz msgs) = Some (tcp_runClient N addr port sz msgs)"
| "tcp_run_action N _ = None"

fun quic_run_action :: "bench_net \<Rightarrow> bench_action \<Rightarrow> bench option" where
  "quic_run_action N (Burst addr port sz n) = Some (quic_runClientBurst N addr port sz n)"
| "quic_run_action N (Wan addr port sz) = Some (quic_runClientWAN N addr port sz)"
| "quic_run_action N (Reuse addr port opt msgs) = Some (quic_runClientReuse N addr port opt)"
| "quic_run_action N (Opt addr port msgs) = Some (quic_runClientOpt N addr port)"
| "quic_run_action N (Single addr port sz msgs) = Some (quic_runClient N addr port sz)"
| "quic_run_action N _ = None"

fun action_size :: "bench_action \<Rightarrow> int" where
  "action_size (Burst _ _ sz _) = sz"
| "action_size (Wan _ _ sz) = sz"
| "action_size (Single _ _ sz _) = sz"
| "action_size _ = 64"

lemma positive_arg_pos: "positive_arg args i d = Some n \<Longrightarrow> 1 \<le> d \<Longrightarrow> 1 \<le> n"
  by (auto simp: positive_arg_def split: if_splits option.splits)

lemma main_sizes:
  "1 \<le> action_size (tcp_main f args)" "1 \<le> action_size (quic_main f args)"
  by (auto simp: tcp_main_def quic_main_def client_action_def dest!: positive_arg_pos split: option.split)


text \<open>
  C35. Whatever the command line of \<open>tcp_raw.go\<close> or \<open>quic_diagnostic.go\<close> is, the client it starts
  never panics and leaves nothing open: for all answers to dials, streams, writes and reads, at its
  end the key log, every connection and every stream is closed, none was used after its close or
  closed twice, and no connection was closed before its streams.
\<close>

theorem echo_clients_leave_nothing_open:
  "(case tcp_run_action N (tcp_main f args) of None \<Rightarrow> True | Some st \<Rightarrow> left_open st = Some (False, [], [])) \<and>
   (case quic_run_action N (quic_main f args) of None \<Rightarrow> True | Some st \<Rightarrow> left_open st = Some (False, [], []))"
proof (rule conjI)
  show "case tcp_run_action N (tcp_main f args) of None \<Rightarrow> True | Some st \<Rightarrow> left_open st = Some (False, [], [])"
    using main_sizes(1) [of f args] by (cases "tcp_main f args") (simp_all add: clients_open)
  show "case quic_run_action N (quic_main f args) of None \<Rightarrow> True | Some st \<Rightarrow> left_open st = Some (False, [], [])"
    using main_sizes(2) [of f args] by (cases "quic_main f args") (simp_all add: clients_open)
qed

theorem echo_clients_leave_nothing_open_witness:
  "\<exists>st. tcp_run_action bench_demo_net (tcp_main \<lparr>bf_opt = True, bf_reuse = True, bf_wan = False, bf_burst = 0\<rparr> [''client'']) = Some st \<and>
     left_open st = Some (False, [], [])"
  using echo_clients_leave_nothing_open [of bench_demo_net "\<lparr>bf_opt = True, bf_reuse = True, bf_wan = False, bf_burst = 0\<rparr>" "[''client'']"]
  by (simp add: tcp_main_def positive_arg_def client_action_def del: upt_Suc)

end
