(* ===== verification/Bench_Speed.thy ===== *)
theory Bench_Speed
  imports Bench_Programs
begin

text \<open>
  \<open>speed_bench.go\<close> and \<open>parallel_bench.go\<close>: the clients, their statistics and their command lines.

  A \<open>make\<close> with a negative length, a slice out of range and a division by zero are panics, recorded
  as \<open>Crashed\<close>.  Elapsed times are not negative.
\<close>

section \<open>Statistics of speed_bench.go\<close>

text \<open>
  \<open>printResults\<close>: minimum, median, 99th percentile, maximum and mean.  The rank
  \<open>ceil(count * 0.99)\<close>, computed in \<open>float64\<close>, is exact for every count a benchmark can have.
\<close>

definition p99_index :: "nat \<Rightarrow> nat" where
  "p99_index n = (99 * n + 99) div 100 - 1"

definition speed_printResults :: "string \<Rightarrow> int \<Rightarrow> nat \<Rightarrow> time list \<Rightarrow> bench \<Rightarrow> bench" where
  "speed_printResults label sz count results st =
     (if count = 0 then emit Crashed st
      else (let avg = sum_list results div int count; sorted = sort results
            in emit (Heading label [] [sz, int count, sorted ! 0, sorted ! (count div 2),
                  sorted ! p99_index count, sorted ! (count - 1), avg]) st))"

section \<open>Clients of speed_bench.go\<close>

text \<open>
  A message of the persistent clients: the same payload every time, through the pooled buffers;
  \<open>cap\<close> is the capacity of the buffer for answers.  The result is the measured times, or \<open>None\<close> if
  the run ended early.
\<close>

fun speed_loop ::
  "bench_net \<Rightarrow> link \<Rightarrow> endpoint \<Rightarrow> bytes \<Rightarrow> nat \<Rightarrow> nat \<Rightarrow> nat \<Rightarrow> bytes \<Rightarrow> bench \<Rightarrow> time list option \<times> bench" where
  "speed_loop N l ep payload 0 cap k s st = (Some [], st)"
| "speed_loop N l ep payload (Suc n) cap k s st =
     (let (start, st1) = read_clock N st
      in case speed_writeMsg payload of
           None \<Rightarrow> (None, emit Crashed st1)
         | Some f \<Rightarrow>
             (case lk_write l k of
                Some e \<Rightarrow> (None, emit (Said (write_error_line e)) st1)
              | None \<Rightarrow>
                  (let st2 = emit (SentOn ep f) st1
                   in case speed_readMsg s (lk_end l) cap of
                        (Inl e, _, _) \<Rightarrow> (None, emit (Said (read_error_line e)) st2)
                      | (Inr resp, r, cap') \<Rightarrow>
                          (let (stop, st3) = read_clock N (emit (GotFrom ep resp) st2);
                               (res, st4) = speed_loop N l ep payload n cap' (Suc k) r st3
                           in (map_option ((#) (stop - start)) res, st4)))))"

definition speed_finish :: "string \<Rightarrow> int \<Rightarrow> nat \<Rightarrow> time list option \<times> bench \<Rightarrow> bench" where
  "speed_finish label sz count r =
     (case r of (None, st) \<Rightarrow> st | (Some results, st) \<Rightarrow> speed_printResults label sz count results st)"

text \<open>The payload and the result slice, made before the loop; the deferred closes run in any case.\<close>

definition speed_messages ::
  "bench_net \<Rightarrow> link \<Rightarrow> endpoint \<Rightarrow> string \<Rightarrow> int \<Rightarrow> int \<Rightarrow> bench \<Rightarrow> bench" where
  "speed_messages N l ep label sz count st =
     (case speed_makePayload 1 sz of
        None \<Rightarrow> emit Crashed st
      | Some payload \<Rightarrow>
          if count < 0 then emit Crashed st
          else speed_finish label sz (nat count)
                 (speed_loop N l ep payload (nat count) 5000 0 (lk_in l) st))"

definition runQUICClientPersistent :: "bench_net \<Rightarrow> int \<Rightarrow> int \<Rightarrow> bench" where
  "runQUICClientPersistent N sz count =
     (case bn_dial N 0 of
        Inl e \<Rightarrow> emit (labelled ''Dial error'' e) bench_start
      | Inr l \<Rightarrow>
          quic_session 0 l (speed_messages N l (Quic 0 0) ''QUIC persistent'' sz count)
            (emit (Dialled 0 False) bench_start))"

definition runTCPClientPersistent :: "bench_net \<Rightarrow> int \<Rightarrow> int \<Rightarrow> bench" where
  "runTCPClientPersistent N sz count =
     (case bn_dial N 0 of
        Inl e \<Rightarrow> emit (labelled ''Dial error'' e) bench_start
      | Inr l \<Rightarrow>
          emit (ConnClosed 0)
            (speed_messages N l (Tcp 0) ''TCP persistent'' sz count (emit (Dialled 0 False) bench_start)))"

text \<open>The fresh clients: a connection per message; the buffer for answers is kept.\<close>

fun quic_fresh_loop :: "bench_net \<Rightarrow> bytes \<Rightarrow> nat list \<Rightarrow> nat \<Rightarrow> bench \<Rightarrow> time list option \<times> bench" where
  "quic_fresh_loop N payload [] cap st = (Some [], st)"
| "quic_fresh_loop N payload (c # cs) cap st =
     (let (start, st1) = read_clock N st
      in case bn_dial N c of
           Inl e \<Rightarrow> (None, emit (labelled ''Dial error'' e) st1)
         | Inr l \<Rightarrow>
             (let st2 = emit (Dialled c True) st1
              in case lk_open l of
                   Some e \<Rightarrow> (None, emit (labelled ''Stream error'' e) (emit (ConnClosed c) st2))
                 | None \<Rightarrow>
                     (let st3 = emit (StreamOpened c 0) st2;
                          close = (\<lambda>st. emit (ConnClosed c) (emit (StreamClosed c 0) st))
                      in case speed_writeMsg payload of
                           None \<Rightarrow> (None, emit Crashed st3)
                         | Some f \<Rightarrow>
                             (case lk_write l 0 of
                                Some e \<Rightarrow> (None, emit (Said (write_error_line e)) (close st3))
                              | None \<Rightarrow>
                                  (let st4 = emit (SentOn (Quic c 0) f) st3
                                   in case speed_readMsg (lk_in l) (lk_end l) cap of
                                        (Inl e, _, _) \<Rightarrow> (None, emit (Said (read_error_line e)) (close st4))
                                      | (Inr resp, _, cap') \<Rightarrow>
                                          (let (stop, st5) = read_clock N (close (emit (GotFrom (Quic c 0) resp) st4));
                                               (res, st6) = quic_fresh_loop N payload cs cap' st5
                                           in (map_option ((#) (stop - start)) res, st6)))))))"

fun tcp_fresh_loop :: "bench_net \<Rightarrow> bytes \<Rightarrow> nat list \<Rightarrow> nat \<Rightarrow> bench \<Rightarrow> time list option \<times> bench" where
  "tcp_fresh_loop N payload [] cap st = (Some [], st)"
| "tcp_fresh_loop N payload (c # cs) cap st =
     (let (start, st1) = read_clock N st
      in case bn_dial N c of
           Inl e \<Rightarrow> (None, emit (labelled ''Dial error'' e) st1)
         | Inr l \<Rightarrow>
             (let st2 = emit (Dialled c False) st1
              in case speed_writeMsg payload of
                   None \<Rightarrow> (None, emit Crashed st2)
                 | Some f \<Rightarrow>
                     (case lk_write l 0 of
                        Some e \<Rightarrow> (None, emit (Said (write_error_line e)) (emit (ConnClosed c) st2))
                      | None \<Rightarrow>
                          (let st3 = emit (SentOn (Tcp c) f) st2
                           in case speed_readMsg (lk_in l) (lk_end l) cap of
                                (Inl e, _, _) \<Rightarrow> (None, emit (Said (read_error_line e)) (emit (ConnClosed c) st3))
                              | (Inr resp, _, cap') \<Rightarrow>
                                  (let (stop, st4) = read_clock N (emit (ConnClosed c) (emit (GotFrom (Tcp c) resp) st3));
                                       (res, st5) = tcp_fresh_loop N payload cs cap' st4
                                   in (map_option ((#) (stop - start)) res, st5))))))"

text \<open>The QUIC client dials once before, for the session ticket.\<close>

definition runQUICClientFresh :: "bench_net \<Rightarrow> int \<Rightarrow> int \<Rightarrow> bench" where
  "runQUICClientFresh N sz count =
     (case bn_dial N 0 of
        Inl e \<Rightarrow> emit (labelled ''Warmup error'' e) bench_start
      | Inr _ \<Rightarrow>
          (let st = emit (ConnClosed 0) (emit (Dialled 0 False) bench_start)
           in case speed_makePayload 1 sz of
                None \<Rightarrow> emit Crashed st
              | Some payload \<Rightarrow>
                  if count < 0 then emit Crashed st
                  else speed_finish ''QUIC fresh (0-RTT)'' sz (nat count)
                         (quic_fresh_loop N payload [1..<Suc (nat count)] 5000 st)))"

definition runTCPClientFresh :: "bench_net \<Rightarrow> int \<Rightarrow> int \<Rightarrow> bench" where
  "runTCPClientFresh N sz count =
     (case speed_makePayload 1 sz of
        None \<Rightarrow> emit Crashed bench_start
      | Some payload \<Rightarrow>
          if count < 0 then emit Crashed bench_start
          else speed_finish ''TCP fresh'' sz (nat count)
                 (tcp_fresh_loop N payload [0..<nat count] 5000 bench_start))"


section \<open>The command line of speed_bench.go\<close>

text \<open>
  The value of \<open>strconv.Atoi\<close> when the error is ignored: zero for what is no number, the nearest
  64-bit integer for one out of range.
\<close>

definition atoi_value :: "string \<Rightarrow> int" where
  "atoi_value s =
     (case sign_split s of (neg, ds) \<Rightarrow>
        (case atoi_unsigned ds of
           None \<Rightarrow> 0
         | Some n \<Rightarrow>
             (case signed_val neg n of
                Some i \<Rightarrow> i
              | None \<Rightarrow> if neg then - (2 ^ 63) else 2 ^ 63 - 1)))"

datatype speed_action =
    SpeedUsage
  | SpeedUnknown string
  | SpeedServe bool string
  | SpeedClient bool bool string string int int

definition number_or :: "string list \<Rightarrow> nat \<Rightarrow> int \<Rightarrow> int" where
  "number_or args i dflt = (if i < length args then atoi_value (args ! i) else dflt)"

text \<open>The first flag is TCP instead of QUIC, the second persistent instead of fresh.\<close>

definition speed_main :: "string \<Rightarrow> string list \<Rightarrow> speed_action" where
  "speed_main proto args =
     (if args = [] then SpeedUsage
      else if args ! 0 = ''server'' then SpeedServe (proto = ''tcp'') (arg_or args 1 ''9000'')
      else if args ! 0 = ''client''
      then SpeedClient (proto = ''tcp'') (arg_or args 5 ''persistent'' = ''persistent'')
             (arg_or args 1 ''127.0.0.1'') (arg_or args 2 ''9000'') (number_or args 3 64) (number_or args 4 10)
      else SpeedUnknown (args ! 0))"

fun speed_run_action :: "bench_net \<Rightarrow> speed_action \<Rightarrow> bench option" where
  "speed_run_action N (SpeedClient tcp persistent addr port sz count) =
     Some (if tcp then (if persistent then runTCPClientPersistent N sz count else runTCPClientFresh N sz count)
           else (if persistent then runQUICClientPersistent N sz count else runQUICClientFresh N sz count))"
| "speed_run_action N _ = None"



section \<open>What the clients guarantee\<close>

lemma sorted_bounds:
  assumes "length xs = n" and "i \<le> j" and "j < n"
  shows "sort xs ! i \<le> sort (xs :: int list) ! j"
  using assms by (intro sorted_nth_mono) simp_all

lemma sum_list_bounds:
  assumes "\<forall>x \<in> set xs. lo \<le> x \<and> x \<le> (hi :: int)"
  shows "int (length xs) * lo \<le> sum_list xs \<and> sum_list xs \<le> int (length xs) * hi"
  using assms by (induction xs) (auto simp: algebra_simps)

lemma average_between:
  assumes "xs \<noteq> []"
  shows "sort xs ! 0 \<le> sum_list xs div int (length xs)"
    and "sum_list xs div int (length xs) \<le> sort xs ! (length xs - 1)"
proof -
  have pos: "0 < int (length xs)" using assms by simp
  have "sort xs ! 0 \<le> x \<and> x \<le> sort xs ! (length xs - 1)" if "x \<in> set xs" for x
  proof -
    have "x \<in> set (sort xs)" using that by simp
    then obtain i where i: "i < length xs" "x = sort xs ! i" by (metis in_set_conv_nth length_sort)
    then show ?thesis by (auto intro!: sorted_bounds [OF refl])
  qed
  from sum_list_bounds [of xs, OF ballI, OF this]
  have b: "sort xs ! 0 * int (length xs) \<le> sum_list xs" "sum_list xs \<le> sort xs ! (length xs - 1) * int (length xs)"
    by (simp_all add: mult.commute)
  show "sort xs ! 0 \<le> sum_list xs div int (length xs)"
    using zdiv_mono1 [OF b(1) pos] pos by simp
  show "sum_list xs div int (length xs) \<le> sort xs ! (length xs - 1)"
    using zdiv_mono1 [OF b(2) pos] pos by simp
qed

lemma p99_in_range:
  assumes "0 < n"
  shows "n div 2 \<le> p99_index n" and "p99_index n < n"
proof -
  have "1 \<le> (99 * n + 99) div 100" using assms by (simp add: Suc_le_eq)
  moreover have "(99 * n + 99) div 100 \<le> n" using assms by (simp add: div_le_mono)
  ultimately show "p99_index n < n" by (simp add: p99_index_def)
  have "n div 2 + 1 \<le> (99 * n + 99) div 100" using assms by simp
  then show "n div 2 \<le> p99_index n" by (simp add: p99_index_def)
qed


text \<open>
  For at least one measurement the row of \<open>speed_bench.go\<close> is well defined and ordered: it is one
  line with minimum, median, 99th percentile and maximum in this order, the mean between minimum and
  maximum, and every index in range; for none the division by the count panics.
\<close>

theorem speed_row_ordered:
  assumes "length results = count"
  shows "if count = 0 then b_events (speed_printResults label sz count results st) = b_events st @ [Crashed]
    else \<exists>mn p50 p99 mx avg. b_events (speed_printResults label sz count results st) =
        b_events st @ [Heading label [] [sz, int count, mn, p50, p99, mx, avg]] \<and>
      {mn, p50, p99, mx} \<subseteq> set results \<and> (\<forall>x \<in> set results. mn \<le> x \<and> x \<le> mx) \<and>
      mn \<le> p50 \<and> p50 \<le> p99 \<and> p99 \<le> mx \<and> mn \<le> avg \<and> avg \<le> mx"
proof (cases "count = 0")
  case True
  then show ?thesis by (simp add: speed_printResults_def)
next
  case False
  then have n: "0 < count" and ne: "results \<noteq> []" using assms by auto
  have elem: "sort results ! i \<in> set results" if "i < count" for i
    using that assms by (metis length_sort nth_mem set_sort)
  have all: "sort results ! 0 \<le> x \<and> x \<le> sort results ! (count - 1)" if "x \<in> set results" for x
  proof -
    have "x \<in> set (sort results)" using that by simp
    then obtain i where "i < count" "x = sort results ! i" using assms by (metis in_set_conv_nth length_sort)
    then show ?thesis by (auto intro!: sorted_bounds [OF assms])
  qed
  have ord: "sort results ! 0 \<le> sort results ! (count div 2)"
    "sort results ! (count div 2) \<le> sort results ! p99_index count"
    "sort results ! p99_index count \<le> sort results ! (count - 1)"
    using p99_in_range [OF n] n by (auto intro!: sorted_bounds [OF assms])
  have idx: "count div 2 < count" "p99_index count < count" "0 < count" "count - 1 < count"
    using p99_in_range [OF n] n by simp_all
  show ?thesis
    using False average_between [OF ne] ord all elem [OF idx(1)] elem [OF idx(2)] elem [OF idx(3)] elem [OF idx(4)]
    by (simp add: speed_printResults_def Let_def assms)
qed

theorem speed_row_ordered_witness:
  "\<exists>mn p50 p99 mx avg. b_events (speed_printResults ''TCP fresh'' 64 3 [5, 1, 9] bench_start) =
      [Heading ''TCP fresh'' [] [64, 3, mn, p50, p99, mx, avg]] \<and> mn \<le> p50 \<and> p99 \<le> mx"
proof -
  from speed_row_ordered [of "[5, 1, 9]" 3 "''TCP fresh''" 64 bench_start]
  obtain mn p50 p99 mx avg where "b_events (speed_printResults ''TCP fresh'' 64 3 [5, 1, 9] bench_start) =
      b_events bench_start @ [Heading ''TCP fresh'' [] [64, int 3, mn, p50, p99, mx, avg]]"
    "mn \<le> p50" "p99 \<le> mx" by auto
  moreover have "b_events bench_start = []" "int 3 = 3" by (simp_all add: bench_start_def)
  ultimately show ?thesis by auto
qed

lemma speed_loop_open:
  assumes "length payload \<le> 5000"
  shows "left_open st = Some os \<Longrightarrow> endpoint_open ep os \<Longrightarrow>
    left_open (snd (speed_loop N l ep payload n cap k s st)) = Some os \<and>
    (case fst (speed_loop N l ep payload n cap k s st) of None \<Rightarrow> True | Some ts \<Rightarrow> length ts = n)"
proof (induction n arbitrary: cap k s st)
  case 0
  then show ?case by simp
next
  case (Suc n)
  show ?case
  proof (cases "lk_write l k")
    case (Some e)
    then show ?thesis using Suc.prems speed_writeMsg_fits [OF assms] by (simp add: read_clock_def)
  next
    case None
    obtain x r cap' where read: "speed_readMsg s (lk_end l) cap = (x, r, cap')" using prod_cases3 by blast
    let ?st = "\<lambda>resp. snd (read_clock N (emit (GotFrom ep resp) (emit (SentOn ep (writeMsg payload)) (snd (read_clock N st)))))"
    have "left_open (?st resp) = Some os" for resp
      using Suc.prems by simp
    note IH = Suc.IH [OF this Suc.prems(2), of cap' "Suc k" r]
    show ?thesis
    proof (cases x)
      case (Inl e)
      then show ?thesis
        using Suc.prems None read speed_writeMsg_fits [OF assms] by (simp add: read_clock_def)
    next
      case (Inr resp)
      then show ?thesis
        using IH [of resp] None read speed_writeMsg_fits [OF assms]
        by (auto simp: Let_def read_clock_def split: prod.split option.splits)
    qed
  qed
qed

lemma speed_finish_open:
  assumes "0 < n" and "left_open (snd r) = Some os"
  shows "left_open (speed_finish label sz n r) = Some os"
  using assms by (auto simp: speed_finish_def speed_printResults_def Let_def split: prod.split option.split)

lemma speed_messages_open:
  assumes "0 \<le> sz" and "sz \<le> 5000" and "0 < count" and "left_open st = Some os" and "endpoint_open ep os"
  shows "left_open (speed_messages N l ep label sz count st) = Some os"
proof -
  obtain p where p: "speed_makePayload 1 sz = Some p" "length p = nat sz"
    using makePayload_ex(4) [OF assms(1)] by blast
  then have len: "length p \<le> 5000" using assms(2) by simp
  show ?thesis
    using p speed_finish_open [of "nat count" "speed_loop N l ep p (nat count) 5000 0 (lk_in l) st"]
      speed_loop_open [OF len assms(4,5), of N l "nat count" 5000 0 "lk_in l"] assms(3)
    by (simp add: speed_messages_def)
qed


lemma quic_fresh_open:
  assumes "length payload \<le> 5000"
  shows "left_open st = Some (f, [], []) \<Longrightarrow> left_open (snd (quic_fresh_loop N payload cs cap st)) = Some (f, [], [])"
proof (induction cs arbitrary: cap st)
  case Nil
  then show ?case by simp
next
  case (Cons c cs)
  note fit = speed_writeMsg_fits [OF assms]
  show ?case
  proof (cases "bn_dial N c")
    case (Inl e)
    then show ?thesis using Cons.prems by (simp add: read_clock_def)
  next
    case (Inr l)
    obtain x r cap' where read: "speed_readMsg (lk_in l) (lk_end l) cap = (x, r, cap')" using prod_cases3 by blast
    show ?thesis
    proof (cases x)
      case (Inl e)
      then show ?thesis
        using Cons.prems Inr read fit by (simp add: read_clock_def Let_def split: option.split)
    next
      case x: (Inr resp)
      let ?st = "snd (read_clock N (emit (ConnClosed c) (emit (StreamClosed c 0) (emit (GotFrom (Quic c 0) resp)
        (emit (SentOn (Quic c 0) (writeMsg payload)) (emit (StreamOpened c 0) (emit (Dialled c True) (snd (read_clock N st)))))))))"
      have "left_open ?st = Some (f, [], [])" using Cons.prems by simp
      from Cons.IH [OF this, of cap'] show ?thesis
        using Cons.prems Inr read fit x
        by (auto simp: read_clock_def Let_def split: option.split prod.split)
    qed
  qed
qed

lemma tcp_fresh_open:
  assumes "length payload \<le> 5000"
  shows "left_open st = Some (f, [], []) \<Longrightarrow> left_open (snd (tcp_fresh_loop N payload cs cap st)) = Some (f, [], [])"
proof (induction cs arbitrary: cap st)
  case Nil
  then show ?case by simp
next
  case (Cons c cs)
  note fit = speed_writeMsg_fits [OF assms]
  show ?case
  proof (cases "bn_dial N c")
    case (Inl e)
    then show ?thesis using Cons.prems by (simp add: read_clock_def)
  next
    case (Inr l)
    obtain x r cap' where read: "speed_readMsg (lk_in l) (lk_end l) cap = (x, r, cap')" using prod_cases3 by blast
    show ?thesis
    proof (cases x)
      case (Inl e)
      then show ?thesis
        using Cons.prems Inr read fit by (simp add: read_clock_def Let_def split: option.split)
    next
      case x: (Inr resp)
      let ?st = "snd (read_clock N (emit (ConnClosed c) (emit (GotFrom (Tcp c) resp)
        (emit (SentOn (Tcp c) (writeMsg payload)) (emit (Dialled c False) (snd (read_clock N st)))))))"
      have "left_open ?st = Some (f, [], [])" using Cons.prems by simp
      from Cons.IH [OF this, of cap'] show ?thesis
        using Cons.prems Inr read fit x
        by (auto simp: read_clock_def Let_def split: option.split prod.split)
    qed
  qed
qed

lemma speed_clients_open:
  assumes "0 \<le> sz" and "sz \<le> 5000" and "1 \<le> count"
  shows "left_open (runTCPClientPersistent N sz count) = Some (False, [], [])"
    and "left_open (runQUICClientPersistent N sz count) = Some (False, [], [])"
    and "left_open (runTCPClientFresh N sz count) = Some (False, [], [])"
    and "left_open (runQUICClientFresh N sz count) = Some (False, [], [])"
proof -
  have pos: "0 < count" using assms(3) by simp
  note msgs = speed_messages_open [OF assms(1,2) pos]
  obtain p where p: "speed_makePayload 1 sz = Some p" "length p \<le> 5000"
    using makePayload_ex(4) [OF assms(1), of 1] assms(2) by auto
  show "left_open (runTCPClientPersistent N sz count) = Some (False, [], [])"
    by (simp add: runTCPClientPersistent_def msgs [where os = "(False, [0], [])"] split: sum.split)
  show "left_open (runQUICClientPersistent N sz count) = Some (False, [], [])"
  proof (cases "bn_dial N 0")
    case (Inl e)
    then show ?thesis by (simp add: runQUICClientPersistent_def)
  next
    case (Inr l)
    show ?thesis
      unfolding runQUICClientPersistent_def Inr sum.case
      by (rule quic_session_open) (simp_all add: msgs [where os = "(False, [0], [(0, 0)])"])
  qed
  show "left_open (runTCPClientFresh N sz count) = Some (False, [], [])"
    using p speed_finish_open [of "nat count" "tcp_fresh_loop N p [0..<nat count] 5000 bench_start"]
      tcp_fresh_open [OF p(2), of bench_start False N "[0..<nat count]" 5000] pos
    by (simp add: runTCPClientFresh_def)
  let ?st = "emit (ConnClosed 0) (emit (Dialled 0 False) bench_start)"
  show "left_open (runQUICClientFresh N sz count) = Some (False, [], [])"
    using p speed_finish_open [of "nat count" "quic_fresh_loop N p [1..<Suc (nat count)] 5000 ?st"]
      quic_fresh_open [OF p(2), of ?st False N "[1..<Suc (nat count)]" 5000] pos
    by (simp add: runQUICClientFresh_def Let_def del: upt_Suc split: sum.split)
qed

text \<open>
  A count that is no number is taken as zero, and then the program panics after the run, whatever
  the network does: the division of the mean, in every mode.
\<close>

lemma speed_zero_count_panics:
  assumes "0 \<le> sz" and "bn_dial N 0 = Inr l" and "lk_open l = None"
  shows "Crashed \<in> set (b_events (runTCPClientPersistent N sz 0))"
    and "Crashed \<in> set (b_events (runQUICClientPersistent N sz 0))"
    and "Crashed \<in> set (b_events (runTCPClientFresh N sz 0))"
    and "Crashed \<in> set (b_events (runQUICClientFresh N sz 0))"
proof -
  obtain p where "speed_makePayload 1 sz = Some p" using makePayload_ex(4) [OF assms(1)] by blast
  then show "Crashed \<in> set (b_events (runTCPClientPersistent N sz 0))"
    and "Crashed \<in> set (b_events (runQUICClientPersistent N sz 0))"
    and "Crashed \<in> set (b_events (runTCPClientFresh N sz 0))"
    and "Crashed \<in> set (b_events (runQUICClientFresh N sz 0))"
    using assms(2,3)
    by (simp_all add: runTCPClientPersistent_def runQUICClientPersistent_def runTCPClientFresh_def
        runQUICClientFresh_def speed_messages_def speed_finish_def speed_printResults_def quic_session_def Let_def)
qed

lemma speed_count_not_a_number:
  assumes "atoi_unsigned (snd (sign_split w)) = None"
  shows "speed_main proto [''client'', addr, port, sz, w] =
    SpeedClient (proto = ''tcp'') True addr port (atoi_value sz) 0"
  using assms by (cases "sign_split w") (simp add: speed_main_def number_or_def arg_or_def atoi_value_def)



section \<open>A session with the pooled server\<close>

lemma speed_loop_answered:
  assumes "\<forall>k. lk_write l k = None" and "length payload \<le> 5000" and "length resp \<le> 5000"
  shows "\<exists>ts st'. speed_loop N l ep payload n cap k (concat (replicate n (writeMsg resp)) @ rest) st = (Some ts, st') \<and>
    length ts = n \<and> sent_on ep st' = sent_on ep st @ concat (replicate n (writeMsg payload))"
proof (induction n arbitrary: cap k st)
  case 0
  then show ?case by simp
next
  case (Suc n)
  have "length resp < 2 ^ 32" using assms(3) by simp
  from speed_readMsg_frame [OF this] obtain cap' where
    read: "speed_readMsg (writeMsg resp @ concat (replicate n (writeMsg resp)) @ rest) (lk_end l) cap =
      (Inr resp, concat (replicate n (writeMsg resp)) @ rest, cap')" .
  let ?st = "snd (read_clock N (emit (GotFrom ep resp) (emit (SentOn ep (writeMsg payload)) (snd (read_clock N st)))))"
  from Suc.IH [of cap' "Suc k" ?st] obtain ts st' where
    "speed_loop N l ep payload n cap' (Suc k) (concat (replicate n (writeMsg resp)) @ rest) ?st = (Some ts, st')"
    "length ts = n" "sent_on ep st' = sent_on ep ?st @ concat (replicate n (writeMsg payload))" by blast
  then show ?case
    using read assms(1) speed_writeMsg_fits [OF assms(2)] by (simp add: read_clock_def)
qed

text \<open>
  A persistent client of \<open>speed_bench.go\<close> against the pooled server: for a payload of at most 4996
  bytes and at least one message the server answers every frame without crashing, the client sends
  exactly those frames and ends with its row of results, over TCP and over QUIC.
\<close>

theorem speed_session_complete:
  assumes "0 \<le> sz" and "sz \<le> 4996" and "0 < n" and "speed_makePayload 1 sz = Some p"
    and "\<forall>k. wr k = None" and "bn_dial N 0 = Inr l" and "lk_open l = None" and "\<forall>k. lk_write l k = None"
    and "requests = concat (replicate n (writeMsg p))"
    and "lk_in l = er_out (speed_handleStream wr requests EOF)"
  shows "er_end (speed_handleStream wr requests EOF) = ReadStop EOF \<and>
    sent_on (Tcp 0) (runTCPClientPersistent N sz (int n)) = requests \<and>
    sent_on (Quic 0 0) (runQUICClientPersistent N sz (int n)) = requests \<and>
    (\<exists>row. Heading ''TCP persistent'' [] (sz # int n # row) \<in> set (b_events (runTCPClientPersistent N sz (int n)))) \<and>
    (\<exists>row. Heading ''QUIC persistent'' [] (sz # int n # row) \<in> set (b_events (runQUICClientPersistent N sz (int n))))"
proof -
  have len: "length p = nat sz" using makePayload_ex(4) [OF assms(1), of 1] assms(4) by auto
  have small: "length p \<le> 4996" "length p \<le> 5000" "length (''ACK:'' @ p) \<le> 5000" using len assms(2) by simp_all
  have req: "requests = concat (map writeMsg (replicate n p))" using assms(9) by simp
  have "\<forall>m \<in> set (replicate n p). length m \<le> 4996" using small(1) by simp
  note serve = speed_server_answers [OF this assms(5), of EOF]
  have inp: "lk_in l = concat (replicate n (writeMsg (''ACK:'' @ p))) @ []"
    unfolding assms(10) req serve(1) by simp
  note loop = speed_loop_answered [where N = N and n = n and cap = 5000 and k = 0 and rest = "[]",
      OF assms(8) small(2,3)]
  have msgs: "\<exists>st' row. speed_messages N l ep label sz (int n) st = emit (Heading label [] (sz # int n # row)) st' \<and>
      sent_on ep st' = sent_on ep st @ requests" for ep label st
  proof -
    from loop [of ep st] obtain ts st' where ts: "speed_loop N l ep p n 5000 0 (lk_in l) st = (Some ts, st')"
      "sent_on ep st' = sent_on ep st @ requests"
      unfolding inp assms(9) by blast
    have "speed_messages N l ep label sz (int n) st = speed_printResults label sz n ts st'"
      using ts(1) assms(4) by (simp add: speed_messages_def speed_finish_def)
    then show ?thesis
      using ts(2) assms(3) unfolding speed_printResults_def Let_def by auto
  qed
  obtain st1 row1 where m1: "speed_messages N l (Tcp 0) ''TCP persistent'' sz (int n) (emit (Dialled 0 False) bench_start) =
      emit (Heading ''TCP persistent'' [] (sz # int n # row1)) st1"
    "sent_on (Tcp 0) st1 = sent_on (Tcp 0) (emit (Dialled 0 False) bench_start) @ requests"
    using msgs by blast
  obtain st2 row2 where m2: "speed_messages N l (Quic 0 0) ''QUIC persistent'' sz (int n)
       (emit (StreamOpened 0 0) (emit (Dialled 0 False) bench_start)) =
      emit (Heading ''QUIC persistent'' [] (sz # int n # row2)) st2"
    "sent_on (Quic 0 0) st2 = sent_on (Quic 0 0) (emit (StreamOpened 0 0) (emit (Dialled 0 False) bench_start)) @ requests"
    using msgs by blast
  show ?thesis
    using serve(2) m1 m2 assms(6,7)
    by (auto simp: req runTCPClientPersistent_def runQUICClientPersistent_def quic_session_def)
qed

definition speed_demo_net :: "bytes \<Rightarrow> bench_net" where
  "speed_demo_net requests = bench_demo_net\<lparr>bn_dial := (\<lambda>_. Inr (answering_link
     (er_out (speed_handleStream (\<lambda>_. None) requests EOF))))\<rparr>"

theorem speed_session_complete_witness:
  "\<exists>p. speed_makePayload 1 4996 = Some p \<and>
     sent_on (Tcp 0) (runTCPClientPersistent (speed_demo_net (concat (replicate 3 (writeMsg p)))) 4996 3) =
       concat (replicate 3 (writeMsg p))"
proof -
  obtain p where p: "speed_makePayload 1 4996 = Some p" using makePayload_ex(4) [of 4996 1] by auto
  have "sent_on (Tcp 0) (runTCPClientPersistent (speed_demo_net (concat (replicate 3 (writeMsg p)))) 4996 (int 3)) =
       concat (replicate 3 (writeMsg p))"
    using speed_session_complete [OF _ _ _ p, where n = 3 and wr = "\<lambda>_. None" and requests = "concat (replicate 3 (writeMsg p))"
        and N = "speed_demo_net (concat (replicate 3 (writeMsg p)))"]
    by (simp add: speed_demo_net_def answering_link_def)
  then show ?thesis using p by auto
qed

end
