(* ===== verification/Bench_Multi.thy ===== *)
theory Bench_Multi
  imports Bench_Speed
begin

text \<open>
  The parallel clients: \<open>parallel_bench.go\<close> and \<open>multiplex_bench.go\<close>, which start one goroutine per
  message, on streams of one QUIC connection or on connections of their own.

  A goroutine is the list of its events.  A run is any interleaving of them: a schedule, a list of
  events with the number of their goroutine, whose restriction to each goroutine is its list.
\<close>

section \<open>Interleavings and what they leave open\<close>

definition schedule_of :: "nat \<Rightarrow> (nat \<Rightarrow> bench_event list) \<Rightarrow> (nat \<times> bench_event) list \<Rightarrow> bool" where
  "schedule_of n task zs \<longleftrightarrow>
     (\<forall>z \<in> set zs. fst z < n) \<and> (\<forall>i < n. map snd (filter (\<lambda>z. fst z = i) zs) = task i)"

text \<open>
  Goroutines that each use one resource of their own: \<open>local\<close> follows whether it is open, and \<open>rel\<close>
  says which resources an open set has.
\<close>

fun local_run ::
  "(nat \<Rightarrow> bench_event \<Rightarrow> bool \<Rightarrow> bool option) \<Rightarrow> nat \<Rightarrow> bench_event list \<Rightarrow> bool \<Rightarrow> bool option" where
  "local_run local i [] b = Some b"
| "local_run local i (e # es) b = (case local i e b of None \<Rightarrow> None | Some b' \<Rightarrow> local_run local i es b')"

locale task_resources =
  fixes local :: "nat \<Rightarrow> bench_event \<Rightarrow> bool \<Rightarrow> bool option"
    and rel :: "open_set \<Rightarrow> (nat \<Rightarrow> bool) \<Rightarrow> bool"
  assumes local_sim: "rel os st \<Longrightarrow> local i e (st i) = Some b \<Longrightarrow>
    \<exists>os'. track e (Some os) = Some os' \<and> rel os' (st(i := b))"
begin

lemma interleaved:
  assumes "rel os st" and "\<forall>i. local_run local i (map snd (filter (\<lambda>z. fst z = i) zs)) (st i) = Some (fin i)"
  shows "\<exists>os'. fold track (map snd zs) (Some os) = Some os' \<and> rel os' fin"
  using assms
proof (induction zs arbitrary: os st)
  case Nil
  then have "st = fin" by auto
  then show ?case using Nil by simp
next
  case (Cons z zs)
  obtain i e where z: "z = (i, e)" by force
  have "local_run local i (e # map snd (filter (\<lambda>z. fst z = i) zs)) (st i) = Some (fin i)"
    using Cons.prems(2) [rule_format, of i] by (simp add: z)
  then obtain b where b: "local i e (st i) = Some b"
    "local_run local i (map snd (filter (\<lambda>z. fst z = i) zs)) b = Some (fin i)"
    by (auto split: option.splits)
  from local_sim [OF Cons.prems(1) b(1)] obtain os' where
    os': "track e (Some os) = Some os'" "rel os' (st(i := b))" by blast
  have "\<forall>j. local_run local j (map snd (filter (\<lambda>z. fst z = j) zs)) ((st(i := b)) j) = Some (fin j)"
  proof
    fix j
    show "local_run local j (map snd (filter (\<lambda>z. fst z = j) zs)) ((st(i := b)) j) = Some (fin j)"
      using b(2) Cons.prems(2) [rule_format, of j] by (cases "j = i") (auto simp: z)
  qed
  from Cons.IH [OF os'(2) this] show ?case using os'(1) by (simp add: z)
qed

lemma scheduled:
  assumes "schedule_of n task zs" and "rel os (\<lambda>_. False)"
    and "\<And>i. i < n \<Longrightarrow> local_run local i (task i) False = Some False"
  shows "\<exists>os'. fold track (map snd zs) (Some os) = Some os' \<and> rel os' (\<lambda>_. False)"
proof (rule interleaved [OF assms(2)])
  show "\<forall>i. local_run local i (map snd (filter (\<lambda>z. fst z = i) zs)) False = Some False"
  proof
    fix i
    show "local_run local i (map snd (filter (\<lambda>z. fst z = i) zs)) False = Some False"
    proof (cases "i < n")
      case True
      then show ?thesis using assms(1,3) by (simp add: schedule_of_def)
    next
      case False
      then have "filter (\<lambda>z. fst z = i) zs = []"
        using assms(1) by (auto simp: schedule_of_def filter_empty_conv)
      then show ?thesis by simp
    qed
  qed
qed

end

text \<open>Streams of connection \<open>c\<close>, and connections of their own.\<close>

fun stream_local :: "nat \<Rightarrow> nat \<Rightarrow> bench_event \<Rightarrow> bool \<Rightarrow> bool option" where
  "stream_local c i (StreamOpened c' n) b = (if c' = c \<and> n = i \<and> \<not> b then Some True else None)"
| "stream_local c i (StreamClosed c' n) b = (if c' = c \<and> n = i \<and> b then Some False else None)"
| "stream_local c i (SentOn ep _) b = (if ep = Quic c i \<and> b then Some b else None)"
| "stream_local c i (GotFrom ep _) b = (if ep = Quic c i \<and> b then Some b else None)"
| "stream_local c i (Said _) b = Some b"
| "stream_local c i _ b = None"

fun conn_local :: "nat \<Rightarrow> bench_event \<Rightarrow> bool \<Rightarrow> bool option" where
  "conn_local i (Dialled c early) b = (if c = i \<and> \<not> b then Some True else None)"
| "conn_local i (ConnClosed c) b = (if c = i \<and> b then Some False else None)"
| "conn_local i (SentOn ep _) b = (if ep = Tcp i \<and> b then Some b else None)"
| "conn_local i (GotFrom ep _) b = (if ep = Tcp i \<and> b then Some b else None)"
| "conn_local i (Said _) b = Some b"
| "conn_local i _ b = None"

definition stream_rel :: "bool \<Rightarrow> nat \<Rightarrow> open_set \<Rightarrow> (nat \<Rightarrow> bool) \<Rightarrow> bool" where
  "stream_rel f c os st \<longleftrightarrow> (\<exists>ss. os = (f, [c], ss) \<and> set ss = {(c, i) |i. st i})"

definition conn_rel :: "bool \<Rightarrow> open_set \<Rightarrow> (nat \<Rightarrow> bool) \<Rightarrow> bool" where
  "conn_rel f os st \<longleftrightarrow> (\<exists>cs. os = (f, cs, []) \<and> set cs = {i. st i})"

interpretation streams: task_resources "stream_local c" "stream_rel f c" for c f
proof unfold_locales
  fix os st i e b
  assume "stream_rel f c os st" and l: "stream_local c i e (st i) = Some b"
  then obtain ss where os: "os = (f, [c], ss)" and ss: "set ss = {(c, i) |i. st i}"
    by (auto simp: stream_rel_def)
  show "\<exists>os'. track e (Some os) = Some os' \<and> stream_rel f c os' (st(i := b))"
    using l by (cases e) (auto simp: os ss stream_rel_def split: if_splits)
qed

interpretation conns: task_resources conn_local "conn_rel f" for f
proof unfold_locales
  fix os st i e b
  assume "conn_rel f os st" and l: "conn_local i e (st i) = Some b"
  then obtain cs where os: "os = (f, cs, [])" and cs: "set cs = {i. st i}"
    by (auto simp: conn_rel_def)
  show "\<exists>os'. track e (Some os) = Some os' \<and> conn_rel f os' (st(i := b))"
    using l by (cases e) (auto simp: os cs conn_rel_def split: if_splits)
qed

lemma stream_rel_closed [simp]: "stream_rel f c os (\<lambda>_. False) \<longleftrightarrow> os = (f, [c], [])"
  by (auto simp: stream_rel_def)

lemma conn_rel_closed [simp]: "conn_rel f os (\<lambda>_. False) \<longleftrightarrow> os = (f, [], [])"
  by (auto simp: conn_rel_def)



section \<open>parallel_bench.go\<close>

text \<open>
  The goroutine of a stream and of a connection: the results of \<open>writeMsg\<close> and \<open>readMsg\<close> are ignored.
\<close>

definition parallel_exchange :: "link \<Rightarrow> endpoint \<Rightarrow> bytes \<Rightarrow> bench_event list" where
  "parallel_exchange l ep payload =
     (if lk_write l 0 = None then [SentOn ep (writeMsg payload)] else [])
     @ (case readMsg (lk_in l) (lk_end l) of (Inl _, _) \<Rightarrow> [] | (Inr resp, _) \<Rightarrow> [GotFrom ep resp])"

definition parallel_stream_task :: "(nat \<Rightarrow> link) \<Rightarrow> bytes \<Rightarrow> nat \<Rightarrow> bench_event list" where
  "parallel_stream_task streams payload idx =
     (case lk_open (streams idx) of
        Some _ \<Rightarrow> []
      | None \<Rightarrow>
          StreamOpened 0 idx # parallel_exchange (streams idx) (Quic 0 idx) payload @ [StreamClosed 0 idx])"

definition parallel_conn_task :: "bench_net \<Rightarrow> bytes \<Rightarrow> nat \<Rightarrow> bench_event list" where
  "parallel_conn_task N payload idx =
     (case bn_dial N idx of
        Inl _ \<Rightarrow> []
      | Inr l \<Rightarrow> Dialled idx False # parallel_exchange l (Tcp idx) payload @ [ConnClosed idx])"

text \<open>The slot of the results a goroutine fills: what failed to open leaves zero, what failed later does not.\<close>

definition parallel_stream_result :: "(nat \<Rightarrow> link) \<Rightarrow> (nat \<Rightarrow> time) \<Rightarrow> nat \<Rightarrow> time" where
  "parallel_stream_result streams elapsed idx = (if lk_open (streams idx) = None then elapsed idx else 0)"

definition parallel_conn_result :: "bench_net \<Rightarrow> (nat \<Rightarrow> time) \<Rightarrow> nat \<Rightarrow> time" where
  "parallel_conn_result N elapsed idx = (case bn_dial N idx of Inl _ \<Rightarrow> 0 | Inr _ \<Rightarrow> elapsed idx)"

definition parallel_report :: "string \<Rightarrow> int \<Rightarrow> nat \<Rightarrow> time \<Rightarrow> time list \<Rightarrow> bench_event" where
  "parallel_report label sz parallel whole results =
     (if parallel = 0 then Crashed
      else Heading label [] [sz, int parallel, whole, sum_list results div int parallel])"

text \<open>
  The clients: \<open>zs\<close> is the schedule of the goroutines, \<open>elapsed\<close> the times they measure and \<open>whole\<close>
  the time until the last one is done.
\<close>

definition parallel_runQUICClient ::
  "bench_net \<Rightarrow> (nat \<Rightarrow> link) \<Rightarrow> (nat \<Rightarrow> time) \<Rightarrow> time \<Rightarrow> (nat \<times> bench_event) list \<Rightarrow> int \<Rightarrow> int \<Rightarrow> bench_event list" where
  "parallel_runQUICClient N streams elapsed whole zs sz parallel =
     (case bn_dial N 0 of
        Inl e \<Rightarrow> [labelled ''Dial error'' e]
      | Inr _ \<Rightarrow>
          [Dialled 0 False]
          @ (if parallel_makePayload 1 sz = None \<or> parallel < 0 then [Crashed]
             else map snd zs @
               [parallel_report ''QUIC parallel'' sz (nat parallel) whole
                  (map (parallel_stream_result streams elapsed) [0..<nat parallel])])
          @ [ConnClosed 0])"

definition parallel_runTCPClient ::
  "bench_net \<Rightarrow> (nat \<Rightarrow> time) \<Rightarrow> time \<Rightarrow> (nat \<times> bench_event) list \<Rightarrow> int \<Rightarrow> int \<Rightarrow> bench_event list" where
  "parallel_runTCPClient N elapsed whole zs sz parallel =
     (if parallel_makePayload 1 sz = None \<or> parallel < 0 then [Crashed]
      else map snd zs @
        [parallel_report ''TCP parallel'' sz (nat parallel) whole
           (map (parallel_conn_result N elapsed) [0..<nat parallel])])"

datatype parallel_action =
    ParallelUsage
  | ParallelServe bool string
  | ParallelClient bool string string int int
  | ParallelNothing

definition parallel_main :: "string \<Rightarrow> string list \<Rightarrow> parallel_action" where
  "parallel_main proto args =
     (if args = [] then ParallelUsage
      else if args ! 0 = ''server'' then ParallelServe (proto = ''tcp'') (arg_or args 1 ''9200'')
      else if args ! 0 = ''client''
      then ParallelClient (proto = ''tcp'') (arg_or args 1 ''127.0.0.1'') (arg_or args 2 ''9200'')
             (number_or args 3 64) (number_or args 4 8)
      else ParallelNothing)"


section \<open>multiplex_bench.go\<close>

text \<open>A goroutine that reports its errors; \<open>what\<close> is the word in its messages.\<close>

definition task_error :: "string \<Rightarrow> nat \<Rightarrow> string \<Rightarrow> string \<Rightarrow> bench_event" where
  "task_error what idx kind e = labelled (''  ['' @ what @ '' '' @ nat_str (idx + 1) @ ''] '' @ kind @ '' error'') e"

definition multiplex_exchange :: "link \<Rightarrow> endpoint \<Rightarrow> string \<Rightarrow> nat \<Rightarrow> int \<Rightarrow> bench_event list" where
  "multiplex_exchange l ep what idx sz =
     (case multiplex_makePayload (idx + 1) sz of
        None \<Rightarrow> [Crashed]
      | Some payload \<Rightarrow>
          (case lk_write l 0 of
             Some e \<Rightarrow> [task_error what idx ''Write'' e]
           | None \<Rightarrow>
               SentOn ep (writeMsg payload) #
               (case readMsg (lk_in l) (lk_end l) of
                  (Inl e, _) \<Rightarrow> [task_error what idx ''Read'' (read_err_text e)]
                | (Inr resp, _) \<Rightarrow> [GotFrom ep resp])))"

definition multiplex_answered :: "link \<Rightarrow> bool" where
  "multiplex_answered l \<longleftrightarrow> lk_write l 0 = None \<and> isl (fst (readMsg (lk_in l) (lk_end l))) = False"

definition multiplex_stream_task :: "(nat \<Rightarrow> link) \<Rightarrow> int \<Rightarrow> nat \<Rightarrow> bench_event list" where
  "multiplex_stream_task streams sz idx =
     (case lk_open (streams idx) of
        Some e \<Rightarrow> [task_error ''stream'' idx ''OpenStream'' e]
      | None \<Rightarrow>
          StreamOpened 0 idx # multiplex_exchange (streams idx) (Quic 0 idx) ''stream'' idx sz @ [StreamClosed 0 idx])"

definition multiplex_conn_task :: "(nat \<Rightarrow> string + link) \<Rightarrow> int \<Rightarrow> nat \<Rightarrow> bench_event list" where
  "multiplex_conn_task dial sz idx =
     (case dial idx of
        Inl e \<Rightarrow> [task_error ''conn'' idx ''Dial'' e]
      | Inr l \<Rightarrow> Dialled idx False # multiplex_exchange l (Tcp idx) ''conn'' idx sz @ [ConnClosed idx])"

definition multiplex_stream_result :: "(nat \<Rightarrow> link) \<Rightarrow> (nat \<Rightarrow> time) \<Rightarrow> nat \<Rightarrow> time" where
  "multiplex_stream_result streams elapsed idx =
     (if lk_open (streams idx) = None \<and> multiplex_answered (streams idx) then elapsed idx else 0)"

definition multiplex_conn_result :: "(nat \<Rightarrow> string + link) \<Rightarrow> (nat \<Rightarrow> time) \<Rightarrow> nat \<Rightarrow> time" where
  "multiplex_conn_result dial elapsed idx =
     (case dial idx of Inl _ \<Rightarrow> 0 | Inr l \<Rightarrow> if multiplex_answered l then elapsed idx else 0)"


text \<open>
  \<open>printResults\<close>: one line per result, where zero stands for an error, then minimum, maximum and sum
  of the others, kept in variables that start at zero.
\<close>

record multiplex_stats =
  ms_valid :: nat
  ms_min :: time
  ms_max :: time
  ms_sum :: time

definition multiplex_scan :: "time \<Rightarrow> multiplex_stats \<Rightarrow> multiplex_stats" where
  "multiplex_scan d m =
     (if d = 0 then m
      else \<lparr>ms_valid = Suc (ms_valid m),
            ms_min = (if ms_min m = 0 \<or> d < ms_min m then d else ms_min m),
            ms_max = (if ms_max m = 0 \<or> ms_max m < d then d else ms_max m),
            ms_sum = ms_sum m + d\<rparr>)"

definition multiplex_stats_of :: "time list \<Rightarrow> multiplex_stats" where
  "multiplex_stats_of results = fold multiplex_scan results \<lparr>ms_valid = 0, ms_min = 0, ms_max = 0, ms_sum = 0\<rparr>"

definition multiplex_p50 :: "time list \<Rightarrow> time" where
  "multiplex_p50 results =
     (let sorted = sort (filter (\<lambda>d. 0 < d) results)
      in if sorted = [] then 0 else sorted ! (length sorted div 2))"

fun result_lines :: "nat \<Rightarrow> time list \<Rightarrow> bench_event list" where
  "result_lines i [] = []"
| "result_lines i (d # ds) =
     (if d = 0 then Said (''  ['' @ nat_str (i + 1) @ ''] ERROR (see above)'' @ [newline])
      else Heading ''RTT'' [] [int i + 1, d]) # result_lines (Suc i) ds"

text \<open>\<open>msf\<close> with \<open>%.3f\<close>: whole microseconds as a decimal number of milliseconds.\<close>

definition ms_text :: "time \<Rightarrow> string" where
  "ms_text d = (let us = nat (d div 1000) in nat_str (us div 1000) @ ''.'' @ three_digits (us mod 1000))"

definition csv_line :: "string list \<Rightarrow> string" where
  "csv_line fs = join_with (CHR '','') fs @ [newline]"

definition multiplex_printResults ::
  "bool \<Rightarrow> string \<Rightarrow> nat \<Rightarrow> int \<Rightarrow> time option \<Rightarrow> time list \<Rightarrow> time \<Rightarrow> bench_event list" where
  "multiplex_printResults csv proto n sz dialTime results whole =
     (let m = multiplex_stats_of results; p50 = multiplex_p50 results; avg = ms_sum m div int (ms_valid m)
      in [Heading (proto @ '' MULTIPLEX'') [] ([int n, sz] @ (case dialTime of None \<Rightarrow> [] | Some d \<Rightarrow> [d]))]
         @ result_lines 0 results
         @ (if 0 < ms_valid m then [Heading ''min p50 max avg'' [] [ms_min m, p50, ms_max m, avg]] else [])
         @ [Heading ''TOTAL_ELAPSED'' [] [whole]]
         @ (if csv \<and> 0 < ms_valid m
            then [Said (csv_line [''CSV'', to_lower proto, nat_str n, int_str sz, ms_text (ms_min m), ms_text p50,
                    ms_text (ms_max m), ms_text avg, ms_text whole])]
            else []))"

text \<open>The warm-up on a link: its errors are ignored, but a stream that did not open is a nil dereference.\<close>

definition warmup_stream :: "link \<Rightarrow> bench_event list" where
  "warmup_stream w =
     (if lk_open w \<noteq> None then [Crashed]
      else StreamOpened 0 0 # parallel_exchange w (Quic 0 0) (the (multiplex_makePayload 0 64)) @ [StreamClosed 0 0])"

text \<open>
  The two modes, with the answers of the network, the measured times and the schedule of the
  goroutines; the first dial is the warm-up.  Numbers of closed connections are used again.
\<close>

definition runQUICMultiplex ::
  "bench_net \<Rightarrow> (nat \<Rightarrow> link) \<Rightarrow> (nat \<Rightarrow> time) \<Rightarrow> time \<Rightarrow> time \<Rightarrow> (nat \<times> bench_event) list \<Rightarrow>
   bool \<Rightarrow> int \<Rightarrow> int \<Rightarrow> bench_event list" where
  "runQUICMultiplex N streams elapsed dialTime whole zs csv n sz =
     (case bn_dial N 0 of
        Inl e \<Rightarrow> [labelled ''Warmup dial error'' e]
      | Inr w \<Rightarrow>
          [Dialled 0 False] @ warmup_stream w @ [ConnClosed 0]
          @ (case bn_dial N 1 of
               Inl e \<Rightarrow> [labelled ''DialAddr error'' e]
             | Inr _ \<Rightarrow>
                 [Dialled 0 False]
                 @ (if n < 0 then [Crashed]
                    else map snd zs @ [ConnClosed 0]
                      @ multiplex_printResults csv ''QUIC'' (nat n) sz (Some dialTime)
                          (map (multiplex_stream_result streams elapsed) [0..<nat n]) whole)))"

definition runTCPMultiplex ::
  "bench_net \<Rightarrow> (nat \<Rightarrow> time) \<Rightarrow> time \<Rightarrow> (nat \<times> bench_event) list \<Rightarrow> bool \<Rightarrow> int \<Rightarrow> int \<Rightarrow> bench_event list" where
  "runTCPMultiplex N elapsed whole zs csv n sz =
     (case bn_dial N 0 of
        Inl e \<Rightarrow> [labelled ''Warmup dial error'' e]
      | Inr w \<Rightarrow>
          [Dialled 0 False] @ parallel_exchange w (Tcp 0) (the (multiplex_makePayload 0 64)) @ [ConnClosed 0]
          @ (if n < 0 then [Crashed]
             else map snd zs
               @ multiplex_printResults csv ''TCP'' (nat n) sz None
                   (map (multiplex_conn_result (\<lambda>i. bn_dial N (Suc i)) elapsed) [0..<nat n]) whole))"

definition emit_all :: "bench_event list \<Rightarrow> bench \<Rightarrow> bench" where
  "emit_all es st = fold emit es st"

lemma left_open_emit_all [simp]: "left_open (emit_all es st) = fold track es (left_open st)"
  unfolding emit_all_def by (induction es arbitrary: st) simp_all

text \<open>\<open>main\<close>: the flags, then one of the two modes between opening and closing the key log.\<close>

definition multiplex_main ::
  "bench_net \<Rightarrow> (nat \<Rightarrow> link) \<Rightarrow> (nat \<Rightarrow> time) \<Rightarrow> time \<Rightarrow> time \<Rightarrow> (nat \<times> bench_event) list \<Rightarrow>
   bool \<Rightarrow> string \<Rightarrow> int \<Rightarrow> int \<Rightarrow> bench" where
  "multiplex_main N streams elapsed dialTime whole zs csv proto n sz =
     with_keylog multiplex_openKeyLog N
       (emit_all
          (if proto = ''quic'' then runQUICMultiplex N streams elapsed dialTime whole zs csv n sz
           else if proto = ''tcp'' then runTCPMultiplex N elapsed whole zs csv n sz
           else [Said (''Unknown proto '' @ proto @ [newline])]))"


section \<open>Nothing stays open, in any order\<close>

lemma exchange_local:
  "local_run (stream_local 0) i (parallel_exchange l (Quic 0 i) p @ es) True = local_run (stream_local 0) i es True"
  "local_run conn_local i (parallel_exchange l (Tcp i) p @ es) True = local_run conn_local i es True"
  by (auto simp: parallel_exchange_def split: prod.split sum.split)

lemma parallel_tasks_local:
  "local_run (stream_local 0) i (parallel_stream_task streams p i) False = Some False"
  "local_run conn_local i (parallel_conn_task N p i) False = Some False"
  by (auto simp: parallel_stream_task_def parallel_conn_task_def exchange_local split: option.split sum.split)

lemma multiplex_tasks_local:
  assumes "0 \<le> sz"
  shows "local_run (stream_local 0) i (multiplex_stream_task streams sz i) False = Some False"
    and "local_run conn_local i (multiplex_conn_task dial sz i) False = Some False"
proof -
  obtain p where p: "multiplex_makePayload (Suc i) sz = Some p"
    using makePayload_ex(3) [OF assms] by blast
  have "local_run (stream_local 0) i (multiplex_exchange l (Quic 0 i) w i sz @ es) True = local_run (stream_local 0) i es True"
    "local_run conn_local i (multiplex_exchange l (Tcp i) w i sz @ es) True = local_run conn_local i es True" for l w es
    using p by (auto simp: multiplex_exchange_def task_error_def labelled_def split: option.split prod.split sum.split)
  then show "local_run (stream_local 0) i (multiplex_stream_task streams sz i) False = Some False"
    and "local_run conn_local i (multiplex_conn_task dial sz i) False = Some False"
    by (auto simp: multiplex_stream_task_def multiplex_conn_task_def task_error_def labelled_def
        split: option.split sum.split)
qed

lemma streams_scheduled:
  assumes "schedule_of n task zs" and "\<And>i. local_run (stream_local 0) i (task i) False = Some False"
  shows "fold track (map snd zs) (Some (f, [0], [])) = Some (f, [0], [])"
  using streams.scheduled [OF assms(1), of f 0 "(f, [0], [])"] assms(2) by auto

lemma conns_scheduled:
  assumes "schedule_of n task zs" and "\<And>i. local_run conn_local i (task i) False = Some False"
  shows "fold track (map snd zs) (Some (f, [], [])) = Some (f, [], [])"
  using conns.scheduled [OF assms(1), of f "(f, [], [])"] assms(2) by auto


lemma track_result_lines [simp]: "fold track (result_lines i ds) (Some os) = Some os"
  by (induction ds arbitrary: i) simp_all

lemma track_printResults [simp]:
  "fold track (multiplex_printResults csv proto n sz t results whole) (Some os) = Some os"
  by (simp add: multiplex_printResults_def Let_def)

lemma track_exchange [simp]:
  "endpoint_open ep os \<Longrightarrow> fold track (parallel_exchange l ep p) (Some os) = Some os"
  by (simp add: parallel_exchange_def split: prod.split sum.split)

lemma quic_multiplex_open:
  assumes "0 \<le> sz" and "0 \<le> n" and "schedule_of (nat n) (multiplex_stream_task streams sz) zs"
    and "\<And>w. bn_dial N 0 = Inr w \<Longrightarrow> lk_open w = None"
  shows "fold track (runQUICMultiplex N streams elapsed dialTime whole zs csv n sz) (Some (f, [], [])) = Some (f, [], [])"
  using streams_scheduled [OF assms(3) multiplex_tasks_local(1) [OF assms(1)]] assms(2,4)
  by (auto simp: runQUICMultiplex_def warmup_stream_def split: sum.split)

lemma tcp_multiplex_open:
  assumes "0 \<le> sz" and "0 \<le> n" and "schedule_of (nat n) (multiplex_conn_task (\<lambda>i. bn_dial N (Suc i)) sz) zs"
  shows "fold track (runTCPMultiplex N elapsed whole zs csv n sz) (Some (f, [], [])) = Some (f, [], [])"
  using conns_scheduled [OF assms(3) multiplex_tasks_local(2) [OF assms(1)]] assms(2)
  by (auto simp: runTCPMultiplex_def split: sum.split)


definition two_streams :: "nat \<Rightarrow> link" where
  "two_streams i = (if i = 0 then demo_link else \<lparr>lk_open = None, lk_write = (\<lambda>_. None), lk_in = [], lk_end = NetErr ''timeout''\<rparr>)"

text \<open>Two goroutines that take turns.\<close>

definition two_schedule :: "(nat \<times> bench_event) list" where
  "two_schedule =
     (let a = multiplex_stream_task two_streams 64 0; b = multiplex_stream_task two_streams 64 1
      in [(0, a ! 0), (1, b ! 0), (1, b ! 1), (0, a ! 1), (0, a ! 2), (1, b ! 2), (0, a ! 3), (1, b ! 3)])"


lemma parallel_clients_open:
  assumes "0 \<le> sz" and "1 \<le> n"
  shows "schedule_of (nat n) (parallel_stream_task streams (the (parallel_makePayload 1 sz))) zs \<Longrightarrow>
      fold track (parallel_runQUICClient N streams elapsed whole zs sz n) (Some (f, [], [])) = Some (f, [], [])"
    and "schedule_of (nat n) (parallel_conn_task N (the (parallel_makePayload 1 sz))) zs \<Longrightarrow>
      fold track (parallel_runTCPClient N elapsed whole zs sz n) (Some (f, [], [])) = Some (f, [], [])"
proof -
  obtain p where p: "parallel_makePayload 1 sz = Some p"
    using makePayload_ex(5) [OF assms(1)] by blast
  show "schedule_of (nat n) (parallel_stream_task streams (the (parallel_makePayload 1 sz))) zs \<Longrightarrow>
      fold track (parallel_runQUICClient N streams elapsed whole zs sz n) (Some (f, [], [])) = Some (f, [], [])"
    using streams_scheduled [where task = "parallel_stream_task streams p" and n = "nat n" and zs = zs and f = f,
        OF _ parallel_tasks_local(1)] p assms(2)
    by (auto simp: parallel_runQUICClient_def parallel_report_def split: sum.split)
  show "schedule_of (nat n) (parallel_conn_task N (the (parallel_makePayload 1 sz))) zs \<Longrightarrow>
      fold track (parallel_runTCPClient N elapsed whole zs sz n) (Some (f, [], [])) = Some (f, [], [])"
    using conns_scheduled [where task = "parallel_conn_task N p" and n = "nat n" and zs = zs and f = f,
        OF _ parallel_tasks_local(2)] p assms(2)
    by (auto simp: parallel_runTCPClient_def parallel_report_def)
qed

text \<open>A number of streams that is no number is zero, and the mean divides by it.\<close>

lemma parallel_zero_panics:
  assumes "0 \<le> sz"
  shows "Crashed \<in> set (parallel_runTCPClient N elapsed whole zs sz 0)"
  using makePayload_ex(5) [OF assms, of 1] by (auto simp: parallel_runTCPClient_def parallel_report_def)

text \<open>The warm-up of the QUIC mode uses its stream without looking at the error.\<close>

lemma multiplex_warmup_panics:
  assumes "bn_dial N 0 = Inr w" and "lk_open w = Some e"
  shows "Crashed \<in> set (runQUICMultiplex N streams elapsed dialTime whole zs csv n sz)"
  using assms by (simp add: runQUICMultiplex_def warmup_stream_def)



section \<open>The statistics of multiplex_bench.go\<close>

abbreviation answered :: "time list \<Rightarrow> time list" where
  "answered results \<equiv> filter (\<lambda>d. d \<noteq> 0) results"

lemma multiplex_stats_snoc: "multiplex_stats_of (ds @ [d]) = multiplex_scan d (multiplex_stats_of ds)"
  by (simp add: multiplex_stats_of_def)

lemma multiplex_stats_scan:
  assumes "\<forall>d \<in> set results. 0 \<le> d"
  shows "ms_valid (multiplex_stats_of results) = length (answered results) \<and>
    ms_sum (multiplex_stats_of results) = sum_list (answered results) \<and>
    (if answered results = [] then ms_min (multiplex_stats_of results) = 0 \<and> ms_max (multiplex_stats_of results) = 0
     else ms_min (multiplex_stats_of results) = Min (set (answered results)) \<and>
       ms_max (multiplex_stats_of results) = Max (set (answered results)))"
  using assms
proof (induction results rule: rev_induct)
  case Nil
  then show ?case by (simp add: multiplex_stats_of_def)
next
  case (snoc d ds)
  show ?case
  proof (cases "d = 0 \<or> answered ds = []")
    case True
    then show ?thesis
      using snoc by (auto simp: multiplex_stats_snoc multiplex_scan_def simp del: set_filter)
  next
    case False
    let ?S = "set (answered ds)"
    have S: "finite ?S" "?S \<noteq> {}" using False by (simp_all del: set_filter)
    have "0 < x" if "x \<in> ?S" for x using that snoc.prems by force
    then have "0 < Min ?S" "0 < Max ?S" using Min_in [OF S] Max_in [OF S] by blast+
    then obtain mn mx where m: "Min ?S = mn" "Max ?S = mx" "0 < mn" "0 < mx" by blast
    have ins: "set (answered (ds @ [d])) = insert d ?S" "answered (ds @ [d]) = answered ds @ [d]" using False by auto
    have up: "Min (insert d ?S) = min d mn" "Max (insert d ?S) = max d mx"
      using S m(1,2) by (simp_all del: set_filter)
    have ih: "ms_valid (multiplex_stats_of ds) = length (answered ds)"
      "ms_sum (multiplex_stats_of ds) = sum_list (answered ds)"
      "ms_min (multiplex_stats_of ds) = mn" "ms_max (multiplex_stats_of ds) = mx"
      using snoc.IH snoc.prems False m(1,2) by (simp_all del: set_filter)
    show ?thesis
      unfolding ins(1) up using m(3,4) False ih by (simp add: multiplex_stats_snoc multiplex_scan_def min_def max_def)
  qed
qed



end
