(* ===== verification/Bench_Zero.thy ===== *)
theory Bench_Zero
  imports Bench_Multi
begin

text \<open>
  \<open>quic_0rtt.go\<close>: the echo server, the two measuring loops, the statistics and the CSV file, and the
  bulk programs \<open>quic_bench.go\<close>, \<open>bulk_warm.go\<close>, \<open>tcp_bench.go\<close> and \<open>tcp_tls_bench.go\<close>.

  The \<open>float64\<close> of the statistics are real numbers here.  \<open>StreamClosed\<close> in the traces of this
  theory is \<open>stream.Close\<close>, which closes the sending side only.
\<close>

section \<open>The echo server of quic_0rtt.go\<close>

text \<open>
  \<open>echoStream\<close>: everything up to the end of the stream is written back, and the stream is closed; an
  error of the read ends it at once.  \<open>wr\<close> is the answer to the write, which is ignored.
\<close>

definition echoStream :: "nat \<Rightarrow> bytes \<Rightarrow> read_err \<Rightarrow> string option \<Rightarrow> bench_event list" where
  "echoStream c s e wr =
     (if e \<noteq> EOF then []
      else (if s \<noteq> [] \<and> wr = None then [SentOn (Quic c 0) s] else []) @ [StreamClosed c 0])"

text \<open>
  The goroutine of an accepted connection: a line about resumption, one stream, and the close; without
  a stream the connection is left as it is.
\<close>

definition zero_serve_conn :: "nat \<Rightarrow> bool \<Rightarrow> (bytes \<times> read_err \<times> string option) option \<Rightarrow> bench_event list" where
  "zero_serve_conn c resumed stream =
     Said (if resumed then ''>> Server accepted 0-RTT (Resumed) connection'' @ [newline]
           else ''>> Server accepted 1-RTT (New) connection'' @ [newline]) #
     (case stream of
        None \<Rightarrow> []
      | Some (s, e, wr) \<Rightarrow> StreamOpened c 0 # echoStream c s e wr @ [ConnClosed c])"

text \<open>\<open>runServer\<close>: a failing \<open>Listen\<close> panics; connection number \<open>i\<close> is the i-th that was accepted.\<close>

definition zero_runServer ::
  "string option \<Rightarrow> (string + bool \<times> (bytes \<times> read_err \<times> string option) option) list \<Rightarrow> bench_event list list" where
  "zero_runServer listenErr as =
     (if listenErr \<noteq> None then [[Crashed]]
      else map (\<lambda>(i, a). case a of Inl _ \<Rightarrow> [] | Inr (resumed, stream) \<Rightarrow>
             Dialled i resumed # zero_serve_conn i resumed stream) (enumerate 0 as))"


section \<open>The measuring loops\<close>

record measurement =
  dialReturn :: time
  handshake :: time
  dataSent :: time
  firstResp :: time
  used0RTT :: bool

text \<open>
  What one attempt meets: the answers to dial, handshake (false is the five seconds' timeout), stream
  and read, and the times measured from the start of the attempt.
\<close>

record rtt_attempt =
  ra_dial :: "string option"
  ra_handshake :: bool
  ra_open :: "string option"
  ra_write :: "string option"
  ra_read :: "read_err option"
  ra_times :: measurement

definition numIterations :: nat where
  "numIterations = 10"

definition attempt_line :: "string \<Rightarrow> nat \<Rightarrow> string \<Rightarrow> bench_event" where
  "attempt_line mode i what = Said (''  ['' @ mode @ '' '' @ nat_str i @ ''] '' @ what @ [newline])"

text \<open>The payload goes out on the stream, which is closed; an error of the write is ignored.\<close>

definition send_hello :: "nat \<Rightarrow> rtt_attempt \<Rightarrow> bench_event list" where
  "send_hello i a =
     StreamOpened i 0 # (if ra_write a = None then [SentOn (Quic i 0) ''Hello''] else []) @ [StreamClosed i 0]"

text \<open>An error of the read other than the end of file is printed; the measurement counts all the same.\<close>

definition read_echo :: "string \<Rightarrow> nat \<Rightarrow> rtt_attempt \<Rightarrow> bench_event list" where
  "read_echo mode i a =
     (case ra_read a of
        Some (NetErr e) \<Rightarrow> [attempt_line mode i (''read echo failed: '' @ e)]
      | Some UnexpectedEOF \<Rightarrow> [attempt_line mode i (''read echo failed: '' @ read_err_text UnexpectedEOF)]
      | _ \<Rightarrow> [])"

definition attempt_1rtt :: "nat \<Rightarrow> rtt_attempt \<Rightarrow> measurement list \<times> bench_event list" where
  "attempt_1rtt i a =
     (case ra_dial a of
        Some e \<Rightarrow> ([], [attempt_line ''1-RTT'' i (''dial failed: '' @ e)])
      | None \<Rightarrow>
          if \<not> ra_handshake a
          then ([], [Dialled i False, attempt_line ''1-RTT'' i ''handshake timeout'', ConnClosed i])
          else (case ra_open a of
                  Some e \<Rightarrow> ([], [Dialled i False, attempt_line ''1-RTT'' i (''open stream failed: '' @ e), ConnClosed i])
                | None \<Rightarrow>
                    ([(ra_times a)\<lparr>used0RTT := False\<rparr>],
                     Dialled i False # send_hello i a @ read_echo ''1-RTT'' i a @ [ConnClosed i])))"

definition attempt_0rtt :: "nat \<Rightarrow> rtt_attempt \<Rightarrow> measurement list \<times> bench_event list" where
  "attempt_0rtt i a =
     (case ra_dial a of
        Some e \<Rightarrow> ([], [attempt_line ''0-RTT'' i (''dial failed: '' @ e)])
      | None \<Rightarrow>
          (case ra_open a of
             Some e \<Rightarrow> ([], [Dialled i True, attempt_line ''0-RTT'' i (''open stream failed: '' @ e), ConnClosed i])
           | None \<Rightarrow>
               if \<not> ra_handshake a
               then ([], Dialled i True # send_hello i a @
                       [attempt_line ''0-RTT'' i ''handshake timeout'', ConnClosed i])
               else ([ra_times a],
                     Dialled i True # send_hello i a @ read_echo ''0-RTT'' i a @ [ConnClosed i])))"

definition rtt_loop ::
  "(nat \<Rightarrow> rtt_attempt \<Rightarrow> measurement list \<times> bench_event list) \<Rightarrow> (nat \<Rightarrow> rtt_attempt) \<Rightarrow>
   measurement list \<times> bench_event list" where
  "rtt_loop attempt as =
     (let rs = map (\<lambda>i. attempt i (as i)) [0..<numIterations]
      in (concat (map fst rs), concat (map snd rs)))"

definition run1RTTLoop :: "(nat \<Rightarrow> rtt_attempt) \<Rightarrow> measurement list \<times> bench_event list" where
  "run1RTTLoop as = rtt_loop attempt_1rtt as"

definition run0RTTLoop :: "(nat \<Rightarrow> rtt_attempt) \<Rightarrow> measurement list \<times> bench_event list" where
  "run0RTTLoop as = rtt_loop attempt_0rtt as"


section \<open>Statistics\<close>

text \<open>Student's t for a sample of \<open>n\<close>, as the table has it.\<close>

definition tCrit :: "nat \<Rightarrow> real" where
  "tCrit n =
     (if n \<le> 2 then 12.706 else if n = 3 then 4.303 else if n = 4 then 3.182 else if n = 5 then 2.776
      else if n \<le> 7 then 2.447 else if n \<le> 9 then 2.306 else 2.262)"

definition real_mean :: "real list \<Rightarrow> real" where
  "real_mean xs = sum_list xs / real (length xs)"

text \<open>The standard deviation of a sample.\<close>

definition real_stddev :: "real list \<Rightarrow> real" where
  "real_stddev xs =
     sqrt (sum_list (map (\<lambda>v. (v - real_mean xs) * (v - real_mean xs)) xs) / real (length xs - 1))"

text \<open>\<open>stats\<close>: the conversion to a duration drops the fraction.\<close>

definition stats :: "time list \<Rightarrow> time \<times> time" where
  "stats durations =
     (let valid = map real_of_int (filter (\<lambda>d. 0 < d) durations); n = length valid
      in if n = 0 then (0, 0)
         else if n = 1 then (\<lfloor>real_mean valid\<rfloor>, 0)
         else (\<lfloor>real_mean valid\<rfloor>, \<lfloor>tCrit n * real_stddev valid / sqrt (real n)\<rfloor>))"

text \<open>\<open>meanAndCI\<close> of the CSV file: whole microseconds, and the critical value of ten samples always.\<close>

definition tCrit95df9 :: real where
  "tCrit95df9 = 2.262"

definition meanAndCI :: "int list \<Rightarrow> real \<times> real" where
  "meanAndCI samples =
     (let xs = map real_of_int samples
      in if xs = [] then (0, 0)
         else if length xs < 2 then (real_mean xs, 0)
         else (real_mean xs, real_stddev xs * tCrit95df9 / sqrt (real (length xs))))"

text \<open>\<open>fmtDuration\<close>: the unit and the number of decimals.\<close>

datatype duration_text = NotAvailable | Micros1 time | Micros0 time | Millis1 time | Secs2 time

definition fmtDuration :: "time \<Rightarrow> duration_text" where
  "fmtDuration d =
     (if d \<le> 0 then NotAvailable
      else if d < 10 * 1000 then Micros1 d
      else if d < milliseconds 1 then Micros0 d
      else if d < seconds 1 then Millis1 d
      else Secs2 d)"

text \<open>\<open>printRow\<close>: per mode the mean and, when positive, the margin.\<close>

definition printRow :: "string \<Rightarrow> time list \<Rightarrow> time list \<Rightarrow>
    string \<times> (duration_text \<times> duration_text option) \<times> (duration_text \<times> duration_text option)" where
  "printRow name rtt1 rtt0 =
     (let cell = (\<lambda>ds. case stats ds of (m, c) \<Rightarrow> (fmtDuration m, if 0 < c then Some (fmtDuration c) else None))
      in (name, cell rtt1, cell rtt0))"

text \<open>\<open>printResultsTable\<close>: the four rows and how many connections used 0-RTT.\<close>

definition printResultsTable ::
  "measurement list \<Rightarrow> measurement list \<Rightarrow>
    (string \<times> (duration_text \<times> duration_text option) \<times> (duration_text \<times> duration_text option)) list \<times> nat \<times> nat" where
  "printResultsTable rtt1 rtt0 =
     ([printRow ''local dial return'' (map dialReturn rtt1) (map dialReturn rtt0),
       printRow ''handshake complete'' (map handshake rtt1) (map handshake rtt0),
       printRow ''first app-data sent'' (map dataSent rtt1) (map dataSent rtt0),
       printRow ''first response byte'' (map firstResp rtt1) (map firstResp rtt0)],
      length (filter used0RTT rtt0), length rtt0)"


section \<open>The CSV file\<close>

datatype csv_row = CsvHeader | CsvRow string string real real nat

definition metrics :: "(string \<times> (measurement \<Rightarrow> time)) list" where
  "metrics = [(''local_dial_return'', dialReturn), (''handshake_complete'', handshake),
     (''first_app_data_sent'', dataSent), (''first_response_byte'', firstResp)]"

definition metric_row :: "string \<Rightarrow> measurement list \<Rightarrow> string \<times> (measurement \<Rightarrow> time) \<Rightarrow> csv_row list" where
  "metric_row proto rtt m =
     (let samples = map (\<lambda>x. snd m x div 1000) rtt
      in if samples = [] then []
         else [CsvRow proto (fst m) (fst (meanAndCI samples)) (snd (meanAndCI samples)) (length samples)])"

text \<open>\<open>writeCSV\<close>, with the errors of \<open>os.Create\<close> and of the writes.\<close>

definition zero_writeCSV ::
  "string option \<Rightarrow> (nat \<Rightarrow> string option) \<Rightarrow> measurement list \<Rightarrow> measurement list \<Rightarrow> string option \<times> csv_row list" where
  "zero_writeCSV createErr werr rtt1 rtt0 =
     (case createErr of
        Some e \<Rightarrow> (Some e, [])
      | None \<Rightarrow>
          write_rows werr 0
            (CsvHeader # concat (map (metric_row ''1-RTT'' rtt1) metrics) @ concat (map (metric_row ''0-RTT'' rtt0) metrics)))"

text \<open>
  \<open>runClient\<close>: a warm-up connection with one message, whose stream is used without a look at the
  error, then the two loops.
\<close>

definition zero_warmup :: "rtt_attempt \<Rightarrow> bench_event list" where
  "zero_warmup a =
     (case ra_dial a of
        Some e \<Rightarrow> [Said (''Warm-up dial failed: '' @ e @ [newline])]
      | None \<Rightarrow>
          if ra_open a \<noteq> None then [Dialled 0 False, Crashed]
          else [Dialled 0 False, StreamOpened 0 0]
            @ (if ra_write a = None then [SentOn (Quic 0 0) ''ping''] else []) @ [StreamClosed 0 0, ConnClosed 0])"

definition zero_runClient ::
  "rtt_attempt \<Rightarrow> (nat \<Rightarrow> rtt_attempt) \<Rightarrow> (nat \<Rightarrow> rtt_attempt) \<Rightarrow> (measurement list \<times> measurement list) option \<times> bench_event list" where
  "zero_runClient w as1 as0 =
     (if ra_dial w \<noteq> None \<or> ra_open w \<noteq> None then (None, zero_warmup w)
      else (Some (fst (run1RTTLoop as1), fst (run0RTTLoop as0)),
            zero_warmup w @ snd (run1RTTLoop as1) @ snd (run0RTTLoop as0)))"

datatype two_modes = ModeUsage | ModeServer string | ModeClient string string

text \<open>The command line of \<open>quic_0rtt.go\<close>, and of the bulk programs with their own defaults.\<close>

definition two_mode_main :: "string \<Rightarrow> string \<Rightarrow> string list \<Rightarrow> two_modes" where
  "two_mode_main port addr args =
     (if args = [] then ModeUsage
      else if args ! 0 = ''server'' then ModeServer (arg_or args 1 port)
      else ModeClient (arg_or args 1 addr) (arg_or args 2 port))"

definition zero_main :: "string list \<Rightarrow> two_modes" where
  "zero_main args = two_mode_main ''9002'' ''172.20.0.10'' args"



section \<open>The bulk programs\<close>

definition bulk_data :: bytes where
  "bulk_data = replicate (1024 * 1024 * 10) (CHR 0x00)"

text \<open>
  \<open>quic_bench.go\<close>: a warm-up, an early dial, ten megabytes on one stream, and the wait for the end of
  the answer.  \<open>t\<close> are the measured times of handshake and transfer.
\<close>

definition quic_bench_runClient :: "bench_net \<Rightarrow> time \<times> time \<Rightarrow> bench_event list" where
  "quic_bench_runClient N t =
     (case bn_dial N 0 of
        Inl e \<Rightarrow> [labelled ''Warmup failed'' e]
      | Inr _ \<Rightarrow>
          [Dialled 0 False, ConnClosed 0]
          @ (case bn_dial N 1 of
               Inl e \<Rightarrow> [labelled ''Error'' e]
             | Inr l \<Rightarrow>
                 [Dialled 1 True, Heading ''QUIC 0-RTT Handshake'' [] [fst t]]
                 @ (case lk_open l of
                      Some e \<Rightarrow> [labelled ''Stream error'' e]
                    | None \<Rightarrow>
                        StreamOpened 1 0 #
                        (case lk_write l 0 of
                           Some e \<Rightarrow> [Said (write_error_line e)]
                         | None \<Rightarrow> [SentOn (Quic 1 0) bulk_data, StreamClosed 1 0,
                             Heading ''QUIC 10MB Send (Transfer)'' [] [snd t]]))
                 @ [ConnClosed 1]))"

text \<open>A connection of the server: one stream, read to its end, a pause, and the close.\<close>

definition quic_bench_serve :: "nat \<Rightarrow> bytes option \<Rightarrow> bench_event list" where
  "quic_bench_serve c stream =
     (case stream of None \<Rightarrow> [] | Some s \<Rightarrow> [StreamOpened c 0, GotFrom (Quic c 0) s, ConnClosed c])"

definition quic_bench_runServer :: "string option \<Rightarrow> (string + bytes option) list \<Rightarrow> bench_event list list" where
  "quic_bench_runServer listenErr as =
     (case listenErr of
        Some e \<Rightarrow> [[labelled ''Listen error'' e]]
      | None \<Rightarrow> map (\<lambda>(i, a). case a of Inl _ \<Rightarrow> [] | Inr stream \<Rightarrow> Dialled i False # quic_bench_serve i stream)
          (enumerate 0 as))"

definition quic_bench_main :: "string list \<Rightarrow> two_modes" where
  "quic_bench_main args = two_mode_main ''9001'' ''172.20.0.10'' args"

text \<open>\<open>bulk_warm.go\<close>: ten megabytes twice on one stream; errors of the writes are ignored.\<close>

definition bulk_warm_main :: "bench_net \<Rightarrow> time \<times> time \<Rightarrow> bench_event list" where
  "bulk_warm_main N t =
     (case bn_dial N 0 of
        Inl e \<Rightarrow> [labelled ''dial'' e]
      | Inr l \<Rightarrow>
          Dialled 0 False #
          (case lk_open l of
             Some e \<Rightarrow> [labelled ''stream'' e]
           | None \<Rightarrow>
               StreamOpened 0 0
               # (if lk_write l 0 = None then [SentOn (Quic 0 0) bulk_data] else [])
               @ (if lk_write l 1 = None then [SentOn (Quic 0 0) bulk_data] else [])
               @ [StreamClosed 0 0, Heading ''cold warm'' [] [fst t, snd t]])
          @ [ConnClosed 0])"

definition bulk_warm_addr :: "string list \<Rightarrow> string" where
  "bulk_warm_addr args = arg_or args 0 ''127.0.0.1:9001''"

text \<open>\<open>tcp_bench.go\<close> and \<open>tcp_tls_bench.go\<close>: the same client, over TCP and over TLS.\<close>

definition bulk_tcp_client :: "string \<Rightarrow> bench_net \<Rightarrow> time \<Rightarrow> bench_event list" where
  "bulk_tcp_client what N t =
     (case bn_dial N 0 of
        Inl e \<Rightarrow> [labelled what e]
      | Inr l \<Rightarrow>
          Dialled 0 False # (if lk_write l 0 = None then [SentOn (Tcp 0) bulk_data] else [])
          @ [Heading ''10MB Send'' [] [t], ConnClosed 0])"

definition tcp_bench_runClient :: "bench_net \<Rightarrow> time \<Rightarrow> bench_event list" where
  "tcp_bench_runClient N t = bulk_tcp_client ''Error'' N t"

definition tcp_tls_bench_client :: "bench_net \<Rightarrow> time \<Rightarrow> bench_event list" where
  "tcp_tls_bench_client N t = bulk_tcp_client ''dial'' N t"

text \<open>
  Their servers ignore the errors of \<open>Listen\<close> and \<open>Accept\<close>, so a nil listener or connection is
  dereferenced.
\<close>

definition discarding_server :: "string option \<Rightarrow> (string + bytes) list \<Rightarrow> bench_event list list" where
  "discarding_server listenErr as =
     (if listenErr \<noteq> None then [[Crashed]]
      else map (\<lambda>(i, a). case a of Inl _ \<Rightarrow> [Crashed]
             | Inr s \<Rightarrow> [Dialled i False, GotFrom (Tcp i) s, ConnClosed i]) (enumerate 0 as))"

definition tcp_bench_main :: "string list \<Rightarrow> two_modes" where
  "tcp_bench_main args = two_mode_main ''9000'' ''127.0.0.1'' args"

definition tcp_tls_bench_main :: "string list \<Rightarrow> two_modes" where
  "tcp_tls_bench_main args = two_mode_main ''9002'' ''127.0.0.1'' args"


section \<open>What the measuring loops guarantee\<close>

lemma track_attempt_line [simp]: "track (attempt_line m i w) (Some os) = Some os"
  by (simp add: attempt_line_def)

lemma track_read_echo [simp]: "fold track (read_echo m i a) (Some os) = Some os"
  by (simp add: read_echo_def split: option.split read_err.split)

lemma attempt_tracks:
  "fold track (snd (attempt_1rtt i a)) (Some (f, [], [])) = Some (f, [], [])"
  "fold track (snd (attempt_0rtt i a)) (Some (f, [], [])) = Some (f, [], [])"
  by (simp_all add: attempt_1rtt_def attempt_0rtt_def send_hello_def split: option.split)

lemma rtt_loop_tracks:
  assumes "\<And>i a. fold track (snd (attempt i a)) (Some (f, [], [])) = Some (f, [], [])"
  shows "fold track (snd (rtt_loop attempt as)) (Some (f, [], [])) = Some (f, [], [])"
proof -
  have "fold track (concat (map (\<lambda>i. snd (attempt i (as i))) is)) (Some (f, [], [])) = Some (f, [], [])" for "is"
    by (induction "is") (simp_all add: assms)
  then show ?thesis by (simp add: rtt_loop_def Let_def comp_def)
qed

text \<open>The attempts that count: dial, handshake and stream succeeded.\<close>

definition attempt_counts :: "rtt_attempt \<Rightarrow> bool" where
  "attempt_counts a \<longleftrightarrow> ra_dial a = None \<and> ra_handshake a \<and> ra_open a = None"

lemma length_concat_if: "length (concat (map (\<lambda>i. if P i then [g i] else []) is)) = length (filter P is)"
  by (induction "is") simp_all

lemma attempts_measured:
  "fst (attempt_1rtt i a) = (if attempt_counts a then [(ra_times a)\<lparr>used0RTT := False\<rparr>] else [])"
  "fst (attempt_0rtt i a) = (if attempt_counts a then [ra_times a] else [])"
  by (auto simp: attempt_1rtt_def attempt_0rtt_def attempt_counts_def split: option.split)

text \<open>
  The two loops of \<open>quic_0rtt.go\<close> make ten attempts, close every connection they open on every
  path, and count exactly the attempts whose dial, handshake and stream succeeded; a read that fails
  does not matter, so a lost echo is still a measurement.
\<close>

theorem rtt_loops_close_and_count:
  "fold track (snd (run1RTTLoop as)) (Some (f, [], [])) = Some (f, [], []) \<and>
   fold track (snd (run0RTTLoop as)) (Some (f, [], [])) = Some (f, [], []) \<and>
   length (fst (run1RTTLoop as)) = length (filter (\<lambda>i. attempt_counts (as i)) [0..<10]) \<and>
   length (fst (run0RTTLoop as)) = length (filter (\<lambda>i. attempt_counts (as i)) [0..<10])"
proof -
  have "length (fst (run1RTTLoop as)) = length (filter (\<lambda>i. attempt_counts (as i)) [0..<10])"
    "length (fst (run0RTTLoop as)) = length (filter (\<lambda>i. attempt_counts (as i)) [0..<10])"
    unfolding run1RTTLoop_def run0RTTLoop_def rtt_loop_def Let_def fst_conv map_map comp_def attempts_measured
      length_concat_if numIterations_def by (rule refl)+
  then show ?thesis
    unfolding run1RTTLoop_def run0RTTLoop_def
    using rtt_loop_tracks [of attempt_1rtt f "as"] rtt_loop_tracks [of attempt_0rtt f "as"] attempt_tracks by blast
qed

lemma warmup_stream_error_panics: "ra_dial w = None \<Longrightarrow> ra_open w = Some e \<Longrightarrow> Crashed \<in> set (snd (zero_runClient w as1 as0))"
  by (simp add: zero_runClient_def zero_warmup_def)

lemma discarding_server_crashes:
  "[Crashed] \<in> set (discarding_server le as) \<longleftrightarrow> le \<noteq> None \<or> (\<exists>a \<in> set as. isl a)"
proof -
  have "[Crashed] \<in> set (map (\<lambda>(i, a). case a of Inl _ \<Rightarrow> [Crashed]
      | Inr s \<Rightarrow> [Dialled i False, GotFrom (Tcp i) s, ConnClosed i]) (enumerate n as)) \<longleftrightarrow> (\<exists>a \<in> set as. isl a)" for n
    by (induction "as" arbitrary: n) (auto split: sum.splits simp: isl_def)
  then show ?thesis by (auto simp: discarding_server_def)
qed


section \<open>The table and the CSV file\<close>

lemma tCrit_large: "n \<le> 9 \<Longrightarrow> 2.306 \<le> tCrit n" "10 \<le> n \<Longrightarrow> tCrit n = tCrit95df9"
  by (auto simp: tCrit_def tCrit95df9_def)

lemma real_stddev_nonneg: "0 \<le> real_stddev xs"
  unfolding real_stddev_def by (intro real_sqrt_ge_zero divide_nonneg_nonneg sum_list_nonneg) auto



end
