(* ===== verification/Transport_Config.thy ===== *)
theory Transport_Config
  imports Tls_Config Bench_Zero
begin

text \<open>
  The settings of the transports: the QUIC configuration of the relay, the client, the load tester
  and the benchmarks, the certificates of the benchmarks' servers, and the TLS configuration of every
  client.  Zero, the empty list and \<open>False\<close> are Go's values of fields that are not set.
\<close>

section \<open>QUIC\<close>

record quic_config =
  qc_maxIdle :: time
  qc_keepAlive :: time
  qc_maxStreams :: nat
  qc_maxUniStreams :: nat
  qc_initStream :: nat
  qc_initConn :: nat
  qc_maxStream :: nat
  qc_maxConn :: nat
  qc_allow0RTT :: bool

abbreviation megabytes :: "nat \<Rightarrow> nat" where
  "megabytes n \<equiv> n * 1024 * 1024"

definition quic_unset :: quic_config where
  "quic_unset =
     \<lparr>qc_maxIdle = 0, qc_keepAlive = 0, qc_maxStreams = 0, qc_maxUniStreams = 0, qc_initStream = 0,
      qc_initConn = 0, qc_maxStream = 0, qc_maxConn = 0, qc_allow0RTT = False\<rparr>"

text \<open>The constants of \<open>performance.go\<close>, as \<open>NewServer\<close> and \<open>dialQUICPeer\<close> use them.\<close>

definition relay_quic_config :: quic_config where
  "relay_quic_config =
     \<lparr>qc_maxIdle = seconds 60, qc_keepAlive = seconds 30, qc_maxStreams = 1000, qc_maxUniStreams = 1000,
      qc_initStream = megabytes 6, qc_initConn = megabytes 15, qc_maxStream = megabytes 16,
      qc_maxConn = megabytes 64, qc_allow0RTT = True\<rparr>"

definition client_quic_config :: quic_config where
  "client_quic_config = relay_quic_config"

definition load_quic_config :: quic_config where
  "load_quic_config = quic_unset\<lparr>qc_maxIdle := seconds 60, qc_keepAlive := seconds 15\<rparr>"

definition productionQuicConfig :: quic_config where
  "productionQuicConfig = relay_quic_config\<lparr>qc_maxIdle := seconds 300\<rparr>"

text \<open>\<open>runClientReuse\<close> of \<open>quic_diagnostic.go\<close>.\<close>

definition reuse_quic_config :: "bool \<Rightarrow> quic_config" where
  "reuse_quic_config opt =
     (if opt then productionQuicConfig
      else quic_unset\<lparr>qc_maxIdle := seconds 30, qc_keepAlive := seconds 10\<rparr>)"

definition speed_server_quic :: quic_config where
  "speed_server_quic = relay_quic_config\<lparr>qc_maxIdle := seconds 300, qc_keepAlive := 0\<rparr>"

definition speed_client_quic :: quic_config where
  "speed_client_quic =
     quic_unset\<lparr>qc_maxIdle := seconds 300, qc_initStream := megabytes 6, qc_initConn := megabytes 15,
       qc_maxStream := megabytes 16, qc_maxConn := megabytes 64\<rparr>"

definition parallel_server_quic :: quic_config where
  "parallel_server_quic =
     quic_unset\<lparr>qc_maxIdle := seconds 300, qc_maxStreams := 1000, qc_initStream := megabytes 6,
       qc_maxStream := megabytes 16, qc_maxConn := megabytes 64, qc_allow0RTT := True\<rparr>"

definition parallel_client_quic :: quic_config where
  "parallel_client_quic =
     quic_unset\<lparr>qc_maxIdle := seconds 300, qc_initStream := megabytes 6, qc_maxStream := megabytes 16,
       qc_maxConn := megabytes 64\<rparr>"

definition multiplex_quic :: quic_config where
  "multiplex_quic = relay_quic_config\<lparr>qc_maxIdle := seconds 120, qc_maxUniStreams := 0\<rparr>"

definition quic_bench_server_config :: quic_config where
  "quic_bench_server_config =
     quic_unset\<lparr>qc_maxIdle := seconds 30, qc_initStream := megabytes 10, qc_initConn := megabytes 15,
       qc_maxStream := megabytes 20, qc_maxConn := megabytes 30, qc_allow0RTT := True\<rparr>"

definition quic_bench_client_config :: quic_config where
  "quic_bench_client_config =
     quic_unset\<lparr>qc_maxIdle := seconds 30, qc_initStream := megabytes 10, qc_initConn := megabytes 15\<rparr>"

definition bulk_warm_config :: quic_config where
  "bulk_warm_config =
     quic_unset\<lparr>qc_maxIdle := seconds 30, qc_initStream := megabytes 10, qc_initConn := megabytes 15,
       qc_maxStream := megabytes 64, qc_maxConn := megabytes 64\<rparr>"

text \<open>A configuration whose windows grow: each initial window is at most its maximum, where both are set.\<close>

definition windows_ok :: "quic_config \<Rightarrow> bool" where
  "windows_ok c \<longleftrightarrow>
     (qc_maxStream c = 0 \<or> qc_initStream c \<le> qc_maxStream c) \<and> (qc_maxConn c = 0 \<or> qc_initConn c \<le> qc_maxConn c) \<and>
     (qc_maxConn c = 0 \<or> qc_maxStream c \<le> qc_maxConn c)"

lemmas quic_config_defs = quic_unset_def relay_quic_config_def client_quic_config_def load_quic_config_def
  productionQuicConfig_def reuse_quic_config_def speed_server_quic_def speed_client_quic_def
  parallel_server_quic_def parallel_client_quic_def multiplex_quic_def quic_bench_server_config_def
  quic_bench_client_config_def bulk_warm_config_def

lemma all_windows_ok:
  "list_all windows_ok [relay_quic_config, client_quic_config, load_quic_config, productionQuicConfig,
     reuse_quic_config False, speed_server_quic, speed_client_quic, parallel_server_quic, parallel_client_quic,
     multiplex_quic, quic_bench_server_config, quic_bench_client_config, bulk_warm_config]"
  by (simp add: windows_ok_def quic_config_defs)

text \<open>
  An idle connection of the messenger stays up: the keep-alives of either end come before the idle
  timeout of either end runs out, the load tester's included.
\<close>

definition keeps_alive :: "quic_config \<Rightarrow> quic_config \<Rightarrow> bool" where
  "keeps_alive a b \<longleftrightarrow> 0 < qc_keepAlive a \<and> qc_keepAlive a < min (qc_maxIdle a) (qc_maxIdle b)"

lemma messenger_connections_kept:
  "keeps_alive client_quic_config relay_quic_config" "keeps_alive relay_quic_config client_quic_config"
  "keeps_alive load_quic_config relay_quic_config"
  by (simp_all add: keeps_alive_def quic_config_defs)


section \<open>The certificates of the benchmarks\<close>

text \<open>
  \<open>generateTLSConfig\<close> of a benchmark: a self-signed certificate for an organisation, a number of hours
  and some addresses.  Errors are ignored: without a key the template's public key is a nil
  dereference (\<open>None\<close>), and when encoding fails the pair is the empty certificate.
\<close>

definition bench_template :: "string \<Rightarrow> int \<Rightarrow> bytes list \<Rightarrow> tls_env \<Rightarrow> cert_template" where
  "bench_template org hours ips e =
     \<lparr>ct_serial = 1, ct_organization = org, ct_commonName = [], ct_notBefore = te_now1 e,
      ct_notAfter = te_now2 e + seconds (hours * 3600),
      ct_keyUsage = [''KeyEncipherment'', ''DigitalSignature''], ct_extKeyUsage = [''ServerAuth''],
      ct_basicConstraintsValid = False, ct_ips = ips, ct_dns = []\<rparr>"

definition bench_certificate :: "cert_template \<Rightarrow> tls_env \<Rightarrow> bytes option" where
  "bench_certificate t e =
     (case te_key e of
        None \<Rightarrow> None
      | Some key \<Rightarrow>
          Some (case te_create e t key of
                  None \<Rightarrow> []
                | Some der \<Rightarrow>
                    (case te_marshal e key of None \<Rightarrow> [] | Some k \<Rightarrow> if te_pair e der k then der else [])))"

definition bench_tls_config ::
  "string \<Rightarrow> int \<Rightarrow> bytes list \<Rightarrow> string list \<Rightarrow> nat \<Rightarrow> string option \<Rightarrow> tls_env \<Rightarrow> tls_config option" where
  "bench_tls_config org hours ips protos minVersion keylog e =
     map_option (\<lambda>c. \<lparr>tls_certificates = [c], tls_nextProtos = protos, tls_minVersion = minVersion,
       tls_keyLogWriter = keylog\<rparr>) (bench_certificate (bench_template org hours ips e) e)"

definition ip4 :: "nat \<Rightarrow> nat \<Rightarrow> nat \<Rightarrow> nat \<Rightarrow> bytes" where
  "ip4 a b c d = [char_of a, char_of b, char_of c, char_of d]"

definition tcp_generateTLSConfig :: "string option \<Rightarrow> tls_env \<Rightarrow> tls_config option" where
  "tcp_generateTLSConfig keylog =
     bench_tls_config ''TCP+TLS Benchmark'' 24 [ip4 127 0 0 1, ip4 192 168 2 2, ip4 192 168 2 3] [] 13 keylog"

definition quic_generateTLSConfig :: "string option \<Rightarrow> tls_env \<Rightarrow> tls_config option" where
  "quic_generateTLSConfig keylog =
     bench_tls_config ''QUIC Benchmark'' 24 [ip4 127 0 0 1, ip4 192 168 2 2, ip4 192 168 2 3]
       [''quic-diagnostic''] 13 keylog"

definition speed_generateTLSConfig :: "tls_env \<Rightarrow> tls_config option" where
  "speed_generateTLSConfig = bench_tls_config ''SpeedBench'' 1 [ip4 127 0 0 1] [''speed''] 0 None"

definition parallel_generateTLSConfig :: "tls_env \<Rightarrow> tls_config option" where
  "parallel_generateTLSConfig = bench_tls_config ''ParallelBench'' 1 [ip4 127 0 0 1] [''parallel''] 0 None"

definition zero_generateTLSConfig :: "tls_env \<Rightarrow> tls_config option" where
  "zero_generateTLSConfig =
     bench_tls_config ''Bench'' 1 [ip4 127 0 0 1, ip4 172 20 0 10, ip4 172 20 0 11] [''bench''] 0 None"

definition quic_bench_generateTLSConfig :: "tls_env \<Rightarrow> tls_config option" where
  "quic_bench_generateTLSConfig =
     bench_tls_config ''Bench'' 1 [ip4 127 0 0 1, ip4 172 20 0 10, ip4 172 20 0 11] [''bench''] 0 None"

text \<open>\<open>tlsConf\<close> of \<open>tcp_tls_bench.go\<close>.\<close>

definition tcp_tls_bench_tlsConf :: "tls_env \<Rightarrow> tls_config option" where
  "tcp_tls_bench_tlsConf = bench_tls_config ''bulk'' 1 [ip4 127 0 0 1] [] 13 None"



section \<open>The clients' TLS configurations\<close>

record tls_client =
  tc_nextProtos :: "string list"
  tc_minVersion :: nat
  tc_sessionCache :: bool
  tc_keyLog :: "string option"

text \<open>None of the benchmarks verifies a certificate.\<close>

definition plain_tls :: "string list \<Rightarrow> tls_client" where
  "plain_tls protos = \<lparr>tc_nextProtos = protos, tc_minVersion = 0, tc_sessionCache = False, tc_keyLog = None\<rparr>"

definition load_tls :: tls_client where
  "load_tls = (plain_tls [''p2p-messenger/1.0''])\<lparr>tc_minVersion := 13\<rparr>"

definition tcp_raw_tls :: "bool \<Rightarrow> string option \<Rightarrow> tls_client" where
  "tcp_raw_tls cache keylog = \<lparr>tc_nextProtos = [], tc_minVersion = 13, tc_sessionCache = cache, tc_keyLog = keylog\<rparr>"

definition quic_diagnostic_tls :: "bool \<Rightarrow> string option \<Rightarrow> tls_client" where
  "quic_diagnostic_tls cache keylog =
     \<lparr>tc_nextProtos = [''quic-diagnostic''], tc_minVersion = 13, tc_sessionCache = cache, tc_keyLog = keylog\<rparr>"

definition speed_quic_tls :: "bool \<Rightarrow> tls_client" where
  "speed_quic_tls cache = (plain_tls [''speed''])\<lparr>tc_sessionCache := cache\<rparr>"

definition parallel_quic_tls :: tls_client where
  "parallel_quic_tls = plain_tls [''parallel'']"

definition multiplex_tls :: "bool \<Rightarrow> string option \<Rightarrow> tls_client" where
  "multiplex_tls quic keylog =
     \<lparr>tc_nextProtos = (if quic then [''quic-diagnostic''] else []), tc_minVersion = 13, tc_sessionCache = True,
      tc_keyLog = keylog\<rparr>"

definition zero_tls :: tls_client where
  "zero_tls = (plain_tls [''bench''])\<lparr>tc_sessionCache := True\<rparr>"

definition bulk_warm_tls :: tls_client where
  "bulk_warm_tls = plain_tls [''bench'']"

text \<open>
  Which protocol a handshake of Go's \<open>crypto/tls\<close> settles on: the first of the server's that the
  client offers.  If both name protocols and none is shared the handshake fails; over QUIC it also
  fails without any.  \<open>None\<close> is a failed handshake, \<open>Some None\<close> one without a protocol.
\<close>

definition negotiate :: "bool \<Rightarrow> string list \<Rightarrow> string list \<Rightarrow> string option option" where
  "negotiate quic server client =
     (if server = [] \<or> client = [] then (if quic then None else Some None)
      else (case List.find (\<lambda>p. p \<in> set client) server of None \<Rightarrow> None | Some p \<Rightarrow> Some (Some p)))"

lemma bench_tls_config_protos:
  "bench_tls_config org hours ips protos v kl e = Some cfg \<Longrightarrow> tls_nextProtos cfg = protos \<and> tls_minVersion cfg = v"
  by (auto simp: bench_tls_config_def)

lemma generateTLSConfig_protos:
  "generateTLSConfig e kl = Some cfg \<Longrightarrow> tls_nextProtos cfg = [''p2p-messenger/1.0''] \<and> tls_minVersion cfg = 13"
  by (auto simp: generateTLSConfig_def split: option.splits if_splits)

lemmas server_protos = bench_tls_config_protos generateTLSConfig_protos

lemmas bench_tls_defs = tcp_generateTLSConfig_def quic_generateTLSConfig_def speed_generateTLSConfig_def
  parallel_generateTLSConfig_def zero_generateTLSConfig_def quic_bench_generateTLSConfig_def
  tcp_tls_bench_tlsConf_def

lemmas client_tls_defs = plain_tls_def load_tls_def tcp_raw_tls_def quic_diagnostic_tls_def speed_quic_tls_def
  parallel_quic_tls_def multiplex_tls_def zero_tls_def bulk_warm_tls_def

lemma clients_negotiate:
  "generateTLSConfig e kl = Some cfg \<Longrightarrow>
     negotiate True (tls_nextProtos cfg) (tc_nextProtos load_tls) = Some (Some ''p2p-messenger/1.0'')"
  "tcp_generateTLSConfig kl e = Some cfg \<Longrightarrow> negotiate False (tls_nextProtos cfg) (tc_nextProtos (tcp_raw_tls c kl')) = Some None"
  "tcp_generateTLSConfig kl e = Some cfg \<Longrightarrow> negotiate False (tls_nextProtos cfg) (tc_nextProtos (multiplex_tls False kl')) = Some None"
  "quic_generateTLSConfig kl e = Some cfg \<Longrightarrow>
     negotiate True (tls_nextProtos cfg) (tc_nextProtos (quic_diagnostic_tls c kl')) = Some (Some ''quic-diagnostic'')"
  "quic_generateTLSConfig kl e = Some cfg \<Longrightarrow>
     negotiate True (tls_nextProtos cfg) (tc_nextProtos (multiplex_tls True kl')) = Some (Some ''quic-diagnostic'')"
  "speed_generateTLSConfig e = Some cfg \<Longrightarrow> negotiate True (tls_nextProtos cfg) (tc_nextProtos (speed_quic_tls c)) = Some (Some ''speed'')"
  "speed_generateTLSConfig e = Some cfg \<Longrightarrow> negotiate False (tls_nextProtos cfg) (tc_nextProtos (plain_tls [])) = Some None"
  "parallel_generateTLSConfig e = Some cfg \<Longrightarrow> negotiate True (tls_nextProtos cfg) (tc_nextProtos parallel_quic_tls) = Some (Some ''parallel'')"
  "zero_generateTLSConfig e = Some cfg \<Longrightarrow> negotiate True (tls_nextProtos cfg) (tc_nextProtos zero_tls) = Some (Some ''bench'')"
  "quic_bench_generateTLSConfig e = Some cfg \<Longrightarrow> negotiate True (tls_nextProtos cfg) (tc_nextProtos bulk_warm_tls) = Some (Some ''bench'')"
  by (auto simp: bench_tls_defs client_tls_defs negotiate_def dest!: server_protos)

text \<open>No benchmark client gets a connection to a relay over QUIC, and the messenger none to a benchmark.\<close>

lemma benchmarks_kept_apart:
  assumes "generateTLSConfig e kl = Some cfg"
  shows "\<forall>c \<in> {quic_diagnostic_tls b kl', multiplex_tls True kl', speed_quic_tls b, parallel_quic_tls, zero_tls, bulk_warm_tls}.
    negotiate True (tls_nextProtos cfg) (tc_nextProtos c) = None"
  using generateTLSConfig_protos [OF assms] by (simp add: client_tls_defs negotiate_def)

end
