(* ===== verification/Small_Parts.thy ===== *)
theory Small_Parts
  imports App Port_Mapping
begin

text \<open>
  The rest of \<open>main.go\<close> and \<open>upnp.go\<close>: the help text, the spinner shown during a scan of the LAN, the
  public address by STUN, and the local address the port mapping asks for.  The answers of the STUN
  library and of the operating system are arguments.
\<close>

section \<open>Help\<close>

text \<open>\<open>showHelp\<close>: a command with its arguments, and what it does; the text is a list of lines.\<close>

definition help_commands :: "(string \<times> string \<times> string) list" where
  "help_commands =
     [(''help'', [], ''Show this help''), (''peers'', [], ''List connected peers''),
      (''connect'', ''<addr>'', ''Connect to peer''), (''nick'', ''<alias>'', ''Change your display name''),
      (''room'', [], ''Show room info''), (''myip'', [], ''Show your public IP (STUN)''),
      (''kick'', ''<alias>'', ''Remove a peer from the room (owner only)''),
      (''ban'', ''<alias>'', ''Remove and block a peer from re-joining (owner only)''),
      (''unban'', ''<alias|address|deviceID>'', ''Lift a ban (owner only)''),
      (''exit'', ''or /quit'', ''Exit application'')]"

text \<open>Descriptions start in column 19, or after a blank when the command is longer.\<close>

definition help_line :: "string \<times> string \<times> string \<Rightarrow> string" where
  "help_line h =
     (let cmd = ''  /'' @ fst h @ (if fst (snd h) = [] then [] else space # fst (snd h))
      in cmd @ replicate (max 1 (19 - length cmd)) space @ ''- '' @ snd (snd h))"

definition showHelp :: "string list" where
  "showHelp =
     [[newline] @ ''Commands:'', ''  Type any message to send it automatically''] @ map help_line help_commands"

text \<open>Every command the help offers is one, with an argument where the help shows one.\<close>

lemma help_commands_known:
  "list_all (\<lambda>(cmd, args, what).
      case command_of cmd (if args = [] then None else Some args) of
        Unknown _ \<Rightarrow> False | Missing _ \<Rightarrow> False | Message _ \<Rightarrow> False | _ \<Rightarrow> True) help_commands"
  by code_simp


section \<open>The spinner\<close>

text \<open>A terminal row is a list of cells; a cell holds the bytes of one character.\<close>

type_synonym cell = string

definition spinnerChars :: "cell list" where
  "spinnerChars =
     map (\<lambda>b. [CHR 0xE2, CHR 0xA0, b])
       [CHR 0x8B, CHR 0x99, CHR 0xB9, CHR 0xB8, CHR 0xBC, CHR 0xB4, CHR 0xA6, CHR 0xA7, CHR 0x87, CHR 0x8F]"

text \<open>Text after a carriage return replaces the start of the row and keeps the rest.\<close>

definition over_row :: "cell list \<Rightarrow> cell list \<Rightarrow> cell list" where
  "over_row new row = new @ drop (length new) row"

definition spinner_frame :: "cell list \<Rightarrow> nat \<Rightarrow> cell list" where
  "spinner_frame message i = message @ [[space], spinnerChars ! (i mod length spinnerChars), [space]]"

text \<open>\<open>len(message)\<close> counts bytes.  The loop draws \<open>n\<close> frames until \<open>done\<close> is closed.\<close>

definition clear_row :: "cell list \<Rightarrow> cell list" where
  "clear_row message = replicate (length (concat message) + 5) [space]"

definition runSpinner :: "cell list \<Rightarrow> nat \<Rightarrow> cell list" where
  "runSpinner message n =
     over_row (clear_row message) (fold (\<lambda>i. over_row (spinner_frame message i)) [0..<n] [])"

lemma length_over_row [simp]: "length (over_row new row) = max (length new) (length row)"
  by (simp add: over_row_def)

lemma length_spinner_frame [simp]: "length (spinner_frame message i) = length message + 3"
  by (simp add: spinner_frame_def)

lemma length_frames:
  "length (fold (\<lambda>i. over_row (spinner_frame message i)) is row) \<le> max (length row) (length message + 3)"
  by (induction "is" rule: rev_induct) simp_all

lemma cells_le_bytes: "[] \<notin> set message \<Longrightarrow> length message \<le> length (concat message)"
proof (induction message)
  case (Cons c m)
  then show ?case by (cases c) auto
qed simp

text \<open>The spinner leaves a blank row, however many frames were drawn.\<close>

lemma spinner_leaves_blank_row: "[] \<notin> set message \<Longrightarrow> set (runSpinner message n) = {[space]}"
  using length_frames [of message "[0..<n]" "[]"] cells_le_bytes [of message]
  by (simp add: runSpinner_def clear_row_def over_row_def)

lemma spinner_frame_is_shown: "spinnerChars ! (i mod length spinnerChars) \<in> set spinnerChars"
  by (rule nth_mem) (simp add: spinnerChars_def)


section \<open>Addresses\<close>

text \<open>
  \<open>resolvePublicIP\<close>.  The handler of the request runs for each event of the library: an error, a
  message without a mapped address, or an address.  Every failure gives the empty string.
\<close>

datatype stun_event = StunError string | NoAddress string | MappedAddress string

record stun_env =
  stun_dial :: "string option"
  stun_build :: "string option"
  stun_do :: "string option"
  stun_events :: "stun_event list"

definition stun_handler :: "stun_event \<Rightarrow> string \<Rightarrow> string" where
  "stun_handler e publicAddr = (case e of StunError _ \<Rightarrow> publicAddr | NoAddress _ \<Rightarrow> publicAddr | MappedAddress ip \<Rightarrow> ip)"

definition resolvePublicIP :: "stun_env \<Rightarrow> string" where
  "resolvePublicIP E =
     (if stun_dial E \<noteq> None \<or> stun_build E \<noteq> None then []
      else (let publicAddr = fold stun_handler (stun_events E) []
            in if stun_do E \<noteq> None then [] else publicAddr))"

lemma handler_address: "fold stun_handler es a = b \<Longrightarrow> b = a \<or> MappedAddress b \<in> set es"
  by (induction es arbitrary: a) (auto simp: stun_handler_def split: stun_event.splits)

text \<open>An address that is returned came in an answer of a request that succeeded.\<close>

lemma public_ip_was_answered:
  assumes "resolvePublicIP E \<noteq> []"
  shows "MappedAddress (resolvePublicIP E) \<in> set (stun_events E) \<and> stun_do E = None"
  using assms handler_address [OF refl, of "stun_events E" "[]"]
  by (auto simp: resolvePublicIP_def Let_def split: if_splits)

text \<open>\<open>/myip\<close> with this lookup shows an address that a server answered, or says that there is none.\<close>

definition stun_answer :: "stun_env \<Rightarrow> string option" where
  "stun_answer E = (if resolvePublicIP E = [] then None else Some (resolvePublicIP E))"

lemma myip_shows_answer:
  "showPublicIP (ce\<lparr>ce_stun := stun_answer E\<rparr>) app = say (Notice ''Could not determine public IP.'') app \<or>
   (\<exists>ip. MappedAddress ip \<in> set (stun_events E) \<and>
      showPublicIP (ce\<lparr>ce_stun := stun_answer E\<rparr>) app = say (PublicAddress ip (serverPort (a_srv app))) app)"
  using public_ip_was_answered [of E] by (auto simp: showPublicIP_def stun_answer_def)

text \<open>
  \<open>getLocalIP\<close>: the local address of a datagram socket towards a public address; the socket is closed
  again, and no datagram is sent.
\<close>

definition getLocalIP :: "string + string \<Rightarrow> string + string" where
  "getLocalIP dial = (case dial of Inl e \<Rightarrow> Inl (''getLocalIP: '' @ e) | Inr localIP \<Rightarrow> Inr localIP)"

definition local_answer :: "string + string \<Rightarrow> string option" where
  "local_answer dial = (case getLocalIP dial of Inl _ \<Rightarrow> None | Inr ip \<Rightarrow> Some ip)"

text \<open>Without a local address no UPnP mapping is asked for, and NAT-PMP decides alone.\<close>

lemma no_local_ip_no_upnp:
  assumes "local_ip E = local_answer (Inl e)"
  shows "snd (tryUPnP E port ls) = ls" and
    "TryPortMapping E port ls =
       (case tryNATPMP E ls of (Inr r, ls') \<Rightarrow> (Some r, ls') | (Inl _, ls') \<Rightarrow> (None, ls'))"
proof -
  have "local_ip E = None" using assms by (simp add: local_answer_def getLocalIP_def)
  then have u: "\<exists>err. tryUPnP E port ls = (Inl err, ls)" by (simp add: tryUPnP_def split: option.split)
  then show "snd (tryUPnP E port ls) = ls" by auto
  show "TryPortMapping E port ls =
       (case tryNATPMP E ls of (Inr r, ls') \<Rightarrow> (Some r, ls') | (Inl _, ls') \<Rightarrow> (None, ls'))"
    using u by (auto simp: TryPortMapping_def Let_def split: prod.split sum.split)
qed

end
