(* ===== verification/Spec2Isabelle.thy ===== *)
theory Spec2Isabelle
  imports Main_Loop Group_Chat Relay_Wire Load_Report Transport_Config Small_Parts
begin

text \<open>
  A verification of the peer-to-peer messenger: its relay, its client, the command-line
  application around them, and the load tester and the benchmarks of transports that come with it.

  \<^bold>\<open>The program.\<close>  A process runs a relay (\<open>Server\<close>, \<open>server.go\<close>) and a connection manager
  (\<open>ConnectionManager\<close>, \<open>connection_manager.go\<close>).  A client dials a relay over QUIC or TLS over
  TCP, sends a JOIN line with room, alias, password and device ID, and waits for the room secret;
  both sides derive the room's keys from password and secret.  Chat lines are encrypted, numbered
  with a nonce and signed; the relay checks the signature and appends the line to the outbound
  queue of every other member, a writer goroutine per connection sends the queue, and the
  receiver checks signature, nonce and duplicate cache before it displays the text.  The owner of
  a room and the host may kick, ban and unban; a kick or ban rotates the secret.  LAN discovery,
  UPnP or NAT-PMP and a rendezvous server find relays, and \<open>main.go\<close> drives all of it from
  standard input.  \<open>loadtest/main.go\<close> is a second program: it drives a relay with many peers and
  reports delays and counts.  The programs of \<open>raw_mini\<close> measure QUIC against TCP without the
  messenger: echo servers with length-prefixed frames and their clients (\<open>tcp_raw.go\<close>,
  \<open>quic_diagnostic.go\<close>, \<open>speed_bench.go\<close>, \<open>parallel_bench.go\<close>, \<open>multiplex_bench.go\<close>), resumed
  connections (\<open>quic_0rtt.go\<close>), and one large transfer (\<open>quic_bench.go\<close>, \<open>bulk_warm.go\<close>,
  \<open>tcp_bench.go\<close>, \<open>tcp_tls_bench.go\<close>).

  \<^bold>\<open>The theories\<close>, in the order they build on each other, and what they model.

  \<^item> \<open>Prelude\<close>: Go maps as association lists with distinct keys, time in nanoseconds, the locale
    \<open>preserving\<close> of step functions that keep an invariant.
  \<^item> \<open>Go_Strings\<close>, \<open>Encoding\<close>: the functions of the packages strings, strconv and fmt the program
    calls, and hexadecimal and unpadded base64 (locale \<open>text_codec\<close>).
  \<^item> \<open>Crypto\<close>: \<open>crypto.go\<close> and the key derivation of \<open>security.go\<close>.
  \<^item> \<open>Seen_Cache\<close>: \<open>replay.go\<close>, as one instance of a cache of recently seen keys; the duplicate
    cache of \<open>connection_manager.go\<close> is the other (locale \<open>seen_cache\<close>).
  \<^item> \<open>Terminal\<close>: message formatting of \<open>main.go\<close>, aliases and sanitising of \<open>helpers.go\<close>.
  \<^item> \<open>Net_State\<close>: the transports of \<open>transport.go\<close>, the structs \<open>ManagedConnection\<close> and
    \<open>ConnectionManager\<close>, and the outbound queue (locale \<open>outbound_queue\<close>).
  \<^item> \<open>Conn_Manager\<close>, \<open>Conn_Invariants\<close>: registration, removal, writer, key update, health check,
    and the registry invariant \<open>cm_ok\<close>.
  \<^item> \<open>Dialing\<close>: pinning of certificates (locale \<open>pin_store\<close>), the known-peers file, the dials and
    their race, the JOIN line, and the two halves of \<open>getOrCreate\<close> around its wait.
  \<^item> \<open>Client_Session\<close>, \<open>Session_Setup\<close>: \<open>readLoop\<close> line by line, \<open>Send\<close>, and \<open>GetOrCreate\<close> as a
    caller sees it.
  \<^item> \<open>Relay_State\<close>, \<open>Relay_Moderation\<close>, \<open>Relay_Handler\<close>, \<open>Relay_Accept\<close>: \<open>server.go\<close>: structs,
    rooms, key rotation, broadcast and leaving; kick, ban, unban and close; \<open>handleMessage\<close>; the
    accept loops with their semaphore.
  \<^item> \<open>Relay_Frame\<close>, \<open>Relay_Invariants\<close>, \<open>Relay_Delivery\<close>, \<open>Relay_Access\<close>, \<open>Relay_Properties\<close>: what
    each operation leaves alone; the invariant \<open>srv_ok\<close> over every interleaving of relay events;
    delivery; admission, eviction and ownership; the properties with their witnesses.
  \<^item> \<open>Group_Chat\<close>: an abstract group chat, a list of posts per member, and the relay as its
    refinement (locale \<open>refining\<close> of the prelude); all members see one order.
  \<^item> \<open>Relay_Wire\<close>: the type of what the relay queues and writes, kept by every event.
  \<^item> \<open>Identity\<close>, \<open>Discovery\<close>, \<open>Port_Mapping\<close>: \<open>deviceid.go\<close> and \<open>performance.go\<close>; \<open>discovery.go\<close>;
    \<open>upnp.go\<close> and \<open>rendezvous.go\<close>.
  \<^item> \<open>App\<close>: \<open>main.go\<close>: arguments, room prompt, set-up, connecting, commands, shut-down.
  \<^item> \<open>Main_Loop\<close>: the loop of \<open>main\<close> over sessions, with what stays behind between them.
  \<^item> \<open>Small_Parts\<close>: help text, spinner, STUN lookup and the local address of the port mapping.
  \<^item> \<open>Tls_Config\<close>: the certificate, key log and TLS configuration of \<open>security.go\<close>, and what a
    restart of the relay means for the pins of its clients.
  \<^item> \<open>Load_Test\<close>, \<open>Load_Peer\<close>, \<open>Load_Report\<close>: \<open>loadtest/main.go\<close>: options, error classes, dialling with
    retries, payload and statistics; the peers, their readers and the four modes, and what the relay
    does with the messages of the load test; its CSV files and summaries, read back by a reader of
    the format.
  \<^item> \<open>Bench_Frame\<close>, \<open>Bench_Echo\<close>: the frames of the benchmarks (locale \<open>framing\<close>, for buffers made
    anew and pooled), their payloads, and the handlers of their servers (locale \<open>echo_server\<close>).
  \<^item> \<open>Bench_Client\<close>, \<open>Bench_Sessions\<close>, \<open>Bench_Programs\<close>: the clients of \<open>tcp_raw.go\<close> and
    \<open>quic_diagnostic.go\<close> as traces of events over a scripted network, what they leave open, a session
    of client and server together, and the servers and command lines.
  \<^item> \<open>Bench_Speed\<close>, \<open>Bench_Multi\<close>: \<open>speed_bench.go\<close>; \<open>parallel_bench.go\<close> and \<open>multiplex_bench.go\<close>,
    whose goroutines interleave by schedules (locale \<open>task_resources\<close>), and their statistics.
  \<^item> \<open>Bench_Zero\<close>: \<open>quic_0rtt.go\<close> and the four programs of one large transfer.
  \<^item> \<open>Transport_Config\<close>: the QUIC and TLS settings of all programs (constants of \<open>performance.go\<close>,
    certificates of the benchmarks), what two of them negotiate, and which programs reach which.
  \<^item> \<open>Client_Properties\<close>, \<open>App_Properties\<close> and this theory: the remaining properties; this theory
    has those that involve both ends of a connection.

  \<^bold>\<open>State.\<close>  One process is a record: \<open>net\<close> (transports by number, the screen, a flag for a
  panic), extended to \<open>cm_state\<close> (the fields of \<open>ConnectionManager\<close>, with managed connections in a
  heap indexed by number so that a reader and the registry can hold the same one), extended to
  \<open>server\<close> (the fields of \<open>Server\<close>, with rooms and peers in heaps because a peer points to its
  room and a room to its peers).  An operation is a function on this state under the name of the
  Go function; a nil dereference sets the panic flag.  Iteration over a Go map is iteration over
  the association list: properties that depend on the order are not stated, and the ones that
  speak of a choice (the next owner, the target of a kick) hold for the list in any order it has.

  \<^bold>\<open>Concurrency.\<close>  The goroutines of the relay are interleaved by \<open>relay_step\<close>, whose events are
  the sections that run under a lock or between two waits: a line of a peer, its end of stream,
  the two halves of an eviction with its 200 ms between them, a health-check tick, a writer turn,
  a broken transport.  The accept path is the step relation \<open>accept_step\<close>.  A client's wait for
  the secret is \<open>GetOrCreate\<close> over a script of what the network does meanwhile.

  A client of a benchmark is the list of what it does in order (dials, streams, frames, lines,
  closes), given the answers of the network by number; a panic ends the list with \<open>Crashed\<close>, and
  \<open>left_open\<close> replays it to find what is still open or was used after its close.  The goroutines of
  \<open>multiplex_bench.go\<close> and \<open>parallel_bench.go\<close> are one list each, and a run is any schedule of them.

  \<^bold>\<open>Parameters.\<close>  Primitives outside the program are arguments: \<open>crypto\<close> has AES-GCM, HMAC, SHA-256,
  argon2id and HKDF as functions, and the two hypotheses on them, where used, are that decryption
  undoes encryption (\<open>gcm_correct\<close>) and that argon2id returns 32 bytes (\<open>kdf_length\<close>); a toy
  instance satisfies both in the witnesses.  Random bytes, clocks, answers of the operating system,
  of QUIC, TLS, UPnP, NAT-PMP and HTTP are arguments too.

  \<^bold>\<open>Bounds.\<close>  The queue holds 1024 messages, the accept path 256 setups, the replay window is five
  minutes, the duplicate window 60 seconds, discovery forgets after 15 seconds; all as in the
  code.  No definition uses fuel: a loop over input recurses over the list of its inputs, the
  retry loop of the load tester over the attempts that remain, and the other loops over the data
  they consume.  Its pause between dials and its byte count are 64-bit words, and the length of a
  benchmark's frame is a 32-bit word; the other Go integers are unbounded, since they count what was
  sent or elapsed.  The float64 figures of the tools are rational or real numbers, without rounding.

  \<^bold>\<open>Not modelled.\<close>  The encoding of certificates (X.509, PEM), log output, socket options of the
  discovery port, the parsing of command-line options by the package flag, and the rounding of
  float64.  What remains are calls of libraries whose code is not
  part of the repository.

  \<^bold>\<open>What does not hold.\<close>  Some lemmas record where the code does less than it means to:
  \<open>rejoin_leaves_stale_member\<close>, \<open>race_goroutine_stuck\<close>, \<open>failed_dial_keeps_zero\<close>, \<open>crash_loses_rows\<close>,
  \<open>typed_name_creates_no_room\<close>, \<open>alias_refusal_is_wrong_password\<close>, \<open>unban_by_alias\<close>,
  \<open>shutdown_sends_nothing\<close>, \<open>failed_discovery_leaves_mapping\<close>, \<open>closed_input_never_exits\<close>,
  \<open>bad_rate_panics\<close>, \<open>speed_zero_count_panics\<close>, \<open>parallel_zero_panics\<close>, \<open>parallel_server_crashes\<close>,
  \<open>discarding_server_crashes\<close>, \<open>multiplex_warmup_panics\<close>, \<open>warmup_stream_error_panics\<close>, and below
  \<open>long_password_taken_for_device\<close>, \<open>duplicate_hash_ambiguous\<close> and \<open>client_kick_is_a_message\<close>; some
  properties do so too: a restarted relay is refused by its clients, the relay drops every message of
  the load tester, the server of \<open>speed_bench.go\<close> panics on the largest payloads, and the intervals
  in the CSV file of \<open>quic_0rtt.go\<close> are too narrow.
\<close>


section \<open>From the sender's keyboard to the receiver's screen\<close>

text \<open>
  C1. A message arrives: when a room member sends a message with the room's keys, the relay puts
  exactly the line it got at the end of the queue of every other member whose queue has room, and
  a receiver with the room's keys that reads the line displays the sender's alias and text,
  sanitised, if the nonce is new on its connection and the text is not a duplicate.
\<close>

theorem message_delivered:
  assumes "srv_ok C s" and "hasConnManager s" and "r < nextRoom s"
    and "p \<in> set (room_members r s)" and "p_room (peerHeap s p) = Some r"
    and "q \<in> set (room_members r s)" and "p_addr (peerHeap s q) \<noteq> p_addr (peerHeap s p)"
    and "map_of (connections s) (p_addr (peerHeap s q)) = Some i"
    and "length (mc_out (mcs s i)) < 1024"
    and "message_line C (r_keys (roomHeap s r)) alias message nonce rnd = Inr line"
    and "sanitiseField alias \<noteq> []" and "gcm_correct C" and "length nonce = nonce_size"
    and "roomKeys rcv = r_keys (roomHeap s r)"
    and "mc_replay (mcs rcv j) = Some rp" and "\<not> mapped (rp_seen rp) (generateReplayNonce rnd)"
    and "\<not> mapped (seenMsgs rcv) (msg_hash C (sanitiseField alias) (sanitiseField message))"
  shows "mc_out (mcs (serve_line C p (bs, t1, line) s) i) = mc_out (mcs s i) @ [line] \<and>
    screen (snd (readLoop_line C j t2 line rcv)) =
      screen (print_line (formatMessage (sanitiseField alias) (sanitiseField message)) rcv)"
proof -
  have cm: "cm_ok s" and rm: "room_ok C s (roomHeap s r)"
    using assms(1,3) by (simp_all add: srv_ok_def rooms_ok_def)
  obtain payload h where l: "trim_space line = ''FROM:'' @ sanitiseField alias @ pipe # payload @ pipe #
       generateReplayNonce rnd @ pipe # h"
    "line = ''FROM:'' @ sanitiseField alias @ [pipe] @
       (payload @ pipe # generateReplayNonce rnd @ pipe # h) @ [newline]"
    "Verify C (r_keys (roomHeap s r)) (unsigned_text (sanitiseField alias) payload (generateReplayNonce rnd)) h"
    "pipe \<notin> set payload"
    by (rule message_line_at_relay [OF assms(10)])
  have "serve_line C p (bs, t1, line) s =
      relay_encrypted C t1 p r (sanitiseField alias)
        (payload @ pipe # generateReplayNonce rnd @ pipe # h)
        [payload, generateReplayNonce rnd, h] s"
    using handle_from_fields [OF assms(5) sanitiseField_no_pipe l(4) generateReplayNonce_no_pipe]
    by (simp only: serve_line_dispatch [OF l(1)])
  then have "mc_out (mcs (serve_line C p (bs, t1, line) s) i) = mc_out (mcs s i) @ [line]"
    using relay_encrypted_forwards [OF cm rm assms(2,4,6,7,11) l(3) assms(8)] assms(9)
    by (simp only: OutboundQueueSize_def l(2))
  moreover have "message_line C (roomKeys rcv) alias message nonce rnd = Inr line"
    using assms(10,14) by simp
  from receive_message_line(2) [OF assms(12,13) this assms(15-17)]
  have "screen (snd (readLoop_line C j t2 line rcv)) =
      screen (print_line (formatMessage (sanitiseField alias) (sanitiseField message)) rcv)" .
  ultimately show ?thesis ..
qed

theorem message_delivered_witness:
  "\<exists>line. message_line toy (r_keys (roomHeap demo 0)) ''ann'' ''hi'' demo_nonce ''12345678'' = Inr line \<and>
     mc_out (mcs (serve_line toy 0 ([], 5, line) demo) 1) = [line] \<and>
     screen (snd (readLoop_line toy 0 6 line demo_client)) =
       screen (print_line (formatMessage (sanitiseField ''ann'') (sanitiseField ''hi'')) demo_client)"
proof -
  have keys: "roomKeys demo_client = r_keys (roomHeap demo 0)"
    by (simp add: demo_client_def demo_defs)
  obtain line where line: "message_line toy (r_keys (roomHeap demo 0)) ''ann'' ''hi'' demo_nonce ''12345678'' = Inr line"
    using demo_client_keys unfolding keys by (simp add: message_line_def Encrypt_ok Let_def)
  have "mc_out (mcs (serve_line toy 0 ([], 5, line) demo) 1) = mc_out (mcs demo 1) @ [line] \<and>
     screen (snd (readLoop_line toy 0 6 line demo_client)) =
       screen (print_line (formatMessage (sanitiseField ''ann'') (sanitiseField ''hi'')) demo_client)"
  proof (rule message_delivered [OF demo_srv_ok _ _ _ _ _ _ _ _ line _ toy_gcm_correct _ keys])
    show "hasConnManager demo" "0 < nextRoom demo" "0 \<in> set (room_members 0 demo)"
      "p_room (peerHeap demo 0) = Some 0" "1 \<in> set (room_members 0 demo)"
      "p_addr (peerHeap demo 1) \<noteq> p_addr (peerHeap demo 0)"
      "map_of (connections demo) (p_addr (peerHeap demo 1)) = Some 1"
      "length (mc_out (mcs demo 1)) < 1024"
      by (simp_all add: demo_defs room_members_def)
    show "mc_replay (mcs demo_client 0) = Some (NewReplayProtector replay_window)"
      "\<not> mapped (seenMsgs demo_client) x" for x
      by (simp_all add: demo_client_defs)
  qed (simp_all add: sanitiseField_def demo_nonce_def nonce_size_def NewReplayProtector_def)
  moreover have "mc_out (mcs demo 1) = []" by (simp add: demo_defs)
  ultimately show ?thesis using line by auto
qed


section \<open>Keys\<close>

lemma readLoop_line_SECRET:
  "readLoop_line C i t (secret_message sec) s = secret_line C i (''SECRET:'' @ hex_encode sec) s"
proof -
  have "trim_space (''SECRET:'' @ hex_encode sec @ [newline]) = ''SECRET:'' @ hex_encode sec"
  proof -
    have "solid (last (''SECRET:'' @ hex_encode sec))"
      using hex.enc_solid [of "last (hex_encode sec)" sec]
      by (cases "hex_encode sec = []") (auto simp: solid_def ascii_space_def)
    then show ?thesis
      using trim_space_line [of "''SECRET:'' @ hex_encode sec"] by (simp add: solid_def ascii_space_def)
  qed
  then show ?thesis by (simp add: readLoop_line_def secret_message_def Let_def)
qed

text \<open>
  C2. Client and relay agree on the room's keys: a client of the room that was given the right
  password (or none for a room without) derives, from the SECRET line the relay sends after a
  join or a rotation, exactly the keys the relay holds for the room.
\<close>

theorem keys_agree_after_secret:
  assumes "srv_ok C s" and "r < nextRoom s" and "rm = roomHeap s r"
    and "room_auth C rm = room_auth_key C (r_name rm) pw" and "r_roomSecret rm \<noteq> []"
    and "roomName cl = r_name rm" and "roomPassword cl = pw"
    and "AuthKey (roomKeys cl) = room_auth_key C (r_name rm) pw"
  shows "roomKeys (snd (readLoop_line C i t (secret_message (r_roomSecret rm)) cl)) = r_keys rm"
proof -
  have k: "r_keys rm = room_keys_from C (room_auth_key C (r_name rm) pw) (r_roomSecret rm)"
    using assms(1-4) by (simp add: srv_ok_def rooms_ok_def room_ok_def)
  have t: "trim_space (trim_prefix (''SECRET:'' @ x) ''SECRET:'') = trim_space x" for x
    unfolding trim_prefix_append ..
  have ne: "hex_encode (r_roomSecret rm) \<noteq> []"
    using assms(5) length_hex_encode [of "r_roomSecret rm"] by (metis length_0_conv mult_is_0 zero_neq_numeral)
  show ?thesis
    unfolding readLoop_line_SECRET secret_line_def t hex.trim_space_enc Let_def
    using ne assms(6-8) k
    by (simp add: UpdateRoomKeys_keys room_auth_key_def)
qed

theorem keys_agree_after_secret_witness:
  "roomKeys (snd (readLoop_line toy 0 5 (secret_message ''s'') fresh_client)) = r_keys (roomHeap demo 0)"
proof -
  have "0 < nextRoom demo" "r_name (roomHeap demo 0) = ''lobby''" "r_roomSecret (roomHeap demo 0) = ''s''"
    "roomName fresh_client = ''lobby''" "roomPassword fresh_client = ''pw''"
    by (simp_all add: demo_defs fresh_client_def NewConnectionManager_def)
  moreover have "room_auth toy (roomHeap demo 0) = room_auth_key toy ''lobby'' ''pw''"
    using room_auth_key_nonempty [OF toy_kdf_length] by (simp add: demo_defs room_auth_def)
  moreover have "AuthKey (roomKeys fresh_client) = room_auth_key toy ''lobby'' ''pw''"
    by (simp add: fresh_client_def NewConnectionManager_def)
  ultimately show ?thesis
    using keys_agree_after_secret [OF demo_srv_ok, of 0 "roomHeap demo 0" "''pw''" fresh_client 0 5] by simp
qed


section \<open>The JOIN line\<close>

text \<open>
  C25. The relay reads from a JOIN line what the client put into it: room, alias, password and
  device ID come back, for fields without a separator and a device ID of 64 solid characters.
\<close>

theorem join_line_roundtrip:
  assumes "\<forall>f \<in> set [room, alias, pw, devID]. pipe \<notin> set f" and "length devID = 64"
    and "\<forall>c \<in> set devID. solid c"
  shows "has_prefix (trim_space (join_handshake room alias pw devID)) ''JOIN:'' \<and>
    parse_join (trim_prefix (trim_space (join_handshake room alias pw devID)) ''JOIN:'') =
      (room, alias, pw, devID)"
proof -
  let ?fs = "[room, alias] @ (if pw \<noteq> [] then [pw] else []) @ [devID]"
  let ?b = "''JOIN:'' @ join_with pipe ?fs"
  have d: "devID \<noteq> []" using assms(2) by auto
  have j: "join_handshake room alias pw devID = ?b @ [newline]"
    using d by (simp add: join_handshake_def)
  have "last ?b = last devID"
  proof -
    have "?fs = ([room, alias] @ (if pw \<noteq> [] then [pw] else [])) @ [devID]" by simp
    then have "join_with pipe ?fs = join_with pipe ([room, alias] @ (if pw \<noteq> [] then [pw] else [])) @ pipe # devID"
      using join_with_snoc by (metis append_is_Nil_conv list.discI)
    then show ?thesis using d by simp
  qed
  then have "solid (last ?b)" using assms(3) d by simp
  then have t: "trim_space (join_handshake room alias pw devID) = ?b"
    unfolding j by (intro trim_space_line) (simp_all add: solid_def ascii_space_def)
  have "split_on pipe (join_with pipe ?fs) = ?fs"
    using assms(1) by (intro split_on_join) auto
  moreover have "join_with pipe ?fs \<noteq> []" by simp
  ultimately have "parse_join (join_with pipe ?fs) = (room, alias, pw, devID)"
    using assms(2) unfolding parse_join_def by simp
  moreover have "has_prefix ?b ''JOIN:''" by simp
  ultimately show ?thesis unfolding t trim_prefix_append by simp
qed

theorem join_line_roundtrip_witness:
  "parse_join (trim_prefix (trim_space (join_handshake ''lobby'' ''ann'' [] (replicate 64 (CHR ''d'')))) ''JOIN:'') =
     (''lobby'', ''ann'', [], replicate 64 (CHR ''d''))"
  using join_line_roundtrip [of "''lobby''" "''ann''" "[]" "replicate 64 (CHR ''d'')"]
  by (simp add: solid_def ascii_space_def)

text \<open>
  A password of 64 bytes sent without a device ID is read as a device ID, so its owner joins
  without a password.
\<close>

lemma long_password_taken_for_device:
  assumes "length pw = 64"
  shows "join_fields [room, alias, pw] = (room, alias, [], pw)"
  using assms by simp

text \<open>The hash of the message cache does not separate sender and text.\<close>

lemma duplicate_hash_ambiguous: "msg_hash C (a @ pipe # b) m = msg_hash C a (b @ pipe # m)"
  by (simp add: msg_hash_def)

text \<open>
  A moderation request of a client that is not the host goes through \<open>Send\<close>: what reaches the
  relay is an encrypted FROM line, and the relay's KICK branch is not taken.
\<close>

lemma client_kick_is_a_message:
  assumes "message_line C rk alias (''KICK:'' @ target) nonce rnd = Inr line"
  shows "has_prefix line ''FROM:'' \<and> \<not> has_prefix line ''KICK:''"
proof -
  obtain payload h where "line = unsigned_text (sanitiseField alias) payload (generateReplayNonce rnd) @ [pipe] @ h @ [newline]"
    using message_line_fields [OF assms] by blast
  then show ?thesis by (simp add: unsigned_text_def)
qed

end
